(* ===== verification/Prelude.thy ===== *)
theory Prelude
  imports Complex_Main "HOL-Library.Word"
begin

unbundle bit_operations_syntax

text \<open>
  Shared vocabulary of the development: bytes and Python strings, the Python exceptions
  that the daemon raises and catches, the string and integer built-ins the sources call
  (\<open>str.split\<close>, \<open>str.strip\<close>, \<open>str.lower\<close>, \<open>int()\<close>, \<open>int.to_bytes\<close>, \<open>round\<close>),
  bounded double-ended queues, and the generic lemmas about them.

  A Python \<open>str\<close> is its UTF-8 encoding, a list of characters, so that \<open>len(s.encode())\<close>
  is \<open>length s\<close>. Case conversion, white space and digits are the ASCII ones. A Python
  \<open>int\<close> is an \<open>int\<close>; a \<open>float\<close> is a \<open>real\<close>.
\<close>

section \<open>Bytes, strings, exceptions\<close>

type_synonym byte = "8 word"
type_synonym bytes = "byte list"

datatype pyexc =
    ValueError | IndexError | TypeError | OSError | RuntimeError
  | TimeoutError | DecodeError | DatabaseError | QueueFull | UnicodeDecodeError | AttributeError
  | GrpcError \<comment> \<open>the exceptions of \<open>grpclib\<close>, which are none of the others\<close>
  | Suspended \<comment> \<open>not an exception: the coroutine waits for something that nothing in the run provides\<close>

type_synonym 'a result = "pyexc + 'a"

named_theorems wire_laws \<open>facts about the byte-level encodings\<close>
named_theorems frame_rules \<open>which part of the state an operation leaves alone\<close>
named_theorems inv_intros \<open>operations preserve the component invariants\<close>

definition encode_utf8 :: "string \<Rightarrow> bytes" where
  "encode_utf8 s = map of_char s"

text \<open>Strict UTF-8 decoding (\<open>bytes.decode()\<close>): the well-formed byte sequences of RFC 3629.\<close>

definition cont_byte :: "byte \<Rightarrow> bool" where
  "cont_byte b \<longleftrightarrow> 0x80 \<le> b \<and> b \<le> 0xBF"

fun utf8_valid :: "bytes \<Rightarrow> bool" where
  "utf8_valid [] = True"
| "utf8_valid (b # bs) =
    (if b < 0x80 then utf8_valid bs
     else if 0xC2 \<le> b \<and> b \<le> 0xDF then
       (case bs of c1 # r \<Rightarrow> cont_byte c1 \<and> utf8_valid r | _ \<Rightarrow> False)
     else if 0xE0 \<le> b \<and> b \<le> 0xEF then
       (case bs of c1 # c2 # r \<Rightarrow>
          cont_byte c1 \<and> cont_byte c2
          \<and> (b = 0xE0 \<longrightarrow> 0xA0 \<le> c1) \<and> (b = 0xED \<longrightarrow> c1 \<le> 0x9F) \<and> utf8_valid r
        | _ \<Rightarrow> False)
     else if 0xF0 \<le> b \<and> b \<le> 0xF4 then
       (case bs of c1 # c2 # c3 # r \<Rightarrow>
          cont_byte c1 \<and> cont_byte c2 \<and> cont_byte c3
          \<and> (b = 0xF0 \<longrightarrow> 0x90 \<le> c1) \<and> (b = 0xF4 \<longrightarrow> c1 \<le> 0x8F) \<and> utf8_valid r
        | _ \<Rightarrow> False)
     else False)"

definition decode_utf8 :: "bytes \<Rightarrow> string result" where
  "decode_utf8 bs =
    (if utf8_valid bs then Inr (map (\<lambda>b. char_of (unat b)) bs) else Inl UnicodeDecodeError)"

lemma char_byte_roundtrip [simp]: "char_of (unat (of_char c :: byte)) = c"
proof -
  have e: "(of_char c :: byte) = of_nat (of_char c)"
    by (rule of_nat_of_char [symmetric])
  have "unat (of_char c :: byte) = of_char c mod 256"
    unfolding e unat_of_nat by simp
  then show ?thesis by (simp only: char_of_char of_char_mod_256)
qed

lemma length_encode_utf8 [simp]: "length (encode_utf8 s) = length s"
  by (simp add: encode_utf8_def)

section \<open>Python string built-ins\<close>

definition slash :: char where
  "slash = CHR ''/''"

text \<open>\<open>s.split(sep)\<close> for a one-character separator: always at least one piece, pieces may be empty.\<close>

fun py_split :: "char \<Rightarrow> string \<Rightarrow> string list" where
  "py_split c [] = [[]]"
| "py_split c (x # xs) =
    (if x = c then [] # py_split c xs
     else (case py_split c xs of [] \<Rightarrow> [[x]] | p # ps \<Rightarrow> (x # p) # ps))"

text \<open>\<open>sep.join(parts)\<close>.\<close>

fun py_join :: "string \<Rightarrow> string list \<Rightarrow> string" where
  "py_join sep [] = []"
| "py_join sep [x] = x"
| "py_join sep (x # y # r) = x @ sep @ py_join sep (y # r)"

text \<open>\<open>tuple(filter(None, s.split("/")))\<close>.\<close>

definition nonempty_segs :: "string \<Rightarrow> string list" where
  "nonempty_segs s = filter (\<lambda>p. p \<noteq> []) (py_split slash s)"

definition py_startswith :: "string \<Rightarrow> string \<Rightarrow> bool" where
  "py_startswith p s \<longleftrightarrow> take (length p) s = p"

definition py_endswith :: "string \<Rightarrow> string \<Rightarrow> bool" where
  "py_endswith p s \<longleftrightarrow> length p \<le> length s \<and> drop (length s - length p) s = p"

text \<open>\<open>needle in hay\<close>.\<close>

fun py_contains :: "string \<Rightarrow> string \<Rightarrow> bool" where
  "py_contains n [] = (n = [])"
| "py_contains n (x # xs) = (take (length n) (x # xs) = n \<or> py_contains n xs)"

definition lstrip_chars :: "(char \<Rightarrow> bool) \<Rightarrow> string \<Rightarrow> string" where
  "lstrip_chars p s = dropWhile p s"

definition strip_chars :: "(char \<Rightarrow> bool) \<Rightarrow> string \<Rightarrow> string" where
  "strip_chars p s = rev (dropWhile p (rev (dropWhile p s)))"

definition strip_slash :: "string \<Rightarrow> string" where
  "strip_slash s = strip_chars (\<lambda>c. c = slash) s"

definition is_space :: "char \<Rightarrow> bool" where
  "is_space c \<longleftrightarrow> c \<in> {CHR '' '', CHR 0x09, CHR 0x0A, CHR 0x0B, CHR 0x0C, CHR 0x0D,
                      CHR 0x1C, CHR 0x1D, CHR 0x1E, CHR 0x1F}"

definition py_strip :: "string \<Rightarrow> string" where
  "py_strip s = strip_chars is_space s"

text \<open>Splitting on runs of characters of a class, dropping empty pieces
  (\<open>s.split()\<close>, and \<open>filter(None, re.split(...))\<close>).\<close>

fun split_runs :: "(char \<Rightarrow> bool) \<Rightarrow> string \<Rightarrow> string \<Rightarrow> string list" where
  "split_runs p acc [] = (if acc = [] then [] else [rev acc])"
| "split_runs p acc (x # xs) =
    (if p x then (if acc = [] then [] else [rev acc]) @ split_runs p [] xs
     else split_runs p (x # acc) xs)"

definition py_split_ws :: "string \<Rightarrow> string list" where
  "py_split_ws s = split_runs is_space [] s"

definition is_digit :: "char \<Rightarrow> bool" where
  "is_digit c \<longleftrightarrow> (of_char c :: nat) \<in> {48..57}"

definition to_lower :: "char \<Rightarrow> char" where
  "to_lower c = (if (of_char c :: nat) \<in> {65..90} then char_of ((of_char c :: nat) + 32) else c)"

definition to_upper :: "char \<Rightarrow> char" where
  "to_upper c = (if (of_char c :: nat) \<in> {97..122} then char_of ((of_char c :: nat) - 32) else c)"

definition py_lower :: "string \<Rightarrow> string" where
  "py_lower s = map to_lower s"

definition py_upper :: "string \<Rightarrow> string" where
  "py_upper s = map to_upper s"

definition py_isdigit :: "string \<Rightarrow> bool" where
  "py_isdigit s \<longleftrightarrow> s \<noteq> [] \<and> list_all is_digit s"

definition digit_val :: "char \<Rightarrow> int" where
  "digit_val c = of_char c - 48"

definition digits_val :: "string \<Rightarrow> int" where
  "digits_val s = foldl (\<lambda>a c. a * 10 + digit_val c) 0 s"

text \<open>\<open>int(s)\<close>: surrounding white space, an optional sign, digits with single underscores
  between them; anything else raises \<open>ValueError\<close>.\<close>

fun digit_groups :: "bool \<Rightarrow> string \<Rightarrow> string option" where
  "digit_groups after_digit [] = (if after_digit then Some [] else None)"
| "digit_groups after_digit (c # cs) =
    (if is_digit c then map_option (Cons c) (digit_groups True cs)
     else if c = CHR ''_'' \<and> after_digit then digit_groups False cs
     else None)"

definition py_int :: "string \<Rightarrow> int result" where
  "py_int s =
    (let t = py_strip s;
         neg = (t \<noteq> [] \<and> hd t = CHR ''-'');
         u = (if t \<noteq> [] \<and> (hd t = CHR ''-'' \<or> hd t = CHR ''+'') then tl t else t)
     in case digit_groups False u of
          None \<Rightarrow> Inl ValueError
        | Some ds \<Rightarrow> Inr (if neg then - digits_val ds else digits_val ds))"

text \<open>\<open>str(n)\<close> for an integer.\<close>

fun nat_digits :: "nat \<Rightarrow> string" where
  "nat_digits n =
    (if n < 10 then [char_of (48 + n)] else nat_digits (n div 10) @ [char_of (48 + n mod 10)])"

declare nat_digits.simps [simp del]

definition py_str_int :: "int \<Rightarrow> string" where
  "py_str_int n = (if n < 0 then CHR ''-'' # nat_digits (nat (- n)) else nat_digits (nat n))"

section \<open>Python numbers\<close>

text \<open>\<open>n.to_bytes(k, "big")\<close> and \<open>int.from_bytes(bs, "big")\<close>.\<close>

fun to_be :: "nat \<Rightarrow> nat \<Rightarrow> bytes" where
  "to_be 0 n = []"
| "to_be (Suc k) n = to_be k (n div 256) @ [word_of_nat n]"

definition from_be :: "bytes \<Rightarrow> nat" where
  "from_be bs = foldl (\<lambda>a b. a * 256 + unat b) 0 bs"

text \<open>\<open>round(x)\<close>: to the nearest integer, ties to the even one.\<close>

definition py_round :: "real \<Rightarrow> int" where
  "py_round x =
    (let f = \<lfloor>x\<rfloor>; d = x - of_int f
     in if d < 1 / 2 then f else if 1 / 2 < d then f + 1 else if even f then f else f + 1)"

text \<open>The range of a protobuf \<open>uint32\<close> field; assigning outside it raises \<open>ValueError\<close>.\<close>

definition uint32_ok :: "int \<Rightarrow> bool" where
  "uint32_ok v \<longleftrightarrow> 0 \<le> v \<and> v < 2 ^ 32"

section \<open>\<open>collections.deque\<close> with an optional \<open>maxlen\<close>\<close>

definition dq_append :: "nat option \<Rightarrow> 'a \<Rightarrow> 'a list \<Rightarrow> 'a list" where
  "dq_append m x q =
    (let q' = q @ [x] in case m of None \<Rightarrow> q' | Some k \<Rightarrow> drop (length q' - k) q')"

definition dq_appendleft :: "nat option \<Rightarrow> 'a \<Rightarrow> 'a list \<Rightarrow> 'a list" where
  "dq_appendleft m x q =
    (let q' = x # q in case m of None \<Rightarrow> q' | Some k \<Rightarrow> take k q')"

section \<open>Generic lemmas\<close>

lemma py_split_not_Nil [simp]: "py_split c s \<noteq> []"
  by (induction s) (auto split: list.splits)

lemma py_split_no_sep: "c \<notin> set s \<Longrightarrow> py_split c s = [s]"
  by (induction s) auto

lemma py_split_append_sep:
  "c \<notin> set s \<Longrightarrow> py_split c (s @ c # t) = s # py_split c t"
  by (induction s) auto

lemma py_split_join:
  "xs \<noteq> [] \<Longrightarrow> \<forall>x\<in>set xs. c \<notin> set x \<Longrightarrow> py_split c (py_join [c] xs) = xs"
  by (induction "[c]" xs rule: py_join.induct) (auto simp: py_split_no_sep py_split_append_sep)

lemma py_split_pieces: "p \<in> set (py_split c s) \<Longrightarrow> c \<notin> set p"
  by (induction s arbitrary: p) (auto split: if_splits list.splits)

lemma nonempty_segs_clean:
  "p \<in> set (nonempty_segs s) \<Longrightarrow> p \<noteq> [] \<and> slash \<notin> set p"
  by (auto simp: nonempty_segs_def dest: py_split_pieces)

lemma nonempty_segs_join:
  "\<forall>x\<in>set xs. x \<noteq> [] \<and> slash \<notin> set x \<Longrightarrow> nonempty_segs (py_join [slash] xs) = xs"
  by (cases "xs = []") (auto simp: nonempty_segs_def py_split_join)

lemma split_runs_clean:
  "t \<in> set (split_runs p acc s) \<Longrightarrow> \<forall>c\<in>set acc. \<not> p c \<Longrightarrow> t \<noteq> [] \<and> (\<forall>c\<in>set t. \<not> p c)"
  by (induction p acc s rule: split_runs.induct) (auto split: if_splits)

lemma length_to_be [simp]: "length (to_be k n) = k"
  by (induction k arbitrary: n) auto

lemma from_be_Nil [simp]: "from_be [] = 0"
  by (simp add: from_be_def)

lemma from_be_snoc [simp]: "from_be (bs @ [b]) = from_be bs * 256 + unat b"
  by (simp add: from_be_def)

lemma from_to_be [wire_laws]: "n < 256 ^ k \<Longrightarrow> from_be (to_be k n) = n"
proof (induction k arbitrary: n)
  case (Suc k)
  then have "n div 256 < 256 ^ k"
    by (simp add: less_mult_imp_div_less mult.commute)
  with Suc.IH show ?case by (simp add: unat_of_nat)
qed simp

lemma from_be_less: "from_be bs < 256 ^ length bs"
proof (induction bs rule: rev_induct)
  case (snoc b bs)
  have "unat b < 2 ^ LENGTH(8)" by (rule unsigned_less)
  with snoc show ?case by simp
qed simp

lemma py_round_of_int [simp]: "py_round (of_int n) = n"
  by (simp add: py_round_def)

lemma dq_append_length: "length (dq_append (Some m) x q) \<le> m"
  by (simp add: dq_append_def Let_def)

lemma dq_append_room: "length q < m \<Longrightarrow> dq_append (Some m) x q = q @ [x]"
  by (simp add: dq_append_def Let_def)

lemma dq_append_full:
  "length q = m \<Longrightarrow> q \<noteq> [] \<Longrightarrow> dq_append (Some m) x q = tl q @ [x]"
  by (cases q) (simp_all add: dq_append_def Let_def)

end
