(* ===== verification/Protocol.thy ===== *)
theory Protocol
  imports Prelude
begin

text \<open>
  The wire contract of \<open>tools/protocol/mcubridge.proto\<close>: the numeric constants, the
  \<open>Status\<close> and \<open>Command\<close> enumerations with their options, the messages the daemon
  builds and reads, and the tables that \<open>tools/protocol/generate.py\<close> derives from the
  command names (request/response pairs, acknowledged commands, payload classes). The
  protobuf runtime, the COBS codec and the cryptographic primitives are third-party code:
  they are the fields of the record \<open>lib\<close>, which every definition that uses them takes
  as an argument.
\<close>

section \<open>Constants\<close>

abbreviation (input) AEAD_NONCE_SIZE :: nat where "AEAD_NONCE_SIZE \<equiv> 12"
abbreviation (input) AEAD_TAG_SIZE :: nat where "AEAD_TAG_SIZE \<equiv> 16"
abbreviation (input) AEAD_KEY_SIZE :: nat where "AEAD_KEY_SIZE \<equiv> 32"
abbreviation (input) PROTOCOL_VERSION :: int where "PROTOCOL_VERSION \<equiv> 2"
abbreviation (input) CRC_SIZE :: nat where "CRC_SIZE \<equiv> 4"
abbreviation (input) UINT16_MAX :: int where "UINT16_MAX \<equiv> 65535"
abbreviation (input) HANDSHAKE_NONCE_LENGTH :: nat where "HANDSHAKE_NONCE_LENGTH \<equiv> 16"
abbreviation (input) STATUS_CODE_MIN :: int where "STATUS_CODE_MIN \<equiv> 48"
abbreviation (input) STATUS_CODE_MAX :: int where "STATUS_CODE_MAX \<equiv> 63"
abbreviation (input) SYSTEM_COMMAND_MIN :: int where "SYSTEM_COMMAND_MIN \<equiv> 64"
abbreviation (input) SYSTEM_COMMAND_MAX :: int where "SYSTEM_COMMAND_MAX \<equiv> 79"

definition MAX_PAYLOAD_SIZE :: nat where "MAX_PAYLOAD_SIZE = 64"
definition NONCE_COUNTER_MASK :: int where "NONCE_COUNTER_MASK = 18446744073709551615"
definition BOOTLOADER_MAGIC :: int where "BOOTLOADER_MAGIC = 3735929054"

text \<open>The \<open>Status\<close> enumeration (without \<open>STATUS_UNSPECIFIED\<close>, which the generator skips).\<close>

abbreviation (input) STATUS_OK :: int where "STATUS_OK \<equiv> 48"
abbreviation (input) STATUS_ERROR :: int where "STATUS_ERROR \<equiv> 49"
abbreviation (input) STATUS_CMD_UNKNOWN :: int where "STATUS_CMD_UNKNOWN \<equiv> 50"
abbreviation (input) STATUS_MALFORMED :: int where "STATUS_MALFORMED \<equiv> 51"
abbreviation (input) STATUS_OVERFLOW :: int where "STATUS_OVERFLOW \<equiv> 52"
abbreviation (input) STATUS_CRC_MISMATCH :: int where "STATUS_CRC_MISMATCH \<equiv> 53"
abbreviation (input) STATUS_TIMEOUT :: int where "STATUS_TIMEOUT \<equiv> 54"
abbreviation (input) STATUS_NOT_IMPLEMENTED :: int where "STATUS_NOT_IMPLEMENTED \<equiv> 55"
abbreviation (input) STATUS_ACK :: int where "STATUS_ACK \<equiv> 56"

definition status_table :: "(int \<times> string \<times> string) list" where
  "status_table =
    [(48, ''OK'', ''Operation completed successfully.''),
     (49, ''ERROR'', ''Generic failure.''),
     (50, ''CMD_UNKNOWN'', ''Command not recognized.''),
     (51, ''MALFORMED'', ''Payload had invalid structure.''),
     (52, ''OVERFLOW'', ''Frame exceeded buffer size.''),
     (53, ''CRC_MISMATCH'', ''CRC check failed.''),
     (54, ''TIMEOUT'', ''Operation timed out.''),
     (55, ''NOT_IMPLEMENTED'', ''Command defined but not supported.''),
     (56, ''ACK'', ''Generic acknowledgement for fire-and-forget commands.'')]"

definition status_values :: "int list" where
  "status_values = map fst status_table"

section \<open>Commands and the generated tables\<close>

record command_def =
  cd_name :: string
  cd_value :: int
  cd_requires_ack :: bool
  cd_expects_direct_response :: bool

abbreviation (input) mk_cmd :: "string \<Rightarrow> int \<Rightarrow> bool \<Rightarrow> bool \<Rightarrow> command_def" where
  "mk_cmd n v a d \<equiv> \<lparr>cd_name = n, cd_value = v, cd_requires_ack = a, cd_expects_direct_response = d\<rparr>"

definition commands :: "command_def list" where
  "commands =
    [mk_cmd ''CMD_GET_VERSION'' 64 False True, mk_cmd ''CMD_GET_VERSION_RESP'' 65 False False,
     mk_cmd ''CMD_GET_FREE_MEMORY'' 66 False True, mk_cmd ''CMD_GET_FREE_MEMORY_RESP'' 67 False False,
     mk_cmd ''CMD_LINK_SYNC'' 68 False True, mk_cmd ''CMD_LINK_SYNC_RESP'' 69 False False,
     mk_cmd ''CMD_LINK_RESET'' 70 False True, mk_cmd ''CMD_LINK_RESET_RESP'' 71 False False,
     mk_cmd ''CMD_GET_CAPABILITIES'' 72 False True, mk_cmd ''CMD_GET_CAPABILITIES_RESP'' 73 False False,
     mk_cmd ''CMD_SET_BAUDRATE'' 74 True False, mk_cmd ''CMD_SET_BAUDRATE_RESP'' 75 False False,
     mk_cmd ''CMD_ENTER_BOOTLOADER'' 76 True False,
     mk_cmd ''CMD_XOFF'' 78 False False, mk_cmd ''CMD_XON'' 79 False False,
     mk_cmd ''CMD_SET_PIN_MODE'' 80 True False, mk_cmd ''CMD_DIGITAL_WRITE'' 81 True False,
     mk_cmd ''CMD_ANALOG_WRITE'' 82 True False, mk_cmd ''CMD_DIGITAL_READ'' 83 False True,
     mk_cmd ''CMD_ANALOG_READ'' 84 False True, mk_cmd ''CMD_DIGITAL_READ_RESP'' 85 False False,
     mk_cmd ''CMD_ANALOG_READ_RESP'' 86 False False, mk_cmd ''CMD_CONSOLE_WRITE'' 96 True False,
     mk_cmd ''CMD_DATASTORE_PUT'' 112 True False, mk_cmd ''CMD_DATASTORE_GET'' 113 False False,
     mk_cmd ''CMD_DATASTORE_GET_RESP'' 114 False False,
     mk_cmd ''CMD_MAILBOX_READ'' 128 False False, mk_cmd ''CMD_MAILBOX_PROCESSED'' 129 False False,
     mk_cmd ''CMD_MAILBOX_AVAILABLE'' 130 False False, mk_cmd ''CMD_MAILBOX_PUSH'' 131 True False,
     mk_cmd ''CMD_MAILBOX_READ_RESP'' 132 False False,
     mk_cmd ''CMD_MAILBOX_AVAILABLE_RESP'' 133 False False,
     mk_cmd ''CMD_FILE_WRITE'' 144 True False, mk_cmd ''CMD_FILE_READ'' 145 False False,
     mk_cmd ''CMD_FILE_REMOVE'' 146 False False, mk_cmd ''CMD_FILE_READ_RESP'' 147 False False,
     mk_cmd ''CMD_PROCESS_RUN_ASYNC'' 161 False False, mk_cmd ''CMD_PROCESS_POLL'' 162 False False,
     mk_cmd ''CMD_PROCESS_KILL'' 163 False False,
     mk_cmd ''CMD_PROCESS_RUN_ASYNC_RESP'' 165 False False,
     mk_cmd ''CMD_PROCESS_POLL_RESP'' 166 False False,
     mk_cmd ''CMD_SPI_BEGIN'' 176 True False, mk_cmd ''CMD_SPI_TRANSFER'' 177 False True,
     mk_cmd ''CMD_SPI_TRANSFER_RESP'' 178 False False, mk_cmd ''CMD_SPI_END'' 179 True False,
     mk_cmd ''CMD_SPI_SET_CONFIG'' 180 True False]"

text \<open>\<open>JinjaGenerator._build_req_resp_map\<close> and \<open>_build_resp_to_req_map\<close>: a command whose name
  ends in \<open>_RESP\<close> answers the command with that suffix removed, when there is one.\<close>

definition strip_resp :: "string \<Rightarrow> string option" where
  "strip_resp n = (if py_endswith ''_RESP'' n then Some (take (length n - 5) n) else None)"

definition build_req_resp_map :: "command_def list \<Rightarrow> (string \<times> string list) list" where
  "build_req_resp_map cs =
    fold (\<lambda>c pairs.
       case strip_resp (cd_name c) of
         None \<Rightarrow> pairs
       | Some req \<Rightarrow>
           if req \<in> cd_name ` set cs then
             (case map_of pairs req of
                None \<Rightarrow> pairs @ [(req, [cd_name c])]
              | Some resps \<Rightarrow> map (\<lambda>(k, v). if k = req then (k, v @ [cd_name c]) else (k, v)) pairs)
           else pairs) cs []"

definition build_resp_to_req_map :: "command_def list \<Rightarrow> (string \<times> string) list" where
  "build_resp_to_req_map cs =
    List.map_filter (\<lambda>c. case strip_resp (cd_name c) of
         None \<Rightarrow> None
       | Some req \<Rightarrow> if req \<in> cd_name ` set cs then Some (cd_name c, req) else None) cs"

definition command_value :: "string \<Rightarrow> int" where
  "command_value n = (case map_of (map (\<lambda>c. (cd_name c, cd_value c)) commands) n of
     Some v \<Rightarrow> v | None \<Rightarrow> 0)"

definition request_response_map :: "(int \<times> int list) list" where
  "request_response_map =
    map (\<lambda>(r, ps). (command_value r, map command_value ps)) (build_req_resp_map commands)"

definition response_to_request_map :: "(int \<times> int) list" where
  "response_to_request_map =
    map (\<lambda>(p, r). (command_value p, command_value r)) (build_resp_to_req_map commands)"

definition expected_responses :: "int \<Rightarrow> int list" where
  "expected_responses c = (case map_of request_response_map c of None \<Rightarrow> [] | Some rs \<Rightarrow> rs)"

definition response_to_request :: "int \<Rightarrow> int option" where
  "response_to_request c = map_of response_to_request_map c"

definition ACK_ONLY_COMMANDS :: "int list" where
  "ACK_ONLY_COMMANDS = map cd_value (filter cd_requires_ack commands)"

text \<open>\<open>cmd_name_to_pb_class\<close>: \<open>CMD_X_Y\<close> to the CamelCase message name.\<close>

definition capitalize :: "string \<Rightarrow> string" where
  "capitalize s = (case s of [] \<Rightarrow> [] | c # cs \<Rightarrow> to_upper c # map to_lower cs)"

definition cmd_name_to_pb_class :: "string \<Rightarrow> string" where
  "cmd_name_to_pb_class n =
    (let m = (if py_startswith ''CMD_'' n then drop 4 n else n)
     in concat (map (\<lambda>seg. if seg = ''RESP'' then ''Response'' else capitalize seg)
          (py_split (CHR ''_'') m)))"

text \<open>\<open>protocol.is_system_command\<close>: status codes and system commands are exempt from encryption
  and from anti-replay.\<close>

definition is_system_command :: "int \<Rightarrow> bool" where
  "is_system_command command_id =
    (let raw_cmd = command_id AND UINT16_MAX
     in (STATUS_CODE_MIN \<le> raw_cmd \<and> raw_cmd \<le> STATUS_CODE_MAX)
        \<or> (SYSTEM_COMMAND_MIN \<le> raw_cmd \<and> raw_cmd \<le> SYSTEM_COMMAND_MAX))"

lemma request_response_map_eval:
  "request_response_map =
    [(64, [65]), (66, [67]), (68, [69]), (70, [71]), (72, [73]), (74, [75]), (83, [85]), (84, [86]),
     (113, [114]), (128, [132]), (130, [133]), (145, [147]), (161, [165]), (162, [166]), (177, [178])]"
  by code_simp

lemma response_to_request_map_eval:
  "response_to_request_map =
    [(65, 64), (67, 66), (69, 68), (71, 70), (73, 72), (75, 74), (85, 83), (86, 84), (114, 113),
     (132, 128), (133, 130), (147, 145), (165, 161), (166, 162), (178, 177)]"
  by code_simp

lemma ACK_ONLY_COMMANDS_eval:
  "ACK_ONLY_COMMANDS = [74, 76, 80, 81, 82, 96, 112, 131, 144, 176, 179, 180]"
  by code_simp

lemma status_values_eval [simp]: "status_values = [48, 49, 50, 51, 52, 53, 54, 55, 56]"
  by code_simp

lemma and_uint16 [simp]: "0 \<le> c \<Longrightarrow> c \<le> 65535 \<Longrightarrow> c AND 65535 = (c :: int)"
proof -
  assume "0 \<le> c" "c \<le> 65535"
  moreover have "c AND 65535 = take_bit 16 c"
    by (simp add: take_bit_eq_mask mask_eq_exp_minus_1)
  ultimately show ?thesis by (simp add: take_bit_eq_mod)
qed

lemma is_system_command_range:
  "0 \<le> c \<Longrightarrow> c \<le> 65535 \<Longrightarrow> is_system_command c \<longleftrightarrow> 48 \<le> c \<and> c \<le> 79"
  by (auto simp: is_system_command_def)

end
