(* ===== verification/Messages.thy ===== *)
theory Messages
  imports Protocol
begin

text \<open>
  The protobuf messages of \<open>tools/protocol/mcubridge.proto\<close> as data, with the constructors
  and the field order of the schema, and the third-party code the daemon calls as the
  record \<open>lib\<close>: \<open>SerializeToString\<close> and \<open>FromString\<close>, COBS/R, ChaCha20-Poly1305,
  HKDF-SHA256 and HMAC-SHA256. What the daemon relies on about them is stated as named
  predicates (\<open>pb_ok\<close>, \<open>aead_ok\<close>, \<open>cobs_ok\<close>, \<open>mac_ok\<close>) and appears as a hypothesis of the
  theorems that need it.
\<close>

section \<open>Telemetry messages\<close>

record capabilities =
  cap_ver :: int
  cap_arch :: int
  cap_dig :: int
  cap_ana :: int
  cap_feat :: int
  cap_flags :: "bool list" \<comment> \<open>watchdog, debug_frames, debug_io, eeprom, dac, hw_serial1, fpu,
      logic_3v3, big_buffer, i2c, spi, sd\<close>

record status_report =
  sr_status :: int
  sr_name :: string
  sr_description :: string
  sr_message :: string
  sr_topic :: string
  sr_action :: string
  sr_pin :: int
  sr_reason :: string

definition empty_status_report :: status_report where
  "empty_status_report = \<lparr>sr_status = 0, sr_name = [], sr_description = [], sr_message = [],
     sr_topic = [], sr_action = [], sr_pin = 0, sr_reason = []\<rparr>"

record handshake_snapshot =
  hn_synchronised :: bool
  hn_attempts :: int
  hn_successes :: int
  hn_failures :: int
  hn_failure_streak :: int
  hn_last_error :: string
  hn_last_unix :: real
  hn_last_duration :: real
  hn_backoff_until :: real
  hn_rate_limit_until :: real
  hn_fatal_count :: int
  hn_fatal_reason :: string
  hn_fatal_detail :: string
  hn_fatal_unix :: real
  hn_pending_nonce :: bool
  hn_nonce_length :: int
  hn_reason :: string
  hn_detail :: string
  hn_fsm_state :: string
  hn_event :: string

record pipeline_event =
  pe_event :: string
  pe_command_id :: int
  pe_attempt :: int
  pe_ack_received :: bool
  pe_status :: int
  pe_timestamp :: real

record bridge_snapshot =
  bs_connected :: bool
  bs_writer_attached :: bool
  bs_synchronised :: bool
  bs_handshake :: handshake_snapshot
  bs_inflight :: pipeline_event
  bs_last_completion :: pipeline_event
  bs_mcu_version :: "(int \<times> int \<times> int) option"
  bs_capabilities :: "capabilities option"

record supervisor_snapshot =
  ss_restarts :: int
  ss_last_failure_unix :: real
  ss_last_exception :: string
  ss_backoff_seconds :: real

record daemon_metrics =
  dm_cloud_queue_depth :: int
  dm_cloud_dropped_messages :: int
  dm_cloud_drop_counts :: "(string \<times> int) list"
  dm_spool_corrupt_dropped :: int
  dm_spool_dropped_limit :: int
  dm_spool_trim_events :: int
  dm_spool_last_trim_unix :: real
  dm_spool_degraded :: bool
  dm_spool_failure_reason :: string
  dm_spool_pending_messages :: int
  dm_console :: int
  dm_mailbox_outgoing :: int
  dm_mailbox_incoming :: int
  dm_running_processes :: int
  dm_link_synchronised :: bool
  dm_unknown_command_count :: int
  dm_unknown_command_last_id :: int
  dm_supervisors :: "(string \<times> supervisor_snapshot) list"
  dm_heartbeat_unix :: real
  dm_watchdog_enabled :: bool
  dm_watchdog_interval :: real

section \<open>Messages on the serial link and to the cloud\<close>

datatype msg =
    VersionResponse int int int
  | FreeMemoryResponse int
  | Capabilities capabilities
  | PinMode int int
  | DigitalWrite int int
  | AnalogWrite int int
  | PinRead int
  | DigitalReadResponse int
  | AnalogReadResponse int
  | ConsoleWrite bytes
  | DatastorePut string bytes
  | DatastoreGet string
  | DatastoreGetResponse bytes
  | MailboxPush bytes
  | MailboxProcessed int
  | MailboxAvailableResponse int
  | MailboxReadResponse bytes
  | FileWrite string bytes
  | FileRead string
  | FileRemove string
  | FileReadResponse bytes
  | ProcessRunAsync string
  | ProcessRunAsyncResponse int
  | ProcessPoll int
  | ProcessPollResponse int int bytes bytes bool bool bool
  | ProcessKill int
  | GenericResponse string string
  | AckPacket int
  | HandshakeConfig int int int \<comment> \<open>ack_timeout_ms, ack_retry_limit, response_timeout_ms\<close>
  | SetBaudratePacket int
  | LinkSync bytes bytes
  | EnterBootloader int
  | SpiTransfer bytes
  | SpiTransferResponse bytes
  | SpiConfig int int int

text \<open>The reports that only travel to the cloud. (\<open>DaemonMetrics\<close> is also a member of the
  envelope's oneof, but nothing puts it on the serial link.)\<close>

datatype report =
    StatusReport status_report
  | HandshakeSnapshot handshake_snapshot
  | BridgeSnapshot bridge_snapshot
  | DaemonMetrics daemon_metrics

text \<open>\<open>payload.DESCRIPTOR.name\<close>.\<close>

fun msg_class :: "msg \<Rightarrow> string" where
  "msg_class (VersionResponse _ _ _) = ''VersionResponse''"
| "msg_class (FreeMemoryResponse _) = ''FreeMemoryResponse''"
| "msg_class (Capabilities _) = ''Capabilities''"
| "msg_class (PinMode _ _) = ''PinMode''"
| "msg_class (DigitalWrite _ _) = ''DigitalWrite''"
| "msg_class (AnalogWrite _ _) = ''AnalogWrite''"
| "msg_class (PinRead _) = ''PinRead''"
| "msg_class (DigitalReadResponse _) = ''DigitalReadResponse''"
| "msg_class (AnalogReadResponse _) = ''AnalogReadResponse''"
| "msg_class (ConsoleWrite _) = ''ConsoleWrite''"
| "msg_class (DatastorePut _ _) = ''DatastorePut''"
| "msg_class (DatastoreGet _) = ''DatastoreGet''"
| "msg_class (DatastoreGetResponse _) = ''DatastoreGetResponse''"
| "msg_class (MailboxPush _) = ''MailboxPush''"
| "msg_class (MailboxProcessed _) = ''MailboxProcessed''"
| "msg_class (MailboxAvailableResponse _) = ''MailboxAvailableResponse''"
| "msg_class (MailboxReadResponse _) = ''MailboxReadResponse''"
| "msg_class (FileWrite _ _) = ''FileWrite''"
| "msg_class (FileRead _) = ''FileRead''"
| "msg_class (FileRemove _) = ''FileRemove''"
| "msg_class (FileReadResponse _) = ''FileReadResponse''"
| "msg_class (ProcessRunAsync _) = ''ProcessRunAsync''"
| "msg_class (ProcessRunAsyncResponse _) = ''ProcessRunAsyncResponse''"
| "msg_class (ProcessPoll _) = ''ProcessPoll''"
| "msg_class (ProcessPollResponse _ _ _ _ _ _ _) = ''ProcessPollResponse''"
| "msg_class (ProcessKill _) = ''ProcessKill''"
| "msg_class (GenericResponse _ _) = ''GenericResponse''"
| "msg_class (AckPacket _) = ''AckPacket''"
| "msg_class (HandshakeConfig _ _ _) = ''HandshakeConfig''"
| "msg_class (SetBaudratePacket _) = ''SetBaudratePacket''"
| "msg_class (LinkSync _ _) = ''LinkSync''"
| "msg_class (EnterBootloader _) = ''EnterBootloader''"
| "msg_class (SpiTransfer _) = ''SpiTransfer''"
| "msg_class (SpiTransferResponse _) = ''SpiTransferResponse''"
| "msg_class (SpiConfig _ _ _) = ''SpiConfig''"

text \<open>\<open>frame._PAYLOAD_FIELD_MAP\<close>: the message types of the \<open>payload_type\<close> oneof of \<open>RpcEnvelope\<close>.\<close>

definition payload_field_map :: "string list" where
  "payload_field_map =
    [''VersionResponse'', ''FreeMemoryResponse'', ''Capabilities'', ''PinMode'', ''DigitalWrite'',
     ''AnalogWrite'', ''PinRead'', ''DigitalReadResponse'', ''AnalogReadResponse'', ''ConsoleWrite'',
     ''DatastorePut'', ''DatastoreGet'', ''DatastoreGetResponse'', ''MailboxPush'',
     ''MailboxProcessed'', ''MailboxAvailableResponse'', ''MailboxReadResponse'', ''FileWrite'',
     ''FileRead'', ''FileRemove'', ''FileReadResponse'', ''ProcessRunAsync'',
     ''ProcessRunAsyncResponse'', ''ProcessPoll'', ''ProcessPollResponse'', ''ProcessKill'',
     ''GenericResponse'', ''AckPacket'', ''HandshakeConfig'', ''SetBaudratePacket'', ''LinkSync'',
     ''EnterBootloader'', ''SpiTransfer'', ''SpiTransferResponse'', ''SpiConfig'', ''DaemonMetrics'']"

text \<open>A payload handed to the transport: raw bytes or a message.\<close>

datatype payload = PBytes bytes | PMsg msg

text \<open>\<open>bool(payload)\<close>: empty bytes are false, a message object is true.\<close>

fun payload_truthy :: "payload \<Rightarrow> bool" where
  "payload_truthy (PBytes b) = (b \<noteq> [])"
| "payload_truthy (PMsg _) = True"

datatype oneof = EncBytes bytes | OneMsg msg

record envelope =
  ev_version :: int
  ev_command_id :: int
  ev_sequence_id :: int
  ev_nonce :: bytes
  ev_payload :: "oneof option"

record cloud_publish =
  cp_topic_name :: string
  cp_payload :: bytes
  cp_qos :: int
  cp_content_type :: "string option"
  cp_message_expiry_interval :: "int option"
  cp_correlation_data :: "bytes option"
  cp_user_properties :: "(string \<times> string) list"
  cp_subscription_identifier :: "int list"

datatype cloud_payload =
    CommandResponse int bytes
  | TelemetryReport string bytes \<comment> \<open>the blob field that is set, and its content\<close>
  | EventNotification string string string

record cloud_envelope =
  ce_protocol_version :: int
  ce_device_id :: string
  ce_sequence_id :: nat
  ce_timestamp_utc :: int \<comment> \<open>zero when it is not set\<close>
  ce_payload :: cloud_payload

section \<open>Third-party code\<close>

record lib =
  ser :: "msg \<Rightarrow> bytes"
  ser_report :: "report \<Rightarrow> bytes"
  parse_as :: "string \<Rightarrow> bytes \<Rightarrow> msg option"
  ser_env :: "envelope \<Rightarrow> bytes"
  parse_env :: "bytes \<Rightarrow> envelope option"
  ser_pub :: "cloud_publish \<Rightarrow> bytes"
  parse_pub :: "bytes \<Rightarrow> cloud_publish option"
  aead_enc :: "bytes \<Rightarrow> bytes \<Rightarrow> bytes \<Rightarrow> bytes \<Rightarrow> bytes"
  aead_dec :: "bytes \<Rightarrow> bytes \<Rightarrow> bytes \<Rightarrow> bytes \<Rightarrow> bytes option"
  cobs_enc :: "bytes \<Rightarrow> bytes"
  cobs_dec :: "bytes \<Rightarrow> bytes option"
  hkdf :: "nat \<Rightarrow> bytes \<Rightarrow> bytes \<Rightarrow> bytes \<Rightarrow> bytes" \<comment> \<open>length, salt, info, key material\<close>
  hmac_sha256 :: "bytes \<Rightarrow> bytes \<Rightarrow> bytes"

text \<open>The integer fields of a message, all \<open>uint32\<close>.\<close>

fun msg_ints :: "msg \<Rightarrow> int list" where
  "msg_ints (VersionResponse a b c) = [a, b, c]"
| "msg_ints (FreeMemoryResponse a) = [a]"
| "msg_ints (Capabilities c) = [cap_ver c, cap_arch c, cap_dig c, cap_ana c, cap_feat c]"
| "msg_ints (PinMode a _) = [a]"
| "msg_ints (DigitalWrite a b) = [a, b]"
| "msg_ints (AnalogWrite a b) = [a, b]"
| "msg_ints (PinRead a) = [a]"
| "msg_ints (DigitalReadResponse a) = [a]"
| "msg_ints (AnalogReadResponse a) = [a]"
| "msg_ints (MailboxProcessed a) = [a]"
| "msg_ints (MailboxAvailableResponse a) = [a]"
| "msg_ints (ProcessRunAsyncResponse a) = [a]"
| "msg_ints (ProcessPoll a) = [a]"
| "msg_ints (ProcessPollResponse a b _ _ _ _ _) = [a, b]"
| "msg_ints (ProcessKill a) = [a]"
| "msg_ints (AckPacket a) = [a]"
| "msg_ints (HandshakeConfig a b c) = [a, b, c]"
| "msg_ints (SetBaudratePacket a) = [a]"
| "msg_ints (EnterBootloader a) = [a]"
| "msg_ints (SpiConfig a b c) = [a, b, c]"
| "msg_ints _ = []"

text \<open>Assigning a value outside \<open>uint32\<close> to such a field raises \<open>ValueError\<close> when the message
  is built.\<close>

definition mk_msg :: "msg \<Rightarrow> msg result" where
  "mk_msg m = (if list_all uint32_ok (msg_ints m) then Inr m else Inl ValueError)"

text \<open>What protobuf can represent: unsigned fields in range, an enumeration value in \<open>int32\<close>.\<close>

definition representable_msg :: "msg \<Rightarrow> bool" where
  "representable_msg m \<longleftrightarrow> list_all uint32_ok (msg_ints m)
     \<and> (\<forall>p v. m = PinMode p v \<longrightarrow> - (2 ^ 31) \<le> v \<and> v < 2 ^ 31)
     \<and> (\<forall>c. m = Capabilities c \<longrightarrow> length (cap_flags c) = 12)"

definition representable_env :: "envelope \<Rightarrow> bool" where
  "representable_env e \<longleftrightarrow> uint32_ok (ev_version e) \<and> uint32_ok (ev_command_id e)
     \<and> uint32_ok (ev_sequence_id e) \<and> (\<forall>m. ev_payload e = Some (OneMsg m) \<longrightarrow> representable_msg m)"

definition representable_pub :: "cloud_publish \<Rightarrow> bool" where
  "representable_pub p \<longleftrightarrow> uint32_ok (cp_qos p) \<and> list_all uint32_ok (cp_subscription_identifier p)
     \<and> (\<forall>i. cp_message_expiry_interval p = Some i \<longrightarrow> uint32_ok i)"

text \<open>Protobuf: parsing inverts serialisation.\<close>

definition pb_ok :: "lib \<Rightarrow> bool" where
  "pb_ok L \<longleftrightarrow>
     (\<forall>m. representable_msg m \<longrightarrow> parse_as L (msg_class m) (ser L m) = Some m)
   \<and> (\<forall>e. representable_env e \<longrightarrow> parse_env L (ser_env L e) = Some e)
   \<and> (\<forall>p. representable_pub p \<longrightarrow> parse_pub L (ser_pub L p) = Some p)"

text \<open>ChaCha20-Poly1305: decryption with the same key, nonce and associated data inverts
  encryption.\<close>

definition aead_ok :: "lib \<Rightarrow> bool" where
  "aead_ok L \<longleftrightarrow> (\<forall>k n p a. aead_dec L k n (aead_enc L k n p a) a = Some p)"

text \<open>COBS/R: decoding inverts encoding, and an encoded packet holds no zero byte.\<close>

definition cobs_ok :: "lib \<Rightarrow> bool" where
  "cobs_ok L \<longleftrightarrow> (\<forall>b. cobs_dec L (cobs_enc L b) = Some b) \<and> (\<forall>b. 0 \<notin> set (cobs_enc L b))"

text \<open>HMAC-SHA256 digests have 32 bytes.\<close>

definition mac_ok :: "lib \<Rightarrow> bool" where
  "mac_ok L \<longleftrightarrow> (\<forall>k d. length (hmac_sha256 L k d) = 32)"

end
