(* ===== verification/Checksum.thy ===== *)
theory Checksum
  imports Messages
begin

text \<open>
  \<open>binascii.crc32\<close> and \<open>struct.Struct("<I")\<close>, the two standard-library routines that
  \<open>mcubridge/protocol/frame.py\<close> puts around a serialised envelope: the reflected CRC-32 with
  polynomial \<open>0xEDB88320\<close> (\<open>crc_polynomial\<close> of the protocol constants), and a little-endian
  32-bit word. The CRC register step is a linear bijection, so a corruption confined to four
  consecutive bytes always changes the checksum.
\<close>

section \<open>CRC-32\<close>

type_synonym u32 = "32 word"

definition crc_bit :: "u32 \<Rightarrow> u32" where
  "crc_bit c = (if bit c 0 then drop_bit 1 c XOR 0xEDB88320 else drop_bit 1 c)"

definition crc_byte :: "u32 \<Rightarrow> byte \<Rightarrow> u32" where
  "crc_byte c b = (crc_bit ^^ 8) (c XOR ucast b)"

definition crc32 :: "bytes \<Rightarrow> u32" where
  "crc32 bs = NOT (foldl crc_byte 0xFFFFFFFF bs)"

definition pack_u32 :: "u32 \<Rightarrow> bytes" where
  "pack_u32 w = [ucast w, ucast (drop_bit 8 w), ucast (drop_bit 16 w), ucast (drop_bit 24 w)]"

text \<open>A list of bytes as a little-endian word.\<close>

fun le_word :: "bytes \<Rightarrow> u32" where
  "le_word [] = 0"
| "le_word (b # bs) = ucast b XOR push_bit 8 (le_word bs)"

section \<open>The register step\<close>

lemma poly_top: "bit (0xEDB88320 :: u32) 31"
  by simp

lemma crc_bit_top: "bit (crc_bit c) 31 = bit c 0"
  using poly_top by (auto simp: crc_bit_def bit_simps dest: bit_imp_le_length)

lemma drop_low_eq:
  fixes a b :: u32
  assumes "drop_bit 1 a = drop_bit 1 b" and "bit a 0 = bit b 0"
  shows "a = b"
proof (rule bit_eqI)
  fix n
  show "bit a n = bit b n"
  proof (cases n)
    case (Suc m)
    have "bit (drop_bit 1 a) m = bit (drop_bit 1 b) m" using assms(1) by simp
    then show ?thesis by (simp add: bit_drop_bit_eq Suc)
  qed (use assms(2) in simp)
qed

lemma xor_right_cancel: "(x XOR z = y XOR z) = (x = (y :: u32))"
proof
  assume "x XOR z = y XOR z"
  then have "(x XOR z) XOR z = (y XOR z) XOR z" by simp
  then show "x = y" by (simp only: xor.assoc xor_self_eq xor.right_neutral)
qed simp

lemma crc_bit_inj: "crc_bit a = crc_bit b \<Longrightarrow> a = b"
proof -
  assume eq: "crc_bit a = crc_bit b"
  then have low: "bit a 0 = bit b 0" by (metis crc_bit_top)
  with eq have "drop_bit 1 a = drop_bit 1 b"
    by (simp add: crc_bit_def xor_right_cancel split: if_splits)
  then show ?thesis using low by (rule drop_low_eq)
qed

lemma crc_bits_inj: "(crc_bit ^^ n) a = (crc_bit ^^ n) b \<longleftrightarrow> a = b"
  by (induction n) (auto dest: crc_bit_inj)

lemma crc_bit_xor: "crc_bit (a XOR b) = crc_bit a XOR crc_bit b"
  by (auto simp: crc_bit_def bit_xor_iff drop_bit_xor xor.assoc xor.commute xor.left_commute)

lemma crc_bits_xor: "(crc_bit ^^ n) (a XOR b) = (crc_bit ^^ n) a XOR (crc_bit ^^ n) b"
  by (induction n) (simp_all add: crc_bit_xor)

lemma crc_bits_push:
  assumes "\<forall>i<n. \<not> bit v i"
  shows "(crc_bit ^^ n) v = drop_bit n v"
  using assms
proof (induction n)
  case (Suc n)
  then have "(crc_bit ^^ Suc n) v = crc_bit (drop_bit n v)" by simp
  also have "\<dots> = drop_bit (Suc n) v"
    using Suc.prems by (simp add: crc_bit_def bit_drop_bit_eq)
  finally show ?case .
qed simp

section \<open>Whole checksums\<close>

lemma foldl_crc_inj_state: "foldl crc_byte a bs = foldl crc_byte b bs \<longleftrightarrow> a = b"
  by (induction bs arbitrary: a b) (simp_all add: crc_byte_def crc_bits_inj xor_right_cancel)

lemma le_word_bits: "bit (le_word bs) i \<Longrightarrow> i < 8 * length bs"
proof (induction bs arbitrary: i)
  case (Cons b bs)
  show ?case
  proof (cases "i < 8")
    case False
    have "\<not> bit b i" using False bit_imp_le_length [of b i] by auto
    with Cons.prems False have "bit (le_word bs) (i - 8)"
      by (auto simp: bit_simps)
    from Cons.IH [OF this] False show ?thesis by simp
  qed simp
qed simp

lemma crc_byte_le_word:
  "length bs \<le> 4 \<Longrightarrow> foldl crc_byte c bs = (crc_bit ^^ (8 * length bs)) (c XOR le_word bs)"
proof (induction bs arbitrary: c)
  case (Cons b bs)
  let ?w = "le_word bs"
  have low: "\<forall>i<8. \<not> bit (push_bit 8 ?w) i" by (simp add: bit_simps)
  have fits: "drop_bit 8 (push_bit 8 ?w) = ?w"
  proof (rule bit_eqI)
    fix n :: nat
    show "bit (drop_bit 8 (push_bit 8 ?w)) n = bit ?w n"
      using le_word_bits [of bs n] Cons.prems by (auto simp: bit_simps)
  qed
  have "foldl crc_byte c (b # bs) = (crc_bit ^^ (8 * length bs)) ((crc_bit ^^ 8) (c XOR ucast b) XOR ?w)"
    using Cons.prems Cons.IH [of "crc_byte c b"] by (simp add: crc_byte_def [of c b])
  also have "(crc_bit ^^ 8) (c XOR ucast b) XOR ?w = (crc_bit ^^ 8) ((c XOR ucast b) XOR push_bit 8 ?w)"
    by (simp only: crc_bits_xor crc_bits_push [OF low] fits)
  also have "(crc_bit ^^ (8 * length bs)) \<dots> = (crc_bit ^^ (8 * length (b # bs))) (c XOR le_word (b # bs))"
    by (simp add: funpow_add [symmetric, THEN fun_cong, unfolded o_apply] xor.assoc add.commute)
  finally show ?case .
qed simp

lemma le_word_inj:
  "length us = length vs \<Longrightarrow> length us \<le> 4 \<Longrightarrow> le_word us = le_word vs \<Longrightarrow> us = vs"
proof (induction us vs rule: list_induct2)
  case (Cons u us v vs)
  have bits: "bit (le_word (u # us)) i = bit (le_word (v # vs)) i" for i
    using Cons.prems by simp
  have "bit u i = bit v i" if "i < 8" for i
    using bits [of i] that by (simp add: bit_simps)
  then have "u = v" by (auto intro: bit_word_eqI)
  moreover have "le_word us = le_word vs"
  proof (rule bit_word_eqI)
    fix n :: nat
    assume "n < LENGTH(32)"
    show "bit (le_word us) n = bit (le_word vs) n"
    proof (cases "n < 24")
      case True
      moreover have "\<not> bit u (n + 8)" "\<not> bit v (n + 8)"
        using bit_imp_le_length [of u "n + 8"] bit_imp_le_length [of v "n + 8"] by auto
      ultimately show ?thesis using bits [of "n + 8"] by (simp add: bit_simps)
    next
      case False
      then show ?thesis
        using le_word_bits [of us n] le_word_bits [of vs n] Cons.prems Cons.hyps by auto
    qed
  qed
  ultimately show ?case using Cons by simp
qed simp

lemma crc32_burst:
  assumes "length us = length vs" and "length us \<le> 4" and "us \<noteq> vs"
  shows "crc32 (pre @ us @ post) \<noteq> crc32 (pre @ vs @ post)"
proof
  let ?s = "foldl crc_byte 0xFFFFFFFF pre"
  assume "crc32 (pre @ us @ post) = crc32 (pre @ vs @ post)"
  then have "foldl crc_byte ?s us = foldl crc_byte ?s vs"
    by (simp add: crc32_def foldl_crc_inj_state)
  then have "?s XOR le_word us = ?s XOR le_word vs"
    using assms(1,2) by (simp add: crc_byte_le_word crc_bits_inj)
  then have "le_word us = le_word vs"
    by (metis xor.commute xor_right_cancel)
  with assms show False using le_word_inj by blast
qed

lemma length_pack_u32 [simp]: "length (pack_u32 w) = 4"
  by (simp add: pack_u32_def)

lemma le_word_pack [wire_laws]: "le_word (pack_u32 w) = w"
proof (rule bit_word_eqI)
  fix n :: nat
  assume "n < LENGTH(32)"
  then show "bit (le_word (pack_u32 w)) n = bit w n"
    by (auto simp: pack_u32_def bit_simps not_less dest: bit_imp_le_length)
qed

lemma pack_u32_inj [simp]: "pack_u32 a = pack_u32 b \<longleftrightarrow> a = b"
  by (metis le_word_pack)

end
