(* ===== verification/Security.thy ===== *)
theory Security
  imports Messages
begin

text \<open>
  \<open>mcubridge/security/security.py\<close>: AEAD nonces carry a 64-bit counter in their last eight
  bytes; the sender increments it, the receiver accepts only strictly larger counters. The
  random prefix (\<open>secrets.token_bytes(4)\<close>) is an argument. The locale \<open>nonce_discipline\<close> is
  what the serial transport relies on; it is interpreted on the functions of the module.
\<close>

section \<open>Operations\<close>

definition extract_nonce_counter :: "bytes \<Rightarrow> int result" where
  "extract_nonce_counter nonce =
    (if length nonce \<noteq> AEAD_NONCE_SIZE then Inl ValueError
     else Inr (int (from_be (drop 4 nonce))))"

definition generate_nonce_with_counter :: "bytes \<Rightarrow> int \<Rightarrow> (bytes \<times> int) result" where
  "generate_nonce_with_counter rnd counter =
    (if NONCE_COUNTER_MASK \<le> counter \<or> counter < 0 then Inl ValueError
     else (let new_counter = counter + 1
           in Inr (rnd @ to_be 8 (nat new_counter), new_counter)))"

definition validate_nonce_counter :: "bytes \<Rightarrow> int \<Rightarrow> bool \<times> int" where
  "validate_nonce_counter nonce last_counter =
    (case extract_nonce_counter nonce of
       Inl _ \<Rightarrow> (False, last_counter)
     | Inr current \<Rightarrow>
         if current \<le> last_counter \<or> NONCE_COUNTER_MASK < current then (False, last_counter)
         else (True, current))"

text \<open>\<open>secure_zero\<close>: both passes overwrite every byte of the buffer with zero.\<close>

definition secure_zero :: "bytes \<Rightarrow> bytes" where
  "secure_zero data = replicate (length data) 0"

text \<open>\<open>verify_crypto_integrity\<close>: known-answer tests; SHA-256 itself is an argument, and an AEAD
  encryption that raises \<open>ValueError\<close> is \<open>None\<close>.\<close>

definition hex_digit :: "nat \<Rightarrow> char" where
  "hex_digit n = (if n < 10 then char_of (48 + n) else char_of (87 + n))"

definition bytes_hex :: "bytes \<Rightarrow> string" where
  "bytes_hex bs = concat (map (\<lambda>b. [hex_digit (unat b div 16), hex_digit (unat b mod 16)]) bs)"

definition verify_crypto_integrity ::
  "(bytes \<Rightarrow> bytes) \<Rightarrow> (bytes \<Rightarrow> bytes \<Rightarrow> bytes) \<Rightarrow>
   (bytes \<Rightarrow> bytes \<Rightarrow> bytes \<Rightarrow> bytes option) \<Rightarrow> bool" where
  "verify_crypto_integrity sha256 hmac enc =
    (if bytes_hex (sha256 (encode_utf8 ''abc''))
          \<noteq> ''ba7816bf8f01cfea414140de5dae2223b00361a396177a9cb410ff61f20015ad'' then False
     else if bytes_hex (hmac (encode_utf8 ''key'')
               (encode_utf8 ''The quick brown fox jumps over the lazy dog''))
          \<noteq> ''f7bc83f430538424b13298e6aa6fb143ef4d59a14946175997479dbc2d1a3cd8'' then False
     else (case enc (replicate 32 0) (replicate 12 0) [] of
             None \<Rightarrow> False
           | Some ct \<Rightarrow> length ct = 16))"

section \<open>The interface the transport uses\<close>

text \<open>A receiver that checks every incoming nonce in turn, threading the last accepted counter:
  the nonces it accepts, and the final counter.\<close>

fun accept_run :: "(bytes \<Rightarrow> int \<Rightarrow> bool \<times> int) \<Rightarrow> int \<Rightarrow> bytes list \<Rightarrow> bytes list \<times> int" where
  "accept_run check last_counter [] = ([], last_counter)"
| "accept_run check last_counter (n # ns) =
    (case check n last_counter of (ok, c) \<Rightarrow>
       (case accept_run check c ns of (acc, l) \<Rightarrow> (if ok then n # acc else acc, l)))"

text \<open>A sender that stamps frame after frame, with the random prefixes it draws.\<close>

fun stamp_run :: "(bytes \<Rightarrow> int \<Rightarrow> (bytes \<times> int) result) \<Rightarrow> int \<Rightarrow> bytes list \<Rightarrow> bytes list result" where
  "stamp_run stamp c [] = Inr []"
| "stamp_run stamp c (r # rs) =
    (case stamp r c of
       Inl e \<Rightarrow> Inl e
     | Inr (n, c') \<Rightarrow>
        (case stamp_run stamp c' rs of Inl e \<Rightarrow> Inl e | Inr ns \<Rightarrow> Inr (n # ns)))"

locale nonce_discipline =
  fixes stamp :: "bytes \<Rightarrow> int \<Rightarrow> (bytes \<times> int) result"
    and check :: "bytes \<Rightarrow> int \<Rightarrow> bool \<times> int"
    and ctr :: "bytes \<Rightarrow> int"
  assumes stamp_ctr:
      "length r = 4 \<Longrightarrow> stamp r c = Inr (n, c') \<Longrightarrow> 0 \<le> c \<and> c < c' \<and> ctr n = c'"
    and check_ok: "check n l = (True, c) \<Longrightarrow> l < c \<and> ctr n = c"
    and check_bad: "check n l = (False, c) \<Longrightarrow> c = l"
    and check_stamped:
      "length r = 4 \<Longrightarrow> stamp r c = Inr (n, c') \<Longrightarrow> l < c' \<Longrightarrow> check n l = (True, c')"
begin

lemma accept_run_mono:
  "accept_run check l ns = (acc, l') \<Longrightarrow> l \<le> l' \<and> (\<forall>n\<in>set acc. l < ctr n \<and> ctr n \<le> l')"
proof (induction ns arbitrary: l acc)
  case (Cons n ns)
  obtain ok c where ck: "check n l = (ok, c)" by fastforce
  obtain a where rest: "accept_run check c ns = (a, l')" and acc: "acc = (if ok then n # a else a)"
    using Cons.prems ck by (auto split: prod.splits)
  from Cons.IH [OF rest] show ?case
    using ck acc check_ok [of n l c] check_bad [of n l c] by (cases ok) fastforce+
qed simp

lemma accept_run_increasing:
  "accept_run check l ns = (acc, l') \<Longrightarrow> sorted_wrt (<) (map ctr acc)"
proof (induction ns arbitrary: l acc)
  case (Cons n ns)
  obtain ok c where ck: "check n l = (ok, c)" by fastforce
  obtain a where rest: "accept_run check c ns = (a, l')" and acc: "acc = (if ok then n # a else a)"
    using Cons.prems ck by (auto split: prod.splits)
  from accept_run_mono [OF rest] Cons.IH [OF rest] show ?case
    using ck acc check_ok [of n l c] by (cases ok) auto
qed simp

lemma accept_run_distinct: "accept_run check l ns = (acc, l') \<Longrightarrow> distinct acc"
  using accept_run_increasing strict_sorted_iff distinct_map by blast

lemma stamped_accepted:
  "stamp_run stamp c rs = Inr ns \<Longrightarrow> \<forall>r\<in>set rs. length r = 4 \<Longrightarrow> l \<le> c
    \<Longrightarrow> fst (accept_run check l ns) = ns"
proof (induction rs arbitrary: c l ns)
  case (Cons r rs)
  from Cons.prems obtain n c' ms
    where st: "stamp r c = Inr (n, c')" and run: "stamp_run stamp c' rs = Inr ms"
      and ns: "ns = n # ms"
    by (auto split: sum.splits)
  have "c < c'" using stamp_ctr [OF _ st] Cons.prems(2) by simp
  then have "check n l = (True, c')" using check_stamped [OF _ st, of l] Cons.prems(2,3) by simp
  moreover have "fst (accept_run check c' ms) = ms"
    using Cons.IH [OF run] Cons.prems(2) by simp
  ultimately show ?case by (auto simp: ns split: prod.splits)
qed simp

end

section \<open>The module implements it\<close>

definition nonce_ctr :: "bytes \<Rightarrow> int" where
  "nonce_ctr n = int (from_be (drop 4 n))"

lemma generate_nonce_Inr:
  assumes "length rnd = 4" and "generate_nonce_with_counter rnd c = Inr (n, c')"
  shows "0 \<le> c \<and> c' = c + 1 \<and> c' \<le> NONCE_COUNTER_MASK \<and> length n = 12 \<and> nonce_ctr n = c'"
proof -
  have c: "0 \<le> c" "c < NONCE_COUNTER_MASK" "c' = c + 1" "n = rnd @ to_be 8 (nat c')"
    using assms(2) by (auto simp: generate_nonce_with_counter_def Let_def split: if_splits)
  then have "nat c' < 256 ^ 8" by (simp add: NONCE_COUNTER_MASK_def)
  then have "from_be (to_be 8 (nat c')) = nat c'" by (rule from_to_be)
  with c assms(1) show ?thesis by (simp add: nonce_ctr_def NONCE_COUNTER_MASK_def)
qed

lemma extract_nonce_eq:
  "extract_nonce_counter n = (if length n = 12 then Inr (nonce_ctr n) else Inl ValueError)"
  by (simp add: extract_nonce_counter_def nonce_ctr_def)

interpretation link_nonces:
  nonce_discipline generate_nonce_with_counter validate_nonce_counter nonce_ctr
  by unfold_locales
    (auto simp: validate_nonce_counter_def extract_nonce_eq dest!: generate_nonce_Inr
       split: if_splits)

section \<open>Properties\<close>

text \<open>C1 (safety). Anti-replay: whatever sequence of nonces arrives, the ones the receiver accepts
  carry strictly increasing counters, all above the last accepted counter it started from; no
  nonce is accepted twice.\<close>

theorem anti_replay:
  assumes "accept_run validate_nonce_counter l ns = (acc, l')"
  shows "sorted_wrt (<) (map nonce_ctr acc) \<and> distinct acc
    \<and> (\<forall>n\<in>set acc. l < nonce_ctr n \<and> nonce_ctr n \<le> l')
    \<and> (\<forall>n\<in>set acc. \<not> fst (validate_nonce_counter n l'))"
proof (intro conjI)
  show "sorted_wrt (<) (map nonce_ctr acc)" "distinct acc"
    using assms by (rule link_nonces.accept_run_increasing, rule link_nonces.accept_run_distinct)
  show bounds: "\<forall>n\<in>set acc. l < nonce_ctr n \<and> nonce_ctr n \<le> l'"
    using link_nonces.accept_run_mono [OF assms] by simp
  then show "\<forall>n\<in>set acc. \<not> fst (validate_nonce_counter n l')"
    by (auto simp: validate_nonce_counter_def extract_nonce_eq)
qed

theorem anti_replay_witness:
  "distinct (fst (accept_run validate_nonce_counter 4
     [replicate 11 0 @ [5], replicate 11 0 @ [5], replicate 11 0 @ [9], replicate 11 0 @ [7]]))"
proof -
  obtain acc l' where r: "accept_run validate_nonce_counter 4
     [replicate 11 0 @ [5], replicate 11 0 @ [5], replicate 11 0 @ [9], replicate 11 0 @ [7]] = (acc, l')"
    by fastforce
  then show ?thesis using anti_replay [OF r] by simp
qed

text \<open>C18 (roundtrip). A stream of freshly stamped nonces is accepted in full, in order, by a
  receiver whose last counter is not ahead of the sender's.\<close>

theorem stamped_stream_accepted:
  assumes "stamp_run generate_nonce_with_counter c rs = Inr ns"
    and "\<forall>r\<in>set rs. length r = 4" and "l \<le> c"
  shows "fst (accept_run validate_nonce_counter l ns) = ns"
  using assms by (rule link_nonces.stamped_accepted)

theorem stamped_stream_accepted_witness:
  "\<exists>ns. stamp_run generate_nonce_with_counter 7 [[1,2,3,4], [9,9,9,9]] = Inr ns \<and> length ns = 2
     \<and> fst (accept_run validate_nonce_counter 3 ns) = ns"
proof -
  obtain ns where ns: "stamp_run generate_nonce_with_counter 7 [[1,2,3,4], [9,9,9,9]] = Inr ns"
    and len: "length ns = 2"
    by (simp add: generate_nonce_with_counter_def NONCE_COUNTER_MASK_def Let_def)
  have "fst (accept_run validate_nonce_counter 3 ns) = ns"
    by (rule stamped_stream_accepted [OF ns]) simp_all
  with ns len show ?thesis by blast
qed

text \<open>C19 (bounds). The counter never wraps: stamping fails exactly when the counter is negative or
  has reached \<open>2^64 - 1\<close>, and otherwise yields a 12-byte nonce whose counter is the successor,
  at most \<open>2^64 - 1\<close>.\<close>

theorem nonce_counter_no_wrap:
  assumes "length rnd = 4"
  shows "(generate_nonce_with_counter rnd c = Inl ValueError \<longleftrightarrow> c < 0 \<or> 2 ^ 64 - 1 \<le> c)
     \<and> (\<forall>n c'. generate_nonce_with_counter rnd c = Inr (n, c') \<longrightarrow>
          c' = c + 1 \<and> c' < 2 ^ 64 \<and> length n = 12 \<and> take 4 n = rnd
          \<and> extract_nonce_counter n = Inr c')"
proof (intro conjI allI impI)
  show "generate_nonce_with_counter rnd c = Inl ValueError \<longleftrightarrow> c < 0 \<or> 2 ^ 64 - 1 \<le> c"
    by (auto simp: generate_nonce_with_counter_def NONCE_COUNTER_MASK_def Let_def)
  fix n c' assume g: "generate_nonce_with_counter rnd c = Inr (n, c')"
  note facts = generate_nonce_Inr [OF assms g]
  show "c' = c + 1" "length n = 12" "extract_nonce_counter n = Inr c'"
    using facts by (simp_all add: extract_nonce_eq)
  show "c' < 2 ^ 64" using facts by (simp add: NONCE_COUNTER_MASK_def)
  show "take 4 n = rnd"
    using g assms by (auto simp: generate_nonce_with_counter_def Let_def split: if_splits)
qed

theorem nonce_counter_no_wrap_witness:
  "generate_nonce_with_counter [1,2,3,4] (2 ^ 64 - 1) = Inl ValueError"
  using nonce_counter_no_wrap [of "[1,2,3,4]" "2 ^ 64 - 1"] by simp

end
