(* ===== verification/Model_Lib.thy ===== *)
theory Model_Lib
  imports Messages "HOL-Library.Countable"
begin

text \<open>
  One concrete instance of the third-party code, at which the hypotheses about it are
  discharged: every message, envelope and queued publish is a byte string through its index
  in an enumeration, the AEAD appends a 16-byte tag, COBS maps to strings of ones, and the MAC
  pads its input to 32 bytes. It shows that \<open>pb_ok\<close>, \<open>aead_ok\<close>, \<open>cobs_ok\<close> and \<open>mac_ok\<close> can
  hold together; nothing else depends on it.
\<close>

instance capabilities_ext :: (countable) countable
  by (rule countable_classI [of "\<lambda>r. to_nat (cap_ver r, cap_arch r, cap_dig r, cap_ana r,
        cap_feat r, cap_flags r, capabilities.more r)"]) simp

instance msg :: countable
  by countable_datatype

instance oneof :: countable
  by countable_datatype

instance envelope_ext :: (countable) countable
  by (rule countable_classI [of "\<lambda>r. to_nat (ev_version r, ev_command_id r, ev_sequence_id r,
        ev_nonce r, ev_payload r, envelope.more r)"]) simp

instance cloud_publish_ext :: (countable) countable
  by (rule countable_classI [of "\<lambda>r. to_nat (cp_topic_name r, cp_payload r, cp_qos r,
        cp_content_type r, cp_message_expiry_interval r, cp_correlation_data r,
        cp_user_properties r, cp_subscription_identifier r, cloud_publish.more r)"]) simp

definition index_bytes :: "'a :: countable \<Rightarrow> bytes" where
  "index_bytes x = replicate (Suc (to_nat x)) 1"

definition of_index_bytes :: "bytes \<Rightarrow> 'a :: countable" where
  "of_index_bytes b = from_nat (length b - 1)"

lemma of_index_index [simp]: "of_index_bytes (index_bytes x) = x"
  by (simp add: index_bytes_def of_index_bytes_def)

definition model_lib :: lib where
  "model_lib =
    \<lparr>ser = index_bytes, ser_report = (\<lambda>_. []),
     parse_as = (\<lambda>c b. Some (of_index_bytes b)),
     ser_env = index_bytes, parse_env = (\<lambda>b. Some (of_index_bytes b)),
     ser_pub = index_bytes, parse_pub = (\<lambda>b. Some (of_index_bytes b)),
     aead_enc = (\<lambda>k n p a. p @ replicate 16 0),
     aead_dec = (\<lambda>k n c a. if length c < 16 then None else Some (take (length c - 16) c)),
     cobs_enc = index_bytes, cobs_dec = (\<lambda>b. Some (of_index_bytes b)),
     hkdf = (\<lambda>n salt info k. take n (k @ salt @ info @ replicate n 0)),
     hmac_sha256 = (\<lambda>k d. take 32 (d @ k) @ replicate (32 - length (d @ k)) 0)\<rparr>"

lemma model_lib_ok [simp]:
  "pb_ok model_lib" "aead_ok model_lib" "cobs_ok model_lib" "mac_ok model_lib"
  by (auto simp: model_lib_def pb_ok_def aead_ok_def cobs_ok_def mac_ok_def index_bytes_def
      of_index_bytes_def min_def)

end
