(* ===== verification/Frame.thy ===== *)
theory Frame
  imports Checksum Security Model_Lib
begin

text \<open>
  \<open>mcubridge/protocol/frame.py\<close>: a frame is a serialised \<open>RpcEnvelope\<close> followed by its CRC-32.
  With a session key, a command outside the status and system ranges carries its payload
  encrypted, with the envelope header (version, command, sequence) as associated data.
\<close>

section \<open>Building and parsing\<close>

text \<open>\<open>bool(session_key)\<close>: \<open>None\<close> and empty bytes are false.\<close>

definition key_set :: "bytes option \<Rightarrow> bool" where
  "key_set k \<longleftrightarrow> (case k of None \<Rightarrow> False | Some b \<Rightarrow> b \<noteq> [])"

definition payload_bytes :: "lib \<Rightarrow> payload \<Rightarrow> bytes" where
  "payload_bytes L p = (case p of PBytes b \<Rightarrow> b | PMsg m \<Rightarrow> ser L m)"

text \<open>The header-only envelope that is the associated data of the AEAD.\<close>

definition frame_aad :: "lib \<Rightarrow> envelope \<Rightarrow> bytes" where
  "frame_aad L e =
    ser_env L \<lparr>ev_version = ev_version e, ev_command_id = ev_command_id e,
      ev_sequence_id = ev_sequence_id e, ev_nonce = [], ev_payload = None\<rparr>"

text \<open>\<open>ChaCha20Poly1305\<close> takes 32-byte keys and 12-byte nonces and raises \<open>ValueError\<close> otherwise.\<close>

definition aead_args_ok :: "bytes \<Rightarrow> bytes \<Rightarrow> bool" where
  "aead_args_ok key nonce \<longleftrightarrow> length key = AEAD_KEY_SIZE \<and> length nonce = AEAD_NONCE_SIZE"

text \<open>The envelope of \<open>build_frame\<close>: the header, then the payload, encrypted or not.\<close>

definition frame_header :: "int \<Rightarrow> int \<Rightarrow> bytes option \<Rightarrow> envelope" where
  "frame_header command_id sequence_id nonce =
    \<lparr>ev_version = PROTOCOL_VERSION, ev_command_id = command_id, ev_sequence_id = sequence_id,
     ev_nonce = (case nonce of Some n \<Rightarrow> if n \<noteq> [] then n else replicate AEAD_NONCE_SIZE 0
                 | None \<Rightarrow> replicate AEAD_NONCE_SIZE 0),
     ev_payload = None\<rparr>"

definition seal_payload :: "lib \<Rightarrow> envelope \<Rightarrow> payload \<Rightarrow> bytes option \<Rightarrow> envelope result" where
  "seal_payload L envelope payload session_key =
    (if key_set session_key \<and> \<not> is_system_command (ev_command_id envelope) then
       (let pb = payload_bytes L payload in
        if MAX_PAYLOAD_SIZE < length pb then Inl ValueError
        else if \<not> aead_args_ok (the session_key) (ev_nonce envelope) then Inl ValueError
        else Inr (envelope\<lparr>ev_payload :=
           Some (EncBytes (aead_enc L (the session_key) (ev_nonce envelope) pb
                             (frame_aad L envelope)))\<rparr>))
     else
       (case payload of
          PMsg m \<Rightarrow>
            (if msg_class m \<in> set payload_field_map
             then Inr (envelope\<lparr>ev_payload := Some (OneMsg m)\<rparr>) else Inr envelope)
        | PBytes b \<Rightarrow>
            (if MAX_PAYLOAD_SIZE < length b then Inl ValueError
             else Inr (envelope\<lparr>ev_payload := Some (EncBytes b)\<rparr>))))"

definition build_frame ::
  "lib \<Rightarrow> int \<Rightarrow> int \<Rightarrow> payload \<Rightarrow> bytes option \<Rightarrow> bytes option \<Rightarrow> bytes result" where
  "build_frame L command_id sequence_id payload nonce session_key =
    (if \<not> (0 \<le> command_id \<and> command_id \<le> UINT16_MAX) then Inl ValueError
     else if \<not> uint32_ok sequence_id then Inl ValueError
     else (case seal_payload L (frame_header command_id sequence_id nonce) payload session_key of
             Inl e \<Rightarrow> Inl e
           | Inr envelope \<Rightarrow>
               (let body = ser_env L envelope in Inr (body @ pack_u32 (crc32 body)))))"

text \<open>The payload of a parsed envelope: decrypted and authenticated, or the oneof's content.\<close>

definition open_payload :: "lib \<Rightarrow> envelope \<Rightarrow> bytes option \<Rightarrow> payload result" where
  "open_payload L envelope session_key =
    (if key_set session_key \<and> \<not> is_system_command (ev_command_id envelope) then
       (let ct = (case ev_payload envelope of Some (EncBytes b) \<Rightarrow> b | _ \<Rightarrow> [])
        in if \<not> aead_args_ok (the session_key) (ev_nonce envelope) then Inl ValueError
           else (case aead_dec L (the session_key) (ev_nonce envelope) ct (frame_aad L envelope) of
                   None \<Rightarrow> Inl ValueError
                 | Some pt \<Rightarrow> Inr (PBytes pt)))
     else
       (case ev_payload envelope of
          Some (EncBytes b) \<Rightarrow> Inr (PBytes b)
        | Some (OneMsg m) \<Rightarrow> Inr (PMsg m)
        | None \<Rightarrow> Inr (PBytes [])))"

definition parse_frame :: "lib \<Rightarrow> bytes \<Rightarrow> bytes option \<Rightarrow> (envelope \<times> payload) result" where
  "parse_frame L raw session_key =
    (if length raw < CRC_SIZE then Inl ValueError
     else
       (let body = take (length raw - CRC_SIZE) raw; crc_bytes = drop (length raw - CRC_SIZE) raw
        in if crc32 body \<noteq> le_word crc_bytes then Inl ValueError
           else (case parse_env L body of
                   None \<Rightarrow> Inl ValueError
                 | Some envelope \<Rightarrow>
                     if ev_version envelope \<noteq> PROTOCOL_VERSION then Inl ValueError
                     else (case open_payload L envelope session_key of
                             Inl e \<Rightarrow> Inl e
                           | Inr payload \<Rightarrow> Inr (envelope, payload)))))"

section \<open>Lemmas\<close>

lemma le_word_eq_pack: "length bs = 4 \<Longrightarrow> le_word bs = w \<longleftrightarrow> bs = pack_u32 w"
  by (metis le_word_inj le_word_pack length_pack_u32 order_refl)

lemma parse_frame_trailer:
  "parse_frame L (body @ pack_u32 c) key =
    (if crc32 body \<noteq> c then Inl ValueError
     else (case parse_env L body of
             None \<Rightarrow> Inl ValueError
           | Some envelope \<Rightarrow>
               if ev_version envelope \<noteq> 2 then Inl ValueError
               else (case open_payload L envelope key of
                       Inl e \<Rightarrow> Inl e | Inr p \<Rightarrow> Inr (envelope, p))))"
  by (simp add: parse_frame_def le_word_pack)

text \<open>Every message type of the link has a field in the envelope, so the branch of \<open>build_frame\<close>
  that sends an empty envelope is never taken.\<close>

lemma msg_class_mapped [simp]: "msg_class m \<in> set payload_field_map"
  by (cases m) (simp_all add: payload_field_map_def)

text \<open>What a receiver gets back from a frame: the payload, or its serialisation when the frame was
  encrypted.\<close>

definition delivered :: "lib \<Rightarrow> int \<Rightarrow> payload \<Rightarrow> bytes option \<Rightarrow> payload" where
  "delivered L command_id payload session_key =
    (if key_set session_key \<and> \<not> is_system_command command_id then PBytes (payload_bytes L payload)
     else payload)"

lemma pb_ok_env: "pb_ok L \<Longrightarrow> representable_env e \<Longrightarrow> parse_env L (ser_env L e) = Some e"
  by (simp add: pb_ok_def)

lemma frame_aad_payload [simp]: "frame_aad L (e\<lparr>ev_payload := p\<rparr>) = frame_aad L e"
  by (simp add: frame_aad_def)

lemma uint32_u16: "0 \<le> c \<Longrightarrow> c \<le> 65535 \<Longrightarrow> uint32_ok c"
  by (simp add: uint32_ok_def)

lemma uint32_2 [simp]: "uint32_ok 2"
  by (simp add: uint32_ok_def)

lemma frame_env_representable:
  assumes "0 \<le> c" "c \<le> 65535" "uint32_ok q" "\<forall>m. p = Some (OneMsg m) \<longrightarrow> representable_msg m"
  shows "representable_env \<lparr>ev_version = 2, ev_command_id = c, ev_sequence_id = q,
     ev_nonce = n, ev_payload = p\<rparr>"
  using assms by (simp add: representable_env_def uint32_u16)

lemma open_seal:
  assumes "aead_ok L" and "seal_payload L e p key = Inr e'" and "ev_payload e = None"
  shows "open_payload L e' key = Inr (delivered L (ev_command_id e) p key)
     \<and> (\<exists>q. e' = e\<lparr>ev_payload := q\<rparr> \<and> (\<forall>m. q = Some (OneMsg m) \<longrightarrow> p = PMsg m))"
proof (cases "key_set key \<and> \<not> is_system_command (ev_command_id e)")
  case True
  with assms show ?thesis
    by (auto simp: seal_payload_def open_payload_def delivered_def Let_def aead_ok_def split: if_splits)
next
  case False
  show ?thesis
  proof (cases p)
    case (PBytes b)
    with False assms show ?thesis
      by (auto simp: seal_payload_def open_payload_def delivered_def split: if_splits)
  next
    case (PMsg m)
    with False assms show ?thesis
      by (auto simp: seal_payload_def open_payload_def delivered_def split: if_splits)
  qed
qed

lemma frame_header_fields:
  "n \<noteq> [] \<Longrightarrow> frame_header c q (Some n) = \<lparr>ev_version = 2, ev_command_id = c,
     ev_sequence_id = q, ev_nonce = n, ev_payload = None\<rparr>"
  by (simp add: frame_header_def)

lemma build_parse_frame:
  assumes lib: "pb_ok L" "aead_ok L" and nonce: "length n = 12"
    and repr: "\<forall>m. payload = PMsg m \<longrightarrow> representable_msg m"
    and built: "build_frame L c q payload (Some n) key = Inr raw"
  shows "\<exists>p. parse_frame L raw key =
     Inr (\<lparr>ev_version = 2, ev_command_id = c, ev_sequence_id = q, ev_nonce = n, ev_payload = p\<rparr>,
          delivered L c payload key)"
proof -
  have n: "n \<noteq> []" using nonce by auto
  from built obtain e where c: "0 \<le> c" "c \<le> 65535" "uint32_ok q"
    and seal: "seal_payload L (frame_header c q (Some n)) payload key = Inr e"
    and raw: "raw = ser_env L e @ pack_u32 (crc32 (ser_env L e))"
    by (auto simp: build_frame_def Let_def split: if_splits sum.splits)
  note o = open_seal [OF lib(2) seal, unfolded frame_header_fields [OF n], simplified]
  then obtain p where e: "e = \<lparr>ev_version = 2, ev_command_id = c, ev_sequence_id = q,
      ev_nonce = n, ev_payload = p\<rparr>" and p: "\<forall>m. p = Some (OneMsg m) \<longrightarrow> payload = PMsg m"
    by auto
  then have "representable_env e" using c repr by (simp add: frame_env_representable)
  then have "parse_env L (ser_env L e) = Some e" by (rule pb_ok_env [OF lib(1)])
  then show ?thesis using o e by (simp add: raw parse_frame_trailer)
qed

lemma build_frame_shape:
  "build_frame L c q p n key = Inr raw \<Longrightarrow> \<exists>body. raw = body @ pack_u32 (crc32 body)"
  by (auto simp: build_frame_def Let_def split: if_splits sum.splits)

lemma xor_all_ones: "x XOR y = (- 1 :: u32) \<longleftrightarrow> y = NOT x"
  by (auto simp: bit_eq_iff bit_simps)

text \<open>The CRC register after a well-formed frame is one constant, whatever the frame.\<close>

lemma crc_residue:
  assumes "length t = 4"
  shows "crc32 body = le_word t \<longleftrightarrow>
    foldl crc_byte 0xFFFFFFFF (body @ t) = (crc_bit ^^ 32) (- 1)"
proof -
  let ?s = "foldl crc_byte 0xFFFFFFFF body"
  have "foldl crc_byte 0xFFFFFFFF (body @ t) = (crc_bit ^^ 32) (?s XOR le_word t)"
    using crc_byte_le_word [of t ?s] assms by simp
  moreover have "?s XOR le_word t = - 1 \<longleftrightarrow> le_word t = NOT ?s"
    by (rule xor_all_ones)
  ultimately show ?thesis by (auto simp: crc32_def crc_bits_inj)
qed

lemma parse_frame_crc:
  assumes "parse_frame L raw key \<noteq> Inl ValueError"
  shows "4 \<le> length raw \<and> foldl crc_byte 0xFFFFFFFF raw = (crc_bit ^^ 32) (- 1)"
proof -
  let ?b = "take (length raw - 4) raw" and ?t = "drop (length raw - 4) raw"
  have len: "4 \<le> length raw" and "crc32 ?b = le_word ?t"
    using assms by (auto simp: parse_frame_def Let_def split: if_splits)
  then show ?thesis using crc_residue [of ?t ?b] by simp
qed

lemma crc_burst_residue:
  assumes "length us = length vs" "length us \<le> 4"
    and "foldl crc_byte c (pre @ us @ post) = foldl crc_byte c (pre @ vs @ post)"
  shows "us = vs"
proof -
  let ?s = "foldl crc_byte c pre"
  have "foldl crc_byte ?s us = foldl crc_byte ?s vs"
    using assms(3) by (simp add: foldl_crc_inj_state)
  then have "le_word us = le_word vs"
    using assms(1,2) by (simp add: crc_byte_le_word crc_bits_inj) (metis xor.commute xor_right_cancel)
  then show ?thesis using le_word_inj assms(1,2) by blast
qed

section \<open>Properties\<close>

text \<open>C11 (roundtrip). A frame that was built, with a 12-byte nonce and a payload protobuf can
  represent, parses under the same key to the command, sequence and nonce it was built from, and to
  the payload: the message or bytes themselves, or the serialised bytes when they were encrypted.\<close>

theorem frame_roundtrip:
  assumes "pb_ok L" and "aead_ok L" and "length n = 12"
    and "\<forall>m. payload = PMsg m \<longrightarrow> representable_msg m"
    and "build_frame L c q payload (Some n) key = Inr raw"
  shows "\<exists>e. parse_frame L raw key = Inr (e, delivered L c payload key)
     \<and> ev_command_id e = c \<and> ev_sequence_id e = q \<and> ev_nonce e = n"
  using build_parse_frame [OF assms] by auto

theorem frame_roundtrip_witness:
  "\<exists>raw e. build_frame model_lib 112 7 (PBytes [1, 2]) (Some (replicate 12 3))
        (Some (replicate 32 9)) = Inr raw
     \<and> parse_frame model_lib raw (Some (replicate 32 9)) = Inr (e, PBytes [1, 2])
     \<and> ev_command_id e = 112"
proof -
  let ?k = "Some (replicate 32 9) :: bytes option"
  have enc: "key_set ?k \<and> \<not> is_system_command 112"
    by (simp add: key_set_def is_system_command_range)
  obtain raw where raw: "build_frame model_lib 112 7 (PBytes [1, 2]) (Some (replicate 12 3)) ?k = Inr raw"
    using enc by (simp add: build_frame_def seal_payload_def frame_header_def payload_bytes_def
        MAX_PAYLOAD_SIZE_def aead_args_ok_def uint32_ok_def Let_def)
  show ?thesis
    using frame_roundtrip [OF model_lib_ok(1,2) _ _ raw] raw enc
    by (auto simp: delivered_def payload_bytes_def)
qed

text \<open>C12 (safety). Corruption on the wire: when a frame is accepted and up to four consecutive bytes
  of it are altered, anywhere in body or checksum, the result is rejected, whatever the key and
  whatever the protobuf and AEAD code do.\<close>

theorem frame_burst_rejected:
  assumes "parse_frame L (pre @ us @ post) key = Inr f"
    and "length vs = length us" and "length us \<le> 4" and "vs \<noteq> us"
  shows "parse_frame L' (pre @ vs @ post) key' = Inl ValueError"
proof (rule ccontr)
  assume "parse_frame L' (pre @ vs @ post) key' \<noteq> Inl ValueError"
  note bad = parse_frame_crc [OF this]
  have good: "foldl crc_byte 0xFFFFFFFF (pre @ us @ post) = (crc_bit ^^ 32) (- 1)"
    using parse_frame_crc [of L "pre @ us @ post" key] assms(1) by simp
  with bad have "us = vs"
    using crc_burst_residue [of us vs "0xFFFFFFFF" pre post] assms(2,3) by simp
  with assms(4) show False by simp
qed

theorem frame_burst_rejected_witness:
  "\<exists>raw. parse_frame model_lib raw None = Inr
       (\<lparr>ev_version = 2, ev_command_id = 64, ev_sequence_id = 1, ev_nonce = replicate 12 3,
         ev_payload = Some (EncBytes [])\<rparr>, PBytes [])
     \<and> (\<forall>b. b \<noteq> hd raw \<longrightarrow> parse_frame model_lib (b # tl raw) None = Inl ValueError)"
proof -
  let ?e = "\<lparr>ev_version = 2, ev_command_id = 64, ev_sequence_id = 1, ev_nonce = replicate 12 3,
         ev_payload = Some (EncBytes [])\<rparr> :: envelope"
  let ?raw = "ser_env model_lib ?e @ pack_u32 (crc32 (ser_env model_lib ?e))"
  have "representable_env ?e" by (simp add: frame_env_representable uint32_ok_def)
  then have ok: "parse_frame model_lib ?raw None = Inr (?e, PBytes [])"
    by (simp add: parse_frame_trailer pb_ok_env [OF model_lib_ok(1)] open_payload_def key_set_def)
  have split: "?raw = [] @ [hd ?raw] @ tl ?raw"
    by (simp add: pack_u32_def)
  have "parse_frame model_lib (b # tl ?raw) None = Inl ValueError" if "b \<noteq> hd ?raw" for b
    using frame_burst_rejected [of model_lib "[]" "[hd ?raw]" "tl ?raw" None "(?e, PBytes [])" "[b]"]
      ok split that by simp
  with ok show ?thesis by blast
qed

text \<open>C5 (safety). No plaintext passes for a protected command: when a session key is set and the
  parsed command is outside the status and system ranges, the payload is exactly the decryption of the
  frame's own \<open>encrypted_payload\<close> (empty when the envelope carries another field of the union), which the
  AEAD authenticated under that key, the frame's nonce and the frame's own header as associated data;
  every accepted frame has the protocol's version and a matching checksum.\<close>

theorem parsed_frame_authenticated:
  assumes "parse_frame L raw key = Inr (e, p)"
  shows "ev_version e = PROTOCOL_VERSION \<and> 4 \<le> length raw
     \<and> (\<exists>body. raw = body @ pack_u32 (crc32 body) \<and> parse_env L body = Some e)
     \<and> (\<forall>k. key = Some k \<and> k \<noteq> [] \<and> \<not> is_system_command (ev_command_id e) \<longrightarrow>
          length k = 32 \<and> length (ev_nonce e) = 12
          \<and> (\<exists>pt. p = PBytes pt \<and> aead_dec L k (ev_nonce e)
               (case ev_payload e of Some (EncBytes b) \<Rightarrow> b | _ \<Rightarrow> []) (frame_aad L e) = Some pt))"
proof -
  let ?b = "take (length raw - 4) raw" and ?t = "drop (length raw - 4) raw"
  have a: "4 \<le> length raw" "crc32 ?b = le_word ?t" "parse_env L ?b = Some e"
      "ev_version e = 2" and o: "open_payload L e key = Inr p"
    using assms by (auto simp: parse_frame_def Let_def split: if_splits option.splits sum.splits)
  then have "raw = ?b @ pack_u32 (crc32 ?b)"
    using le_word_eq_pack [of ?t "crc32 ?b"] append_take_drop_id [of "length raw - 4" raw] by simp
  moreover have "length k = 32 \<and> length (ev_nonce e) = 12
       \<and> (\<exists>pt. p = PBytes pt \<and> aead_dec L k (ev_nonce e)
            (case ev_payload e of Some (EncBytes b) \<Rightarrow> b | _ \<Rightarrow> []) (frame_aad L e) = Some pt)"
    if "key = Some k" "k \<noteq> []" "\<not> is_system_command (ev_command_id e)" for k
    using o that
    by (auto simp: open_payload_def key_set_def aead_args_ok_def Let_def
        split: if_splits option.splits)
  ultimately show ?thesis using a by blast
qed

theorem parsed_frame_authenticated_witness:
  "\<exists>raw e. build_frame model_lib 112 7 (PBytes [1, 2]) (Some (replicate 12 3))
        (Some (replicate 32 9)) = Inr raw
     \<and> parse_frame model_lib raw (Some (replicate 32 9)) = Inr (e, PBytes [1, 2])
     \<and> length (ev_nonce e) = 12"
proof -
  let ?k = "Some (replicate 32 9) :: bytes option"
  have enc: "key_set ?k \<and> \<not> is_system_command 112"
    by (simp add: key_set_def is_system_command_range)
  obtain raw where raw: "build_frame model_lib 112 7 (PBytes [1, 2]) (Some (replicate 12 3)) ?k = Inr raw"
    using enc by (simp add: build_frame_def seal_payload_def frame_header_def payload_bytes_def
        MAX_PAYLOAD_SIZE_def aead_args_ok_def uint32_ok_def Let_def)
  obtain e where e: "parse_frame model_lib raw ?k = Inr (e, PBytes [1, 2])" "ev_command_id e = 112"
    using build_parse_frame [OF model_lib_ok(1,2) _ _ raw] enc
    by (auto simp: delivered_def payload_bytes_def)
  show ?thesis using parsed_frame_authenticated [OF e(1)] e raw enc by auto
qed

text \<open>Building fails exactly on a command beyond 16 bits, a sequence number beyond 32
  bits, raw bytes (or, when encrypting, a serialised message) over \<open>MAX_PAYLOAD_SIZE\<close>, or a key or
  nonce of the wrong length when encrypting; the error is always \<open>ValueError\<close>.\<close>

lemma build_frame_errors:
  "build_frame L c q payload nonce key \<in> {Inl ValueError} \<union> range Inr
   \<and> ((\<exists>raw. build_frame L c q payload nonce key = Inr raw) \<longleftrightarrow>
       0 \<le> c \<and> c < 2 ^ 16 \<and> 0 \<le> q \<and> q < 2 ^ 32
       \<and> (if key_set key \<and> \<not> is_system_command c
          then length (payload_bytes L payload) \<le> 64 \<and> length (the key) = 32
            \<and> length (ev_nonce (frame_header c q nonce)) = 12
          else (case payload of PBytes b \<Rightarrow> length b \<le> 64 | PMsg m \<Rightarrow> True)))"
proof -
  have [simp]: "ev_command_id (frame_header c q nonce) = c" by (simp add: frame_header_def)
  show ?thesis
    by (cases payload)
      (auto simp: build_frame_def seal_payload_def aead_args_ok_def uint32_ok_def MAX_PAYLOAD_SIZE_def
        Let_def split: if_splits sum.splits)
qed

end
