(* ===== verification/Topics.thy ===== *)
theory Topics
  imports Protocol
begin

text \<open>
  Cloud topics: \<open>mcubridge/protocol/topics.py\<close> and the \<open>TopicRoute\<close> class of
  \<open>mcubridge/protocol/structures.py\<close>, with the \<open>Topic\<close> and action enumerations that
  \<open>tools/protocol/generate.py\<close> renders from \<open>mcubridge.proto\<close>. The main law is that
  building a path and splitting it again gives the segments of its parts, whatever slashes
  they carry, so that \<open>parse_topic\<close> inverts \<open>topic_path\<close>.
\<close>

section \<open>Enumerations\<close>

datatype topic =
    ANALOG | CONSOLE | DATASTORE | DIGITAL | FILE | MAILBOX | SHELL | SPI | STATUS | SYSTEM

definition topics :: "topic list" where
  "topics = [ANALOG, CONSOLE, DATASTORE, DIGITAL, FILE, MAILBOX, SHELL, SPI, STATUS, SYSTEM]"

fun topic_name :: "topic \<Rightarrow> string" where
  "topic_name ANALOG = ''ANALOG''"
| "topic_name CONSOLE = ''CONSOLE''"
| "topic_name DATASTORE = ''DATASTORE''"
| "topic_name DIGITAL = ''DIGITAL''"
| "topic_name FILE = ''FILE''"
| "topic_name MAILBOX = ''MAILBOX''"
| "topic_name SHELL = ''SHELL''"
| "topic_name SPI = ''SPI''"
| "topic_name STATUS = ''STATUS''"
| "topic_name SYSTEM = ''SYSTEM''"

fun topic_value :: "topic \<Rightarrow> string" where
  "topic_value ANALOG = ''a''"
| "topic_value CONSOLE = ''console''"
| "topic_value DATASTORE = ''datastore''"
| "topic_value DIGITAL = ''d''"
| "topic_value FILE = ''file''"
| "topic_value MAILBOX = ''mailbox''"
| "topic_value SHELL = ''sh''"
| "topic_value SPI = ''spi''"
| "topic_value STATUS = ''status''"
| "topic_value SYSTEM = ''system''"

text \<open>\<open>Topic(value)\<close>; an unknown value raises \<open>ValueError\<close>.\<close>

definition Topic :: "string \<Rightarrow> topic result" where
  "Topic s = (case List.find (\<lambda>t. topic_value t = s) topics of
                Some t \<Rightarrow> Inr t | None \<Rightarrow> Inl ValueError)"

text \<open>The \<open>actions\<close> option of the schema: name, in file order.\<close>

definition action_names :: "string list" where
  "action_names =
    [''FILE_READ'', ''FILE_WRITE'', ''FILE_REMOVE'', ''SPI_BEGIN'', ''SPI_END'', ''SPI_TRANSFER'',
     ''SPI_CONFIG'', ''SHELL_RUN_ASYNC'', ''SHELL_POLL'', ''SHELL_KILL'', ''MAILBOX_WRITE'',
     ''DATASTORE_GET'', ''DATASTORE_PUT'', ''PIN_MODE'', ''PIN_READ'', ''CONSOLE_IN'',
     ''CONSOLE_OUT'', ''MAILBOX_READ'', ''MAILBOX_INCOMING'', ''MAILBOX_PROCESSED'',
     ''MAILBOX_ERRORS'', ''SYSTEM_FREE_MEMORY'', ''SYSTEM_VERSION'', ''SYSTEM_BOOTLOADER'',
     ''SYSTEM_GET'', ''SYSTEM_VALUE'', ''SYSTEM_METRICS'', ''SYSTEM_BRIDGE'', ''SYSTEM_HANDSHAKE'',
     ''SYSTEM_SUMMARY'', ''SYSTEM_STATE'', ''DIGITAL_WRITE'', ''DIGITAL_READ'', ''DIGITAL_MODE'',
     ''ANALOG_WRITE'', ''ANALOG_READ'']"

text \<open>\<open>act["name"].split("_", 1)\<close>.\<close>

definition split_once :: "char \<Rightarrow> string \<Rightarrow> (string \<times> string) option" where
  "split_once c s = (if c \<in> set s then
     Some (takeWhile (\<lambda>x. x \<noteq> c) s, tl (dropWhile (\<lambda>x. x \<noteq> c) s)) else None)"

text \<open>\<open>JinjaGenerator._group_actions\<close>: action classes by name prefix, in order of first occurrence.
  The template gives each member the lower-case form of its name as value.\<close>

definition group_actions :: "string list \<Rightarrow> (string \<times> string list) list" where
  "group_actions names =
    fold (\<lambda>n groups.
       case split_once (CHR ''_'') n of
         None \<Rightarrow> groups
       | Some (prefix, suffix) \<Rightarrow>
           (let cls = (if prefix = ''DATASTORE'' then ''DatastoreAction''
                       else capitalize (py_lower prefix) @ ''Action'')
            in case map_of groups cls of
                 None \<Rightarrow> groups @ [(cls, [py_lower suffix])]
               | Some vs \<Rightarrow> map (\<lambda>(k, v). if k = cls then (k, v @ [py_lower suffix]) else (k, v)) groups))
      names []"

definition action_classes :: "(string \<times> string list) list" where
  "action_classes = group_actions action_names"

lemma action_classes_eval:
  "action_classes =
    [(''FileAction'', [''read'', ''write'', ''remove'']),
     (''SpiAction'', [''begin'', ''end'', ''transfer'', ''config'']),
     (''ShellAction'', [''run_async'', ''poll'', ''kill'']),
     (''MailboxAction'', [''write'', ''read'', ''incoming'', ''processed'', ''errors'']),
     (''DatastoreAction'', [''get'', ''put'']),
     (''PinAction'', [''mode'', ''read'']),
     (''ConsoleAction'', [''in'', ''out'']),
     (''SystemAction'', [''free_memory'', ''version'', ''bootloader'', ''get'', ''value'', ''metrics'',
        ''bridge'', ''handshake'', ''summary'', ''state'']),
     (''DigitalAction'', [''write'', ''read'', ''mode'']),
     (''AnalogAction'', [''write'', ''read''])]"
  by (simp add: action_classes_def group_actions_def action_names_def split_once_def py_lower_def
      to_lower_def to_upper_def capitalize_def Let_def char_of_eq_iff)

section \<open>Building paths\<close>

text \<open>\<open>posixpath.join(a, *p)\<close>.\<close>

fun posix_join_from :: "string \<Rightarrow> string list \<Rightarrow> string" where
  "posix_join_from path [] = path"
| "posix_join_from path (b # bs) =
    (if py_startswith [slash] b then posix_join_from b bs
     else if path = [] \<or> py_endswith [slash] path then posix_join_from (path @ b) bs
     else posix_join_from (path @ [slash] @ b) bs)"

definition topic_path :: "string \<Rightarrow> string \<Rightarrow> string list \<Rightarrow> string" where
  "topic_path prefix topic segments =
    (let parts = filter (\<lambda>p. p \<noteq> []) (map strip_slash (prefix # topic # segments))
     in case parts of [] \<Rightarrow> [] | p # ps \<Rightarrow> posix_join_from p ps)"

text \<open>\<open>COMMAND_TO_TOPIC\<close> and \<open>MESSAGE_TO_TOPIC\<close>, from the \<open>cloud_topic\<close>, \<open>msg_cloud_topic\<close> and
  \<open>enum_cloud_topic\<close> options. A key is a command number, a message class, or the name of an
  enumeration.\<close>

datatype topic_key = ByCommand int | ByName string

definition command_to_topic :: "(int \<times> string) list" where
  "command_to_topic =
    [(65, ''system/version/value''), (67, ''system/free_memory/value''),
     (73, ''system/capabilities/value'')]"

definition message_to_topic :: "(string \<times> string) list" where
  "message_to_topic =
    [(''VersionResponse'', ''system/version/value''),
     (''FreeMemoryResponse'', ''system/free_memory/value''),
     (''ConsoleWrite'', ''console/out''), (''MailboxPush'', ''mailbox/incoming''),
     (''MailboxProcessed'', ''mailbox/processed''),
     (''SpiTransferResponse'', ''spi/transfer/resp''),
     (''HandshakeSnapshot'', ''system/bridge/handshake/value''),
     (''BridgeSnapshot'', ''system/bridge/summary/value''),
     (''StatusReport'', ''system/status''), (''Status'', ''system/status'')]"

definition get_topic_for_message :: "string \<Rightarrow> topic_key \<Rightarrow> string option" where
  "get_topic_for_message prefix message =
    (case (case message of ByCommand c \<Rightarrow> map_of command_to_topic c
                         | ByName n \<Rightarrow> map_of message_to_topic n) of
       None \<Rightarrow> None
     | Some rel \<Rightarrow> Some (let segs = py_split slash rel in topic_path prefix (hd segs) (tl segs)))"

section \<open>Parsing\<close>

record topic_route =
  tr_raw :: string
  tr_prefix :: string
  tr_topic :: topic
  tr_segments :: "string list"

definition route_identifier :: "topic_route \<Rightarrow> string" where
  "route_identifier r = (case tr_segments r of [] \<Rightarrow> [] | s # _ \<Rightarrow> s)"

text \<open>\<open>TopicRoute.action\<close>: the enumeration members are strings equal to their value, so the lookup
  returns its argument.\<close>

definition route_action :: "topic_route \<Rightarrow> string option" where
  "route_action r =
    (if tr_segments r = [] \<or> ''response'' \<in> set (tr_segments r) \<or> ''value'' \<in> set (tr_segments r)
     then None else Some (hd (tr_segments r)))"

definition remainder :: "topic_route \<Rightarrow> string list" where
  "remainder r = (if 1 < length (tr_segments r) then tl (tr_segments r) else [])"

definition parse_topic :: "string \<Rightarrow> string \<Rightarrow> topic_route option" where
  "parse_topic prefix tname =
    (if tname = [] \<or> prefix = [] then None
     else
       (let prefix_segs = nonempty_segs prefix; topic_segs = nonempty_segs tname;
            k = length prefix_segs
        in if length topic_segs \<le> k \<or> take k topic_segs \<noteq> prefix_segs then None
           else (case Topic (topic_segs ! k) of
                   Inl _ \<Rightarrow> None
                 | Inr t \<Rightarrow> Some \<lparr>tr_raw = tname, tr_prefix = py_join [slash] prefix_segs,
                               tr_topic = t, tr_segments = drop (Suc k) topic_segs\<rparr>)))"

section \<open>Lemmas\<close>

lemma Topic_value [simp]: "Topic (topic_value t) = Inr t"
  by (cases t) (simp_all add: Topic_def topics_def)

lemma Topic_Inr: "Topic s = Inr t \<Longrightarrow> topic_value t = s"
  by (auto simp: Topic_def find_Some_iff split: option.splits)

lemma topic_value_segs [simp]: "nonempty_segs (topic_value t) = [topic_value t]"
  by (cases t) (simp_all add: nonempty_segs_def slash_def)

lemma nonempty_segs_Nil [simp]: "nonempty_segs [] = []"
  by (simp add: nonempty_segs_def)

lemma nonempty_segs_slash [simp]: "nonempty_segs (slash # s) = nonempty_segs s"
  by (simp add: nonempty_segs_def)

lemma py_split_append:
  "py_split c (s @ c # t) = py_split c s @ py_split c t"
  by (induction s) (auto split: list.splits)

lemma nonempty_segs_append [simp]:
  "nonempty_segs (s @ slash # t) = nonempty_segs s @ nonempty_segs t"
  by (simp add: nonempty_segs_def py_split_append)

lemma nonempty_segs_dropWhile:
  "nonempty_segs (dropWhile (\<lambda>c. c = slash) s) = nonempty_segs s"
  by (induction s) auto

lemma nonempty_segs_snoc [simp]: "nonempty_segs (s @ [slash]) = nonempty_segs s"
  using nonempty_segs_append [of s "[]"] by simp

lemma nonempty_segs_rstrip:
  "nonempty_segs (rev (dropWhile (\<lambda>c. c = slash) (rev s))) = nonempty_segs s"
  by (induction s rule: rev_induct) auto

lemma nonempty_segs_strip [simp]: "nonempty_segs (strip_slash s) = nonempty_segs s"
  by (simp add: strip_slash_def strip_chars_def nonempty_segs_rstrip nonempty_segs_dropWhile)

lemma hd_dropWhile_slash: "dropWhile (\<lambda>c. c = slash) s \<noteq> [] \<Longrightarrow> hd (dropWhile (\<lambda>c. c = slash) s) \<noteq> slash"
  by (rule hd_dropWhile)

lemma strip_slash_ends:
  assumes "strip_slash s \<noteq> []"
  shows "hd (strip_slash s) \<noteq> slash \<and> last (strip_slash s) \<noteq> slash"
proof -
  let ?d = "dropWhile (\<lambda>c. c = slash)"
  have "last (strip_slash s) = hd (?d (rev (?d s)))"
    using assms by (simp add: strip_slash_def strip_chars_def last_rev)
  then have "last (strip_slash s) \<noteq> slash"
    using assms hd_dropWhile_slash by (simp add: strip_slash_def strip_chars_def)
  moreover obtain ys where "rev (?d s) = ys @ ?d (rev (?d s))"
    by (metis takeWhile_dropWhile_id)
  then have "?d s = strip_slash s @ rev ys"
    by (metis rev_append rev_rev_ident strip_slash_def strip_chars_def)
  then have "hd (strip_slash s) = hd (?d s)" "?d s \<noteq> []"
    using assms hd_append2 by (metis, metis append_is_Nil_conv)
  ultimately show ?thesis using hd_dropWhile_slash by simp
qed

text \<open>Stripped, non-empty parts are joined by exactly one slash.\<close>

lemma posix_join_segs:
  assumes "path \<noteq> []" "last path \<noteq> slash"
    and "\<forall>p\<in>set ps. p \<noteq> [] \<and> hd p \<noteq> slash \<and> last p \<noteq> slash"
  shows "nonempty_segs (posix_join_from path ps) = nonempty_segs path @ concat (map nonempty_segs ps)"
  using assms
proof (induction ps arbitrary: path)
  case (Cons b bs)
  have b: "b \<noteq> []" "hd b \<noteq> slash" "last b \<noteq> slash" using Cons.prems by auto
  then have 1: "\<not> py_startswith [slash] b" by (cases b) (auto simp: py_startswith_def)
  have 2: "\<not> py_endswith [slash] path"
    using Cons.prems(1,2) by (cases path rule: rev_cases) (auto simp: py_endswith_def)
  have "nonempty_segs (posix_join_from (path @ [slash] @ b) bs)
      = nonempty_segs (path @ [slash] @ b) @ concat (map nonempty_segs bs)"
    by (rule Cons.IH) (use b Cons.prems in auto)
  then show ?case using 1 2 Cons.prems(1) by simp
qed simp

lemma concat_segs_filter:
  "concat (map nonempty_segs (filter (\<lambda>p. p \<noteq> []) xs)) = concat (map nonempty_segs xs)"
  by (induction xs) auto

lemma topic_path_segs:
  "nonempty_segs (topic_path prefix topic segments)
    = nonempty_segs prefix @ nonempty_segs topic @ concat (map nonempty_segs segments)"
proof -
  let ?parts = "filter (\<lambda>p. p \<noteq> []) (map strip_slash (prefix # topic # segments))"
  have parts: "\<forall>p\<in>set ?parts. p \<noteq> [] \<and> hd p \<noteq> slash \<and> last p \<noteq> slash"
    using strip_slash_ends by auto
  have "nonempty_segs (topic_path prefix topic segments) = concat (map nonempty_segs ?parts)"
  proof (cases ?parts)
    case (Cons p ps)
    have "\<forall>x\<in>set (p # ps). x \<noteq> [] \<and> hd x \<noteq> slash \<and> last x \<noteq> slash"
      using parts unfolding Cons .
    then have "nonempty_segs (posix_join_from p ps) = nonempty_segs p @ concat (map nonempty_segs ps)"
      by (intro posix_join_segs) simp_all
    moreover have "topic_path prefix topic segments = posix_join_from p ps"
      unfolding topic_path_def Let_def Cons by simp
    ultimately show ?thesis unfolding Cons by simp
  next
    case Nil
    then have "topic_path prefix topic segments = []"
      unfolding topic_path_def Let_def Nil by simp
    then show ?thesis unfolding Nil by simp
  qed
  also have "\<dots> = concat (map nonempty_segs (map strip_slash (prefix # topic # segments)))"
    by (rule concat_segs_filter)
  finally show ?thesis by (simp add: comp_def)
qed

text \<open>Splitting inverts building.\<close>

lemma parse_topic_path:
  assumes "nonempty_segs prefix \<noteq> []"
  shows "parse_topic prefix (topic_path prefix (topic_value t) segments) =
    Some \<lparr>tr_raw = topic_path prefix (topic_value t) segments,
          tr_prefix = py_join [slash] (nonempty_segs prefix), tr_topic = t,
          tr_segments = concat (map nonempty_segs segments)\<rparr>"
proof -
  have "prefix \<noteq> []" using assms by auto
  moreover have "topic_path prefix (topic_value t) segments \<noteq> []"
    using topic_path_segs [of prefix "topic_value t" segments] by auto
  ultimately show ?thesis by (simp add: parse_topic_def topic_path_segs Let_def nth_append)
qed

section \<open>Properties\<close>

text \<open>C29 (roundtrip). A path built from a prefix with at least one segment, a service topic and any
  segments parses back to that topic, to the prefix's segments, and to the segments of its parts: a
  part is split at inner slashes, and empty parts and redundant slashes vanish.\<close>

theorem topic_roundtrip:
  assumes "nonempty_segs prefix \<noteq> []"
  shows "parse_topic prefix (topic_path prefix (topic_value t) segments) =
    Some \<lparr>tr_raw = topic_path prefix (topic_value t) segments,
          tr_prefix = py_join [slash] (nonempty_segs prefix), tr_topic = t,
          tr_segments = concat (map nonempty_segs segments)\<rparr>"
  using assms by (rule parse_topic_path)

theorem topic_roundtrip_witness:
  "parse_topic ''br'' (topic_path ''br'' (topic_value FILE) [''read'', ''a/b.txt'']) =
    Some \<lparr>tr_raw = ''br/file/read/a/b.txt'', tr_prefix = ''br'', tr_topic = FILE,
          tr_segments = [''read'', ''a'', ''b.txt'']\<rparr>"
proof -
  have segs: "nonempty_segs ''br'' = [''br'']" "nonempty_segs ''read'' = [''read'']"
      "nonempty_segs ''a/b.txt'' = [''a'', ''b.txt'']"
    by (simp_all add: nonempty_segs_def slash_def)
  have "topic_path ''br'' (topic_value FILE) [''read'', ''a/b.txt''] = ''br/file/read/a/b.txt''"
    by (simp add: topic_path_def strip_slash_def strip_chars_def py_startswith_def py_endswith_def slash_def)
  then show ?thesis using topic_roundtrip [of "''br''" FILE "[''read'', ''a/b.txt'']"] segs by simp
qed

text \<open>\<open>parse_topic\<close> accepts a name exactly when its non-empty segments are the
  prefix's, then a service topic's value, then the route's segments; every segment of a route is
  non-empty and free of slashes.\<close>

theorem parse_topic_sound:
  assumes "parse_topic prefix name = Some r"
  shows "nonempty_segs name = nonempty_segs prefix @ topic_value (tr_topic r) # tr_segments r
     \<and> tr_raw r = name \<and> (\<forall>s\<in>set (tr_segments r). s \<noteq> [] \<and> slash \<notin> set s)"
proof -
  let ?p = "nonempty_segs prefix" and ?n = "nonempty_segs name"
  have k: "length ?p < length ?n" "take (length ?p) ?n = ?p"
      "Topic (?n ! length ?p) = Inr (tr_topic r)" "tr_segments r = drop (Suc (length ?p)) ?n"
      "tr_raw r = name"
    using assms by (auto simp: parse_topic_def Let_def split: if_splits sum.splits)
  then have "?n = ?p @ topic_value (tr_topic r) # tr_segments r"
    using Topic_Inr [OF k(3)] id_take_nth_drop [OF k(1)] by simp
  moreover have "\<forall>s\<in>set (tr_segments r). s \<noteq> [] \<and> slash \<notin> set s"
    using nonempty_segs_clean [of _ name] in_set_dropD k(4) by metis
  ultimately show ?thesis using k(5) by simp
qed

theorem parse_topic_sound_witness:
  "\<exists>r. parse_topic ''br'' ''/br//d/13/mode'' = Some r \<and> tr_segments r = [''13'', ''mode'']
     \<and> nonempty_segs ''/br//d/13/mode'' = nonempty_segs ''br'' @ topic_value (tr_topic r) # tr_segments r"
proof -
  have p: "parse_topic ''br'' ''/br//d/13/mode'' = Some \<lparr>tr_raw = ''/br//d/13/mode'', tr_prefix = ''br'',
      tr_topic = DIGITAL, tr_segments = [''13'', ''mode'']\<rparr>"
    by (simp add: parse_topic_def nonempty_segs_def slash_def Topic_def topics_def)
  show ?thesis using parse_topic_sound [OF p] p by auto
qed

end
