(* ===== verification/Policy.thy ===== *)
theory Policy
  imports Topics "HOL-Library.AList" "HOL-Library.List_Lexorder" "HOL-Library.Char_ord"
begin

text \<open>
  The security policy helpers of \<open>mcubridge/protocol/structures.py\<close>: chunking, the list of
  allowed shell commands (normalised tokens, matched with \<open>fnmatch\<close>), and the authorisation of
  topic actions by the flags of \<open>TopicAuthorization\<close>.
\<close>

section \<open>Chunks\<close>

text \<open>\<open>iter_chunks\<close>; \<open>range\<close> with step zero raises \<open>ValueError\<close>, and so does iteration here by
  being undefined: every call passes \<open>MAX_PAYLOAD_SIZE\<close>.\<close>

function iter_chunks :: "bytes \<Rightarrow> nat \<Rightarrow> bytes list" where
  "iter_chunks data chunk_size =
    (if data = [] \<or> chunk_size = 0 then []
     else take chunk_size data # iter_chunks (drop chunk_size data) chunk_size)"
  by pat_completeness auto
termination
  by (relation "measure (\<lambda>(d, _). length d)") auto

declare iter_chunks.simps [simp del]

section \<open>\<open>fnmatch\<close>\<close>

text \<open>\<open>fnmatch.fnmatch\<close> on a POSIX system: \<open>*\<close>, \<open>?\<close>, \<open>[seq]\<close> and \<open>[!seq]\<close>, as
  \<open>fnmatch.translate\<close> turns them into a regular expression that must match the whole name.\<close>

datatype fn_tok = Single char | Range char char

datatype fn_item = FnStar | FnAny | FnLit char | FnClass bool "fn_tok list"

fun fn_tokens :: "string \<Rightarrow> fn_tok list" where
  "fn_tokens (a # b # c # r) =
    (if b = CHR ''-'' then Range a c # fn_tokens r else Single a # fn_tokens (b # c # r))"
| "fn_tokens s = map Single s"

fun fn_tok_nonempty :: "fn_tok \<Rightarrow> bool" where
  "fn_tok_nonempty (Single _) = True"
| "fn_tok_nonempty (Range a b) = (a \<le> b)"

text \<open>Empty ranges are removed before a leading \<open>!\<close> is looked for.\<close>

definition fn_class :: "string \<Rightarrow> fn_item" where
  "fn_class stuff =
    (let neg = (stuff \<noteq> [] \<and> hd stuff = CHR ''!'');
         toks = filter fn_tok_nonempty (fn_tokens (if neg then tl stuff else stuff))
     in if neg then FnClass True toks
        else (case toks of
                Single c # r \<Rightarrow> if c = CHR ''!'' then FnClass True r else FnClass False toks
              | Range c d # r \<Rightarrow> if c = CHR ''!'' then FnClass True (Single (CHR ''-'') # Single d # r)
                                 else FnClass False toks
              | [] \<Rightarrow> FnClass False []))"

text \<open>The text between the brackets and what follows, when the bracket is closed; a bracket right
  after the opening (or after \<open>!\<close>) is a member.\<close>

definition fn_bracket :: "string \<Rightarrow> (string \<times> string) option" where
  "fn_bracket cs =
    (let n0 = (if cs \<noteq> [] \<and> hd cs = CHR ''!'' then 1 else 0);
         n1 = (if drop n0 cs \<noteq> [] \<and> hd (drop n0 cs) = CHR '']'' then Suc n0 else n0);
         t = drop n1 cs
     in if CHR '']'' \<in> set t
        then Some (take n1 cs @ takeWhile (\<lambda>c. c \<noteq> CHR '']'') t, tl (dropWhile (\<lambda>c. c \<noteq> CHR '']'') t))
        else None)"

lemma fn_bracket_shorter: "fn_bracket cs = Some (stuff, rest) \<Longrightarrow> length rest < Suc (length cs)"
proof -
  assume a: "fn_bracket cs = Some (stuff, rest)"
  then obtain n1 where "rest = tl (dropWhile (\<lambda>c. c \<noteq> CHR '']'') (drop n1 cs))"
    unfolding fn_bracket_def Let_def by (metis option.distinct(1) option.inject prod.inject)
  then have "length rest \<le> length (drop n1 cs)"
    using length_dropWhile_le [of "\<lambda>c. c \<noteq> CHR '']''" "drop n1 cs"] by simp
  then show ?thesis by simp
qed

function fn_parse :: "string \<Rightarrow> fn_item list" where
  "fn_parse [] = []"
| "fn_parse (c # cs) =
    (if c = CHR ''*'' then FnStar # fn_parse cs
     else if c = CHR ''?'' then FnAny # fn_parse cs
     else if c = CHR ''['' then
       (case fn_bracket cs of
          None \<Rightarrow> FnLit c # fn_parse cs
        | Some (stuff, rest) \<Rightarrow> fn_class stuff # fn_parse rest)
     else FnLit c # fn_parse cs)"
  by pat_completeness auto
termination
  by (relation "measure length") (auto dest: fn_bracket_shorter)

fun fn_tok_has :: "char \<Rightarrow> fn_tok \<Rightarrow> bool" where
  "fn_tok_has x (Single c) = (x = c)"
| "fn_tok_has x (Range a b) = (a \<le> x \<and> x \<le> b)"

fun fn_item_has :: "fn_item \<Rightarrow> char \<Rightarrow> bool" where
  "fn_item_has (FnLit c) x = (x = c)"
| "fn_item_has FnAny x = True"
| "fn_item_has (FnClass neg ts) x = (list_ex (fn_tok_has x) ts \<noteq> neg)"
| "fn_item_has FnStar x = True"

fun fn_run :: "fn_item list \<Rightarrow> string \<Rightarrow> bool" where
  "fn_run [] s = (s = [])"
| "fn_run (FnStar # ps) [] = fn_run ps []"
| "fn_run (FnStar # ps) (x # xs) = (fn_run ps (x # xs) \<or> fn_run (FnStar # ps) xs)"
| "fn_run (p # ps) [] = False"
| "fn_run (p # ps) (x # xs) = (fn_item_has p x \<and> fn_run ps xs)"

definition fnmatch :: "string \<Rightarrow> string \<Rightarrow> bool" where
  "fnmatch name pat = fn_run (fn_parse pat) name"

section \<open>Allowed commands\<close>

definition ALLOWED_COMMAND_WILDCARD :: string where
  "ALLOWED_COMMAND_WILDCARD = ''*''"

definition is_command_allowed :: "string list \<Rightarrow> string \<Rightarrow> bool" where
  "is_command_allowed entries command =
    (let pieces = py_split_ws (py_strip command)
     in if pieces = [] then False
        else ALLOWED_COMMAND_WILDCARD \<in> set entries
          \<or> list_ex (\<lambda>p. fnmatch (py_lower (hd pieces)) p) entries)"

definition token_sep :: "char \<Rightarrow> bool" where
  "token_sep c \<longleftrightarrow> c = CHR '','' \<or> is_space c"

definition policy_tokens :: "string list \<Rightarrow> string list" where
  "policy_tokens entries =
    concat (map (\<lambda>c. split_runs token_sep [] (py_lower (py_strip c))) (filter (\<lambda>c. c \<noteq> []) entries))"

definition create_allowed_policy :: "string list \<Rightarrow> string list" where
  "create_allowed_policy entries =
    (let items = remdups (policy_tokens entries)
     in if ''*'' \<in> set items then [''*''] else sort items)"

section \<open>Topic authorisation\<close>

type_synonym topic_authorization = "string \<Rightarrow> bool"

definition auth_fields :: "string list" where
  "auth_fields =
    [''file_read'', ''file_write'', ''file_remove'', ''datastore_get'', ''datastore_put'',
     ''mailbox_read'', ''mailbox_write'', ''shell_run_async'', ''shell_poll'', ''shell_kill'',
     ''console_input'', ''digital_write'', ''digital_read'', ''digital_mode'', ''analog_write'',
     ''analog_read'', ''system_version'', ''system_free_memory'', ''system_bootloader'', ''spi_begin'',
     ''spi_end'', ''spi_transfer'', ''spi_config'']"

definition action_class_name :: "topic \<Rightarrow> string" where
  "action_class_name t = (if t = SPI then ''SpiAction'' else capitalize (topic_name t) @ ''Action'')"

text \<open>One iteration of the loop of \<open>_get_topic_auth_mapping_v3\<close>: the entry it adds, if any.\<close>

definition auth_entry :: "string \<Rightarrow> topic \<Rightarrow> ((string \<times> string) \<times> string) option" where
  "auth_entry f t =
    (let prefix = py_lower (topic_name t) in
     if \<not> py_startswith (prefix @ ''_'') f then None
     else
       (let suffix = drop (length prefix + 1) f in
        case map_of action_classes (action_class_name t) of
          None \<Rightarrow> None
        | Some acts \<Rightarrow>
            (case List.find (\<lambda>a. a = suffix \<or> (suffix = ''input'' \<and> a = ''in'')) acts of
               None \<Rightarrow> None
             | Some a \<Rightarrow> Some ((topic_value t, a), f))))"

text \<open>\<open>itertools.product(fields, Topic)\<close>: for each field, the topics in order; later entries replace
  earlier ones with the same key.\<close>

definition auth_row :: "string \<Rightarrow> ((string \<times> string) \<times> string) list" where
  "auth_row f = List.map_filter (auth_entry f) topics"

definition topic_auth_mapping :: "((string \<times> string) \<times> string) list" where
  "topic_auth_mapping =
    fold (\<lambda>(k, v) m. AList.update k v m) (concat (map auth_row auth_fields)) []"

definition allows_topic :: "topic_authorization \<Rightarrow> string \<Rightarrow> string \<Rightarrow> bool" where
  "allows_topic auth topic action =
    (case map_of topic_auth_mapping (py_lower topic, py_lower action) of
       Some field_name \<Rightarrow> auth field_name
     | None \<Rightarrow> False)"

section \<open>Lemmas\<close>

lemma iter_chunks_concat: "0 < k \<Longrightarrow> concat (iter_chunks d k) = d"
  by (induction d k rule: iter_chunks.induct) (subst iter_chunks.simps, auto)

lemma iter_chunks_length: "c \<in> set (iter_chunks d k) \<Longrightarrow> 0 < length c \<and> length c \<le> k"
proof (induction d k rule: iter_chunks.induct)
  case (1 d k)
  then show ?case by (subst (asm) (2) iter_chunks.simps) (auto split: if_splits)
qed

lemma fn_parse_literal:
  "\<forall>c\<in>set p. c \<notin> {CHR ''*'', CHR ''?'', CHR ''[''} \<Longrightarrow> fn_parse p = map FnLit p"
  by (induction p) auto

lemma fn_run_literal: "fn_run (map FnLit p) s \<longleftrightarrow> s = p"
proof (induction p arbitrary: s)
  case (Cons c p)
  then show ?case by (cases s) auto
qed simp

lemma fnmatch_literal:
  "\<forall>c\<in>set p. c \<notin> {CHR ''*'', CHR ''?'', CHR ''[''} \<Longrightarrow> fnmatch s p \<longleftrightarrow> s = p"
  by (simp add: fnmatch_def fn_parse_literal fn_run_literal)

lemma to_lower_idem [simp]: "to_lower (to_lower c) = to_lower c"
proof (cases "(of_char c :: nat) \<in> {65..90}")
  case True
  then have "of_char (to_lower c) = (of_char c :: nat) + 32"
    by (simp add: to_lower_def take_bit_eq_mod)
  with True show ?thesis by (auto simp: to_lower_def)
next
  case False
  then have "to_lower c = c" by (simp only: to_lower_def if_False)
  then show ?thesis by simp
qed

lemma py_lower_idem [simp]: "py_lower (py_lower s) = py_lower s"
  by (simp add: py_lower_def)

definition clean_token :: "string \<Rightarrow> bool" where
  "clean_token t \<longleftrightarrow> t \<noteq> [] \<and> (\<forall>c\<in>set t. \<not> token_sep c \<and> to_lower c = c)"

lemma split_runs_subset: "t \<in> set (split_runs p acc s) \<Longrightarrow> set t \<subseteq> set acc \<union> set s"
  by (induction p acc s rule: split_runs.induct) (auto split: if_splits)

lemma policy_tokens_clean: "t \<in> set (policy_tokens es) \<Longrightarrow> clean_token t"
  using split_runs_clean split_runs_subset
  by (fastforce simp: policy_tokens_def clean_token_def py_lower_def)

lemma split_runs_none:
  "\<forall>c\<in>set s. \<not> p c \<Longrightarrow> split_runs p acc s = (if acc = [] \<and> s = [] then [] else [rev acc @ s])"
  by (induction p acc s rule: split_runs.induct) auto

lemma dropWhile_none: "\<forall>c\<in>set s. \<not> p c \<Longrightarrow> dropWhile p s = s"
  by (cases s) auto

lemma strip_chars_none: "\<forall>c\<in>set s. \<not> p c \<Longrightarrow> strip_chars p s = s"
  by (simp add: strip_chars_def dropWhile_none)

lemma clean_token_fixed:
  assumes "clean_token t"
  shows "py_strip t = t" "py_lower t = t" "split_runs token_sep [] t = [t]"
proof -
  have "\<forall>c\<in>set t. \<not> is_space c" using assms by (simp add: clean_token_def token_sep_def)
  then show "py_strip t = t" by (simp add: py_strip_def strip_chars_none)
  show "py_lower t = t" using assms by (simp add: clean_token_def py_lower_def map_idI)
  show "split_runs token_sep [] t = [t]"
    using assms by (simp add: clean_token_def split_runs_none)
qed

lemma policy_tokens_fixed: "\<forall>t\<in>set ts. clean_token t \<Longrightarrow> policy_tokens ts = ts"
proof (induction ts)
  case (Cons t ts)
  then show ?case
    using clean_token_fixed [of t] by (simp add: policy_tokens_def) (simp add: clean_token_def)
qed (simp add: policy_tokens_def)

lemma create_allowed_policy_set:
  "set (create_allowed_policy es) =
    (if ''*'' \<in> set (policy_tokens es) then {''*''} else set (policy_tokens es))"
  by (simp add: create_allowed_policy_def Let_def)

lemma create_allowed_policy_clean: "t \<in> set (create_allowed_policy es) \<Longrightarrow> clean_token t"
  using policy_tokens_clean [of t es] policy_tokens_clean [of "''*''" es]
  by (auto simp: create_allowed_policy_set split: if_splits)

lemma topic_lower:
  "py_lower (topic_name ANALOG) = ''analog''"
  "py_lower (topic_name CONSOLE) = ''console''"
  "py_lower (topic_name DATASTORE) = ''datastore''"
  "py_lower (topic_name DIGITAL) = ''digital''"
  "py_lower (topic_name FILE) = ''file''"
  "py_lower (topic_name MAILBOX) = ''mailbox''"
  "py_lower (topic_name SHELL) = ''shell''"
  "py_lower (topic_name SPI) = ''spi''"
  "py_lower (topic_name STATUS) = ''status''"
  "py_lower (topic_name SYSTEM) = ''system''"
  by (simp_all add: py_lower_def to_lower_def char_of_eq_iff)

lemma topic_actions:
  "map_of action_classes (action_class_name ANALOG) = Some [''write'', ''read'']"
  "map_of action_classes (action_class_name CONSOLE) = Some [''in'', ''out'']"
  "map_of action_classes (action_class_name DATASTORE) = Some [''get'', ''put'']"
  "map_of action_classes (action_class_name DIGITAL) = Some [''write'', ''read'', ''mode'']"
  "map_of action_classes (action_class_name FILE) = Some [''read'', ''write'', ''remove'']"
  "map_of action_classes (action_class_name MAILBOX) = Some [''write'', ''read'', ''incoming'', ''processed'', ''errors'']"
  "map_of action_classes (action_class_name SHELL) = Some [''run_async'', ''poll'', ''kill'']"
  "map_of action_classes (action_class_name SPI) = Some [''begin'', ''end'', ''transfer'', ''config'']"
  "map_of action_classes (action_class_name STATUS) = None"
  "map_of action_classes (action_class_name SYSTEM) = Some [''free_memory'', ''version'', ''bootloader'', ''get'', ''value'', ''metrics'', ''bridge'', ''handshake'', ''summary'', ''state'']"
  by (simp_all add: action_classes_eval action_class_name_def capitalize_def to_lower_def to_upper_def
      char_of_eq_iff)

lemma auth_entry_cases:
  "py_lower (topic_name t) = p \<Longrightarrow> take (Suc (length p)) f \<noteq> p @ ''_'' \<Longrightarrow> auth_entry f t = None"
  "py_lower (topic_name t) = p \<Longrightarrow> take (Suc (length p)) f = p @ ''_'' \<Longrightarrow>
    map_of action_classes (action_class_name t) = Some acts \<Longrightarrow>
    List.find (\<lambda>a. a = drop (Suc (length p)) f \<or> (drop (Suc (length p)) f = ''input'' \<and> a = ''in'')) acts
      = Some a \<Longrightarrow>
    auth_entry f t = Some ((topic_value t, a), f)"
  by (simp_all add: auth_entry_def py_startswith_def Let_def)

lemmas auth_entry_skip = topic_lower [THEN auth_entry_cases(1)]

lemma auth_rows:
  "auth_row ''file_read'' = [((''file'', ''read''), ''file_read'')]"
  "auth_row ''file_write'' = [((''file'', ''write''), ''file_write'')]"
  "auth_row ''file_remove'' = [((''file'', ''remove''), ''file_remove'')]"
  "auth_row ''datastore_get'' = [((''datastore'', ''get''), ''datastore_get'')]"
  "auth_row ''datastore_put'' = [((''datastore'', ''put''), ''datastore_put'')]"
  "auth_row ''mailbox_read'' = [((''mailbox'', ''read''), ''mailbox_read'')]"
  "auth_row ''mailbox_write'' = [((''mailbox'', ''write''), ''mailbox_write'')]"
  "auth_row ''shell_run_async'' = [((''sh'', ''run_async''), ''shell_run_async'')]"
  "auth_row ''shell_poll'' = [((''sh'', ''poll''), ''shell_poll'')]"
  "auth_row ''shell_kill'' = [((''sh'', ''kill''), ''shell_kill'')]"
  "auth_row ''console_input'' = [((''console'', ''in''), ''console_input'')]"
  "auth_row ''digital_write'' = [((''d'', ''write''), ''digital_write'')]"
  "auth_row ''digital_read'' = [((''d'', ''read''), ''digital_read'')]"
  "auth_row ''digital_mode'' = [((''d'', ''mode''), ''digital_mode'')]"
  "auth_row ''analog_write'' = [((''a'', ''write''), ''analog_write'')]"
  "auth_row ''analog_read'' = [((''a'', ''read''), ''analog_read'')]"
  "auth_row ''system_version'' = [((''system'', ''version''), ''system_version'')]"
  "auth_row ''system_free_memory'' = [((''system'', ''free_memory''), ''system_free_memory'')]"
  "auth_row ''system_bootloader'' = [((''system'', ''bootloader''), ''system_bootloader'')]"
  "auth_row ''spi_begin'' = [((''spi'', ''begin''), ''spi_begin'')]"
  "auth_row ''spi_end'' = [((''spi'', ''end''), ''spi_end'')]"
  "auth_row ''spi_transfer'' = [((''spi'', ''transfer''), ''spi_transfer'')]"
  "auth_row ''spi_config'' = [((''spi'', ''config''), ''spi_config'')]"
  by (simp_all add: auth_row_def topics_def auth_entry_skip
      auth_entry_cases(2) [OF topic_lower(1) _ topic_actions(1)]
      auth_entry_cases(2) [OF topic_lower(2) _ topic_actions(2)]
      auth_entry_cases(2) [OF topic_lower(3) _ topic_actions(3)]
      auth_entry_cases(2) [OF topic_lower(4) _ topic_actions(4)]
      auth_entry_cases(2) [OF topic_lower(5) _ topic_actions(5)]
      auth_entry_cases(2) [OF topic_lower(6) _ topic_actions(6)]
      auth_entry_cases(2) [OF topic_lower(7) _ topic_actions(7)]
      auth_entry_cases(2) [OF topic_lower(8) _ topic_actions(8)]
      auth_entry_cases(2) [OF topic_lower(10) _ topic_actions(10)])

lemma topic_auth_mapping_eval:
  "topic_auth_mapping =
    [((''file'', ''read''), ''file_read''), ((''file'', ''write''), ''file_write''),
     ((''file'', ''remove''), ''file_remove''), ((''datastore'', ''get''), ''datastore_get''),
     ((''datastore'', ''put''), ''datastore_put''), ((''mailbox'', ''read''), ''mailbox_read''),
     ((''mailbox'', ''write''), ''mailbox_write''), ((''sh'', ''run_async''), ''shell_run_async''),
     ((''sh'', ''poll''), ''shell_poll''), ((''sh'', ''kill''), ''shell_kill''),
     ((''console'', ''in''), ''console_input''), ((''d'', ''write''), ''digital_write''),
     ((''d'', ''read''), ''digital_read''), ((''d'', ''mode''), ''digital_mode''),
     ((''a'', ''write''), ''analog_write''), ((''a'', ''read''), ''analog_read''),
     ((''system'', ''version''), ''system_version''),
     ((''system'', ''free_memory''), ''system_free_memory''),
     ((''system'', ''bootloader''), ''system_bootloader''), ((''spi'', ''begin''), ''spi_begin''),
     ((''spi'', ''end''), ''spi_end''), ((''spi'', ''transfer''), ''spi_transfer''),
     ((''spi'', ''config''), ''spi_config'')]"
  by (simp add: topic_auth_mapping_def auth_fields_def auth_rows)

lemma policy_fixed: "create_allowed_policy (create_allowed_policy es) = create_allowed_policy es"
proof -
  let ?p = "create_allowed_policy es"
  have clean: "\<forall>t\<in>set ?p. clean_token t" using create_allowed_policy_clean by blast
  have form: "?p = [''*''] \<or> sorted ?p \<and> distinct ?p \<and> ''*'' \<notin> set ?p"
    by (simp add: create_allowed_policy_def Let_def)
  have "create_allowed_policy ?p = (if ''*'' \<in> set ?p then [''*''] else sort (remdups ?p))"
    by (simp add: create_allowed_policy_def [of ?p] policy_tokens_fixed [OF clean])
  with form show ?thesis by (auto simp: sorted_sort_id distinct_remdups_id)
qed

lemma topic_auth_mapping_distinct: "distinct (map fst topic_auth_mapping)"
  by (simp add: topic_auth_mapping_eval)

lemma allows_topic_iff:
  "allows_topic auth topic action \<longleftrightarrow>
    (\<exists>f. ((py_lower topic, py_lower action), f) \<in> set topic_auth_mapping \<and> auth f)"
  by (auto simp: allows_topic_def map_of_eq_Some_iff [OF topic_auth_mapping_distinct, symmetric]
      split: option.splits)

lemma topic_auth_mapping_lower:
  "list_all (\<lambda>((t, a), f). py_lower t = t \<and> py_lower a = a \<and> f \<in> set auth_fields) topic_auth_mapping"
  by (simp add: topic_auth_mapping_eval py_lower_def to_lower_def auth_fields_def)

section \<open>Properties\<close>

text \<open>C28 (invariant). A policy is in normal form, either the wildcard alone or a sorted list of
  distinct, non-empty, lower-case tokens without separators, and normalising a policy again gives the
  same policy, which is what reloading a validated configuration does.\<close>

theorem policy_normal_form:
  "create_allowed_policy (create_allowed_policy es) = create_allowed_policy es
   \<and> (create_allowed_policy es = [''*'']
      \<or> sorted (create_allowed_policy es) \<and> distinct (create_allowed_policy es)
        \<and> ''*'' \<notin> set (create_allowed_policy es))
   \<and> list_all clean_token (create_allowed_policy es)"
proof -
  have "create_allowed_policy es = [''*'']
      \<or> sorted (create_allowed_policy es) \<and> distinct (create_allowed_policy es)
        \<and> ''*'' \<notin> set (create_allowed_policy es)"
    by (simp add: create_allowed_policy_def Let_def)
  moreover have "list_all clean_token (create_allowed_policy es)"
    using create_allowed_policy_clean by (auto simp: list_all_iff)
  ultimately show ?thesis using policy_fixed by blast
qed

text \<open>With a policy free of pattern characters, a command is allowed exactly when its
  first word, in lower case, is one of the tokens of the configured entries; a blank command and the
  empty policy allow nothing.\<close>

theorem literal_policy_exact:
  assumes "\<forall>t\<in>set (policy_tokens es). \<forall>c\<in>set t. c \<notin> {CHR ''*'', CHR ''?'', CHR ''[''}"
  shows "is_command_allowed (create_allowed_policy es) command \<longleftrightarrow>
    (\<exists>w ws. py_split_ws (py_strip command) = w # ws \<and> py_lower w \<in> set (policy_tokens es))"
proof -
  have star: "''*'' \<notin> set (policy_tokens es)" using assms by fastforce
  have "fnmatch s p \<longleftrightarrow> s = p" if "p \<in> set (policy_tokens es)" for s p
    using fnmatch_literal assms that by blast
  with star show ?thesis
    by (cases "py_split_ws (py_strip command)")
      (auto simp: is_command_allowed_def ALLOWED_COMMAND_WILDCARD_def list_ex_iff create_allowed_policy_set)
qed

theorem literal_policy_exact_witness:
  "is_command_allowed (create_allowed_policy [''ls, cat'']) ''ls -l''
   \<and> \<not> is_command_allowed (create_allowed_policy [''ls, cat'']) ''rm x''"
proof -
  have t: "policy_tokens [''ls, cat''] = [''ls'', ''cat'']"
    by (simp add: policy_tokens_def token_sep_def is_space_def py_strip_def strip_chars_def py_lower_def
        to_lower_def)
  have w: "py_split_ws (py_strip ''ls -l'') = [''ls'', ''-l'']" "py_split_ws (py_strip ''rm x'') = [''rm'', ''x'']"
      "py_lower ''ls'' = ''ls''" "py_lower ''rm'' = ''rm''"
    by (simp_all add: py_split_ws_def is_space_def py_strip_def strip_chars_def py_lower_def to_lower_def)
  show ?thesis
    using literal_policy_exact [of "[''ls, cat'']" "''ls -l''"]
      literal_policy_exact [of "[''ls, cat'']" "''rm x''"] by (simp add: t w)
qed

text \<open>C27 (safety). Default deny: a topic and action are authorised exactly when they are one of the
  pairs of the mapping and its flag is set; the flags of \<open>TopicAuthorization\<close> and the pairs are in
  bijection, each flag governing one pair, so that no action is reachable through two flags and no
  flag is without effect.\<close>

theorem authorization_default_deny:
  "(allows_topic auth topic action \<longleftrightarrow>
      (\<exists>f. ((py_lower topic, py_lower action), f) \<in> set topic_auth_mapping \<and> auth f))
   \<and> distinct (map fst topic_auth_mapping) \<and> map snd topic_auth_mapping = auth_fields
   \<and> distinct auth_fields"
proof (intro conjI)
  show "map snd topic_auth_mapping = auth_fields"
    by (simp add: topic_auth_mapping_eval auth_fields_def)
  show "distinct auth_fields" by (simp add: auth_fields_def)
qed (fact allows_topic_iff, fact topic_auth_mapping_distinct)

end
