(* ===== verification/Config.thy ===== *)
theory Config
  imports Policy
begin

text \<open>
  The configuration: the application defaults of \<open>mcubridge/config/const.py\<close>, the message
  \<open>RuntimeConfig\<close>, \<open>validate_config\<close> and \<open>get_ssl_context\<close> of \<open>mcubridge/protocol/structures.py\<close>,
  the default and UCI sources of \<open>mcubridge/config/common.py\<close> and the loader of
  \<open>mcubridge/config/settings.py\<close>. Protobuf \<open>float\<close> fields are reals (the rounding of the mantissa to
  32 bits is not modelled) or one of the values that no real stands for, which \<open>float_specials\<close> keeps:
  NaN and the infinities, into which a number too large for the field turns. The record \<open>runtime_config\<close> is built by extension, one group of fields at a time.
\<close>

section \<open>Defaults\<close>

definition DEFAULT_SERIAL_RETRY_TIMEOUT :: real where "DEFAULT_SERIAL_RETRY_TIMEOUT = 10"
definition DEFAULT_SERIAL_RESPONSE_TIMEOUT :: real where "DEFAULT_SERIAL_RESPONSE_TIMEOUT = 20"
definition SERIAL_HANDSHAKE_BACKOFF_BASE :: real where "SERIAL_HANDSHAKE_BACKOFF_BASE = 1"
definition SERIAL_HANDSHAKE_BACKOFF_MAX :: real where "SERIAL_HANDSHAKE_BACKOFF_MAX = 60"
definition SERIAL_MIN_ACK_TIMEOUT :: real where "SERIAL_MIN_ACK_TIMEOUT = 200 / 1000"
definition DEFAULT_CLOUD_QUEUE_LIMIT :: int where "DEFAULT_CLOUD_QUEUE_LIMIT = 256"
definition MCU_FS_PREFIX :: string where "MCU_FS_PREFIX = ''mcu/''"
definition VOLATILE_STORAGE_PATHS :: "string list" where
  "VOLATILE_STORAGE_PATHS = [''/tmp'', ''/var/run'', ''/run'', ''/dev/shm'']"
definition DEFAULT_SERIAL_SHARED_SECRET :: bytes where
  "DEFAULT_SERIAL_SHARED_SECRET = encode_utf8 ''failsafe_secret_mode''"
definition TOPIC_FORBIDDEN_REASON :: string where "TOPIC_FORBIDDEN_REASON = ''topic-action-forbidden''"
definition WATCHDOG_MIN_INTERVAL :: real where "WATCHDOG_MIN_INTERVAL = 1 / 2"
definition WATCHDOG_TRIGGER_TOKEN :: bytes where
  "WATCHDOG_TRIGGER_TOKEN = encode_utf8 (''WATCHDOG=trigger'' @ [CHR 0x0A])"

definition SERIAL_FAILURE_STATUS_CODES :: "int list" where
  "SERIAL_FAILURE_STATUS_CODES =
    [STATUS_ERROR, STATUS_CMD_UNKNOWN, STATUS_MALFORMED, STATUS_CRC_MISMATCH, STATUS_TIMEOUT,
     STATUS_NOT_IMPLEMENTED]"

definition SERIAL_SUCCESS_STATUS_CODES :: "int list" where
  "SERIAL_SUCCESS_STATUS_CODES = [STATUS_OK]"

section \<open>\<open>RuntimeConfig\<close>\<close>

datatype pyfloat = Finite real | PosInf | NegInf | NaN

text \<open>The comparison \<open><\<close> and the doubling of floats: every comparison with NaN is false.\<close>

fun float_less :: "pyfloat \<Rightarrow> pyfloat \<Rightarrow> bool" where
  "float_less NaN y = False"
| "float_less x NaN = False"
| "float_less (Finite x) (Finite y) = (x < y)"
| "float_less x PosInf = (x \<noteq> PosInf)"
| "float_less NegInf (Finite y) = True"
| "float_less x y = False"

fun float_twice :: "pyfloat \<Rightarrow> pyfloat" where
  "float_twice (Finite x) = Finite (x * 2)"
| "float_twice x = x"

record serial_config =
  serial_port :: string
  serial_baud :: int
  serial_safe_baud :: int
  serial_retry_timeout :: real
  serial_response_timeout :: real
  serial_retry_attempts :: int
  serial_fallback_threshold :: int
  serial_handshake_min_interval :: real
  serial_handshake_fatal_failures :: int
  serial_shared_secret :: bytes

record cloud_config = serial_config +
  cloud_host :: string
  cloud_port :: int
  cloud_tls :: bool
  cloud_cafile :: "string option"
  cloud_certfile :: "string option"
  cloud_keyfile :: "string option"
  cloud_tls_insecure :: bool
  cloud_queue_limit :: int
  cloud_enabled :: bool
  cloud_spool_dir :: string
  topic_prefix :: string

record limits_config = cloud_config +
  allowed_commands :: "string list"
  file_system_root :: string
  process_timeout :: int
  file_write_max_bytes :: int
  file_storage_quota_bytes :: int
  console_queue_limit_bytes :: int
  mailbox_queue_limit :: int
  mailbox_queue_bytes_limit :: int
  pending_pin_request_limit :: int
  process_max_output_bytes :: int
  process_max_concurrent :: int
  allow_non_tmp_paths :: bool
  allowed_policy :: "string list"
  topic_authorization :: topic_authorization

record runtime_config = limits_config +
  cloud_user :: "string option"
  cloud_pass :: "string option"
  reconnect_delay :: int
  status_interval :: int
  debug :: bool
  watchdog_enabled :: bool
  watchdog_interval :: real
  metrics_enabled :: bool
  metrics_host :: string
  metrics_port :: int
  bridge_summary_interval :: real
  bridge_handshake_interval :: real
  cloud_http3_enabled :: bool
  cloud_http3_port :: int
  cloud_http3_congestion_control :: string
  float_specials :: "(string \<times> pyfloat) list" \<comment> \<open>the float fields whose value is not a real; their own entry is zero\<close>

text \<open>The value of the float field with this name and this entry.\<close>

definition float_field :: "string \<Rightarrow> real \<Rightarrow> runtime_config \<Rightarrow> pyfloat" where
  "float_field name x cfg = (case map_of (float_specials cfg) name of Some f \<Rightarrow> f | None \<Rightarrow> Finite x)"

section \<open>Validation\<close>

text \<open>\<open>validate_config\<close> normalises the policy, turns every authorisation on when none is, and then
  checks; the mutation is visible also when a check raises, so both results are returned.\<close>

definition normalise_config :: "runtime_config \<Rightarrow> runtime_config" where
  "normalise_config cfg =
    (let cfg = cfg\<lparr>allowed_policy := create_allowed_policy (allowed_commands cfg)\<rparr>;
         cfg = cfg\<lparr>allowed_commands := allowed_policy cfg\<rparr>
     in if \<not> list_ex (topic_authorization cfg) auth_fields
        then cfg\<lparr>topic_authorization := (\<lambda>f. f \<in> set auth_fields \<or> topic_authorization cfg f)\<rparr>
        else cfg)"

definition volatile_path :: "string \<Rightarrow> bool" where
  "volatile_path p \<longleftrightarrow> list_ex (\<lambda>v. py_startswith v p) VOLATILE_STORAGE_PATHS"

definition config_checks :: "runtime_config \<Rightarrow> bool" where
  "config_checks cfg =
    (if topic_prefix cfg = [] \<or> nonempty_segs (topic_prefix cfg) = [] then False
     else if float_less (float_field ''serial_response_timeout'' (serial_response_timeout cfg) cfg)
               (float_twice (float_field ''serial_retry_timeout'' (serial_retry_timeout cfg) cfg)) then False
     else if watchdog_enabled cfg
          \<and> float_less (float_field ''watchdog_interval'' (watchdog_interval cfg) cfg) (Finite (1 / 2)) then False
     else if serial_shared_secret cfg = [] then False
     else if serial_shared_secret cfg = encode_utf8 ''changeme123'' then False
     else if card (set (serial_shared_secret cfg)) < 4
          \<and> serial_shared_secret cfg \<noteq> DEFAULT_SERIAL_SHARED_SECRET then False
     else if file_storage_quota_bytes cfg < file_write_max_bytes cfg then False
     else if mailbox_queue_bytes_limit cfg < mailbox_queue_limit cfg then False
     else if \<not> allow_non_tmp_paths cfg then
       (if \<not> volatile_path (cloud_spool_dir cfg) then False
        else if \<not> volatile_path (file_system_root cfg) then False
        else True)
     else True)"

definition validate_config :: "runtime_config \<Rightarrow> unit result \<times> runtime_config" where
  "validate_config cfg =
    (let cfg = normalise_config cfg
     in (if config_checks cfg then Inr () else Inl ValueError, cfg))"

text \<open>\<open>get_ssl_context\<close>: which files exist, and what \<open>ssl\<close> does with them, are arguments.\<close>

record ssl_context =
  ssl_cafile :: "string option"
  ssl_check_hostname :: bool
  ssl_verify :: bool
  ssl_client_cert :: bool

definition get_ssl_context ::
  "(string \<Rightarrow> bool) \<Rightarrow> (string option \<Rightarrow> bool) \<Rightarrow> (string \<Rightarrow> string \<Rightarrow> bool) \<Rightarrow> runtime_config
    \<Rightarrow> ssl_context option result" where
  "get_ssl_context exists create_ok load_ok cfg =
    (let set_opt = (\<lambda>v. case v of None \<Rightarrow> False | Some s \<Rightarrow> s \<noteq> []) in
     if \<not> cloud_tls cfg then Inr None
     else if set_opt (cloud_cafile cfg) \<and> \<not> exists (the (cloud_cafile cfg)) then Inl RuntimeError
     else
       (let ca = (if set_opt (cloud_cafile cfg) then cloud_cafile cfg else None) in
        if \<not> create_ok ca then Inl RuntimeError
        else
          (let context = \<lparr>ssl_cafile = ca, ssl_check_hostname = \<not> cloud_tls_insecure cfg,
                          ssl_verify = \<not> cloud_tls_insecure cfg, ssl_client_cert = False\<rparr>
           in if set_opt (cloud_certfile cfg) \<or> set_opt (cloud_keyfile cfg) then
                (if \<not> (set_opt (cloud_certfile cfg) \<and> set_opt (cloud_keyfile cfg)) then Inl RuntimeError
                 else if \<not> load_ok (the (cloud_certfile cfg)) (the (cloud_keyfile cfg)) then Inl RuntimeError
                 else Inr (Some (context\<lparr>ssl_client_cert := True\<rparr>)))
              else Inr (Some context))))"

section \<open>Lemmas\<close>

lemma config_checks_normalised:
  "allowed_policy (normalise_config cfg) = create_allowed_policy (allowed_commands cfg)"
  "allowed_commands (normalise_config cfg) = create_allowed_policy (allowed_commands cfg)"
  "list_ex (topic_authorization (normalise_config cfg)) auth_fields"
  by (auto simp: normalise_config_def Let_def list_ex_iff auth_fields_def)

lemma normalise_config_fields:
  "topic_prefix (normalise_config c) = topic_prefix c"
  "serial_response_timeout (normalise_config c) = serial_response_timeout c"
  "serial_retry_timeout (normalise_config c) = serial_retry_timeout c"
  "watchdog_enabled (normalise_config c) = watchdog_enabled c"
  "watchdog_interval (normalise_config c) = watchdog_interval c"
  "serial_shared_secret (normalise_config c) = serial_shared_secret c"
  "file_storage_quota_bytes (normalise_config c) = file_storage_quota_bytes c"
  "file_write_max_bytes (normalise_config c) = file_write_max_bytes c"
  "mailbox_queue_bytes_limit (normalise_config c) = mailbox_queue_bytes_limit c"
  "mailbox_queue_limit (normalise_config c) = mailbox_queue_limit c"
  "allow_non_tmp_paths (normalise_config c) = allow_non_tmp_paths c"
  "cloud_spool_dir (normalise_config c) = cloud_spool_dir c"
  "file_system_root (normalise_config c) = file_system_root c"
  "float_specials (normalise_config c) = float_specials c"
  by (simp_all add: normalise_config_def Let_def)

end
