(* ===== verification/Settings.thy ===== *)
theory Settings
  imports Config
begin

text \<open>
  Where the configuration comes from: \<open>get_default_config\<close> and \<open>get_uci_config\<close> of
  \<open>mcubridge/config/common.py\<close>, and \<open>_coerce_value\<close>, \<open>_load_raw_config\<close> and \<open>load_runtime_config\<close>
  of \<open>mcubridge/config/settings.py\<close>. Raw values are what a Python dictionary holds before they are
  coerced to the field types of the message; \<open>json_format.MessageToDict\<close> leaves out fields at their
  default and gives bytes in base64. The UCI library and the resolution of paths are arguments.
\<close>

section \<open>Raw values\<close>

datatype raw = RNone | RStr string | RInt int | RReal real | RBool bool | RBytes bytes | RList "raw list"

type_synonym raw_dict = "(string \<times> raw) list"

text \<open>\<open>d.update(e)\<close> and the filling of missing keys.\<close>

definition dict_update :: "raw_dict \<Rightarrow> raw_dict \<Rightarrow> raw_dict" where
  "dict_update d e = fold (\<lambda>(k, v) m. AList.update k v m) e d"

definition dict_defaults :: "raw_dict \<Rightarrow> raw_dict \<Rightarrow> raw_dict" where
  "dict_defaults defaults d =
    fold (\<lambda>(k, v) m. if map_of m k = None then AList.update k v m else m) defaults d"

text \<open>Base64 with padding (\<open>base64.b64encode\<close>), as \<open>MessageToDict\<close> renders bytes.\<close>

definition b64_digit :: "nat \<Rightarrow> char" where
  "b64_digit n = (''ABCDEFGHIJKLMNOPQRSTUVWXYZabcdefghijklmnopqrstuvwxyz0123456789+/'' ! n)"

fun b64encode :: "bytes \<Rightarrow> string" where
  "b64encode (a # b # c # r) =
    (let n = unat a * 65536 + unat b * 256 + unat c
     in [b64_digit (n div 262144), b64_digit (n div 4096 mod 64), b64_digit (n div 64 mod 64),
         b64_digit (n mod 64)] @ b64encode r)"
| "b64encode [a, b] =
    (let n = unat a * 65536 + unat b * 256
     in [b64_digit (n div 262144), b64_digit (n div 4096 mod 64), b64_digit (n div 64 mod 64), CHR ''=''])"
| "b64encode [a] =
    (let n = unat a * 65536
     in [b64_digit (n div 262144), b64_digit (n div 4096 mod 64), CHR ''='', CHR ''=''])"
| "b64encode [] = []"

text \<open>\<open>get_default_config\<close>: the entries that \<open>MessageToDict\<close> keeps, in field order.\<close>

definition get_default_config :: raw_dict where
  "get_default_config =
    [(''serial_port'', RStr ''/dev/ttyATH0''), (''serial_baud'', RInt 115200),
     (''serial_safe_baud'', RInt 115200), (''cloud_host'', RStr ''127.0.0.1''),
     (''cloud_port'', RInt 8443), (''cloud_tls'', RBool True),
     (''cloud_cafile'', RStr ''/etc/ssl/certs/ca-certificates.crt''), (''topic_prefix'', RStr ''br''),
     (''file_system_root'', RStr ''/tmp/yun_files''), (''process_timeout'', RInt 10),
     (''file_write_max_bytes'', RInt 262144), (''file_storage_quota_bytes'', RInt 8388608),
     (''cloud_queue_limit'', RInt 256), (''reconnect_delay'', RInt 5), (''status_interval'', RInt 5),
     (''console_queue_limit_bytes'', RInt 16384), (''mailbox_queue_limit'', RInt 64),
     (''mailbox_queue_bytes_limit'', RInt 65536), (''pending_pin_request_limit'', RInt 32),
     (''serial_retry_timeout'', RReal 10), (''serial_response_timeout'', RReal 20),
     (''serial_retry_attempts'', RInt 5), (''serial_fallback_threshold'', RInt 5),
     (''serial_handshake_fatal_failures'', RInt 15), (''cloud_enabled'', RBool True),
     (''watchdog_enabled'', RBool True), (''watchdog_interval'', RReal 10),
     (''serial_shared_secret'', RStr (b64encode DEFAULT_SERIAL_SHARED_SECRET)),
     (''cloud_spool_dir'', RStr ''/tmp/mcubridge/spool''), (''process_max_output_bytes'', RInt 65536),
     (''process_max_concurrent'', RInt 4), (''metrics_host'', RStr ''127.0.0.1''),
     (''metrics_port'', RInt 9130), (''bridge_summary_interval'', RReal 60),
     (''bridge_handshake_interval'', RReal 300), (''cloud_http3_port'', RInt 8443),
     (''cloud_http3_congestion_control'', RStr ''bbr'')]"

text \<open>What the \<open>uci\<close> module gives: it cannot be imported, has no cursor class, gives an object
  without \<open>get_all\<close>, raises, or returns the section.\<close>

datatype uci = UciMissing | UciNoClass | UciNoGetAll | UciRaises | UciSection raw_dict

definition get_uci_config :: "uci \<Rightarrow> raw_dict" where
  "get_uci_config u =
    (case u of
       UciMissing \<Rightarrow> get_default_config
     | UciNoClass \<Rightarrow> get_default_config
     | UciNoGetAll \<Rightarrow> get_default_config
     | UciRaises \<Rightarrow> get_default_config
     | UciSection sec \<Rightarrow>
         (if sec = [] then get_default_config
          else filter (\<lambda>(k, v). \<not> (py_startswith ''.'' k \<or> py_startswith ''_'' k)) sec))"

definition load_raw_config :: "uci \<Rightarrow> raw_dict \<times> string" where
  "load_raw_config u =
    (let config = get_default_config; uci_values = get_uci_config u
     in if uci_values \<noteq> [] then (dict_update config uci_values, ''uci'') else (config, ''defaults''))"

section \<open>Coercion\<close>

text \<open>The \<open>float()\<close> of a string: optional sign, digits with an optional fraction and exponent, here with
  the real number it writes.\<close>

definition split_at :: "(char \<Rightarrow> bool) \<Rightarrow> string \<Rightarrow> string \<times> string option" where
  "split_at p s = (takeWhile (\<lambda>c. \<not> p c) s,
     case dropWhile (\<lambda>c. \<not> p c) s of [] \<Rightarrow> None | _ # r \<Rightarrow> Some r)"

definition opt_digits :: "string \<Rightarrow> string option" where
  "opt_digits s = (if s = [] then Some [] else digit_groups False s)"

definition py_float :: "string \<Rightarrow> real result" where
  "py_float s =
    (let t = py_strip s;
         neg = (t \<noteq> [] \<and> hd t = CHR ''-'');
         u = (if t \<noteq> [] \<and> (hd t = CHR ''-'' \<or> hd t = CHR ''+'') then tl t else t)
     in case split_at (\<lambda>c. c = CHR ''e'' \<or> c = CHR ''E'') u of (mant, ex) \<Rightarrow>
        (case split_at (\<lambda>c. c = CHR ''.'') mant of (ip, fp) \<Rightarrow>
          (case (opt_digits ip, opt_digits (case fp of None \<Rightarrow> [] | Some f \<Rightarrow> f),
                 case ex of None \<Rightarrow> Inr 0 | Some e \<Rightarrow>
                   (if list_ex is_space e then Inl ValueError else py_int e)) of
             (Some di, Some df, Inr k) \<Rightarrow>
               if di @ df = [] then Inl ValueError
               else
                 (let m = of_int (digits_val (di @ df)) / 10 ^ length df;
                      v = (if 0 \<le> k then m * 10 ^ nat k else m / 10 ^ nat (- k))
                  in Inr (if neg then - v else v))
           | _ \<Rightarrow> Inl ValueError)))"

text \<open>All of \<open>float()\<close>, into a field of 32 bits: the names of the infinities and of NaN, in any case of the
  letters, and numbers beyond the largest float, which become infinite.\<close>

definition FLOAT_LIMIT :: real where "FLOAT_LIMIT = (2 - 1 / 2 ^ 24) * 2 ^ 127"

definition store_float :: "real \<Rightarrow> pyfloat" where
  "store_float x = (if FLOAT_LIMIT \<le> x then PosInf else if x \<le> - FLOAT_LIMIT then NegInf else Finite x)"

definition float_value :: "string \<Rightarrow> pyfloat result" where
  "float_value s =
    (let t = py_lower (py_strip s);
         neg = (t \<noteq> [] \<and> hd t = CHR ''-'');
         u = (if t \<noteq> [] \<and> (hd t = CHR ''-'' \<or> hd t = CHR ''+'') then tl t else t)
     in if u = ''nan'' then Inr NaN
        else if u = ''inf'' \<or> u = ''infinity'' then Inr (if neg then NegInf else PosInf)
        else (case py_float s of Inl e \<Rightarrow> Inl e | Inr x \<Rightarrow> Inr (store_float x)))"

text \<open>\<open>str(v)\<close>; the text of a float, of bytes or of a list is an argument.\<close>

definition py_str :: "(raw \<Rightarrow> string) \<Rightarrow> raw \<Rightarrow> string" where
  "py_str repr v =
    (case v of RStr s \<Rightarrow> s | RInt n \<Rightarrow> py_str_int n
     | RBool b \<Rightarrow> if b then ''True'' else ''False'' | RNone \<Rightarrow> ''None'' | _ \<Rightarrow> repr v)"

datatype ftype = TString | TUint32 | TFloat | TBool | TBytes

text \<open>A coerced value; \<open>None\<close> is Python's.\<close>

datatype fval = VStr string | VInt int | VFloat pyfloat | VBool bool | VBytes bytes

record path_env =
  pe_resolve :: "string \<Rightarrow> string" \<comment> \<open>\<open>Path(p).expanduser().resolve()\<close>\<close>
  pe_repr :: "raw \<Rightarrow> string"

definition is_path_field :: "string \<Rightarrow> bool" where
  "is_path_field n \<longleftrightarrow> list_ex (\<lambda>x. py_contains x n)
     [''_dir'', ''_file'', ''_root'', ''serial_port'', ''cloud_ca'', ''cloud_cert'', ''cloud_key'']"

definition coerce_value :: "path_env \<Rightarrow> raw \<Rightarrow> ftype \<Rightarrow> string \<Rightarrow> fval option" where
  "coerce_value env val ty field_name =
    (if val = RNone then None
     else (case ty of
       TString \<Rightarrow>
         (let s_val = py_strip (py_str (pe_repr env) val)
          in if is_path_field field_name \<and> (CHR ''~'' \<in> set s_val \<or> slash \<in> set s_val)
                \<and> CHR 0x0A \<notin> set s_val
             then Some (VStr (pe_resolve env s_val))
             else if s_val = [] then None else Some (VStr s_val))
     | TUint32 \<Rightarrow>
         Some (VInt (case val of
             RStr s \<Rightarrow> (case py_int s of Inr n \<Rightarrow> n | Inl _ \<Rightarrow> 0)
           | RBytes b \<Rightarrow> (case decode_utf8 b of
               Inr s \<Rightarrow> (case py_int s of Inr n \<Rightarrow> n | Inl _ \<Rightarrow> 0) | Inl _ \<Rightarrow> 0)
           | RInt n \<Rightarrow> n
           | RReal r \<Rightarrow> (if 0 \<le> r then \<lfloor>r\<rfloor> else \<lceil>r\<rceil>)
           | RBool b \<Rightarrow> (if b then 1 else 0)
           | _ \<Rightarrow> 0))
     | TFloat \<Rightarrow>
         Some (VFloat (case val of
             RStr s \<Rightarrow> (case float_value s of Inr f \<Rightarrow> f | Inl _ \<Rightarrow> Finite 0)
           | RBytes b \<Rightarrow> (case decode_utf8 b of
               Inr s \<Rightarrow> (case float_value s of Inr f \<Rightarrow> f | Inl _ \<Rightarrow> Finite 0) | Inl _ \<Rightarrow> Finite 0)
           | RInt n \<Rightarrow> store_float (of_int n)
           | RReal r \<Rightarrow> store_float r
           | RBool b \<Rightarrow> Finite (if b then 1 else 0)
           | _ \<Rightarrow> Finite 0))
     | TBool \<Rightarrow>
         Some (VBool (case val of
             RBool b \<Rightarrow> b
           | _ \<Rightarrow> py_lower (py_str (pe_repr env) val) \<in> {''1'', ''true'', ''yes'', ''on''}))
     | TBytes \<Rightarrow>
         Some (VBytes (case val of
             RBytes b \<Rightarrow> b
           | _ \<Rightarrow> encode_utf8 (py_strip (py_str (pe_repr env) val))))))"

section \<open>Loading\<close>

text \<open>A fresh \<open>RuntimeConfig\<close> message.\<close>

definition empty_config :: runtime_config where
  "empty_config =
    \<lparr>serial_port = [], serial_baud = 0, serial_safe_baud = 0, serial_retry_timeout = 0,
     serial_response_timeout = 0, serial_retry_attempts = 0, serial_fallback_threshold = 0,
     serial_handshake_min_interval = 0, serial_handshake_fatal_failures = 0, serial_shared_secret = [],
     cloud_host = [], cloud_port = 0, cloud_tls = False, cloud_cafile = None, cloud_certfile = None,
     cloud_keyfile = None, cloud_tls_insecure = False, cloud_queue_limit = 0, cloud_enabled = False,
     cloud_spool_dir = [], topic_prefix = [], allowed_commands = [], file_system_root = [],
     process_timeout = 0, file_write_max_bytes = 0, file_storage_quota_bytes = 0,
     console_queue_limit_bytes = 0, mailbox_queue_limit = 0, mailbox_queue_bytes_limit = 0,
     pending_pin_request_limit = 0, process_max_output_bytes = 0, process_max_concurrent = 0,
     allow_non_tmp_paths = False, allowed_policy = [], topic_authorization = (\<lambda>_. False),
     cloud_user = None, cloud_pass = None, reconnect_delay = 0, status_interval = 0, debug = False,
     watchdog_enabled = False, watchdog_interval = 0, metrics_enabled = False, metrics_host = [],
     metrics_port = 0, bridge_summary_interval = 0, bridge_handshake_interval = 0,
     cloud_http3_enabled = False, cloud_http3_port = 0, cloud_http3_congestion_control = [],
     float_specials = []\<rparr>"

fun v_str :: "fval \<Rightarrow> string" where "v_str (VStr s) = s" | "v_str _ = []"
fun v_int :: "fval \<Rightarrow> int" where "v_int (VInt n) = n" | "v_int _ = 0"
fun v_bool :: "fval \<Rightarrow> bool" where "v_bool (VBool b) = b" | "v_bool _ = False"
fun v_bytes :: "fval \<Rightarrow> bytes" where "v_bytes (VBytes b) = b" | "v_bytes _ = []"

text \<open>\<open>setattr\<close> on a float field: \<open>upd\<close> writes its entry.\<close>

definition set_float ::
  "string \<Rightarrow> (real \<Rightarrow> runtime_config \<Rightarrow> runtime_config) \<Rightarrow> fval \<Rightarrow> runtime_config \<Rightarrow> runtime_config" where
  "set_float name upd v c =
    (case v of
       VFloat (Finite x) \<Rightarrow> (upd x c)\<lparr>float_specials := AList.delete name (float_specials c)\<rparr>
     | VFloat f \<Rightarrow> (upd 0 c)\<lparr>float_specials := AList.update name f (float_specials c)\<rparr>
     | _ \<Rightarrow> c)"

text \<open>The scalar fields of the message in descriptor order, with the type and the effect of
  \<open>setattr\<close>.\<close>

definition scalar_fields ::
  "(string \<times> ftype \<times> (fval \<Rightarrow> runtime_config \<Rightarrow> runtime_config)) list" where
  "scalar_fields =
    [(''serial_port'', TString, \<lambda>v c. c\<lparr>serial_port := v_str v\<rparr>),
     (''serial_baud'', TUint32, \<lambda>v c. c\<lparr>serial_baud := v_int v\<rparr>),
     (''serial_safe_baud'', TUint32, \<lambda>v c. c\<lparr>serial_safe_baud := v_int v\<rparr>),
     (''cloud_host'', TString, \<lambda>v c. c\<lparr>cloud_host := v_str v\<rparr>),
     (''cloud_port'', TUint32, \<lambda>v c. c\<lparr>cloud_port := v_int v\<rparr>),
     (''cloud_user'', TString, \<lambda>v c. c\<lparr>cloud_user := Some (v_str v)\<rparr>),
     (''cloud_pass'', TString, \<lambda>v c. c\<lparr>cloud_pass := Some (v_str v)\<rparr>),
     (''cloud_tls'', TBool, \<lambda>v c. c\<lparr>cloud_tls := v_bool v\<rparr>),
     (''cloud_cafile'', TString, \<lambda>v c. c\<lparr>cloud_cafile := Some (v_str v)\<rparr>),
     (''cloud_certfile'', TString, \<lambda>v c. c\<lparr>cloud_certfile := Some (v_str v)\<rparr>),
     (''cloud_keyfile'', TString, \<lambda>v c. c\<lparr>cloud_keyfile := Some (v_str v)\<rparr>),
     (''topic_prefix'', TString, \<lambda>v c. c\<lparr>topic_prefix := v_str v\<rparr>),
     (''file_system_root'', TString, \<lambda>v c. c\<lparr>file_system_root := v_str v\<rparr>),
     (''process_timeout'', TUint32, \<lambda>v c. c\<lparr>process_timeout := v_int v\<rparr>),
     (''cloud_tls_insecure'', TBool, \<lambda>v c. c\<lparr>cloud_tls_insecure := v_bool v\<rparr>),
     (''file_write_max_bytes'', TUint32, \<lambda>v c. c\<lparr>file_write_max_bytes := v_int v\<rparr>),
     (''file_storage_quota_bytes'', TUint32, \<lambda>v c. c\<lparr>file_storage_quota_bytes := v_int v\<rparr>),
     (''cloud_queue_limit'', TUint32, \<lambda>v c. c\<lparr>cloud_queue_limit := v_int v\<rparr>),
     (''reconnect_delay'', TUint32, \<lambda>v c. c\<lparr>reconnect_delay := v_int v\<rparr>),
     (''status_interval'', TUint32, \<lambda>v c. c\<lparr>status_interval := v_int v\<rparr>),
     (''debug'', TBool, \<lambda>v c. c\<lparr>debug := v_bool v\<rparr>),
     (''console_queue_limit_bytes'', TUint32, \<lambda>v c. c\<lparr>console_queue_limit_bytes := v_int v\<rparr>),
     (''mailbox_queue_limit'', TUint32, \<lambda>v c. c\<lparr>mailbox_queue_limit := v_int v\<rparr>),
     (''mailbox_queue_bytes_limit'', TUint32, \<lambda>v c. c\<lparr>mailbox_queue_bytes_limit := v_int v\<rparr>),
     (''pending_pin_request_limit'', TUint32, \<lambda>v c. c\<lparr>pending_pin_request_limit := v_int v\<rparr>),
     (''serial_retry_timeout'', TFloat, set_float ''serial_retry_timeout'' (\<lambda>x c. c\<lparr>serial_retry_timeout := x\<rparr>)),
     (''serial_response_timeout'', TFloat, set_float ''serial_response_timeout'' (\<lambda>x c. c\<lparr>serial_response_timeout := x\<rparr>)),
     (''serial_retry_attempts'', TUint32, \<lambda>v c. c\<lparr>serial_retry_attempts := v_int v\<rparr>),
     (''serial_fallback_threshold'', TUint32, \<lambda>v c. c\<lparr>serial_fallback_threshold := v_int v\<rparr>),
     (''serial_handshake_min_interval'', TFloat, set_float ''serial_handshake_min_interval'' (\<lambda>x c. c\<lparr>serial_handshake_min_interval := x\<rparr>)),
     (''serial_handshake_fatal_failures'', TUint32, \<lambda>v c. c\<lparr>serial_handshake_fatal_failures := v_int v\<rparr>),
     (''cloud_enabled'', TBool, \<lambda>v c. c\<lparr>cloud_enabled := v_bool v\<rparr>),
     (''watchdog_enabled'', TBool, \<lambda>v c. c\<lparr>watchdog_enabled := v_bool v\<rparr>),
     (''watchdog_interval'', TFloat, set_float ''watchdog_interval'' (\<lambda>x c. c\<lparr>watchdog_interval := x\<rparr>)),
     (''serial_shared_secret'', TBytes, \<lambda>v c. c\<lparr>serial_shared_secret := v_bytes v\<rparr>),
     (''cloud_spool_dir'', TString, \<lambda>v c. c\<lparr>cloud_spool_dir := v_str v\<rparr>),
     (''process_max_output_bytes'', TUint32, \<lambda>v c. c\<lparr>process_max_output_bytes := v_int v\<rparr>),
     (''process_max_concurrent'', TUint32, \<lambda>v c. c\<lparr>process_max_concurrent := v_int v\<rparr>),
     (''metrics_enabled'', TBool, \<lambda>v c. c\<lparr>metrics_enabled := v_bool v\<rparr>),
     (''metrics_host'', TString, \<lambda>v c. c\<lparr>metrics_host := v_str v\<rparr>),
     (''metrics_port'', TUint32, \<lambda>v c. c\<lparr>metrics_port := v_int v\<rparr>),
     (''bridge_summary_interval'', TFloat, set_float ''bridge_summary_interval'' (\<lambda>x c. c\<lparr>bridge_summary_interval := x\<rparr>)),
     (''bridge_handshake_interval'', TFloat, set_float ''bridge_handshake_interval'' (\<lambda>x c. c\<lparr>bridge_handshake_interval := x\<rparr>)),
     (''allow_non_tmp_paths'', TBool, \<lambda>v c. c\<lparr>allow_non_tmp_paths := v_bool v\<rparr>),
     (''cloud_http3_enabled'', TBool, \<lambda>v c. c\<lparr>cloud_http3_enabled := v_bool v\<rparr>),
     (''cloud_http3_port'', TUint32, \<lambda>v c. c\<lparr>cloud_http3_port := v_int v\<rparr>),
     (''cloud_http3_congestion_control'', TString, \<lambda>v c. c\<lparr>cloud_http3_congestion_control := v_str v\<rparr>)]"

text \<open>\<open>setattr\<close> on an unsigned field raises \<open>ValueError\<close> outside 32 bits.\<close>

definition fval_ok :: "fval \<Rightarrow> bool" where
  "fval_ok v = (case v of VInt n \<Rightarrow> uint32_ok n | _ \<Rightarrow> True)"

definition load_field ::
  "path_env \<Rightarrow> raw_dict \<Rightarrow> string \<times> ftype \<times> (fval \<Rightarrow> runtime_config \<Rightarrow> runtime_config)
    \<Rightarrow> runtime_config result \<Rightarrow> runtime_config result" where
  "load_field env raw_values f acc =
    (case (acc, f) of
       (Inl e, _) \<Rightarrow> Inl e
     | (Inr msg, name, ty, setter) \<Rightarrow>
         (case map_of raw_values name of
            None \<Rightarrow> Inr msg
          | Some val \<Rightarrow>
              (case coerce_value env val ty name of
                 None \<Rightarrow> Inr msg
               | Some v \<Rightarrow> if fval_ok v then Inr (setter v msg) else Inl ValueError)))"

text \<open>The repeated field: a string is split at white space, a missing value is the empty list, an item
  that coerces to \<open>None\<close> makes \<open>extend\<close> raise \<open>TypeError\<close>.\<close>

definition load_allowed_commands :: "path_env \<Rightarrow> raw_dict \<Rightarrow> runtime_config \<Rightarrow> runtime_config result" where
  "load_allowed_commands env raw_values msg =
    (let val = (case map_of raw_values ''allowed_commands'' of
                  Some (RStr s) \<Rightarrow> RList (map RStr (py_split_ws s))
                | Some RNone \<Rightarrow> RList [] | None \<Rightarrow> RList [] | Some v \<Rightarrow> v)
     in case val of
          RList items \<Rightarrow>
            (let cs = map (\<lambda>i. coerce_value env i TString ''allowed_commands'') items
             in if None \<in> set cs then Inl TypeError
                else Inr (msg\<lparr>allowed_commands := map (\<lambda>c. v_str (the c)) cs\<rparr>))
        | _ \<Rightarrow> Inr msg)"

definition load_auth :: "path_env \<Rightarrow> raw_dict \<Rightarrow> runtime_config \<Rightarrow> runtime_config" where
  "load_auth env raw_values msg =
    fold (\<lambda>f m.
       case (case map_of raw_values (''cloud_allow_'' @ f) of
               Some v \<Rightarrow> Some v | None \<Rightarrow> map_of raw_values (''allow_'' @ f)) of
         None \<Rightarrow> m
       | Some v \<Rightarrow>
           (case coerce_value env v TBool f of
              None \<Rightarrow> m
            | Some b \<Rightarrow> m\<lparr>topic_authorization := (topic_authorization m)(f := v_bool b)\<rparr>))
      auth_fields msg"

text \<open>\<open>load_runtime_config\<close>, with \<open>allowed_commands\<close> at its place after the twelfth field: the result, and the source that \<open>get_config_source\<close> then reports.\<close>

definition load_runtime_config ::
  "path_env \<Rightarrow> uci \<Rightarrow> raw_dict \<Rightarrow> runtime_config result \<times> string" where
  "load_runtime_config env u overrides =
    (case load_raw_config u of (raw0, source0) \<Rightarrow>
       (let raw1 = dict_defaults get_default_config raw0;
            raw_values = (if overrides \<noteq> [] then dict_update raw1 overrides else raw1);
            source = (if overrides \<noteq> [] then ''cli'' else source0)
        in (case fold (load_field env raw_values) (take 12 scalar_fields) (Inr empty_config) of
              Inl e \<Rightarrow> Inl e
            | Inr msg0 \<Rightarrow>
                (case load_allowed_commands env raw_values msg0 of
                   Inl e \<Rightarrow> Inl e
                 | Inr msg1 \<Rightarrow>
                     (case fold (load_field env raw_values) (drop 12 scalar_fields) (Inr msg1) of
                        Inl e \<Rightarrow> Inl e
                      | Inr msg2 \<Rightarrow>
                          (case validate_config (load_auth env raw_values msg2) of
                             (Inr _, msg) \<Rightarrow> Inr msg
                           | (Inl e, _) \<Rightarrow> if source = ''uci'' then Inl RuntimeError else Inl e))),
            source)))"


lemma default_secret_b64:
  "b64encode DEFAULT_SERIAL_SHARED_SECRET = ''ZmFpbHNhZmVfc2VjcmV0X21vZGU=''"
  by (simp add: DEFAULT_SERIAL_SHARED_SECRET_def encode_utf8_def b64_digit_def)

lemma update_same: "map_of m k = Some v \<Longrightarrow> AList.update k v m = m"
  by (induction m) (auto split: if_splits)

lemma dict_update_self: "distinct (map fst d) \<Longrightarrow> dict_update d d = d"
proof -
  assume d: "distinct (map fst d)"
  have "fold (\<lambda>(k, v) m. AList.update k v m) e d = d" if "set e \<subseteq> set d" for e
    using that by (induction e) (auto simp: update_same d map_of_is_SomeI)
  then show ?thesis by (simp add: dict_update_def)
qed

lemma dict_defaults_self: "dict_defaults d d = d"
proof -
  have "fold (\<lambda>(k, v) m. if map_of m k = None then AList.update k v m else m) e d = d"
    if "set e \<subseteq> set d" for e
    using that by (induction e) (auto simp: map_of_eq_None_iff rev_image_eqI)
  then show ?thesis by (simp add: dict_defaults_def)
qed

lemma default_distinct: "distinct (map fst get_default_config)"
  by (simp add: get_default_config_def)

lemma load_field_Inr:
  "load_field env raw (n, ty, st) (Inr msg) =
   (case map_of raw n of None \<Rightarrow> Inr msg | Some val \<Rightarrow>
     (case coerce_value env val ty n of None \<Rightarrow> Inr msg
      | Some v \<Rightarrow> if fval_ok v then Inr (st v msg) else Inl ValueError))"
  by (simp add: load_field_def)

lemma coerce_simple:
  "coerce_value env (RInt n) TUint32 f = Some (VInt n)"
  "coerce_value env (RReal r) TFloat f = Some (VFloat (store_float r))"
  "coerce_value env (RBool b) TBool f = Some (VBool b)"
  "coerce_value env (RStr s) TBytes f = Some (VBytes (encode_utf8 (py_strip s)))"
  by (simp_all add: coerce_value_def py_str_def)

lemma coerce_plain: "\<not> is_path_field f \<Longrightarrow> py_strip s = s \<Longrightarrow> s \<noteq> [] \<Longrightarrow>
  coerce_value env (RStr s) TString f = Some (VStr s)"
  by (simp add: coerce_value_def py_str_def)

lemma coerce_path: "is_path_field f \<Longrightarrow> py_strip s = s \<Longrightarrow> slash \<in> set s \<Longrightarrow> CHR 0x0A \<notin> set s \<Longrightarrow>
  coerce_value env (RStr s) TString f = Some (VStr (pe_resolve env s))"
  by (simp add: coerce_value_def py_str_def)

lemma default_strings:
  "coerce_value env (RStr ''/dev/ttyATH0'') TString ''serial_port'' = Some (VStr (pe_resolve env ''/dev/ttyATH0''))"
  "coerce_value env (RStr ''127.0.0.1'') TString ''cloud_host'' = Some (VStr ''127.0.0.1'')"
  "coerce_value env (RStr ''/etc/ssl/certs/ca-certificates.crt'') TString ''cloud_cafile'' = Some (VStr (pe_resolve env ''/etc/ssl/certs/ca-certificates.crt''))"
  "coerce_value env (RStr ''br'') TString ''topic_prefix'' = Some (VStr ''br'')"
  "coerce_value env (RStr ''/tmp/yun_files'') TString ''file_system_root'' = Some (VStr (pe_resolve env ''/tmp/yun_files''))"
  "coerce_value env (RStr ''/tmp/mcubridge/spool'') TString ''cloud_spool_dir'' = Some (VStr (pe_resolve env ''/tmp/mcubridge/spool''))"
  "coerce_value env (RStr ''127.0.0.1'') TString ''metrics_host'' = Some (VStr ''127.0.0.1'')"
  "coerce_value env (RStr ''bbr'') TString ''cloud_http3_congestion_control'' = Some (VStr ''bbr'')"
  by (simp_all add: coerce_plain coerce_path is_path_field_def py_strip_def strip_chars_def is_space_def slash_def)

text \<open>The message that the defaults give, before validation.\<close>

definition default_message1 :: "path_env \<Rightarrow> runtime_config" where
  "default_message1 env = empty_config\<lparr>serial_port := pe_resolve env ''/dev/ttyATH0'',
    serial_baud := 115200, serial_safe_baud := 115200, cloud_host := ''127.0.0.1'', cloud_port := 8443,
    cloud_tls := True, cloud_cafile := Some (pe_resolve env ''/etc/ssl/certs/ca-certificates.crt''),
    topic_prefix := ''br''\<rparr>"

definition default_message :: "path_env \<Rightarrow> runtime_config" where
  "default_message env = (default_message1 env)\<lparr>
    file_system_root := pe_resolve env ''/tmp/yun_files'', process_timeout := 10,
    file_write_max_bytes := 262144, file_storage_quota_bytes := 8388608, cloud_queue_limit := 256,
    reconnect_delay := 5, status_interval := 5, console_queue_limit_bytes := 16384,
    mailbox_queue_limit := 64, mailbox_queue_bytes_limit := 65536, pending_pin_request_limit := 32,
    serial_retry_timeout := 10, serial_response_timeout := 20, serial_retry_attempts := 5,
    serial_fallback_threshold := 5, serial_handshake_fatal_failures := 15, cloud_enabled := True,
    watchdog_enabled := True, watchdog_interval := 10,
    serial_shared_secret := encode_utf8 ''ZmFpbHNhZmVfc2VjcmV0X21vZGU='',
    cloud_spool_dir := pe_resolve env ''/tmp/mcubridge/spool'', process_max_output_bytes := 65536,
    process_max_concurrent := 4, metrics_host := ''127.0.0.1'', metrics_port := 9130,
    bridge_summary_interval := 60, bridge_handshake_interval := 300, cloud_http3_port := 8443,
    cloud_http3_congestion_control := ''bbr''\<rparr>"

lemma default_fields1:
  "fold (load_field env get_default_config) (take 12 scalar_fields) (Inr empty_config)
    = Inr (default_message1 env)"
  by (simp add: default_message1_def scalar_fields_def load_field_Inr get_default_config_def coerce_simple
      default_strings fval_ok_def uint32_ok_def)

lemma b64_strip: "py_strip ''ZmFpbHNhZmVfc2VjcmV0X21vZGU='' = ''ZmFpbHNhZmVfc2VjcmV0X21vZGU=''"
  by (simp add: py_strip_def strip_chars_def is_space_def)

lemma set_float_plain:
  assumes "float_specials (upd x c) = float_specials c" "map_of (float_specials c) n = None"
  shows "set_float n upd (VFloat (Finite x)) c = upd x c"
proof -
  have "AList.delete n (float_specials c) = float_specials (upd x c)"
    using assms by (simp add: delete_id map_of_eq_None_iff)
  then show ?thesis by (simp add: set_float_def)
qed

lemma set_float_special:
  "f \<noteq> Finite (case f of Finite x \<Rightarrow> x | _ \<Rightarrow> 0) \<Longrightarrow> set_float n upd (VFloat f) c
     = (upd 0 c)\<lparr>float_specials := AList.update n f (float_specials c)\<rparr>"
  by (cases f) (simp_all add: set_float_def)

lemma coerce_nan: "coerce_value env (RStr ''nan'') TFloat n = Some (VFloat NaN)"
  by (simp add: coerce_value_def float_value_def py_strip_def strip_chars_def is_space_def py_lower_def to_lower_def
      char_of_eq_iff)

lemma store_default: "0 \<le> x \<Longrightarrow> x < 2 ^ 127 \<Longrightarrow> store_float x = Finite x"
  by (simp add: store_float_def FLOAT_LIMIT_def)

lemmas default_eval = set_float_plain store_default scalar_fields_def load_field_Inr get_default_config_def coerce_simple default_strings
  fval_ok_def uint32_ok_def default_secret_b64 b64_strip

lemma default_fields2:
  "fold (load_field env get_default_config) (take 12 (drop 12 scalar_fields)) (Inr m)
    = Inr (m\<lparr>file_system_root := pe_resolve env ''/tmp/yun_files'', process_timeout := 10,
        file_write_max_bytes := 262144, file_storage_quota_bytes := 8388608, cloud_queue_limit := 256,
        reconnect_delay := 5, status_interval := 5, console_queue_limit_bytes := 16384,
        mailbox_queue_limit := 64, mailbox_queue_bytes_limit := 65536\<rparr>)"
  by (simp add: default_eval)

lemma default_fields3:
  "float_specials m = [] \<Longrightarrow> fold (load_field env get_default_config) (take 12 (drop 24 scalar_fields)) (Inr m)
    = Inr (m\<lparr>pending_pin_request_limit := 32, serial_retry_timeout := 10, serial_response_timeout := 20,
        serial_retry_attempts := 5, serial_fallback_threshold := 5, serial_handshake_fatal_failures := 15,
        cloud_enabled := True, watchdog_enabled := True, watchdog_interval := 10,
        serial_shared_secret := encode_utf8 ''ZmFpbHNhZmVfc2VjcmV0X21vZGU='',
        cloud_spool_dir := pe_resolve env ''/tmp/mcubridge/spool''\<rparr>)"
  by (simp add: default_eval)

lemma default_fields4:
  "\<forall>n\<in>{''bridge_summary_interval'', ''bridge_handshake_interval''}. map_of (float_specials m) n = None \<Longrightarrow>
   fold (load_field env get_default_config) (drop 36 scalar_fields) (Inr m)
    = Inr (m\<lparr>process_max_output_bytes := 65536, process_max_concurrent := 4, metrics_host := ''127.0.0.1'',
        metrics_port := 9130, bridge_summary_interval := 60, bridge_handshake_interval := 300,
        cloud_http3_port := 8443, cloud_http3_congestion_control := ''bbr''\<rparr>)"
  by (simp add: default_eval)

lemma fold_chunks:
  "fold f (drop 12 xs) s = fold f (drop 36 xs) (fold f (take 12 (drop 24 xs)) (fold f (take 12 (drop 12 xs)) s))"
proof -
  have "drop 12 xs = take 12 (drop 12 xs) @ take 12 (drop 24 xs) @ drop 36 xs"
    using append_take_drop_id [of 12 "drop 12 xs"] append_take_drop_id [of 12 "drop 24 xs"] by simp
  then show ?thesis by (metis comp_apply fold_append)
qed

lemma default_fields_rest:
  "fold (load_field env get_default_config) (drop 12 scalar_fields) (Inr (default_message1 env))
    = Inr (default_message env)"
  by (simp only: fold_chunks default_fields2)
    (simp add: default_fields3 default_fields4 default_message_def default_message1_def empty_config_def)

lemma default_commands:
  "load_allowed_commands env get_default_config (default_message1 env) = Inr (default_message1 env)"
  by (simp add: load_allowed_commands_def get_default_config_def default_message1_def empty_config_def)

lemma default_auth: "load_auth env get_default_config msg = msg"
proof -
  have "map_of get_default_config (''cloud_allow_'' @ f) = None"
    "map_of get_default_config (''allow_'' @ f) = None" for f
    by (simp_all add: get_default_config_def)
  then have "fold (\<lambda>f m.
       case (case map_of get_default_config (''cloud_allow_'' @ f) of
               Some v \<Rightarrow> Some v | None \<Rightarrow> map_of get_default_config (''allow_'' @ f)) of
         None \<Rightarrow> m
       | Some v \<Rightarrow> (case coerce_value env v TBool f of None \<Rightarrow> m
            | Some b \<Rightarrow> m\<lparr>topic_authorization := (topic_authorization m)(f := v_bool b)\<rparr>)) fs msg = msg" for fs
    by (induction fs) auto
  then show ?thesis by (simp add: load_auth_def)
qed

lemma default_raw:
  assumes "u \<in> {UciMissing, UciNoClass, UciNoGetAll, UciRaises}"
  shows "load_raw_config u = (get_default_config, ''uci'')"
proof -
  have "get_uci_config u = get_default_config" using assms by (auto simp: get_uci_config_def)
  moreover have "get_default_config \<noteq> []" by (simp add: get_default_config_def)
  ultimately show ?thesis
    by (simp add: load_raw_config_def dict_update_self default_distinct)
qed

lemma default_secret_symbols:
  "\<not> card (set (encode_utf8 ''ZmFpbHNhZmVfc2VjcmV0X21vZGU='')) < 4"
  by (simp add: encode_utf8_def card_insert_if)

lemma default_checks:
  assumes "volatile_path (pe_resolve env ''/tmp/yun_files'')"
    and "volatile_path (pe_resolve env ''/tmp/mcubridge/spool'')"
  shows "config_checks (normalise_config (default_message env))"
proof -
  let ?c = "normalise_config (default_message env)"
  have "topic_prefix ?c = ''br''" "serial_response_timeout ?c = 20" "serial_retry_timeout ?c = 10"
    "watchdog_interval ?c = 10" "serial_shared_secret ?c = encode_utf8 ''ZmFpbHNhZmVfc2VjcmV0X21vZGU=''"
    "file_storage_quota_bytes ?c = 8388608" "file_write_max_bytes ?c = 262144"
    "mailbox_queue_bytes_limit ?c = 65536" "mailbox_queue_limit ?c = 64"
    "cloud_spool_dir ?c = pe_resolve env ''/tmp/mcubridge/spool''"
    "file_system_root ?c = pe_resolve env ''/tmp/yun_files''" "float_specials ?c = []"
    by (simp_all add: normalise_config_fields default_message_def default_message1_def empty_config_def)
  moreover have "encode_utf8 ''ZmFpbHNhZmVfc2VjcmV0X21vZGU='' \<noteq> encode_utf8 ''changeme123''"
    by (simp add: encode_utf8_def)
  moreover have "nonempty_segs ''br'' = [''br'']" by (simp add: nonempty_segs_def slash_def)
  moreover have "encode_utf8 ''ZmFpbHNhZmVfc2VjcmV0X21vZGU='' \<noteq> []" by (simp add: encode_utf8_def)
  ultimately show ?thesis using assms default_secret_symbols by (simp add: config_checks_def float_field_def)
qed

lemma default_config_loads:
  assumes "u \<in> {UciMissing, UciNoClass, UciNoGetAll, UciRaises}"
    and "volatile_path (pe_resolve env ''/tmp/yun_files'')"
    and "volatile_path (pe_resolve env ''/tmp/mcubridge/spool'')"
  shows "load_runtime_config env u [] = (Inr (normalise_config (default_message env)), ''uci'')"
  using default_checks [OF assms(2,3)]
  by (simp add: load_runtime_config_def default_raw [OF assms(1)] dict_defaults_self default_fields1
      default_commands default_fields_rest default_auth validate_config_def)

text \<open>NaN passes the check of the watchdog interval.\<close>

lemma nan_passes:
  assumes "config_checks (normalise_config m)" "float_specials m = []"
  shows "config_checks (normalise_config (m\<lparr>watchdog_interval := x, float_specials := [(''watchdog_interval'', NaN)]\<rparr>))"
  using assms unfolding config_checks_def normalise_config_fields float_field_def by (simp split: if_splits)

text \<open>Changing one raw value changes nothing for the other fields.\<close>

lemma load_field_update:
  "fst f \<noteq> k \<Longrightarrow> load_field env (AList.update k v raw) f = load_field env raw f"
  by (cases f) (auto simp: load_field_def fun_eq_iff update_conv split: sum.splits)

lemma load_fields_update:
  "k \<notin> fst ` set fs \<Longrightarrow> fold (load_field env (AList.update k v raw)) fs s = fold (load_field env raw) fs s"
  by (induction fs arbitrary: s) (auto simp: load_field_update)

section \<open>Properties\<close>

text \<open>C21 (safety). Whatever the sources hold, a configuration that loads is safe: the topic prefix has
  a segment, the shared secret is set and not the placeholder, one write never exceeds the storage quota,
  the policy is in normal form, and unless paths outside RAM are allowed the spool and the file root start
  with a volatile directory. When the float fields hold numbers (neither NaN nor an infinity), a response is
  given at least twice the retry time and an enabled watchdog beats at an interval of half a second or more.\<close>

theorem loaded_config_safe:
  assumes "load_runtime_config env u overrides = (Inr cfg, source)"
  shows "nonempty_segs (topic_prefix cfg) \<noteq> []
     \<and> (float_specials cfg = [] \<longrightarrow> 2 * serial_retry_timeout cfg \<le> serial_response_timeout cfg
          \<and> (watchdog_enabled cfg \<longrightarrow> 1 / 2 \<le> watchdog_interval cfg))
     \<and> serial_shared_secret cfg \<noteq> [] \<and> serial_shared_secret cfg \<noteq> encode_utf8 ''changeme123''
     \<and> file_write_max_bytes cfg \<le> file_storage_quota_bytes cfg
     \<and> create_allowed_policy (allowed_policy cfg) = allowed_policy cfg
     \<and> (allow_non_tmp_paths cfg \<or> volatile_path (cloud_spool_dir cfg) \<and> volatile_path (file_system_root cfg))"
proof -
  obtain msg where cfg: "cfg = normalise_config msg" and ok: "config_checks cfg"
    using assms
    by (auto simp: load_runtime_config_def validate_config_def Let_def split: prod.splits sum.splits if_splits)
  have "create_allowed_policy (allowed_policy cfg) = allowed_policy cfg"
    using policy_fixed unfolding cfg config_checks_normalised .
  moreover have "2 * serial_retry_timeout cfg \<le> serial_response_timeout cfg
      \<and> (watchdog_enabled cfg \<longrightarrow> 1 / 2 \<le> watchdog_interval cfg)" if "float_specials cfg = []"
    using ok that by (auto simp: config_checks_def float_field_def split: if_splits)
  ultimately show ?thesis using ok by (auto simp: config_checks_def split: if_splits)
qed

theorem loaded_config_safe_witness:
  "\<exists>cfg. load_runtime_config \<lparr>pe_resolve = (\<lambda>p. p), pe_repr = (\<lambda>_. [])\<rparr> UciRaises [] = (Inr cfg, ''uci'')
     \<and> 2 * serial_retry_timeout cfg \<le> serial_response_timeout cfg"
proof -
  let ?env = "\<lparr>pe_resolve = (\<lambda>p. p), pe_repr = (\<lambda>_. [])\<rparr> :: path_env"
  have "config_checks (normalise_config (default_message ?env))"
    by (rule default_checks) (simp_all add: volatile_path_def VOLATILE_STORAGE_PATHS_def py_startswith_def)
  then have "load_runtime_config ?env UciRaises [] = (Inr (normalise_config (default_message ?env)), ''uci'')"
    by (simp add: load_runtime_config_def default_raw dict_defaults_self default_fields1
        default_commands default_fields_rest default_auth validate_config_def)
  moreover have "float_specials (normalise_config (default_message ?env)) = []"
    by (simp add: normalise_config_fields default_message_def default_message1_def empty_config_def)
  ultimately show ?thesis using loaded_config_safe by blast
qed

text \<open>C38 (error). A watchdog interval of \<open>nan\<close> is accepted: \<open>float('nan')\<close> is coerced like any number and NaN is
  not below the minimum, so a configuration loads whose watchdog is enabled and whose interval is no number.\<close>

theorem nan_interval_accepted:
  assumes "u \<in> {UciMissing, UciNoClass, UciNoGetAll, UciRaises}"
    and "volatile_path (pe_resolve env ''/tmp/yun_files'')"
    and "volatile_path (pe_resolve env ''/tmp/mcubridge/spool'')"
  shows "\<exists>cfg. load_runtime_config env u [(''watchdog_interval'', RStr ''nan'')] = (Inr cfg, ''cli'')
     \<and> watchdog_enabled cfg \<and> float_field ''watchdog_interval'' (watchdog_interval cfg) cfg = NaN"
proof -
  let ?raw = "AList.update ''watchdog_interval'' (RStr ''nan'') get_default_config"
  let ?nan = "\<lambda>m :: runtime_config. m\<lparr>watchdog_interval := 0, float_specials := [(''watchdog_interval'', NaN)]\<rparr>"
  note same = load_fields_update [where raw = get_default_config]
  have parts: "''watchdog_interval'' \<notin> fst ` set (take 12 scalar_fields)"
    "''watchdog_interval'' \<notin> fst ` set (take 12 (drop 12 scalar_fields))"
    "''watchdog_interval'' \<notin> fst ` set (drop 36 scalar_fields)"
    by (simp_all add: scalar_fields_def)
  have chunk: "fold (load_field env ?raw) (take 12 (drop 24 scalar_fields)) (Inr m) = Inr (?nan (m
      \<lparr>pending_pin_request_limit := 32, serial_retry_timeout := 10, serial_response_timeout := 20,
        serial_retry_attempts := 5, serial_fallback_threshold := 5, serial_handshake_fatal_failures := 15,
        cloud_enabled := True, watchdog_enabled := True,
        serial_shared_secret := encode_utf8 ''ZmFpbHNhZmVfc2VjcmV0X21vZGU='',
        cloud_spool_dir := pe_resolve env ''/tmp/mcubridge/spool''\<rparr>))" if "float_specials m = []" for m
    using that coerce_nan by (simp add: default_eval update_conv set_float_special)
  have rest: "fold (load_field env ?raw) (drop 12 scalar_fields) (Inr (default_message1 env)) = Inr (?nan (default_message env))"
    unfolding fold_chunks same [OF parts(2)] same [OF parts(3)] default_fields2
    by (simp add: chunk default_fields4 default_message_def default_message1_def empty_config_def)
  have keys: "map_of ?raw ''allowed_commands'' = map_of get_default_config ''allowed_commands''"
    "map_of ?raw (''cloud_allow_'' @ f) = map_of get_default_config (''cloud_allow_'' @ f)"
    "map_of ?raw (''allow_'' @ f) = map_of get_default_config (''allow_'' @ f)" for f
    by (simp_all add: update_conv)
  have other: "load_allowed_commands env ?raw (default_message1 env) = Inr (default_message1 env)"
    "load_auth env ?raw m = m" for m
    using default_commands [of env] default_auth [of env m]
    unfolding load_allowed_commands_def load_auth_def keys by blast+
  have "config_checks (normalise_config (?nan (default_message env)))"
    by (rule nan_passes [OF default_checks [OF assms(2,3)]])
      (simp add: default_message_def default_message1_def empty_config_def)
  then have "load_runtime_config env u [(''watchdog_interval'', RStr ''nan'')] =
      (Inr (normalise_config (?nan (default_message env))), ''cli'')"
    using other by (simp add: load_runtime_config_def default_raw [OF assms(1)] dict_defaults_self dict_update_def same parts
        default_fields1 rest validate_config_def Let_def)
  then show ?thesis
    by (auto simp: normalise_config_fields float_field_def default_message_def)
qed

theorem nan_interval_accepted_witness:
  "\<exists>cfg. load_runtime_config \<lparr>pe_resolve = (\<lambda>p. p), pe_repr = (\<lambda>_. [])\<rparr> UciMissing
       [(''watchdog_interval'', RStr ''nan'')] = (Inr cfg, ''cli'') \<and> watchdog_enabled cfg"
  using nan_interval_accepted [of UciMissing "\<lparr>pe_resolve = (\<lambda>p. p), pe_repr = (\<lambda>_. [])\<rparr>"]
  by (auto simp: volatile_path_def VOLATILE_STORAGE_PATHS_def py_startswith_def)

text \<open>Authorisation flags fail open: a configuration in which every flag is off leaves
  validation with every flag on, so that each action the mapping names is allowed; with at least one
  flag on, the flags stay as they were set.\<close>

theorem authorization_all_off_allows_all:
  "(list_ex (topic_authorization cfg) auth_fields \<and>
      topic_authorization (snd (validate_config cfg)) = topic_authorization cfg)
   \<or> (list_all (\<lambda>f. \<not> topic_authorization cfg f) auth_fields \<and>
      list_all (\<lambda>((t, a), f). allows_topic (topic_authorization (snd (validate_config cfg))) t a)
        topic_auth_mapping)"
proof (cases "list_ex (topic_authorization cfg) auth_fields")
  case True
  then show ?thesis by (simp add: validate_config_def normalise_config_def Let_def)
next
  case False
  let ?auth = "topic_authorization (snd (validate_config cfg))"
  have "?auth f" if "f \<in> set auth_fields" for f
    using False that by (simp add: validate_config_def normalise_config_def Let_def)
  then have "allows_topic ?auth t a" if "((t, a), f) \<in> set topic_auth_mapping" for t a f
    using topic_auth_mapping_lower that by (fastforce simp: list_all_iff allows_topic_iff)
  then have "list_all (\<lambda>((t, a), f). allows_topic ?auth t a) topic_auth_mapping"
    by (auto simp: list_all_iff)
  with False show ?thesis by (simp add: list_all_iff list_ex_iff)
qed

end
