(* ===== verification/Storage.thy ===== *)
theory Storage
  imports Prelude
begin

text \<open>
  \<open>mcubridge/state/storage.py\<close>: \<open>SqliteDeque\<close> and \<open>SqliteCache\<close>. A database file is the list of
  its rows in id order (ids are \<open>AUTOINCREMENT\<close>, so an insertion goes to the end), or the map of
  its keys; the special path \<open>:memory:\<close> is a database that is empty each time it is opened and
  vanishes when the connection is closed, which \<open>_execute\<close> does after every operation. What the
  database engine does to one operation is a \<open>fault\<close>: none; an error after which the files are
  removed (or cannot be) and the retry works; or an error in the retry as well, before or after the
  operation's own effect on the cached length.

  The interfaces \<open>bounded_fifo\<close> and \<open>kv_store\<close> are what the runtime relies on; they are
  interpreted on these operations.
\<close>

section \<open>The deque\<close>

datatype fault = NoFault | Recreate bool | RetryFails bool bool
  \<comment> \<open>whether the files could be removed; whether the retry failed after its own effect\<close>

record sqlite_deque =
  sq_path :: string
  sq_maxlen :: "nat option"
  sq_length :: nat
  sq_rows :: "bytes list"

definition in_memory :: "string \<Rightarrow> bool" where
  "in_memory path \<longleftrightarrow> path = '':memory:''"

text \<open>The rows a new connection sees, and the file after a connection has committed.\<close>

definition sq_connect :: "sqlite_deque \<Rightarrow> bytes list" where
  "sq_connect d = (if in_memory (sq_path d) then [] else sq_rows d)"

definition sq_commit :: "bytes list \<Rightarrow> sqlite_deque \<Rightarrow> sqlite_deque" where
  "sq_commit rows d = (if in_memory (sq_path d) then d else d\<lparr>sq_rows := rows\<rparr>)"

text \<open>\<open>SqliteDeque.__init__\<close> on a file that already holds \<open>rows\<close>, once its directory is there; \<open>ok\<close> is
  whether the engine could open it.\<close>

definition SqliteDeque :: "string \<Rightarrow> nat option \<Rightarrow> bytes list \<Rightarrow> bool \<Rightarrow> sqlite_deque" where
  "SqliteDeque path maxlen rows ok =
    \<lparr>sq_path = path, sq_maxlen = maxlen,
     sq_length = (if ok then length (if in_memory path then [] else rows) else 0), sq_rows = rows\<rparr>"

text \<open>All of \<open>__init__\<close>: the directory is made outside the \<open>try\<close>, so its error leaves the constructor.\<close>

definition new_SqliteDeque :: "bool \<Rightarrow> string \<Rightarrow> nat option \<Rightarrow> bytes list \<Rightarrow> bool \<Rightarrow> sqlite_deque result" where
  "new_SqliteDeque mkdir_ok path maxlen rows ok =
    (if mkdir_ok then Inr (SqliteDeque path maxlen rows ok) else Inl OSError)"

definition sq_recreate_db :: "bool \<Rightarrow> sqlite_deque \<Rightarrow> sqlite_deque" where
  "sq_recreate_db removed d =
    (if removed then d\<lparr>sq_rows := [], sq_length := 0\<rparr> else d\<lparr>sq_length := 0\<rparr>)"

text \<open>One attempt: connect, run the operation on the rows and the cached length, commit. A Python
  exception of the operation itself closes the connection without a commit.\<close>

type_synonym 'r sq_op = "bytes list \<Rightarrow> nat \<Rightarrow> ('r \<times> bytes list \<times> nat) result"

definition sq_attempt :: "'r sq_op \<Rightarrow> sqlite_deque \<Rightarrow> 'r result \<times> sqlite_deque" where
  "sq_attempt func d =
    (case func (sq_connect d) (sq_length d) of
       Inl e \<Rightarrow> (Inl e, d)
     | Inr (r, rows, len) \<Rightarrow> (Inr r, (sq_commit rows d)\<lparr>sq_length := len\<rparr>))"

definition sq_execute :: "fault \<Rightarrow> 'r sq_op \<Rightarrow> sqlite_deque \<Rightarrow> 'r result \<times> sqlite_deque" where
  "sq_execute f func d =
    (case f of
       NoFault \<Rightarrow> sq_attempt func d
     | Recreate removed \<Rightarrow> sq_attempt func (sq_recreate_db removed d)
     | RetryFails removed after \<Rightarrow>
         (let d' = sq_recreate_db removed d in
          (Inl DatabaseError,
           if after then
             (case func (sq_connect d') (sq_length d') of
                Inl _ \<Rightarrow> d' | Inr (_, _, len) \<Rightarrow> d'\<lparr>sq_length := len\<rparr>)
           else d')))"

definition sq_append_impl :: "nat option \<Rightarrow> bytes \<Rightarrow> unit sq_op" where
  "sq_append_impl maxlen item rows len =
    (let rows = rows @ [item]; len = len + 1
     in case maxlen of
          Some m \<Rightarrow> if m < len then Inr ((), drop (len - m) rows, m) else Inr ((), rows, len)
        | None \<Rightarrow> Inr ((), rows, len))"

definition sq_append :: "fault \<Rightarrow> bytes \<Rightarrow> sqlite_deque \<Rightarrow> unit result \<times> sqlite_deque" where
  "sq_append f item d = sq_execute f (sq_append_impl (sq_maxlen d) item) d"

definition sq_popleft_impl :: "bytes sq_op" where
  "sq_popleft_impl rows len =
    (case rows of [] \<Rightarrow> Inl IndexError | item # rest \<Rightarrow> Inr (item, rest, len - 1))"

definition sq_popleft :: "fault \<Rightarrow> sqlite_deque \<Rightarrow> bytes result \<times> sqlite_deque" where
  "sq_popleft f d = sq_execute f sq_popleft_impl d"

definition sq_peek_impl :: "bytes sq_op" where
  "sq_peek_impl rows len =
    (case rows of [] \<Rightarrow> Inl IndexError | item # _ \<Rightarrow> Inr (item, rows, len))"

definition sq_peek :: "fault \<Rightarrow> sqlite_deque \<Rightarrow> bytes result \<times> sqlite_deque" where
  "sq_peek f d = sq_execute f sq_peek_impl d"

definition sq_clear :: "bool \<Rightarrow> sqlite_deque \<Rightarrow> sqlite_deque" where
  "sq_clear removed d = sq_recreate_db removed d"

definition sq_vacuum :: "fault \<Rightarrow> sqlite_deque \<Rightarrow> unit result \<times> sqlite_deque" where
  "sq_vacuum f d = sq_execute f (\<lambda>rows len. Inr ((), rows, len)) d"

section \<open>The cache\<close>

record sqlite_cache =
  sc_path :: string
  sc_rows :: "string \<rightharpoonup> bytes"

definition sc_connect :: "sqlite_cache \<Rightarrow> string \<rightharpoonup> bytes" where
  "sc_connect c = (if in_memory (sc_path c) then Map.empty else sc_rows c)"

definition sc_recreate_db :: "bool \<Rightarrow> sqlite_cache \<Rightarrow> sqlite_cache" where
  "sc_recreate_db removed c = (if removed then c\<lparr>sc_rows := Map.empty\<rparr> else c)"

definition sc_execute ::
  "fault \<Rightarrow> ((string \<rightharpoonup> bytes) \<Rightarrow> 'r \<times> (string \<rightharpoonup> bytes)) \<Rightarrow> sqlite_cache \<Rightarrow> 'r result \<times> sqlite_cache" where
  "sc_execute f func c =
    (let c' = (case f of NoFault \<Rightarrow> c | Recreate removed \<Rightarrow> sc_recreate_db removed c
               | RetryFails removed _ \<Rightarrow> sc_recreate_db removed c)
     in case f of
          RetryFails _ _ \<Rightarrow> (Inl DatabaseError, c')
        | _ \<Rightarrow> (case func (sc_connect c') of (r, rows) \<Rightarrow>
                  (Inr r, if in_memory (sc_path c') then c' else c'\<lparr>sc_rows := rows\<rparr>)))"

definition sc_set :: "fault \<Rightarrow> string \<Rightarrow> bytes \<Rightarrow> sqlite_cache \<Rightarrow> unit result \<times> sqlite_cache" where
  "sc_set f key val c = sc_execute f (\<lambda>rows. ((), rows(key \<mapsto> val))) c"

definition sc_get :: "fault \<Rightarrow> string \<Rightarrow> bytes option \<Rightarrow> sqlite_cache \<Rightarrow> bytes option \<times> sqlite_cache" where
  "sc_get f key dflt c =
    (case sc_execute f (\<lambda>rows. (case rows key of Some v \<Rightarrow> Some v | None \<Rightarrow> dflt, rows)) c of
       (Inl _, c') \<Rightarrow> (dflt, c')
     | (Inr r, c') \<Rightarrow> (r, c'))"

definition sc_clear :: "bool \<Rightarrow> sqlite_cache \<Rightarrow> sqlite_cache" where
  "sc_clear removed c = sc_recreate_db removed c"

section \<open>Interfaces\<close>

definition last_n :: "nat \<Rightarrow> 'a list \<Rightarrow> 'a list" where
  "last_n m xs = drop (length xs - m) xs"

lemma last_n_rev: "last_n m xs = rev (take m (rev xs))"
  by (simp add: last_n_def take_rev)

lemma last_n_length: "length (last_n m xs) \<le> m"
  by (simp add: last_n_def)

lemma last_n_short [simp]: "length xs \<le> m \<Longrightarrow> last_n m xs = xs"
  by (simp add: last_n_def)

lemma last_n_append: "last_n m (last_n m xs @ ys) = last_n m (xs @ ys)"
  by (simp add: last_n_rev min_def)

lemma dq_append_last_n: "dq_append (Some m) x q = last_n m (q @ [x])"
  by (simp add: dq_append_def last_n_def Let_def)

text \<open>Popping up to \<open>n\<close> items, or until the queue is empty.\<close>

fun drain :: "('q \<Rightarrow> ('a \<times> 'q) option) \<Rightarrow> nat \<Rightarrow> 'q \<Rightarrow> 'a list \<times> 'q" where
  "drain pop 0 q = ([], q)"
| "drain pop (Suc n) q = (case pop q of None \<Rightarrow> ([], q)
     | Some (x, q') \<Rightarrow> (case drain pop n q' of (xs, r) \<Rightarrow> (x # xs, r)))"

text \<open>A bounded queue that drops its oldest items when full.\<close>

locale bounded_fifo =
  fixes push :: "'a \<Rightarrow> 'q \<Rightarrow> 'q"
    and pop :: "'q \<Rightarrow> ('a \<times> 'q) option"
    and size_of :: "'q \<Rightarrow> nat"
    and items :: "'q \<Rightarrow> 'a list"
    and bound :: "'q \<Rightarrow> nat option"
    and inv :: "'q \<Rightarrow> bool"
  assumes push_items: "inv q \<Longrightarrow> items (push x q) = dq_append (bound q) x (items q)"
    and push_inv: "inv q \<Longrightarrow> inv (push x q) \<and> bound (push x q) = bound q"
    and pop_items: "inv q \<Longrightarrow>
        (case items q of [] \<Rightarrow> pop q = None
         | x # xs \<Rightarrow> \<exists>q'. pop q = Some (x, q') \<and> items q' = xs \<and> inv q' \<and> bound q' = bound q)"
    and size_items: "inv q \<Longrightarrow> size_of q = length (items q)"
begin

lemma fold_push_items:
  "inv q \<Longrightarrow> bound q = Some m \<Longrightarrow> length (items q) \<le> m \<Longrightarrow>
    items (fold push xs q) = last_n m (items q @ xs)
    \<and> inv (fold push xs q) \<and> bound (fold push xs q) = Some m"
proof (induction xs arbitrary: q)
  case (Cons x xs)
  let ?q = "push x q"
  have i: "items ?q = last_n m (items q @ [x])"
    using push_items [OF Cons.prems(1)] Cons.prems(2) by (simp add: dq_append_last_n)
  then have "last_n m (items ?q @ xs) = last_n m (items q @ x # xs)"
    by (simp add: last_n_append)
  then show ?case
    using Cons.IH [of ?q] push_inv [OF Cons.prems(1)] Cons.prems(2) i by (simp add: last_n_length)
qed simp

lemma drain_items:
  "inv q \<Longrightarrow> length (items q) \<le> n \<Longrightarrow>
    \<exists>q'. drain pop n q = (items q, q') \<and> items q' = [] \<and> inv q'"
proof (induction n arbitrary: q)
  case (Suc n)
  show ?case
  proof (cases "items q")
    case Nil
    then show ?thesis using pop_items [OF Suc.prems(1)] Suc.prems(1) by simp
  next
    case (Cons x xs)
    then obtain q' where q': "pop q = Some (x, q')" "items q' = xs" "inv q'"
      using pop_items [OF Suc.prems(1)] by auto
    then show ?thesis using Suc.IH [of q'] Suc.prems(2) Cons by auto
  qed
qed simp

text \<open>What is drained after any pushes is the newest \<open>m\<close> of what was queued, oldest first.\<close>

lemma fifo_order:
  assumes "inv q" "bound q = Some m" "length (items q) \<le> m"
  shows "\<exists>q'. drain pop m (fold push xs q) = (last_n m (items q @ xs), q')
     \<and> items q' = [] \<and> size_of (fold push xs q) \<le> m"
  using fold_push_items [OF assms, of xs] drain_items [of "fold push xs q" m]
    size_items [of "fold push xs q"] last_n_length by metis

end

text \<open>A key-value store.\<close>

locale kv_store =
  fixes put :: "'k \<Rightarrow> 'v \<Rightarrow> 's \<Rightarrow> 's"
    and look :: "'s \<Rightarrow> 'k \<Rightarrow> 'v option"
    and ok :: "'s \<Rightarrow> bool"
  assumes look_put: "ok s \<Longrightarrow> look (put k v s) k' = (if k' = k then Some v else look s k')"
    and put_ok: "ok s \<Longrightarrow> ok (put k v s)"
begin

lemma last_write_wins:
  "ok s \<Longrightarrow> look (fold (\<lambda>(k, v). put k v) kvs s) k =
    (case map_of (rev kvs) k of Some v \<Rightarrow> Some v | None \<Rightarrow> look s k)"
proof (induction kvs arbitrary: s)
  case (Cons kv kvs)
  then show ?case
    by (cases kv) (auto simp: look_put put_ok map_add_def split: option.splits)
qed simp

end

section \<open>The storage classes implement them\<close>

text \<open>A \<open>SqliteDeque\<close> on a file, with an engine that does not fail.\<close>

definition sq_push :: "bytes \<Rightarrow> sqlite_deque \<Rightarrow> sqlite_deque" where
  "sq_push x d = snd (sq_append NoFault x d)"

definition sq_pop :: "sqlite_deque \<Rightarrow> (bytes \<times> sqlite_deque) option" where
  "sq_pop d = (case sq_popleft NoFault d of (Inr x, d') \<Rightarrow> Some (x, d') | (Inl _, _) \<Rightarrow> None)"

definition sq_inv :: "sqlite_deque \<Rightarrow> bool" where
  "sq_inv d \<longleftrightarrow> \<not> in_memory (sq_path d) \<and> sq_length d = length (sq_rows d)"

interpretation sq: bounded_fifo sq_push sq_pop sq_length sq_rows sq_maxlen sq_inv
proof unfold_locales
  fix q x assume "sq_inv q"
  then show "sq_rows (sq_push x q) = dq_append (sq_maxlen q) x (sq_rows q)"
    and "sq_inv (sq_push x q) \<and> sq_maxlen (sq_push x q) = sq_maxlen q"
    by (auto simp: sq_push_def sq_append_def sq_execute_def sq_attempt_def sq_append_impl_def sq_connect_def
        sq_commit_def sq_inv_def dq_append_def Let_def split: option.splits)
next
  fix q assume "sq_inv q"
  then show "case sq_rows q of [] \<Rightarrow> sq_pop q = None
      | x # xs \<Rightarrow> \<exists>q'. sq_pop q = Some (x, q') \<and> sq_rows q' = xs \<and> sq_inv q' \<and> sq_maxlen q' = sq_maxlen q"
    by (auto simp: sq_pop_def sq_popleft_def sq_execute_def sq_attempt_def sq_popleft_impl_def sq_connect_def
        sq_commit_def sq_inv_def split: list.splits)
qed (simp add: sq_inv_def)

definition sc_put :: "string \<Rightarrow> bytes \<Rightarrow> sqlite_cache \<Rightarrow> sqlite_cache" where
  "sc_put k v c = snd (sc_set NoFault k v c)"

definition sc_look :: "sqlite_cache \<Rightarrow> string \<Rightarrow> bytes option" where
  "sc_look c k = fst (sc_get NoFault k None c)"

interpretation sc: kv_store sc_put sc_look "\<lambda>c. \<not> in_memory (sc_path c)"
  by unfold_locales
    (auto simp: sc_put_def sc_look_def sc_set_def sc_get_def sc_execute_def sc_connect_def
      split: option.splits)

lemma sq_push_path [simp]: "sq_path (sq_push x d) = sq_path d"
  by (simp add: sq_push_def sq_append_def sq_execute_def sq_attempt_def sq_append_impl_def sq_commit_def
      Let_def split: option.splits)

lemma fold_sq_push_path [simp]: "sq_path (fold sq_push xs d) = sq_path d"
  by (induction xs arbitrary: d) simp_all

lemma memory_popleft: "in_memory (sq_path d) \<Longrightarrow> sq_popleft NoFault d = (Inl IndexError, d)"
  by (simp add: sq_popleft_def sq_execute_def sq_attempt_def sq_popleft_impl_def sq_connect_def)

lemma memory_peek: "in_memory (sq_path d) \<Longrightarrow> sq_peek NoFault d = (Inl IndexError, d)"
  by (simp add: sq_peek_def sq_execute_def sq_attempt_def sq_peek_impl_def sq_connect_def)

section \<open>Properties\<close>

text \<open>C10 (refinement). A \<open>SqliteDeque\<close> on a file is a bounded first-in first-out queue: after any
  appends it holds the newest \<open>maxlen\<close> items, popping returns them oldest first until it is empty,
  and its cached length is the number of rows and never exceeds the bound.\<close>

theorem deque_is_bounded_fifo:
  assumes "\<not> in_memory path" and "length rows \<le> m"
  shows "\<exists>d'. drain sq_pop m (fold sq_push xs (SqliteDeque path (Some m) rows True))
        = (last_n m (rows @ xs), d')
     \<and> sq_rows d' = [] \<and> sq_length (fold sq_push xs (SqliteDeque path (Some m) rows True)) \<le> m"
  using sq.fifo_order [of "SqliteDeque path (Some m) rows True" m xs] assms
  by (simp add: SqliteDeque_def sq_inv_def)

theorem deque_is_bounded_fifo_witness:
  "\<exists>d'. drain sq_pop 2 (fold sq_push [[1], [2], [3]] (SqliteDeque ''/tmp/q.db'' (Some 2) [] True))
      = ([[2], [3]], d')"
  using deque_is_bounded_fifo [of "''/tmp/q.db''" "[]" 2 "[[1], [2], [3]]"]
  by (auto simp: in_memory_def last_n_def)

text \<open>C30 (error). Recovery from a database error: when the broken files can be removed, the
  operation works on an empty queue (an append leaves exactly the new item, a pop raises
  \<open>IndexError\<close>) and the cached length again equals the number of rows; when they cannot, the rows
  stay although the cached length restarts from zero, so the two disagree by the number of old
  rows.\<close>

theorem deque_fault_recovery:
  assumes "\<not> in_memory (sq_path d)" and "sq_maxlen d = Some (Suc m)"
  shows "sq_rows (snd (sq_append (Recreate True) x d)) = [x]
     \<and> sq_inv (snd (sq_append (Recreate True) x d))
     \<and> fst (sq_popleft (Recreate True) d) = Inl IndexError
     \<and> sq_rows (snd (sq_append (Recreate False) x d)) = sq_rows d @ [x]
     \<and> sq_length (snd (sq_append (Recreate False) x d)) = 1"
  using assms
  by (simp add: sq_append_def sq_popleft_def sq_execute_def sq_attempt_def sq_append_impl_def
      sq_popleft_impl_def sq_connect_def sq_commit_def sq_recreate_db_def sq_inv_def Let_def)

theorem deque_fault_recovery_witness:
  "sq_length (snd (sq_append (Recreate False) [9] (SqliteDeque ''/tmp/q.db'' (Some 4) [[1], [2]] True))) = 1
   \<and> sq_rows (snd (sq_append (Recreate False) [9] (SqliteDeque ''/tmp/q.db'' (Some 4) [[1], [2]] True)))
       = [[1], [2], [9]]"
  using deque_fault_recovery [of "SqliteDeque ''/tmp/q.db'' (Some 4) [[1], [2]] True" 3 "[9]"]
  by (simp add: SqliteDeque_def in_memory_def)

text \<open>The in-memory fallback keeps nothing: on the path \<open>:memory:\<close> every pop and peek
  raises \<open>IndexError\<close>, whatever was appended, while the reported length counts the appends.\<close>

theorem memory_deque_loses_items:
  "fst (sq_popleft NoFault (fold sq_push xs (SqliteDeque '':memory:'' None [] True))) = Inl IndexError
   \<and> fst (sq_peek NoFault (fold sq_push xs (SqliteDeque '':memory:'' None [] True))) = Inl IndexError
   \<and> sq_length (fold sq_push xs (SqliteDeque '':memory:'' None [] True)) = length xs"
proof -
  have "sq_length (fold sq_push xs d) = sq_length d + length xs"
    if "sq_path d = '':memory:''" "sq_maxlen d = None" for d
    using that
  proof (induction xs arbitrary: d)
    case (Cons x xs)
    then show ?case
      using Cons.IH [of "sq_push x d"]
      by (simp add: sq_push_def sq_append_def sq_execute_def sq_attempt_def sq_append_impl_def
          sq_commit_def in_memory_def Let_def)
  qed simp
  then show ?thesis by (simp add: SqliteDeque_def memory_popleft memory_peek in_memory_def)
qed

text \<open>A \<open>SqliteCache\<close> on a file returns, for every key, the value of the last
  \<open>set\<close> of that key, and what was stored before when there was none; a \<open>get\<close> never fails: when the
  engine does, it gives the default.\<close>

theorem cache_last_write_wins:
  assumes "\<not> in_memory (sc_path c)"
  shows "sc_look (fold (\<lambda>(k, v). sc_put k v) kvs c) k =
      (case map_of (rev kvs) k of Some v \<Rightarrow> Some v | None \<Rightarrow> sc_look c k)
   \<and> fst (sc_get (RetryFails removed after) k dflt c) = dflt"
  using sc.last_write_wins [of c kvs k] assms by (simp add: sc_get_def sc_execute_def)

theorem cache_last_write_wins_witness:
  "sc_look (fold (\<lambda>(k, v). sc_put k v) [(''a'', [1]), (''b'', [2]), (''a'', [3])]
      \<lparr>sc_path = ''/tmp/d.db'', sc_rows = Map.empty\<rparr>) ''a'' = Some [3]"
  using cache_last_write_wins [of "\<lparr>sc_path = ''/tmp/d.db'', sc_rows = Map.empty\<rparr>"
      "[(''a'', [1]), (''b'', [2]), (''a'', [3])]" "''a''"]
  by (simp add: in_memory_def)

end
