(* ===== verification/Context.thy ===== *)
theory Context
  imports Frame Settings Storage
begin

text \<open>
  \<open>mcubridge/state/context.py\<close>: the state the daemon's layers share, as a chain of record
  extensions (link, handshake statistics, cloud statistics, service data), with the operations of
  \<open>RuntimeState\<close> and its construction from a configuration.

  The chain starts with the record \<open>env\<close>, the outside world as the daemon will meet it: the clock
  readings, and scripts that operations consume from the front, one entry per interaction (database
  faults, outcomes of serial writes, what happens while a command waits, random bytes, outcomes of
  cloud sends). An exhausted script means that the interaction succeeds, or that nothing arrives. A
  handler sees one clock reading. Attributes whose name is also a configuration field carry the
  prefix \<open>st_\<close>.
\<close>

section \<open>The outside world\<close>

text \<open>What a tracked command meets in one attempt: the frames that are correlated while it waits for
  completion, and the ones that arrive in the pause before the next attempt.\<close>

record link_wait =
  lw_frames :: "(int \<times> payload) list"
  lw_late :: "(int \<times> payload) list"

record env =
  now_unix :: real
  now_mono :: real
  db_faults :: "fault list"
  link_writes :: "bool list"
  link_waits :: "link_wait list"
  link_rnd :: "bytes list"
  stream_sends :: "unit result list" \<comment> \<open>\<open>Inl\<close>: the exception that the send raises\<close>
  uart_ok :: bool \<comment> \<open>whether the port takes a new baud rate\<close>

text \<open>Taking the next entry of a script.\<close>

definition next_fault :: "'a env_scheme \<Rightarrow> fault \<times> 'a env_scheme" where
  "next_fault w = (case db_faults w of [] \<Rightarrow> (NoFault, w) | f # fs \<Rightarrow> (f, w\<lparr>db_faults := fs\<rparr>))"

definition next_write :: "'a env_scheme \<Rightarrow> bool \<times> 'a env_scheme" where
  "next_write w = (case link_writes w of [] \<Rightarrow> (True, w) | b # bs \<Rightarrow> (b, w\<lparr>link_writes := bs\<rparr>))"

definition next_wait :: "'a env_scheme \<Rightarrow> link_wait \<times> 'a env_scheme" where
  "next_wait w = (case link_waits w of
     [] \<Rightarrow> (\<lparr>lw_frames = [], lw_late = []\<rparr>, w) | x # xs \<Rightarrow> (x, w\<lparr>link_waits := xs\<rparr>))"

definition next_rnd :: "nat \<Rightarrow> 'a env_scheme \<Rightarrow> bytes \<times> 'a env_scheme" where
  "next_rnd n w = (case link_rnd w of
     [] \<Rightarrow> (replicate n 0, w)
   | r # rs \<Rightarrow> (take n (r @ replicate n 0), w\<lparr>link_rnd := rs\<rparr>))"

definition next_send :: "'a env_scheme \<Rightarrow> unit result \<times> 'a env_scheme" where
  "next_send w = (case stream_sends w of [] \<Rightarrow> (Inr (), w) | r # rs \<Rightarrow> (r, w\<lparr>stream_sends := rs\<rparr>))"

section \<open>The state\<close>

datatype link_phase = Disconnected | Connected | Synchronized

record link_state = env +
  link_phase :: link_phase
  link_sync_event :: bool
  link_handshake_nonce :: "bytes option"
  link_expected_tag :: "bytes option"
  link_session_key :: "bytes option"
  link_nonce_length :: int
  link_nonce_counter :: int
  link_last_nonce_counter :: int
  mcu_version :: "(int \<times> int \<times> int) option"
  mcu_capabilities :: "capabilities option"
  mcu_is_paused :: bool
  serial_tx_allowed :: bool
  serial_decode_errors :: int
  serial_writer_attached :: bool
  serial_response_timeout_ms :: int

record handshake_stats = link_state +
  handshake_attempts :: int
  handshake_successes :: int
  handshake_failure_streak :: int
  handshake_backoff_until :: real
  handshake_rate_until :: real
  last_handshake_error :: "string option"
  last_handshake_unix :: real
  handshake_last_duration :: real
  handshake_fatal_count :: int
  handshake_fatal_reason :: "string option"
  handshake_fatal_detail :: "string option"
  handshake_fatal_unix :: real
  handshake_last_started :: real

record cloud_stats = handshake_stats +
  st_cloud_queue_limit :: int
  cloud_publish_queue :: "cloud_publish list"
  cloud_drop_counts :: "(string \<times> int) list"
  cloud_dropped_messages :: int
  cloud_messages_published :: int
  cloud_spool_corrupt_dropped :: int
  cloud_spool_dropped_limit :: int
  cloud_spool_trim_events :: int
  cloud_spool_last_trim_unix :: real
  cloud_spool_degraded :: bool
  cloud_spool_failure_reason :: "string option"
  cloud_spool_pending_messages :: int
  cloud_topic_prefix :: string
  device_id :: string

record bridge_request =
  br_topic :: string
  br_payload :: bytes
  br_correlation_data :: "bytes option"
  br_response_topic :: "string option"

record pending_pin =
  pp_pin :: int
  pp_reply_context :: "bridge_request option"

text \<open>A child process: what the operating system reports of it, and \<open>ProcessContext.exit_code\<close>.\<close>

record process_context =
  pc_os_pid :: int
  pc_returncode :: "int option"
  pc_stdout :: bytes
  pc_stderr :: bytes
  pc_streams_open :: bool \<comment> \<open>the pipes have not reached end of file\<close>
  pc_exit_code :: int

record service_state = cloud_stats +
  st_topic_authorization :: "topic_authorization option"
  st_allowed_policy :: "string list"
  datastore_cache :: "sqlite_cache option"
  mailbox_queue :: sqlite_deque
  mailbox_incoming_queue :: sqlite_deque
  console_to_mcu_queue :: "bytes list"
  console_maxlen :: "nat option"
  running_processes :: "(int \<times> process_context) list"
  pending_digital_reads :: "pending_pin list"
  pending_analog_reads :: "pending_pin list"
  st_pending_pin_request_limit :: int
  st_mailbox_queue_limit :: int
  st_process_max_concurrent :: int
  st_process_timeout :: int
  st_file_system_root :: string
  st_allow_non_tmp_paths :: bool

record runtime_state = service_state +
  file_storage_bytes_used :: int
  file_write_limit_rejections :: int
  file_storage_limit_rejections :: int
  st_watchdog_enabled :: bool
  st_watchdog_interval :: real
  watchdog_beats :: int
  last_watchdog_beat :: real
  unknown_command_count :: int
  unknown_command_last_id :: int
  unknown_command_metric :: int
  supervisor_stats :: "(string \<times> supervisor_snapshot) list"
  supervisor_failures :: int
  last_supervisor_error :: "string option"

section \<open>Link state\<close>

definition is_connected :: "'a link_state_scheme \<Rightarrow> bool" where
  "is_connected s \<longleftrightarrow> link_phase s \<in> {Connected, Synchronized}"

definition is_synchronized :: "'a link_state_scheme \<Rightarrow> bool" where
  "is_synchronized s \<longleftrightarrow> link_phase s = Synchronized"

definition mark_transport_connected :: "'a link_state_scheme \<Rightarrow> 'a link_state_scheme" where
  "mark_transport_connected s = s\<lparr>link_phase := Connected\<rparr>"

definition mark_transport_disconnected :: "'a link_state_scheme \<Rightarrow> 'a link_state_scheme" where
  "mark_transport_disconnected s = s\<lparr>link_phase := Disconnected, link_sync_event := False\<rparr>"

definition mark_synchronized :: "'a link_state_scheme \<Rightarrow> 'a link_state_scheme" where
  "mark_synchronized s = s\<lparr>link_phase := Synchronized, link_sync_event := True\<rparr>"

definition handshake_failures :: "'a handshake_stats_scheme \<Rightarrow> int" where
  "handshake_failures s = handshake_attempts s - handshake_successes s"

definition handshake_duration_since_start :: "'a handshake_stats_scheme \<Rightarrow> real" where
  "handshake_duration_since_start s =
    (if handshake_last_started s \<le> 0 then 0 else max 0 (now_mono s - handshake_last_started s))"

section \<open>Supervisors\<close>

text \<open>An exception as its class name and its text.\<close>

definition record_supervisor_failure ::
  "string \<Rightarrow> real \<Rightarrow> (string \<times> string) option \<Rightarrow> 'a runtime_state_scheme \<Rightarrow> 'a runtime_state_scheme" where
  "record_supervisor_failure name backoff exc s =
    (let old = (case map_of (supervisor_stats s) name of
                  Some x \<Rightarrow> x
                | None \<Rightarrow> \<lparr>ss_restarts = 0, ss_last_failure_unix = 0, ss_last_exception = [],
                           ss_backoff_seconds = 0\<rparr>);
         new = old\<lparr>ss_restarts := ss_restarts old + 1, ss_last_failure_unix := now_unix s,
                   ss_last_exception := (case exc of Some (c, t) \<Rightarrow> c @ '': '' @ t | None \<Rightarrow> ''unknown''),
                   ss_backoff_seconds := backoff\<rparr>
     in s\<lparr>supervisor_stats := AList.update name new (supervisor_stats s),
          supervisor_failures := supervisor_failures s + 1,
          last_supervisor_error :=
            Some (case exc of Some (c, t) \<Rightarrow> name @ '': '' @ t | None \<Rightarrow> name @ '': unknown'')\<rparr>)"

definition mark_supervisor_healthy :: "string \<Rightarrow> 'a runtime_state_scheme \<Rightarrow> 'a runtime_state_scheme" where
  "mark_supervisor_healthy name s =
    (case map_of (supervisor_stats s) name of
       None \<Rightarrow> s
     | Some x \<Rightarrow> s\<lparr>supervisor_stats :=
         AList.update name (x\<lparr>ss_backoff_seconds := 0\<rparr>) (supervisor_stats s)\<rparr>)"

section \<open>Configuration of the queues\<close>

text \<open>\<open>Path(root) / subdir\<close> for a relative subdirectory.\<close>

definition path_join :: "string \<Rightarrow> string \<Rightarrow> string" where
  "path_join base sub = (if py_endswith [slash] base then base @ sub else base @ [slash] @ sub)"

text \<open>The nested function \<open>_create_spool\<close>. \<open>mkdir_ok\<close> says whether the directory could be made (here, and then
  again by the deque, in the same \<open>try\<close>), \<open>rows\<close> what the database file already holds.\<close>

definition create_spool ::
  "(string \<Rightarrow> bool) \<Rightarrow> (string \<Rightarrow> bytes list) \<Rightarrow> string \<Rightarrow> 'a service_state_scheme \<Rightarrow> sqlite_deque" where
  "create_spool mkdir_ok rows subdir s =
    (let base = st_file_system_root s; maxlen = Some (nat (st_mailbox_queue_limit s));
         directory = path_join base subdir; db = path_join directory ''spool.db''
     in if (st_allow_non_tmp_paths s \<or> py_startswith ''/tmp/'' base) \<and> base \<noteq> [] \<and> mkdir_ok directory
        then SqliteDeque db maxlen (rows db) True
        else SqliteDeque '':memory:'' maxlen [] True)"

definition configure ::
  "(string \<Rightarrow> bool) \<Rightarrow> (string \<Rightarrow> bytes list) \<Rightarrow> (string \<Rightarrow> string \<rightharpoonup> bytes) \<Rightarrow>
   'a service_state_scheme \<Rightarrow> 'a service_state_scheme" where
  "configure mkdir_ok rows store s =
    (let base = st_file_system_root s; ds_dir = path_join base ''datastore'';
         s = s\<lparr>datastore_cache := None, cloud_publish_queue := [], console_to_mcu_queue := [],
               console_maxlen := Some (nat (st_mailbox_queue_limit s))\<rparr>;
         s = s\<lparr>mailbox_queue := create_spool mkdir_ok rows ''mailbox_out'' s\<rparr>;
         s = s\<lparr>mailbox_incoming_queue := create_spool mkdir_ok rows ''mailbox_in'' s\<rparr>
     in if (st_allow_non_tmp_paths s \<or> py_startswith ''/tmp/'' base) \<and> base \<noteq> [] \<and> mkdir_ok ds_dir
        then s\<lparr>datastore_cache := Some \<lparr>sc_path = path_join ds_dir ''data.db'',
                 sc_rows = store (path_join ds_dir ''data.db'')\<rparr>\<rparr>
        else s)"

section \<open>Snapshots\<close>

definition none_event :: pipeline_event where
  "none_event = \<lparr>pe_event = ''none'', pe_command_id = 0, pe_attempt = 0, pe_ack_received = False,
     pe_status = 0, pe_timestamp = 0\<rparr>"

definition build_metrics_snapshot :: "'a runtime_state_scheme \<Rightarrow> daemon_metrics" where
  "build_metrics_snapshot s =
    \<lparr>dm_cloud_queue_depth = int (length (cloud_publish_queue s)),
     dm_cloud_dropped_messages = cloud_dropped_messages s,
     dm_cloud_drop_counts = cloud_drop_counts s,
     dm_spool_corrupt_dropped = cloud_spool_corrupt_dropped s,
     dm_spool_dropped_limit = cloud_spool_dropped_limit s,
     dm_spool_trim_events = cloud_spool_trim_events s,
     dm_spool_last_trim_unix = cloud_spool_last_trim_unix s,
     dm_spool_degraded = cloud_spool_degraded s,
     dm_spool_failure_reason = (case cloud_spool_failure_reason s of None \<Rightarrow> [] | Some r \<Rightarrow> r),
     dm_spool_pending_messages = cloud_spool_pending_messages s,
     dm_console = int (length (console_to_mcu_queue s)),
     dm_mailbox_outgoing = int (sq_length (mailbox_queue s)),
     dm_mailbox_incoming = int (sq_length (mailbox_incoming_queue s)),
     dm_running_processes = int (length (running_processes s)),
     dm_link_synchronised = is_synchronized s,
     dm_unknown_command_count = unknown_command_count s,
     dm_unknown_command_last_id = unknown_command_last_id s,
     dm_supervisors = supervisor_stats s,
     dm_heartbeat_unix = now_unix s,
     dm_watchdog_enabled = st_watchdog_enabled s,
     dm_watchdog_interval = st_watchdog_interval s\<rparr>"

definition build_handshake_snapshot :: "'a handshake_stats_scheme \<Rightarrow> handshake_snapshot" where
  "build_handshake_snapshot s =
    \<lparr>hn_synchronised = is_synchronized s, hn_attempts = handshake_attempts s,
     hn_successes = handshake_successes s, hn_failures = handshake_failures s,
     hn_failure_streak = handshake_failure_streak s,
     hn_last_error = (case last_handshake_error s of None \<Rightarrow> [] | Some e \<Rightarrow> e),
     hn_last_unix = last_handshake_unix s, hn_last_duration = handshake_last_duration s,
     hn_backoff_until = handshake_backoff_until s, hn_rate_limit_until = handshake_rate_until s,
     hn_fatal_count = handshake_fatal_count s,
     hn_fatal_reason = (case handshake_fatal_reason s of None \<Rightarrow> [] | Some e \<Rightarrow> e),
     hn_fatal_detail = (case handshake_fatal_detail s of None \<Rightarrow> [] | Some e \<Rightarrow> e),
     hn_fatal_unix = handshake_fatal_unix s,
     hn_pending_nonce = (case link_handshake_nonce s of None \<Rightarrow> False | Some n \<Rightarrow> n \<noteq> []),
     hn_nonce_length = link_nonce_length s, hn_reason = [], hn_detail = [], hn_fsm_state = [],
     hn_event = []\<rparr>"

definition build_bridge_snapshot :: "'a handshake_stats_scheme \<Rightarrow> bridge_snapshot" where
  "build_bridge_snapshot s =
    \<lparr>bs_connected = is_connected s, bs_writer_attached = serial_writer_attached s,
     bs_synchronised = is_synchronized s, bs_handshake = build_handshake_snapshot s,
     bs_inflight = none_event, bs_last_completion = none_event,
     bs_mcu_version = mcu_version s, bs_capabilities = mcu_capabilities s\<rparr>"

section \<open>Cleanup\<close>

text \<open>\<open>RuntimeState.cleanup\<close>; terminating the child processes is an effect on them alone.\<close>

definition cleanup_state :: "'a service_state_scheme \<Rightarrow> 'a service_state_scheme" where
  "cleanup_state s =
    s\<lparr>mailbox_queue := SqliteDeque '':memory:'' None [] True,
      mailbox_incoming_queue := SqliteDeque '':memory:'' None [] True,
      console_to_mcu_queue := [], console_maxlen := None, datastore_cache := None,
      cloud_publish_queue := [], running_processes := [], serial_tx_allowed := False,
      link_sync_event := False, pending_digital_reads := [], pending_analog_reads := []\<rparr>"

section \<open>Creation\<close>

text \<open>\<open>RuntimeState.__init__\<close> with no arguments, then the arguments that \<open>create_runtime_state\<close> passes.
  \<open>MessageToDict\<close> leaves out a field that is zero, false or empty, so the constructor's own default
  takes its place.\<close>

definition or_default :: "'v \<Rightarrow> 'v \<Rightarrow> 'v \<Rightarrow> 'v" where
  "or_default zero dflt v = (if v = zero then dflt else v)"

definition create_runtime_state ::
  "env \<Rightarrow> string \<Rightarrow> (string \<Rightarrow> bool) \<Rightarrow> (string \<Rightarrow> bytes list) \<Rightarrow> (string \<Rightarrow> string \<rightharpoonup> bytes)
    \<Rightarrow> runtime_config \<Rightarrow> runtime_state" where
  "create_runtime_state e host mkdir_ok rows store cfg =
    configure mkdir_ok rows store
    \<lparr>now_unix = now_unix e, now_mono = now_mono e, db_faults = db_faults e, link_writes = link_writes e,
     link_waits = link_waits e, link_rnd = link_rnd e, stream_sends = stream_sends e, uart_ok = uart_ok e,
     link_phase = Disconnected, link_sync_event = False, link_handshake_nonce = None,
     link_expected_tag = None, link_session_key = None, link_nonce_length = 0, link_nonce_counter = 0,
     link_last_nonce_counter = 0, mcu_version = None, mcu_capabilities = None, mcu_is_paused = False,
     serial_tx_allowed = True, serial_decode_errors = 0, serial_writer_attached = False,
     serial_response_timeout_ms = 20000,
     handshake_attempts = 0, handshake_successes = 0, handshake_failure_streak = 0,
     handshake_backoff_until = 0, handshake_rate_until = 0, last_handshake_error = None,
     last_handshake_unix = 0, handshake_last_duration = 0, handshake_fatal_count = 0,
     handshake_fatal_reason = None, handshake_fatal_detail = None, handshake_fatal_unix = 0,
     handshake_last_started = 0,
     st_cloud_queue_limit = or_default 0 256 (cloud_queue_limit cfg), cloud_publish_queue = [],
     cloud_drop_counts = [], cloud_dropped_messages = 0, cloud_messages_published = 0,
     cloud_spool_corrupt_dropped = 0, cloud_spool_dropped_limit = 0, cloud_spool_trim_events = 0,
     cloud_spool_last_trim_unix = 0, cloud_spool_degraded = False, cloud_spool_failure_reason = None,
     cloud_spool_pending_messages = 0,
     cloud_topic_prefix = or_default [] ''br'' (topic_prefix cfg), device_id = host,
     st_topic_authorization = Some (topic_authorization cfg), st_allowed_policy = allowed_policy cfg,
     datastore_cache = None, mailbox_queue = SqliteDeque '':memory:'' None [] True,
     mailbox_incoming_queue = SqliteDeque '':memory:'' None [] True, console_to_mcu_queue = [],
     console_maxlen = None, running_processes = [], pending_digital_reads = [],
     pending_analog_reads = [],
     st_pending_pin_request_limit = or_default 0 32 (pending_pin_request_limit cfg),
     st_mailbox_queue_limit = or_default 0 64 (mailbox_queue_limit cfg),
     st_process_max_concurrent = or_default 0 4 (process_max_concurrent cfg),
     st_process_timeout = or_default 0 10 (process_timeout cfg),
     st_file_system_root = or_default [] ''/tmp/yun_files'' (file_system_root cfg),
     st_allow_non_tmp_paths = allow_non_tmp_paths cfg,
     file_storage_bytes_used = 0, file_write_limit_rejections = 0, file_storage_limit_rejections = 0,
     st_watchdog_enabled = watchdog_enabled cfg,
     st_watchdog_interval = or_default 0 10 (watchdog_interval cfg), watchdog_beats = 0,
     last_watchdog_beat = 0, unknown_command_count = 0, unknown_command_last_id = 0,
     unknown_command_metric = 0, supervisor_stats = [], supervisor_failures = 0,
     last_supervisor_error = None\<rparr>"

section \<open>Lemmas\<close>

text \<open>What the script operations and the marks leave alone.\<close>

lemma mark_fields [simp]:
  "is_synchronized (mark_synchronized s)"
  "\<not> is_synchronized (mark_transport_connected s)"
  "\<not> is_synchronized (mark_transport_disconnected s)"
  by (simp_all add: is_synchronized_def mark_synchronized_def mark_transport_connected_def
      mark_transport_disconnected_def)

lemma create_spool_cases:
  "create_spool mkdir_ok rows sub s =
    (if (st_allow_non_tmp_paths s \<or> py_startswith ''/tmp/'' (st_file_system_root s))
        \<and> st_file_system_root s \<noteq> [] \<and> mkdir_ok (path_join (st_file_system_root s) sub)
     then SqliteDeque (path_join (path_join (st_file_system_root s) sub) ''spool.db'')
            (Some (nat (st_mailbox_queue_limit s)))
            (rows (path_join (path_join (st_file_system_root s) sub) ''spool.db'')) True
     else SqliteDeque '':memory:'' (Some (nat (st_mailbox_queue_limit s))) [] True)"
  by (simp add: create_spool_def Let_def)

section \<open>Properties\<close>

text \<open>The mailboxes of a validated configuration whose file root is in RAM but not below
  \<open>/tmp/\<close> (\<open>/var/run\<close>, \<open>/run\<close>, \<open>/dev/shm\<close>) are \<open>:memory:\<close> deques: whatever is put into them, reading
  gives \<open>IndexError\<close>, and there is no datastore.\<close>

theorem mailbox_ram_fallback:
  assumes "\<not> allow_non_tmp_paths cfg" and "file_system_root cfg \<noteq> []"
    and "\<not> py_startswith ''/tmp/'' (file_system_root cfg)"
  shows "fst (sq_popleft NoFault (fold sq_push xs
            (mailbox_queue (create_runtime_state e host mkdir_ok rows store cfg)))) = Inl IndexError
     \<and> fst (sq_popleft NoFault (fold sq_push xs
            (mailbox_incoming_queue (create_runtime_state e host mkdir_ok rows store cfg)))) = Inl IndexError
     \<and> datastore_cache (create_runtime_state e host mkdir_ok rows store cfg) = None"
  using assms
  by (simp add: create_runtime_state_def configure_def create_spool_cases or_default_def Let_def
      memory_popleft SqliteDeque_def in_memory_def)

theorem mailbox_ram_fallback_witness:
  "\<exists>cfg. fst (validate_config cfg) = Inr ()
     \<and> fst (sq_popleft NoFault (sq_push [7] (mailbox_queue (create_runtime_state
          \<lparr>now_unix = 0, now_mono = 0, db_faults = [], link_writes = [], link_waits = [], link_rnd = [],
           stream_sends = [], uart_ok = True\<rparr> ''yun'' (\<lambda>_. True) (\<lambda>_. []) (\<lambda>_. Map.empty) cfg)))) = Inl IndexError"
proof -
  let ?p = "\<lparr>pe_resolve = (\<lambda>p. if p = ''/tmp/yun_files'' then ''/run/yun_files'' else p),
            pe_repr = (\<lambda>_. [])\<rparr> :: path_env"
  let ?cfg = "default_message ?p"
  let ?e = "\<lparr>now_unix = 0, now_mono = 0, db_faults = [], link_writes = [], link_waits = [], link_rnd = [],
           stream_sends = [], uart_ok = True\<rparr> :: env"
  have root: "file_system_root ?cfg = ''/run/yun_files''" "\<not> allow_non_tmp_paths ?cfg"
    by (simp_all add: default_message_def default_message1_def empty_config_def)
  have "config_checks (normalise_config ?cfg)"
    by (rule default_checks) (simp_all add: volatile_path_def VOLATILE_STORAGE_PATHS_def py_startswith_def)
  then have "fst (validate_config ?cfg) = Inr ()" by (simp add: validate_config_def Let_def)
  moreover have "fst (sq_popleft NoFault (fold sq_push [[7]] (mailbox_queue (create_runtime_state ?e ''yun''
      (\<lambda>_. True) (\<lambda>_. []) (\<lambda>_. Map.empty) ?cfg)))) = Inl IndexError"
    using mailbox_ram_fallback [of ?cfg "[[7]]" ?e] root by (simp add: py_startswith_def)
  ultimately show ?thesis by auto
qed

end
