(* ===== verification/Serial.thy ===== *)
theory Serial
  imports Context
begin

text \<open>
  \<open>mcubridge/transport/serial.py\<close>: the serial transport. A command that expects a response or an
  acknowledgement is tracked: one \<open>PendingCommand\<close> at a time is in flight, incoming frames are
  correlated with it, and it is sent up to \<open>_max_attempts\<close> times. What arrives while it waits comes
  from the script \<open>link_waits\<close>; a command that is sent from inside the read loop (\<open>tp_in_reader\<close>) sees
  nothing, because the only reader of the port is the task that waits. The service's
  \<open>handle_mcu_frame\<close> is an argument of \<open>process_packet\<close>.
\<close>

section \<open>State\<close>

record pending_command =
  pk_command_id :: int
  pk_expected_resp_ids :: "int list"
  pk_attempts :: nat
  pk_success :: "bool option"
  pk_failure_status :: "int option"
  pk_ack_received :: bool
  pk_completion :: bool
  pk_response_payload :: "payload option"

record transport = runtime_state +
  tp_config :: runtime_config
  tp_serial :: bool \<comment> \<open>\<open>self.serial\<close> is set\<close>
  tp_is_open :: bool
  tp_in_reader :: bool
  tp_baud :: int \<comment> \<open>of the local UART\<close>
  tp_negotiating :: bool
  tp_future :: "bool option" \<comment> \<open>the negotiation future, and whether it is done\<close>
  tp_crc_errors :: int
  tp_sequence_id :: int
  tp_current :: "pending_command option"
  tp_frames_sent :: nat
  tp_bytes_sent :: nat
  tp_frames_received :: nat
  tp_bytes_received :: nat
  tp_wire :: "bytes list" \<comment> \<open>what was written, delimiters included\<close>

definition ack_timeout :: "runtime_config \<Rightarrow> real" where
  "ack_timeout cfg = max (serial_retry_timeout cfg) SERIAL_MIN_ACK_TIMEOUT"

definition response_timeout :: "runtime_config \<Rightarrow> real" where
  "response_timeout cfg = max (serial_response_timeout cfg) (ack_timeout cfg)"

definition max_attempts :: "runtime_config \<Rightarrow> nat" where
  "max_attempts cfg = nat (max 1 (serial_retry_attempts cfg))"

text \<open>\<open>SerialTransport.__init__\<close> over a runtime state, before a port is opened.\<close>

definition SerialTransport :: "runtime_config \<Rightarrow> runtime_state \<Rightarrow> transport" where
  "SerialTransport config st = runtime_state.extend st
    \<lparr>tp_config = config, tp_serial = False, tp_is_open = False, tp_in_reader = False, tp_baud = 0,
     tp_negotiating = False, tp_future = None, tp_crc_errors = 0, tp_sequence_id = 0, tp_current = None,
     tp_frames_sent = 0, tp_bytes_sent = 0, tp_frames_received = 0, tp_bytes_received = 0, tp_wire = []\<rparr>"

section \<open>Pending commands\<close>

definition PendingCommand :: "int \<Rightarrow> pending_command" where
  "PendingCommand command_id =
    \<lparr>pk_command_id = command_id, pk_expected_resp_ids = expected_responses command_id, pk_attempts = 0,
     pk_success = None, pk_failure_status = None, pk_ack_received = False, pk_completion = False,
     pk_response_payload = None\<rparr>"

definition mark_success :: "payload option \<Rightarrow> pending_command \<Rightarrow> pending_command" where
  "mark_success payload p =
    p\<lparr>pk_response_payload := payload, pk_success := Some True, pk_completion := True\<rparr>"

definition mark_failure :: "int option \<Rightarrow> pending_command \<Rightarrow> pending_command" where
  "mark_failure status p =
    (let p = p\<lparr>pk_success := Some False, pk_completion := True\<rparr>
     in case status of None \<Rightarrow> p | Some st \<Rightarrow> p\<lparr>pk_failure_status := Some st\<rparr>)"

text \<open>Which command an \<open>ACK\<close> acknowledges; a payload that does not decode acknowledges the pending
  one.\<close>

definition ack_target :: "lib \<Rightarrow> payload \<Rightarrow> int \<Rightarrow> int" where
  "ack_target L payload dflt =
    (if \<not> payload_truthy payload then dflt
     else (case payload of
             PMsg (AckPacket c) \<Rightarrow> c
           | PMsg _ \<Rightarrow> dflt
           | PBytes b \<Rightarrow> (case parse_as L ''AckPacket'' b of Some (AckPacket c) \<Rightarrow> c | _ \<Rightarrow> dflt)))"

definition correlate_frame :: "lib \<Rightarrow> int \<Rightarrow> payload \<Rightarrow> pending_command \<Rightarrow> pending_command" where
  "correlate_frame L command_id payload pending =
    (if pk_success pending \<noteq> None then pending
     else if command_id = STATUS_ACK then
       (if ack_target L payload (pk_command_id pending) = pk_command_id pending
        then (let pending = pending\<lparr>pk_ack_received := True\<rparr>
              in if pk_expected_resp_ids pending = [] then mark_success (Some payload) pending else pending)
        else pending)
     else if response_to_request command_id = Some (pk_command_id pending)
       then mark_success (Some payload) pending
     else if command_id \<in> set SERIAL_FAILURE_STATUS_CODES then mark_failure (Some command_id) pending
     else if command_id \<in> set SERIAL_SUCCESS_STATUS_CODES \<and> pk_expected_resp_ids pending = []
       then mark_success (Some payload) pending
     else pending)"

text \<open>\<open>completion.wait()\<close>: frames are correlated until the completion event is set; a set event
  returns at once.\<close>

fun await_completion :: "lib \<Rightarrow> (int \<times> payload) list \<Rightarrow> pending_command \<Rightarrow> pending_command" where
  "await_completion L [] p = p"
| "await_completion L ((c, pl) # fs) p =
    (if pk_completion p then p else await_completion L fs (correlate_frame L c pl p))"

definition correlate_all :: "lib \<Rightarrow> (int \<times> payload) list \<Rightarrow> pending_command \<Rightarrow> pending_command" where
  "correlate_all L fs p = fold (\<lambda>(c, pl). correlate_frame L c pl) fs p"

section \<open>Sending\<close>

text \<open>The nonce of a frame: zeros, or a fresh one with its counter when the link is synchronised and the
  command is protected.\<close>

definition stamp_nonce :: "int \<Rightarrow> 'a transport_scheme \<Rightarrow> bytes result \<times> 'a transport_scheme" where
  "stamp_nonce command_id w =
    (if is_synchronized w \<and> \<not> is_system_command command_id then
       (case next_rnd 4 w of (r, w) \<Rightarrow>
          (case generate_nonce_with_counter r (link_nonce_counter w) of
             Inl e \<Rightarrow> (Inl e, w)
           | Inr (nonce, new_counter) \<Rightarrow> (Inr nonce, w\<lparr>link_nonce_counter := new_counter\<rparr>)))
     else (Inr (replicate AEAD_NONCE_SIZE 0), w))"

definition session_key_in_use :: "'a transport_scheme \<Rightarrow> bytes option" where
  "session_key_in_use w = (if is_synchronized w then link_session_key w else None)"

definition next_seq :: "int option \<Rightarrow> 'a transport_scheme \<Rightarrow> int \<times> 'a transport_scheme" where
  "next_seq seq_id w =
    (case seq_id of
       Some q \<Rightarrow> (q, w)
     | None \<Rightarrow> (let q = (tp_sequence_id w + 1) AND UINT16_MAX in (q, w\<lparr>tp_sequence_id := q\<rparr>)))"

text \<open>Waiting for \<open>serial_tx_allowed\<close> ends after a while whether it is set or not, so it does not
  influence what is sent.\<close>

definition send_raw ::
  "lib \<Rightarrow> int \<Rightarrow> payload \<Rightarrow> int option \<Rightarrow> 'a transport_scheme \<Rightarrow> bool result \<times> 'a transport_scheme" where
  "send_raw L command_id payload seq_id w =
    (if \<not> tp_serial w then (Inr False, w)
     else (case next_seq seq_id w of (q, w) \<Rightarrow>
       (case stamp_nonce command_id w of
          (Inl e, w) \<Rightarrow> (Inl e, w)
        | (Inr nonce, w) \<Rightarrow>
            (case build_frame L command_id q payload (Some nonce) (session_key_in_use w) of
               Inl e \<Rightarrow> (Inl e, w)
             | Inr raw \<Rightarrow>
                 (let encoded = cobs_enc L raw in
                  case next_write w of
                    (False, w) \<Rightarrow> (Inr False, w)
                  | (True, w) \<Rightarrow>
                      (Inr True, w\<lparr>tp_wire := tp_wire w @ [encoded @ [0]],
                                   tp_bytes_sent := tp_bytes_sent w + length encoded + 1,
                                   tp_frames_sent := tp_frames_sent w + 1\<rparr>))))))"

datatype send_result = SBool bool | SPayload payload

fun send_truthy :: "send_result \<Rightarrow> bool" where
  "send_truthy (SBool b) = b"
| "send_truthy (SPayload p) = payload_truthy p"

definition is_tracked :: "int \<Rightarrow> bool" where
  "is_tracked command_id \<longleftrightarrow> command_id \<notin> {68, 70}
     \<and> (expected_responses command_id \<noteq> [] \<or> command_id \<in> set ACK_ONLY_COMMANDS)"

text \<open>\<open>_send_attempt\<close> under the retryer, \<open>n\<close> attempts left.\<close>

fun send_attempts ::
  "lib \<Rightarrow> int \<Rightarrow> payload \<Rightarrow> nat \<Rightarrow> pending_command \<Rightarrow> 'a transport_scheme
    \<Rightarrow> send_result result \<times> pending_command \<times> 'a transport_scheme" where
  "send_attempts L c payload 0 p w = (Inr (SBool False), mark_failure (Some STATUS_TIMEOUT) p, w)"
| "send_attempts L c payload (Suc n) p w =
    (let p = p\<lparr>pk_attempts := pk_attempts p + 1, pk_ack_received := False, pk_success := None\<rparr> in
     case send_raw L c payload None w of
       (Inl e, w) \<Rightarrow> (Inl e, p, w)
     | (Inr False, w) \<Rightarrow> (Inr (SBool False), mark_failure None p, w)
     | (Inr True, w) \<Rightarrow>
         (case next_wait w of (lw, w) \<Rightarrow>
            (let seen = (if tp_in_reader w then [] else lw_frames lw);
                 late = (if tp_in_reader w then [] else lw_late lw);
                 p = await_completion L seen p
             in if pk_completion p \<and> pk_success p = Some True
                then (Inr (case pk_response_payload p of
                             Some pl \<Rightarrow> SPayload pl | None \<Rightarrow> SBool True), p, w)
                else if pk_completion p \<and> pk_failure_status p \<noteq> None
                then (Inr (SBool False), mark_failure (pk_failure_status p) p, w)
                else send_attempts L c payload n (if n = 0 then p else correlate_all L late p) w)))"

definition send ::
  "lib \<Rightarrow> int \<Rightarrow> payload \<Rightarrow> int option \<Rightarrow> 'a transport_scheme
    \<Rightarrow> send_result result \<times> 'a transport_scheme" where
  "send L command_id payload seq_id w =
    (if \<not> tp_serial w \<or> \<not> tp_is_open w then (Inr (SBool False), w)
     else if \<not> is_tracked command_id then
       (case send_raw L command_id payload seq_id w of
          (Inl e, w) \<Rightarrow> (Inl e, w) | (Inr b, w) \<Rightarrow> (Inr (SBool b), w))
     else
       (let p = PendingCommand command_id in
        case send_attempts L command_id payload (max_attempts (tp_config w)) p (w\<lparr>tp_current := Some p\<rparr>) of
          (r, p, w) \<Rightarrow> (r, w\<lparr>tp_current := None\<rparr>)))"

definition acknowledge :: "lib \<Rightarrow> int \<Rightarrow> int \<Rightarrow> int \<Rightarrow> 'a transport_scheme \<Rightarrow> bool result \<times> 'a transport_scheme" where
  "acknowledge L command_id seq_id status w =
    (case mk_msg (AckPacket command_id) of
       Inl e \<Rightarrow> (Inl e, w)
     | Inr m \<Rightarrow> send_raw L status (PMsg m) (Some seq_id) w)"

section \<open>Baud rate negotiation\<close>

text \<open>A port that refuses the rate makes the switch raise \<open>RuntimeError\<close>.\<close>

definition switch_local_baudrate :: "int \<Rightarrow> 'a transport_scheme \<Rightarrow> unit result \<times> 'a transport_scheme" where
  "switch_local_baudrate target w =
    (if \<not> tp_serial w then (Inr (), w)
     else if uart_ok w then (Inr (), w\<lparr>tp_baud := target\<rparr>) else (Inl RuntimeError, w))"

text \<open>\<open>frames\<close> are the commands that the read loop meets while the future is awaited; the response
  switches the local UART to the configured rate and resolves the future. When the switch raises, the read
  loop ends and nothing resolves the future any more.\<close>

definition negotiate_baudrate :: "lib \<Rightarrow> int \<Rightarrow> int list \<Rightarrow> 'a transport_scheme \<Rightarrow> bool \<times> 'a transport_scheme" where
  "negotiate_baudrate L target frames w =
    (case send_raw L 74 (PMsg (SetBaudratePacket target)) None
            (w\<lparr>tp_negotiating := True, tp_future := Some False\<rparr>) of
       (Inl _, w) \<Rightarrow> (False, w\<lparr>tp_negotiating := False\<rparr>)
     | (Inr False, w) \<Rightarrow> (False, w\<lparr>tp_negotiating := False\<rparr>)
     | (Inr True, w) \<Rightarrow>
         (if 75 \<in> set frames
          then (case switch_local_baudrate (serial_baud (tp_config w)) w of
                  (Inr _, w) \<Rightarrow> (True, w\<lparr>tp_future := Some True, tp_negotiating := False\<rparr>)
                | (Inl _, w) \<Rightarrow> (False, w\<lparr>tp_negotiating := False\<rparr>))
          else (False, w\<lparr>tp_negotiating := False\<rparr>)))"

text \<open>Called from the read loop, which cannot read while it waits.\<close>

definition check_baudrate_fallback :: "lib \<Rightarrow> 'a transport_scheme \<Rightarrow> 'a transport_scheme" where
  "check_baudrate_fallback L w =
    (let w = w\<lparr>tp_crc_errors := tp_crc_errors w + 1\<rparr>; cfg = tp_config w
     in if serial_fallback_threshold cfg \<le> tp_crc_errors w then
          (let w = w\<lparr>tp_crc_errors := 0\<rparr>
           in if serial_baud cfg \<noteq> serial_safe_baud cfg
              then snd (negotiate_baudrate L (serial_safe_baud cfg) [] w) else w)
        else w)"

section \<open>Receiving\<close>

text \<open>\<open>_process_packet\<close>: an encoded packet without its delimiter.\<close>

definition decode_packet :: "lib \<Rightarrow> bytes \<Rightarrow> 'a transport_scheme \<Rightarrow> (envelope \<times> payload) result" where
  "decode_packet L packet w =
    (case cobs_dec L packet of
       None \<Rightarrow> Inl ValueError
     | Some raw \<Rightarrow> parse_frame L raw (session_key_in_use w))"

definition correlate_current :: "lib \<Rightarrow> int \<Rightarrow> payload \<Rightarrow> 'a transport_scheme \<Rightarrow> 'a transport_scheme" where
  "correlate_current L c payload w = w\<lparr>tp_current := map_option (correlate_frame L c payload) (tp_current w)\<rparr>"

definition anti_replay_ok :: "envelope \<Rightarrow> 'a transport_scheme \<Rightarrow> bool \<times> 'a transport_scheme" where
  "anti_replay_ok e w =
    (let c = ev_command_id e;
         is_excluded = (STATUS_CODE_MIN \<le> c \<and> c \<le> STATUS_CODE_MAX)
                     \<or> (SYSTEM_COMMAND_MIN \<le> c \<and> c \<le> SYSTEM_COMMAND_MAX)
     in if is_synchronized w \<and> \<not> is_excluded then
          (case validate_nonce_counter (ev_nonce e) (link_last_nonce_counter w) of
             (False, _) \<Rightarrow> (False, w)
           | (True, c') \<Rightarrow> (True, w\<lparr>link_last_nonce_counter := c'\<rparr>))
        else (True, w))"

type_synonym 'w dispatcher = "int \<Rightarrow> int \<Rightarrow> payload \<Rightarrow> 'w \<Rightarrow> unit result \<times> 'w"

definition process_packet ::
  "lib \<Rightarrow> 'a transport_scheme dispatcher \<Rightarrow> bytes \<Rightarrow> 'a transport_scheme
    \<Rightarrow> unit result \<times> 'a transport_scheme" where
  "process_packet L dispatch packet w =
    (case decode_packet L packet w of
       Inl e \<Rightarrow> (Inr (), check_baudrate_fallback L (w\<lparr>serial_decode_errors := serial_decode_errors w + 1\<rparr>))
     | Inr (envelope, payload) \<Rightarrow>
         (if tp_negotiating w \<and> tp_future w = Some False \<and> ev_command_id envelope = 75 then
            (case switch_local_baudrate (serial_baud (tp_config w)) w of
               (Inl e, w) \<Rightarrow> (Inl e, w)
             | (Inr _, w) \<Rightarrow> (Inr (), w\<lparr>tp_future := Some True\<rparr>))
          else
            (case anti_replay_ok envelope w of
               (False, w) \<Rightarrow> (Inr (), w)
             | (True, w) \<Rightarrow>
                 (case dispatch (ev_command_id envelope) (ev_sequence_id envelope) payload
                         (correlate_current L (ev_command_id envelope) payload w) of
                    (Inl e, w) \<Rightarrow> (Inl e, w)
                  | (Inr _, w) \<Rightarrow>
                      (Inr (), w\<lparr>tp_bytes_received := tp_bytes_received w + length packet,
                                 tp_frames_received := tp_frames_received w + 1\<rparr>)))))"

text \<open>What \<open>readuntil\<close> gives next: a packet, a packet over the limit, the end of the stream, an error of
  the port.\<close>

datatype rx = Packet bytes | Overrun | EndOfStream | PortError

text \<open>The exceptions that \<open>_read_loop\<close> catches: \<open>UnicodeDecodeError\<close> is a \<open>ValueError\<close> and
  \<open>TimeoutError\<close> an \<open>OSError\<close>; protobuf's \<open>DecodeError\<close> and the errors of the database are neither.\<close>

definition read_loop_catches :: "pyexc \<Rightarrow> bool" where
  "read_loop_catches e \<longleftrightarrow>
     e \<in> {OSError, TimeoutError, RuntimeError, ValueError, UnicodeDecodeError, TypeError}"

text \<open>\<open>_read_loop\<close>: \<open>Inr\<close> when the loop ends by itself, \<open>Inl\<close> when an exception leaves the task.\<close>

fun read_loop ::
  "lib \<Rightarrow> 'a transport_scheme dispatcher \<Rightarrow> rx list \<Rightarrow> 'a transport_scheme
    \<Rightarrow> unit result \<times> 'a transport_scheme" where
  "read_loop L dispatch [] w = (Inr (), w)"
| "read_loop L dispatch (EndOfStream # evs) w = (Inr (), w)"
| "read_loop L dispatch (PortError # evs) w = (Inr (), w)"
| "read_loop L dispatch (Overrun # evs) w =
    read_loop L dispatch evs (w\<lparr>serial_decode_errors := serial_decode_errors w + 1\<rparr>)"
| "read_loop L dispatch (Packet b # evs) w =
    (if b = [] then read_loop L dispatch evs w
     else (case process_packet L dispatch b (w\<lparr>tp_in_reader := True\<rparr>) of
             (Inr _, w) \<Rightarrow> read_loop L dispatch evs (w\<lparr>tp_in_reader := False\<rparr>)
           | (Inl e, w) \<Rightarrow>
               (if read_loop_catches e then (Inr (), w\<lparr>tp_in_reader := False\<rparr>)
                else (Inl e, w\<lparr>tp_in_reader := False\<rparr>))))"

section \<open>Lemmas\<close>

lemma expected_response_tables:
  "response_to_request r = Some c \<longleftrightarrow> r \<in> set (expected_responses c)"
  by (auto simp: response_to_request_def expected_responses_def response_to_request_map_eval
      request_response_map_eval split: if_splits)

lemma failure_success_codes:
  "SERIAL_FAILURE_STATUS_CODES = [49, 50, 51, 53, 54, 55]" "SERIAL_SUCCESS_STATUS_CODES = [48]"
  by (simp_all add: SERIAL_FAILURE_STATUS_CODES_def SERIAL_SUCCESS_STATUS_CODES_def)

lemma correlate_command [simp]:
  "pk_command_id (correlate_frame L c pl p) = pk_command_id p"
  "pk_expected_resp_ids (correlate_frame L c pl p) = pk_expected_resp_ids p"
  "pk_attempts (correlate_frame L c pl p) = pk_attempts p"
  by (simp_all add: correlate_frame_def mark_success_def mark_failure_def Let_def)

lemma correlate_completion: "pk_completion p \<Longrightarrow> pk_completion (correlate_frame L c pl p)"
  by (simp add: correlate_frame_def mark_success_def mark_failure_def Let_def)

lemma await_command [simp]:
  "pk_command_id (await_completion L fs p) = pk_command_id p"
  "pk_expected_resp_ids (await_completion L fs p) = pk_expected_resp_ids p"
  by (induction L fs p rule: await_completion.induct) simp_all

lemma await_completed [simp]: "pk_completion p \<Longrightarrow> await_completion L fs p = p"
  by (cases "(L, fs, p)" rule: await_completion.cases) auto

text \<open>What sending touches: a state after it is the state before with these fields changed.\<close>

lemma stamp_nonce_shape:
  fixes w :: "'a transport_scheme"
  assumes "stamp_nonce c w = (r, w')"
  shows "w' = w\<lparr>link_rnd := link_rnd w', link_nonce_counter := link_nonce_counter w'\<rparr>"
  using assms
  by (auto simp: stamp_nonce_def next_rnd_def split: if_splits sum.splits list.splits)

lemma next_seq_shape:
  fixes w :: "'a transport_scheme"
  shows "next_seq q w = (n, w') \<Longrightarrow> w' = w\<lparr>tp_sequence_id := tp_sequence_id w'\<rparr>"
  by (auto simp: next_seq_def Let_def split: option.splits)

lemma next_write_shape:
  fixes w :: "'a transport_scheme"
  shows "next_write w = (b, w') \<Longrightarrow> w' = w\<lparr>link_writes := link_writes w'\<rparr>"
  by (auto simp: next_write_def split: list.splits)

lemma send_raw_shape:
  fixes w :: "'a transport_scheme"
  assumes "send_raw L c pl q w = (r, w')"
  shows "w' = w\<lparr>link_writes := link_writes w', link_rnd := link_rnd w', link_nonce_counter := link_nonce_counter w',
     tp_sequence_id := tp_sequence_id w', tp_frames_sent := tp_frames_sent w', tp_bytes_sent := tp_bytes_sent w', tp_wire := tp_wire w'\<rparr>"
proof (cases "tp_serial w")
  case True
  obtain n w1 where 1: "next_seq q w = (n, w1)" by fastforce
  obtain s w2 where 2: "stamp_nonce c w1 = (s, w2)" by fastforce
  obtain b w3 where 3: "next_write w2 = (b, w3)" by fastforce
  obtain a where w1: "w1 = w\<lparr>tp_sequence_id := a\<rparr>" using next_seq_shape [OF 1] by blast
  obtain b c where w2: "w2 = w1\<lparr>link_rnd := b, link_nonce_counter := c\<rparr>"
    using stamp_nonce_shape [OF 2] by blast
  obtain d where w3: "w3 = w2\<lparr>link_writes := d\<rparr>" using next_write_shape [OF 3] by blast
  have "w' = w2 \<or> w' = w3 \<or> (\<exists>x y z. w' = w3\<lparr>tp_wire := x, tp_bytes_sent := y, tp_frames_sent := z\<rparr>)"
    using assms True 1 2 3 by (auto simp: send_raw_def Let_def split: sum.splits bool.splits)
  then show ?thesis by (elim disjE exE) (simp_all add: w1 w2 w3)
qed (use assms in \<open>simp add: send_raw_def\<close>)

lemma send_raw_count:
  "send_raw L c pl q w = (r, w') \<Longrightarrow>
    tp_frames_sent w' = tp_frames_sent w + (if r = Inr True then 1 else 0)"
proof -
  assume a: "send_raw L c pl q w = (r, w')"
  obtain n w1 where 1: "next_seq q w = (n, w1)" by fastforce
  obtain s w2 where 2: "stamp_nonce c w1 = (s, w2)" by fastforce
  obtain b w3 where 3: "next_write w2 = (b, w3)" by fastforce
  have "tp_frames_sent w3 = tp_frames_sent w" "tp_frames_sent w2 = tp_frames_sent w"
    by (subst next_write_shape [OF 3] stamp_nonce_shape [OF 2] next_seq_shape [OF 1], simp)+
  then show ?thesis
    using a 1 2 3 by (auto simp: send_raw_def Let_def split: if_splits sum.splits bool.splits)
qed

lemma next_wait_shape:
  fixes w :: "'a transport_scheme"
  shows "next_wait w = (lw, w') \<Longrightarrow> w' = w\<lparr>link_waits := link_waits w'\<rparr>"
  by (auto simp: next_wait_def split: list.splits)

text \<open>The cases of one attempt.\<close>

lemma send_attempts_cases:
  fixes w :: "'a transport_scheme"
  assumes "send_attempts L c pl (Suc n) p w = (r, p', w')"
  obtains (raised) e where "send_raw L c pl None w = (Inl e, w')" "r = Inl e"
  | (unsent) "send_raw L c pl None w = (Inr False, w')" "r = Inr (SBool False)"
  | (waited) w1 lw w2 p1 where "send_raw L c pl None w = (Inr True, w1)" "next_wait w1 = (lw, w2)"
      "p1 = await_completion L (if tp_in_reader w2 then [] else lw_frames lw)
              (p\<lparr>pk_attempts := pk_attempts p + 1, pk_ack_received := False, pk_success := None\<rparr>)"
      "pk_completion p1 \<and> pk_success p1 = Some True \<and> w' = w2
         \<and> r = Inr (case pk_response_payload p1 of Some x \<Rightarrow> SPayload x | None \<Rightarrow> SBool True)
       \<or> pk_completion p1 \<and> pk_success p1 \<noteq> Some True \<and> pk_failure_status p1 \<noteq> None \<and> w' = w2
         \<and> r = Inr (SBool False)
       \<or> (\<not> pk_completion p1 \<or> pk_success p1 \<noteq> Some True \<and> pk_failure_status p1 = None)
         \<and> send_attempts L c pl n
             (if n = 0 then p1 else correlate_all L (if tp_in_reader w2 then [] else lw_late lw) p1) w2
           = (r, p', w')"
proof -
  obtain r1 w1 where 1: "send_raw L c pl None w = (r1, w1)" by fastforce
  obtain lw w2 where 2: "next_wait w1 = (lw, w2)" by fastforce
  show ?thesis
  proof (cases r1)
    case (Inl e)
    then show ?thesis using assms 1 by (auto simp: Let_def intro: raised)
  next
    case (Inr b)
    show ?thesis
    proof (cases b)
      case False
      then show ?thesis using assms 1 Inr by (auto simp: Let_def intro: unsent)
    next
      case True
      show ?thesis
        by (rule waited [OF _ 2 refl]) (use assms 1 2 Inr True in \<open>auto simp: Let_def split: if_splits\<close>)
    qed
  qed
qed

lemma send_attempts_count:
  "send_attempts L c pl n p w = (r, p', w') \<Longrightarrow> tp_frames_sent w' \<le> tp_frames_sent w + n"
proof (induction n arbitrary: p w)
  case (Suc n)
  from Suc.prems show ?case
  proof (cases rule: send_attempts_cases)
    case (raised e)
    then show ?thesis using send_raw_count [OF raised(1)] by simp
  next
    case unsent
    then show ?thesis using send_raw_count [OF unsent(1)] by simp
  next
    case (waited w1 lw w2 p1)
    have "tp_frames_sent w1 = tp_frames_sent w + 1" using send_raw_count [OF waited(1)] by simp
    moreover have "tp_frames_sent w2 = tp_frames_sent w1"
      by (subst next_wait_shape [OF waited(2)]) simp
    ultimately show ?thesis using waited(4) Suc.IH by fastforce
  qed
qed auto

text \<open>The frames that answer a command.\<close>

definition resolves :: "lib \<Rightarrow> int \<Rightarrow> int \<Rightarrow> payload \<Rightarrow> bool" where
  "resolves L cmd c pl \<longleftrightarrow>
     c \<in> set (expected_responses cmd)
   \<or> expected_responses cmd = [] \<and> (c = STATUS_OK \<or> c = STATUS_ACK \<and> ack_target L pl cmd = cmd)"

lemma correlate_success:
  assumes "pk_success p = None" "pk_expected_resp_ids p = expected_responses (pk_command_id p)"
    and "pk_success (correlate_frame L c pl p) = Some True"
  shows "resolves L (pk_command_id p) c pl \<and> pk_response_payload (correlate_frame L c pl p) = Some pl"
  using assms
  by (auto simp: correlate_frame_def resolves_def mark_success_def mark_failure_def expected_response_tables
      failure_success_codes Let_def split: if_splits)

lemma await_success:
  "pk_success p = None \<Longrightarrow> pk_expected_resp_ids p = expected_responses (pk_command_id p) \<Longrightarrow>
   pk_success (await_completion L fs p) = Some True \<Longrightarrow>
   \<exists>(c, pl)\<in>set fs. resolves L (pk_command_id p) c pl
     \<and> pk_response_payload (await_completion L fs p) = Some pl"
proof (induction L fs p rule: await_completion.induct)
  case (2 L c pl fs p)
  let ?q = "correlate_frame L c pl p"
  show ?case
  proof (cases "pk_success ?q")
    case None
    then show ?thesis using 2 by (auto split: if_splits)
  next
    case (Some b)
    then have "pk_completion ?q"
      using "2.prems"(1) by (auto simp: correlate_frame_def mark_success_def mark_failure_def Let_def
          split: if_splits)
    then show ?thesis
      using "2.prems" Some correlate_success [of p L c pl] by (auto split: if_splits)
  qed
qed simp

lemma correlate_all_keeps:
  "pk_command_id (correlate_all L fs p) = pk_command_id p"
  "pk_expected_resp_ids (correlate_all L fs p) = pk_expected_resp_ids p"
  "pk_completion p \<Longrightarrow> pk_completion (correlate_all L fs p)"
  by (induction fs arbitrary: p) (auto simp: correlate_all_def correlate_completion split: prod.splits)

lemma in_reader_kept:
  "send_raw L c pl q w = (r, w1) \<Longrightarrow> next_wait w1 = (lw, w2) \<Longrightarrow>
    tp_in_reader w2 = tp_in_reader w
    \<and> (tp_in_reader w \<or> set (link_waits w2) \<subseteq> set (link_waits w)
         \<and> (lw \<in> set (link_waits w) \<or> lw_frames lw = [] \<and> lw_late lw = []))"
proof -
  assume a: "send_raw L c pl q w = (r, w1)" "next_wait w1 = (lw, w2)"
  have "link_waits w1 = link_waits w" "tp_in_reader w1 = tp_in_reader w"
    by (subst send_raw_shape [OF a(1)], simp)+
  then show ?thesis using a(2) by (auto simp: next_wait_def split: list.splits)
qed

lemma send_attempts_answered:
  "send_attempts L c pl n p w = (Inr res, p', w') \<Longrightarrow> res \<noteq> SBool False \<Longrightarrow>
   pk_command_id p = c \<Longrightarrow> pk_expected_resp_ids p = expected_responses c \<Longrightarrow>
   \<not> pk_completion p \<and> \<not> tp_in_reader w
     \<and> (\<exists>lw\<in>set (link_waits w). \<exists>(r, x)\<in>set (lw_frames lw). resolves L c r x \<and> res = SPayload x)"
proof (induction n arbitrary: p w)
  case (Suc n)
  from Suc.prems(1) show ?case
  proof (cases rule: send_attempts_cases)
    case (waited w1 lw w2 p1)
    let ?p0 = "p\<lparr>pk_attempts := pk_attempts p + 1, pk_ack_received := False, pk_success := None\<rparr>"
    note keep = in_reader_kept [OF waited(1,2)]
    have p1: "pk_command_id p1 = c" "pk_expected_resp_ids p1 = expected_responses c"
      using waited(3) Suc.prems(3,4) by simp_all
    consider (won) "pk_success p1 = Some True"
        "res = (case pk_response_payload p1 of Some x \<Rightarrow> SPayload x | None \<Rightarrow> SBool True)"
      | (again) "send_attempts L c pl n
          (if n = 0 then p1 else correlate_all L (if tp_in_reader w2 then [] else lw_late lw) p1) w2
          = (Inr res, p', w')"
      using waited(4) Suc.prems(2) by blast
    then show ?thesis
    proof cases
      case won
      note ok = won(1) and r = won(2)
      have nc: "\<not> pk_completion p" using ok waited(3) by (cases "pk_completion p") auto
      obtain rc x where "(rc, x) \<in> set (if tp_in_reader w2 then [] else lw_frames lw)"
          "resolves L c rc x" "pk_response_payload p1 = Some x"
        using await_success [of ?p0 L "if tp_in_reader w2 then [] else lw_frames lw"] ok waited(3)
          Suc.prems(3,4) by auto
      then show ?thesis using keep r nc by (auto split: if_splits)
    next
      case again
      let ?q = "if n = 0 then p1 else correlate_all L (if tp_in_reader w2 then [] else lw_late lw) p1"
      have q: "pk_command_id ?q = c" "pk_expected_resp_ids ?q = expected_responses c"
          "pk_completion p1 \<Longrightarrow> pk_completion ?q"
        using p1 by (simp_all add: correlate_all_keeps)
      have ih: "\<not> pk_completion p1 \<and> \<not> tp_in_reader w2
         \<and> (\<exists>lw\<in>set (link_waits w2). \<exists>(r, x)\<in>set (lw_frames lw). resolves L c r x \<and> res = SPayload x)"
        using Suc.IH [OF again Suc.prems(2) q(1,2)] q(3) by blast
      then have "\<not> pk_completion p" using waited(3) by (cases "pk_completion p") auto
      then show ?thesis using ih keep by blast
    qed
  qed (use Suc.prems(2) in auto)
qed auto

text \<open>A small concrete transport, for the witnesses.\<close>

definition sample_env :: env where
  "sample_env = \<lparr>now_unix = 1000, now_mono = 50, db_faults = [], link_writes = [], link_waits = [], link_rnd = [],
     stream_sends = [], uart_ok = True\<rparr>"

definition sample_state :: runtime_state where
  "sample_state = create_runtime_state sample_env ''yun'' (\<lambda>_. True) (\<lambda>_. []) (\<lambda>_. Map.empty) empty_config"

definition sample_transport :: transport where
  "sample_transport = (SerialTransport empty_config sample_state)\<lparr>tp_serial := True, tp_is_open := True\<rparr>"

lemma sample_transport_fields [simp]:
  "tp_serial sample_transport" "tp_is_open sample_transport" "\<not> tp_in_reader sample_transport"
  "tp_current sample_transport = None" "tp_sequence_id sample_transport = 0" "tp_wire sample_transport = []"
  "tp_config sample_transport = empty_config" "tp_negotiating sample_transport = False"
  "link_writes sample_transport = []" "link_waits sample_transport = []" "link_rnd sample_transport = []"
  "link_phase sample_transport = Disconnected" "link_session_key sample_transport = None"
  "link_last_nonce_counter sample_transport = 0" "link_nonce_counter sample_transport = 0"
  "tp_frames_sent sample_transport = 0" "tp_crc_errors sample_transport = 0" "tp_baud sample_transport = 0"
  by (simp_all add: sample_transport_def SerialTransport_def sample_state_def create_runtime_state_def
      configure_def sample_env_def runtime_state.defs Let_def)

lemma max_attempts_empty [simp]: "max_attempts empty_config = 1"
  by (simp add: max_attempts_def empty_config_def)

lemma send_raw_sent:
  fixes w :: "'a transport_scheme"
  assumes "send_raw L c pl q w = (Inr True, w')"
  obtains n w1 nonce w2 raw where "next_seq q w = (n, w1)" "stamp_nonce c w1 = (Inr nonce, w2)"
    "build_frame L c n pl (Some nonce) (session_key_in_use w2) = Inr raw"
    "tp_wire w' = tp_wire w @ [cobs_enc L raw @ [0]]" "tp_sequence_id w' = tp_sequence_id w1"
    "session_key_in_use w2 = session_key_in_use w"
proof -
  obtain n w1 where 1: "next_seq q w = (n, w1)" by fastforce
  obtain s w2 where 2: "stamp_nonce c w1 = (s, w2)" by fastforce
  obtain b w3 where 3: "next_write w2 = (b, w3)" by fastforce
  obtain a where w1: "w1 = w\<lparr>tp_sequence_id := a\<rparr>" using next_seq_shape [OF 1] by blast
  obtain x y where w2: "w2 = w1\<lparr>link_rnd := x, link_nonce_counter := y\<rparr>"
    using stamp_nonce_shape [OF 2] by blast
  obtain d where w3: "w3 = w2\<lparr>link_writes := d\<rparr>" using next_write_shape [OF 3] by blast
  have key: "session_key_in_use w2 = session_key_in_use w"
    by (simp add: w1 w2 session_key_in_use_def is_synchronized_def)
  show thesis
    using assms 1 2 3 key
    by (auto simp: send_raw_def Let_def w1 w2 w3 intro: that split: if_splits sum.splits bool.splits)
qed

lemma stamp_nonce_length:
  "stamp_nonce c w = (Inr nonce, w') \<Longrightarrow> length nonce = 12"
  by (auto simp: stamp_nonce_def next_rnd_def generate_nonce_with_counter_def Let_def
      split: if_splits sum.splits list.splits)


lemma build_frame_command: "build_frame L c n pl nonce key = Inr raw \<Longrightarrow> 0 \<le> c \<and> c \<le> 65535"
  by (auto simp: build_frame_def split: if_splits)

lemma excluded_system:
  "0 \<le> c \<Longrightarrow> c \<le> 65535 \<Longrightarrow> 48 \<le> c \<and> c \<le> 63 \<or> 64 \<le> c \<and> c \<le> 79 \<longleftrightarrow> is_system_command c"
  by (auto simp: is_system_command_range)

text \<open>The nonce that a sender stamps passes the check of a peer whose last counter is not ahead.\<close>

lemma stamped_passes:
  fixes w :: "'a transport_scheme" and peer :: "'b transport_scheme"
  assumes st: "stamp_nonce (ev_command_id e) w = (Inr nonce, w')" and e: "ev_nonce e = nonce"
    and c: "0 \<le> ev_command_id e" "ev_command_id e \<le> 65535"
    and sync: "is_synchronized peer = is_synchronized w"
    and last_ctr: "link_last_nonce_counter peer \<le> link_nonce_counter w"
  shows "fst (anti_replay_ok e peer)"
proof (cases "is_synchronized w \<and> \<not> is_system_command (ev_command_id e)")
  case True
  obtain r wr where r: "next_rnd 4 w = (r, wr)" by fastforce
  have "length r = 4" "link_nonce_counter wr = link_nonce_counter w"
    using r by (auto simp: next_rnd_def split: list.splits)
  moreover obtain c' where g: "generate_nonce_with_counter r (link_nonce_counter wr) = Inr (nonce, c')"
    using st True r by (auto simp: stamp_nonce_def split: sum.splits prod.splits)
  ultimately have "validate_nonce_counter nonce (link_last_nonce_counter peer) = (True, c')"
    using link_nonces.check_stamped [of r _ nonce c'] link_nonces.stamp_ctr [of r _ nonce c'] last_ctr by fastforce
  then show ?thesis using True sync e by (simp add: anti_replay_ok_def Let_def)
next
  case False
  then show ?thesis
    using sync excluded_system [OF c] by (auto simp: anti_replay_ok_def Let_def)
qed

lemma and_uint16_mod: "(n :: int) AND 65535 = n mod 65536"
  using take_bit_eq_mask [of 16 n] by (simp add: take_bit_eq_mod mask_eq_exp_minus_1)

text \<open>A frame that is not protected is always built; nothing but the counters and the wire changes.\<close>

lemma plain_send:
  assumes "tp_serial w" "link_writes w = []" "\<not> is_synchronized w \<or> is_system_command c" "0 \<le> c" "c \<le> 65535"
    and "\<forall>b. pl = PBytes b \<longrightarrow> length b \<le> MAX_PAYLOAD_SIZE"
  shows "\<exists>x n. send_raw L c pl None w = (Inr True, w\<lparr>tp_sequence_id := (tp_sequence_id w + 1) mod 65536,
      tp_wire := tp_wire w @ [x], tp_bytes_sent := n, tp_frames_sent := tp_frames_sent w + 1\<rparr>)"
proof -
  have "0 \<le> (tp_sequence_id w + 1) mod 65536" "(tp_sequence_id w + 1) mod 65536 < 4294967296"
    using pos_mod_bound [of 65536 "tp_sequence_id w + 1"] by (simp, linarith)
  with assms(3-) obtain raw where "build_frame L c ((tp_sequence_id w + 1) mod 65536) pl
      (Some (replicate 12 0)) (session_key_in_use w) = Inr raw"
    by (cases pl) (auto simp: build_frame_def seal_payload_def key_set_def uint32_ok_def session_key_in_use_def
        frame_header_def Let_def)
  with assms(1-3) have "send_raw L c pl None w = (Inr True, w\<lparr>tp_sequence_id := (tp_sequence_id w + 1) mod 65536,
      tp_wire := tp_wire w @ [cobs_enc L raw @ [0]], tp_bytes_sent := tp_bytes_sent w + length (cobs_enc L raw) + 1,
      tp_frames_sent := tp_frames_sent w + 1\<rparr>)"
    by (auto simp: send_raw_def next_seq_def stamp_nonce_def is_synchronized_def session_key_in_use_def
        next_write_def and_uint16_mod Let_def)
  then show ?thesis by (intro exI)
qed

lemma sample_unsynchronised [simp]: "\<not> is_synchronized sample_transport"
  by (simp add: is_synchronized_def)

text \<open>A completed command stays completed, so a frame that completes it is never undone.\<close>

lemma ack_not_response [simp]: "STATUS_ACK \<notin> set (expected_responses c)"
  by (auto simp: expected_responses_def request_response_map_eval split: if_splits)

lemma correlate_resolves:
  assumes "pk_success p \<noteq> None \<longrightarrow> pk_completion p"
    and "pk_expected_resp_ids p = expected_responses (pk_command_id p)"
  shows "pk_success (correlate_frame L c pl p) \<noteq> None \<longrightarrow> pk_completion (correlate_frame L c pl p)"
    and "resolves L (pk_command_id p) c pl \<Longrightarrow> pk_completion (correlate_frame L c pl p)"
  using assms
  by (auto simp: correlate_frame_def resolves_def mark_success_def mark_failure_def expected_response_tables
      failure_success_codes Let_def split: if_splits)

lemma correlate_all_resolves:
  "pk_success p \<noteq> None \<longrightarrow> pk_completion p \<Longrightarrow>
   pk_expected_resp_ids p = expected_responses (pk_command_id p) \<Longrightarrow>
   (r, x) \<in> set fs \<Longrightarrow> resolves L (pk_command_id p) r x \<Longrightarrow> pk_completion (correlate_all L fs p)"
proof (induction fs arbitrary: p)
  case (Cons f fs)
  obtain c pl where f: "f = (c, pl)" by fastforce
  have step: "correlate_all L (f # fs) p = correlate_all L fs (correlate_frame L c pl p)"
    by (simp add: correlate_all_def f)
  show ?case
  proof (cases "(r, x) = f")
    case True
    then show ?thesis
      using correlate_resolves(2) [OF Cons.prems(1,2)] Cons.prems(4) correlate_all_keeps(3) step f by auto
  next
    case False
    with Cons.IH [of "correlate_frame L c pl p"] Cons.prems correlate_resolves(1) [OF Cons.prems(1,2)]
    show ?thesis by (simp add: step)
  qed
qed simp

lemma get_version_tracked [simp]: "is_tracked 64" "expected_responses 64 = [65]"
  by (simp_all add: is_tracked_def expected_responses_def request_response_map_eval)

text \<open>One tracked command on the sample transport, for any script of frames.\<close>

lemma sample_tracked:
  "\<exists>w'. send L 64 (PBytes []) None (sample_transport\<lparr>link_waits := [\<lparr>lw_frames = fs, lw_late = ls\<rparr>]\<rparr>) = (Inr
     (let p = await_completion L fs (PendingCommand 64\<lparr>pk_attempts := 1\<rparr>)
      in if pk_completion p \<and> pk_success p = Some True
         then (case pk_response_payload p of Some pl \<Rightarrow> SPayload pl | None \<Rightarrow> SBool True) else SBool False), w')"
proof -
  let ?w = "sample_transport\<lparr>link_waits := [\<lparr>lw_frames = fs, lw_late = ls\<rparr>], tp_current := Some (PendingCommand 64)\<rparr>"
  obtain x n where "send_raw L 64 (PBytes []) None ?w = (Inr True, ?w\<lparr>tp_sequence_id := (tp_sequence_id ?w + 1) mod 65536,
      tp_wire := tp_wire ?w @ [x], tp_bytes_sent := n, tp_frames_sent := tp_frames_sent ?w + 1\<rparr>)"
    using plain_send [of ?w 64 "PBytes []" L] by (auto simp: is_synchronized_def)
  moreover have "(PendingCommand 64)\<lparr>pk_attempts := Suc (pk_attempts (PendingCommand 64)), pk_ack_received := False,
      pk_success := None\<rparr> = PendingCommand 64\<lparr>pk_attempts := 1\<rparr>"
    by (simp add: PendingCommand_def)
  ultimately show ?thesis by (simp add: send_def next_wait_def Let_def)
qed

lemma set_baudrate_sent:
  assumes "tp_serial w" "link_writes w = []"
  shows "\<exists>x w'. send_raw L 74 (PMsg (SetBaudratePacket b)) None w = (Inr True, w')
     \<and> tp_wire w' = tp_wire w @ [x] \<and> tp_baud w' = tp_baud w \<and> tp_config w' = tp_config w"
  using plain_send [of w 74 "PMsg (SetBaudratePacket b)" L] assms by (auto simp: is_system_command_range)

lemma negotiate_baud:
  assumes "negotiate_baudrate L b fs w = (ok, w')"
  shows "tp_baud w' = (if ok \<and> tp_serial w then serial_baud (tp_config w) else tp_baud w)" and "ok \<Longrightarrow> 75 \<in> set fs"
proof -
  obtain r w1 where s: "send_raw L 74 (PMsg (SetBaudratePacket b)) None
      (w\<lparr>tp_negotiating := True, tp_future := Some False\<rparr>) = (r, w1)" by fastforce
  have "tp_baud w1 = tp_baud w" "tp_config w1 = tp_config w" "tp_serial w1 = tp_serial w"
    by (subst send_raw_shape [OF s], simp)+
  then show "tp_baud w' = (if ok \<and> tp_serial w then serial_baud (tp_config w) else tp_baud w)" and "ok \<Longrightarrow> 75 \<in> set fs"
    using assms s by (auto simp: negotiate_baudrate_def switch_local_baudrate_def split: sum.splits bool.splits if_splits)
qed

section \<open>Properties\<close>

text \<open>C7 (safety). No cross-talk: a tracked command that reports anything but \<open>False\<close> was answered
  while it waited, outside the read loop, by a frame that belongs to it: one of its own responses, or,
  when it has none, an \<open>OK\<close> or an acknowledgement that names it; the value returned is that frame's
  payload. Responses to other commands and acknowledgements of others never complete it.\<close>

theorem send_success_answered:
  assumes "is_tracked c" and "send L c pl q w = (Inr res, w')" and "res \<noteq> SBool False"
  shows "\<not> tp_in_reader w
     \<and> (\<exists>lw\<in>set (link_waits w). \<exists>(r, x)\<in>set (lw_frames lw). resolves L c r x \<and> res = SPayload x)"
proof -
  obtain p' w1 where s: "send_attempts L c pl (max_attempts (tp_config w)) (PendingCommand c)
      (w\<lparr>tp_current := Some (PendingCommand c)\<rparr>) = (Inr res, p', w1)"
    using assms by (auto simp: send_def Let_def split: if_splits prod.splits)
  have "pk_command_id (PendingCommand c) = c" "pk_expected_resp_ids (PendingCommand c) = expected_responses c"
    by (simp_all add: PendingCommand_def)
  with send_attempts_answered [OF s assms(3)] show ?thesis by simp
qed

theorem send_success_answered_witness:
  "\<exists>w'. send model_lib 64 (PBytes []) None (sample_transport\<lparr>link_waits :=
        [\<lparr>lw_frames = [(67, PBytes [9]), (65, PBytes [1])], lw_late = []\<rparr>]\<rparr>) = (Inr (SPayload (PBytes [1])), w')
     \<and> resolves model_lib 64 65 (PBytes [1])"
proof -
  let ?fs = "[(67, PBytes [9]), (65, PBytes [1])]"
  let ?w = "sample_transport\<lparr>link_waits := [\<lparr>lw_frames = ?fs, lw_late = []\<rparr>]\<rparr>"
  have "await_completion model_lib ?fs (PendingCommand 64\<lparr>pk_attempts := 1\<rparr>)
      = mark_success (Some (PBytes [1])) (PendingCommand 64\<lparr>pk_attempts := 1\<rparr>)"
    by (simp add: PendingCommand_def correlate_frame_def expected_response_tables failure_success_codes
        expected_responses_def request_response_map_eval mark_success_def)
  then obtain w' where s: "send model_lib 64 (PBytes []) None ?w = (Inr (SPayload (PBytes [1])), w')"
    using sample_tracked [of model_lib ?fs "[]"] by (auto simp: mark_success_def)
  with send_success_answered [OF get_version_tracked(1) s] show ?thesis by (auto simp: resolves_def)
qed

text \<open>C17 (bounds). A tracked command writes at most \<open>_max_attempts\<close> frames, an untracked one at most
  one, and afterwards no command is in flight.\<close>

theorem send_attempts_bounded:
  assumes "send L c pl q w = (res, w')"
  shows "tp_frames_sent w' \<le> tp_frames_sent w + (if is_tracked c then max_attempts (tp_config w) else 1)
     \<and> (is_tracked c \<and> tp_serial w \<and> tp_is_open w \<longrightarrow> tp_current w' = None)"
proof (cases "tp_serial w \<and> tp_is_open w \<and> is_tracked c")
  case True
  then obtain p' w1 where s: "send_attempts L c pl (max_attempts (tp_config w)) (PendingCommand c)
      (w\<lparr>tp_current := Some (PendingCommand c)\<rparr>) = (res, p', w1)" and w': "w' = w1\<lparr>tp_current := None\<rparr>"
    using assms by (auto simp: send_def Let_def split: if_splits prod.splits)
  from send_attempts_count [OF s] w' True show ?thesis by simp
next
  case False
  then show ?thesis
    using assms send_raw_count [of L c pl q w]
    by (auto simp: send_def split: if_splits prod.splits sum.splits)
qed

theorem send_attempts_bounded_witness:
  "\<exists>res w'. send model_lib 64 (PBytes []) None sample_transport = (res, w') \<and> tp_frames_sent w' \<le> 1
     \<and> tp_current w' = None"
proof -
  obtain res w' where s: "send model_lib 64 (PBytes []) None sample_transport = (res, w')" by fastforce
  from send_attempts_bounded [OF s] s show ?thesis by simp
qed


text \<open>C13 (roundtrip). The outgoing and the incoming path of the transport fit: a frame that \<open>send_raw\<close>
  wrote is one delimited packet without an inner delimiter; a peer with the same session key decodes it
  to the command, to the next 16-bit sequence number and to the payload, and its anti-replay check
  lets the frame pass unless the peer already saw a larger counter.\<close>

theorem sent_frame_delivered:
  fixes w :: "'a transport_scheme" and peer :: "'b transport_scheme"
  assumes lib: "pb_ok L" "aead_ok L" "cobs_ok L" and repr: "\<forall>m. pl = PMsg m \<longrightarrow> representable_msg m"
    and sent: "send_raw L c pl None w = (Inr True, w')"
    and peer: "session_key_in_use peer = session_key_in_use w" "is_synchronized peer = is_synchronized w"
      "link_last_nonce_counter peer \<le> link_nonce_counter w"
  shows "\<exists>packet e. tp_wire w' = tp_wire w @ [packet @ [0]] \<and> 0 \<notin> set packet
     \<and> decode_packet L packet peer = Inr (e, delivered L c pl (session_key_in_use w))
     \<and> ev_command_id e = c \<and> ev_sequence_id e = (tp_sequence_id w + 1) mod 65536
     \<and> fst (anti_replay_ok e peer)"
proof -
  obtain n w1 nonce w2 raw where s: "next_seq None w = (n, w1)" "stamp_nonce c w1 = (Inr nonce, w2)"
    "build_frame L c n pl (Some nonce) (session_key_in_use w2) = Inr raw"
    "tp_wire w' = tp_wire w @ [cobs_enc L raw @ [0]]" "session_key_in_use w2 = session_key_in_use w"
    using send_raw_sent [OF sent] .
  have n: "n = (tp_sequence_id w + 1) mod 65536" "w1 = w\<lparr>tp_sequence_id := n\<rparr>"
    using s(1) by (auto simp: next_seq_def Let_def and_uint16_mod)
  obtain p where p: "parse_frame L raw (session_key_in_use w) =
     Inr (\<lparr>ev_version = 2, ev_command_id = c, ev_sequence_id = n, ev_nonce = nonce, ev_payload = p\<rparr>,
          delivered L c pl (session_key_in_use w))" (is "_ = Inr (?e, _)")
    using build_parse_frame [OF lib(1,2) stamp_nonce_length [OF s(2)] repr s(3)] s(5) by auto
  have "fst (anti_replay_ok ?e peer)"
    using stamped_passes [of ?e w1 nonce w2 peer] s(2) build_frame_command [OF s(3)] peer n(2)
    by (simp add: is_synchronized_def)
  moreover have "decode_packet L (cobs_enc L raw) peer = Inr (?e, delivered L c pl (session_key_in_use w))"
    using p lib(3) peer(1) by (simp add: decode_packet_def cobs_ok_def)
  ultimately show ?thesis using s(4) n(1) lib(3) by (auto simp: cobs_ok_def)
qed

theorem sent_frame_delivered_witness:
  "\<exists>w' packet e. send_raw model_lib 64 (PBytes []) None sample_transport = (Inr True, w')
     \<and> tp_wire w' = [packet @ [0]] \<and> decode_packet model_lib packet sample_transport = Inr (e, PBytes [])
     \<and> ev_command_id e = 64 \<and> ev_sequence_id e = 1"
proof -
  obtain w' where "send_raw model_lib 64 (PBytes []) None sample_transport = (Inr True, w')"
    using plain_send [of sample_transport 64 "PBytes []" model_lib] by auto
  with sent_frame_delivered [OF model_lib_ok(1-3) _ this, of sample_transport] show ?thesis
    by (auto simp: delivered_def key_set_def session_key_in_use_def is_synchronized_def)
qed


text \<open>The completion event is not cleared between attempts: when the response arrives in
  the pause after a timed-out attempt, the command fails, whatever is received in the later attempts.\<close>

theorem late_answer_lost:
  assumes "is_tracked c" and "tp_serial w" "tp_is_open w"
    and "link_waits w = lw # rest" and "lw_frames lw = []"
    and late: "(r, x) \<in> set (lw_late lw)" "resolves L c r x"
    and run: "send L c pl q w = (Inr res, w')"
  shows "res = SBool False"
proof (rule ccontr)
  assume nf: "res \<noteq> SBool False"
  let ?w = "w\<lparr>tp_current := Some (PendingCommand c)\<rparr>"
  obtain p' wz where s: "send_attempts L c pl (max_attempts (tp_config w)) (PendingCommand c) ?w
      = (Inr res, p', wz)"
    using assms by (auto simp: send_def Let_def split: if_splits prod.splits)
  obtain n where n: "max_attempts (tp_config w) = Suc n" by (cases "max_attempts (tp_config w)")
    (auto simp: max_attempts_def)
  have P: "pk_command_id (PendingCommand c) = c" "pk_expected_resp_ids (PendingCommand c) = expected_responses c"
      "\<not> pk_completion (PendingCommand c)" "pk_failure_status (PendingCommand c) = None"
    by (simp_all add: PendingCommand_def)
  from send_attempts_answered [OF s nf P(1,2)] have rd: "\<not> tp_in_reader w" by simp
  from s [unfolded n] show False
  proof (cases rule: send_attempts_cases)
    case (waited w1 lw' w2 p1)
    have "link_waits w1 = link_waits w" by (subst send_raw_shape [OF waited(1)]) simp
    then have lw: "lw' = lw" using waited(2) assms(4) by (auto simp: next_wait_def)
    have rd2: "\<not> tp_in_reader w2" using in_reader_kept [OF waited(1,2)] rd by simp
    have p1: "p1 = (PendingCommand c)\<lparr>pk_attempts := pk_attempts (PendingCommand c) + 1,
         pk_ack_received := False, pk_success := None\<rparr>"
      using waited(3) assms(5) lw by simp
    have "\<not> pk_completion p1" using p1 P by simp
    with waited(4) have "send_attempts L c pl n (if n = 0 then p1 else correlate_all L (lw_late lw) p1) w2 = (Inr res, p', wz)"
      by (simp only: rd2 lw if_False simp_thms)
    then have again: "send_attempts L c pl n (correlate_all L (lw_late lw) p1) w2 = (Inr res, p', wz)"
      using nf by (cases n) auto
    have "pk_completion (correlate_all L (lw_late lw) p1)"
      using correlate_all_resolves [OF _ _ late(1)] late(2) P p1 by simp
    then show False
      using send_attempts_answered [OF again nf] P p1 by (simp add: correlate_all_keeps)
  qed (use nf in auto)
qed


theorem late_answer_lost_witness:
  "\<exists>w'. send model_lib 64 (PBytes [])  None
      (sample_transport\<lparr>link_waits := [\<lparr>lw_frames = [], lw_late = [(65, PBytes [1])]\<rparr>]\<rparr>) = (Inr (SBool False), w')"
proof -
  let ?w = "sample_transport\<lparr>link_waits := [\<lparr>lw_frames = [], lw_late = [(65, PBytes [1])]\<rparr>]\<rparr>"
  obtain res w' where "send model_lib 64 (PBytes []) None ?w = (Inr res, w')"
    using sample_tracked by blast
  with late_answer_lost [of 64 ?w _ _ 65 "PBytes [1]"] show ?thesis by (auto simp: resolves_def)
qed


text \<open>C8 (safety). A packet of an application command (outside the status codes and system commands, 48 to
  79, which the code exempts from the check) that was accepted once is never dispatched again on the same
  session: as long as the last counter has not decreased, presenting it again changes nothing at all, and
  in particular it is not acknowledged again.\<close>

theorem replayed_packet_dropped:
  assumes "decode_packet L packet w = Inr (e, payload)" and "anti_replay_ok e w = (True, w1)"
    and "is_synchronized w" "is_synchronized w2" and "\<not> tp_negotiating w2"
    and "session_key_in_use w2 = session_key_in_use w"
    and "\<not> (STATUS_CODE_MIN \<le> ev_command_id e \<and> ev_command_id e \<le> SYSTEM_COMMAND_MAX)"
    and "link_last_nonce_counter w1 \<le> link_last_nonce_counter w2"
  shows "process_packet L dispatch packet w2 = (Inr (), w2)"
proof -
  have "decode_packet L packet w2 = Inr (e, payload)"
    using assms(1,6) by (auto simp: decode_packet_def split: option.splits)
  moreover obtain c' where v: "validate_nonce_counter (ev_nonce e) (link_last_nonce_counter w) = (True, c')"
      "c' = link_last_nonce_counter w1"
    using assms(2,3,7) by (auto simp: anti_replay_ok_def Let_def split: prod.splits bool.splits)
  have "fst (validate_nonce_counter (ev_nonce e) (link_last_nonce_counter w2)) = False"
    using v assms(8) by (auto simp: validate_nonce_counter_def split: sum.splits if_splits)
  then have "anti_replay_ok e w2 = (False, w2)"
    using assms(4,7) by (cases "validate_nonce_counter (ev_nonce e) (link_last_nonce_counter w2)")
      (auto simp: anti_replay_ok_def Let_def)
  ultimately show ?thesis using assms(5) by (simp add: process_packet_def)
qed

theorem replayed_packet_dropped_witness:
  "\<exists>packet. process_packet model_lib (\<lambda>c q p w. (Inl RuntimeError, w)) packet
      (sample_transport\<lparr>link_phase := Synchronized, link_session_key := Some (replicate 32 9), link_last_nonce_counter := 1\<rparr>)
    = (Inr (), sample_transport\<lparr>link_phase := Synchronized, link_session_key := Some (replicate 32 9), link_last_nonce_counter := 1\<rparr>)"
proof -
  let ?k = "Some (replicate 32 9) :: bytes option" and ?n = "replicate 4 0 @ to_be 8 1 :: bytes"
  let ?w = "sample_transport\<lparr>link_phase := Synchronized, link_session_key := ?k\<rparr>"
  obtain raw where raw: "build_frame model_lib 112 1 (PBytes [1]) (Some ?n) ?k = Inr raw"
    by (simp add: build_frame_def seal_payload_def frame_header_def payload_bytes_def key_set_def
        MAX_PAYLOAD_SIZE_def aead_args_ok_def uint32_ok_def is_system_command_range Let_def)
  obtain p where p: "parse_frame model_lib raw ?k = Inr (\<lparr>ev_version = 2, ev_command_id = 112, ev_sequence_id = 1,
      ev_nonce = ?n, ev_payload = p\<rparr>, delivered model_lib 112 (PBytes [1]) ?k)" (is "_ = Inr (?e, ?d)")
    using build_parse_frame [OF model_lib_ok(1,2) _ _ raw] by auto
  have "generate_nonce_with_counter (replicate 4 0) 0 = Inr (?n, 1)"
    by (simp add: generate_nonce_with_counter_def NONCE_COUNTER_MASK_def Let_def)
  then have "validate_nonce_counter ?n 0 = (True, 1)"
    using link_nonces.check_stamped [of "replicate 4 0" 0 ?n 1 0] by simp
  then have a: "anti_replay_ok ?e ?w = (True, ?w\<lparr>link_last_nonce_counter := 1\<rparr>)"
    by (simp add: anti_replay_ok_def is_synchronized_def Let_def)
  have d: "decode_packet model_lib (cobs_enc model_lib raw) ?w = Inr (?e, ?d)"
    using p model_lib_ok(3) by (simp add: decode_packet_def cobs_ok_def session_key_in_use_def is_synchronized_def)
  show ?thesis
    using replayed_packet_dropped [OF d a, of "?w\<lparr>link_last_nonce_counter := 1\<rparr>" "\<lambda>c q p w. (Inl RuntimeError, w)"]
    by (intro exI [of _ "cobs_enc model_lib raw"]) (simp add: is_synchronized_def session_key_in_use_def)
qed

text \<open>The baud rate fallback never takes effect. It runs inside the read loop, so the response
  is never read and the local UART keeps its rate, although \<open>SET_BAUDRATE\<close> for the safe rate has been
  written; and a negotiation that does succeed sets the UART to the configured rate, whatever the target.\<close>

theorem fallback_keeps_uart:
  assumes "tp_serial w" and "link_writes w = []"
    and "serial_fallback_threshold (tp_config w) \<le> tp_crc_errors w + 1"
    and "serial_baud (tp_config w) \<noteq> serial_safe_baud (tp_config w)"
  shows "tp_baud (check_baudrate_fallback L w) = tp_baud w
     \<and> (\<exists>packet. tp_wire (check_baudrate_fallback L w) = tp_wire w @ [packet])
     \<and> (\<forall>target fs w'. negotiate_baudrate L target fs w = (True, w') \<longrightarrow> tp_baud w' = serial_baud (tp_config w))"
proof -
  let ?w = "w\<lparr>tp_crc_errors := 0\<rparr>"
  obtain ok w' where n: "negotiate_baudrate L (serial_safe_baud (tp_config w)) [] ?w = (ok, w')" by fastforce
  have "tp_baud w' = tp_baud w" using negotiate_baud [OF n] by auto
  moreover have "\<exists>packet. tp_wire w' = tp_wire w @ [packet]"
    using n set_baudrate_sent [of "?w\<lparr>tp_negotiating := True, tp_future := Some False\<rparr>" L "serial_safe_baud (tp_config w)"]
      assms(1,2) by (auto simp: negotiate_baudrate_def)
  moreover have "check_baudrate_fallback L w = w'"
    using assms(3,4) n by (simp add: check_baudrate_fallback_def Let_def)
  ultimately show ?thesis using negotiate_baud(1) assms(1) by fastforce
qed

theorem fallback_keeps_uart_witness:
  "tp_baud (check_baudrate_fallback model_lib
      (sample_transport\<lparr>tp_baud := 250000, tp_config := empty_config\<lparr>serial_baud := 250000, serial_safe_baud := 115200,
         serial_fallback_threshold := 1\<rparr>\<rparr>)) = 250000"
  using fallback_keeps_uart [of "sample_transport\<lparr>tp_baud := 250000, tp_config := empty_config\<lparr>serial_baud := 250000,
     serial_safe_baud := 115200, serial_fallback_threshold := 1\<rparr>\<rparr>" model_lib] by simp


end
