(* ===== verification/Cloud.thy ===== *)
theory Cloud
  imports Serial
begin

text \<open>
  The way to the cloud: \<open>create_queued_publish\<close>, \<open>resolve_cloud_context\<close> and
  \<open>replace_cloud_publish\<close> of \<open>mcubridge/protocol/structures.py\<close>, and of
  \<open>mcubridge/services/runtime.py\<close> the publishing half of \<open>BridgeService\<close>: \<open>enqueue_cloud\<close> with the
  store-and-forward spool behind it. A message goes to a waiting local client, or to the cloud
  stream, or into the spool, or is counted as dropped. Sends to the stream consume the script
  \<open>stream_sends\<close>: a send succeeds or raises an exception of any kind, and only some kinds are caught.
  Operations of the spool consume \<open>db_faults\<close>.
\<close>

section \<open>State\<close>

record cloud_service = transport +
  sv_cloud_stream :: bool \<comment> \<open>\<open>_cloud_stream\<close> is set\<close>
  sv_cloud_spool :: "sqlite_deque option"
  sv_db_error :: string \<comment> \<open>the text of a database error\<close>
  sv_ipc_requests :: "(bytes \<times> cloud_publish list) list"
  sv_console_queues :: "cloud_publish list list"
  sv_sent :: "cloud_envelope list" \<comment> \<open>what the stream has taken\<close>

section \<open>Messages\<close>

definition create_queued_publish ::
  "string \<Rightarrow> bytes \<Rightarrow> string option \<Rightarrow> int option \<Rightarrow> (string \<times> string) list \<Rightarrow> cloud_publish" where
  "create_queued_publish topic payload content_type expiry props =
    \<lparr>cp_topic_name = topic, cp_payload = payload, cp_qos = 1,
     cp_content_type = Some (case content_type of Some t \<Rightarrow> t | None \<Rightarrow> []),
     cp_message_expiry_interval = expiry, cp_correlation_data = None, cp_user_properties = props,
     cp_subscription_identifier = []\<rparr>"

text \<open>\<open>replace_cloud_publish(message, user_properties=...)\<close>, the one use of it.\<close>

definition replace_cloud_publish :: "cloud_publish \<Rightarrow> (string \<times> string) list \<Rightarrow> cloud_publish" where
  "replace_cloud_publish message props = message\<lparr>cp_user_properties := props\<rparr>"

definition resolve_cloud_context :: "cloud_publish \<Rightarrow> bridge_request option \<Rightarrow> cloud_publish" where
  "resolve_cloud_context message context =
    (case context of
       None \<Rightarrow> message
     | Some r \<Rightarrow>
         (let m = (case br_response_topic r of None \<Rightarrow> message | Some t \<Rightarrow> message\<lparr>cp_topic_name := t\<rparr>);
              m = (case br_correlation_data r of None \<Rightarrow> m | Some c \<Rightarrow> m\<lparr>cp_correlation_data := Some c\<rparr>)
          in if br_topic r = [] then m
             else m\<lparr>cp_user_properties := cp_user_properties m @ [(''bridge-request-topic'', br_topic r)]\<rparr>))"

section \<open>Publishing\<close>

text \<open>The envelope of a message: a command response when it carries correlation data, else a
  telemetry report whose field is chosen by the topic.\<close>

definition cloud_envelope_of :: "string \<Rightarrow> cloud_publish \<Rightarrow> cloud_envelope" where
  "cloud_envelope_of device m =
    (case cp_correlation_data m of
       Some (b # bs) \<Rightarrow>
         \<lparr>ce_protocol_version = 2, ce_device_id = device, ce_sequence_id = from_be (take 8 (b # bs)),
          ce_timestamp_utc = 0,
          ce_payload = CommandResponse 200 (cp_payload m)\<rparr>
     | _ \<Rightarrow>
         \<lparr>ce_protocol_version = 2, ce_device_id = device, ce_sequence_id = 0, ce_timestamp_utc = 0,
          ce_payload = TelemetryReport
            (if py_contains ''metrics'' (cp_topic_name m) then ''daemon_metrics_blob''
             else if py_contains ''summary'' (cp_topic_name m) then ''bridge_snapshot_blob''
             else if py_contains ''handshake'' (cp_topic_name m) then ''handshake_snapshot_blob''
             else ''system_status_blob'') (cp_payload m)\<rparr>)"

text \<open>What \<open>_publish_cloud_message\<close> catches (\<open>struct.error\<close> and the serialisation error do not come from the
  stream); the exceptions of \<open>grpclib\<close> are not among them.\<close>

definition publish_catches :: "pyexc \<Rightarrow> bool" where
  "publish_catches e \<longleftrightarrow> e \<in> {OSError, TimeoutError}"

definition publish_cloud_message ::
  "cloud_publish \<Rightarrow> 'a cloud_service_scheme \<Rightarrow> bool result \<times> 'a cloud_service_scheme" where
  "publish_cloud_message message w =
    (if \<not> sv_cloud_stream w then (Inr False, w)
     else (case next_send w of
             (Inl e, w) \<Rightarrow> (if publish_catches e then Inr False else Inl e, w)
           | (Inr _, w) \<Rightarrow>
               (Inr True, w\<lparr>sv_sent := sv_sent w @ [cloud_envelope_of (device_id w) message],
                        cloud_messages_published := cloud_messages_published w + 1\<rparr>)))"

definition record_cloud_drop :: "string \<Rightarrow> 'a cloud_stats_scheme \<Rightarrow> 'a cloud_stats_scheme" where
  "record_cloud_drop topic w =
    w\<lparr>cloud_drop_counts := AList.update topic
        ((case map_of (cloud_drop_counts w) topic of Some n \<Rightarrow> n | None \<Rightarrow> 0) + 1) (cloud_drop_counts w),
      cloud_dropped_messages := cloud_dropped_messages w + 1\<rparr>"

section \<open>The spool\<close>

definition spool_failed :: "'a cloud_service_scheme \<Rightarrow> 'a cloud_service_scheme" where
  "spool_failed w = w\<lparr>cloud_spool_degraded := True, cloud_spool_failure_reason := Some (sv_db_error w)\<rparr>"

text \<open>The trimming loop of \<open>_spool_cloud_message_locked\<close>; it ends at the first error.\<close>

lemma sq_popleft_shorter:
  "sq_popleft f d = (Inr x, d') \<Longrightarrow> sq_length d' \<le> sq_length d - 1"
  by (cases f) (auto simp: sq_popleft_def sq_execute_def sq_attempt_def sq_popleft_impl_def sq_recreate_db_def
      sq_commit_def Let_def split: list.splits if_splits)

function trim_spool ::
  "nat \<Rightarrow> sqlite_deque \<Rightarrow> 'a cloud_service_scheme \<Rightarrow> sqlite_deque \<times> 'a cloud_service_scheme" where
  "trim_spool limit d w =
    (if limit = 0 \<or> sq_length d < limit then (d, w)
     else (case next_fault w of (f, w) \<Rightarrow>
       (case sq_popleft f d of
          (Inl _, d) \<Rightarrow> (d, w)
        | (Inr _, d) \<Rightarrow> trim_spool limit d (w\<lparr>cloud_spool_dropped_limit := cloud_spool_dropped_limit w + 1\<rparr>))))"
  by pat_completeness auto
termination
  by (relation "measure (\<lambda>(limit, d, w). sq_length d)") (auto dest!: sq_popleft_shorter [OF sym])

declare trim_spool.simps [simp del]

definition spool_cloud_message :: "lib \<Rightarrow> cloud_publish \<Rightarrow> 'a cloud_service_scheme \<Rightarrow> bool \<times> 'a cloud_service_scheme" where
  "spool_cloud_message L message w =
    (case sv_cloud_spool w of
       None \<Rightarrow> (False, w)
     | Some d \<Rightarrow>
         (case trim_spool (nat (st_cloud_queue_limit w)) d w of (d, w) \<Rightarrow>
            (let w = (if 0 < st_cloud_queue_limit w \<and> 0 < cloud_spool_dropped_limit w
                      then w\<lparr>cloud_spool_trim_events := cloud_spool_trim_events w + 1,
                             cloud_spool_last_trim_unix := now_unix w\<rparr> else w)
             in case next_fault w of (f, w) \<Rightarrow>
                  (case sq_append f (ser_pub L message) d of
                     (Inl _, d) \<Rightarrow> (False, spool_failed (w\<lparr>sv_cloud_spool := Some d\<rparr>))
                   | (Inr _, d) \<Rightarrow>
                       (True, w\<lparr>sv_cloud_spool := Some d, cloud_spool_degraded := False,
                                cloud_spool_failure_reason := None,
                                cloud_spool_pending_messages := int (sq_length d)\<rparr>)))))"

text \<open>The loop of \<open>_flush_cloud_spool_locked\<close>: peek, decode, publish, pop. An entry that does not
  decode is dropped and counted; a failed send leaves its entry in the spool. An exception that
  \<open>_publish_cloud_message\<close> does not catch leaves the loop and the method.\<close>

lemma sq_peek_length: "sq_peek f d = (r, d') \<Longrightarrow> sq_length d' \<le> sq_length d"
  by (cases f) (auto simp: sq_peek_def sq_execute_def sq_attempt_def sq_peek_impl_def sq_recreate_db_def
      sq_commit_def Let_def split: list.splits if_splits sum.splits)

text \<open>One iteration: whether the loop goes on, the spool and the state.\<close>

definition flush_step ::
  "lib \<Rightarrow> sqlite_deque \<Rightarrow> 'a cloud_service_scheme \<Rightarrow> bool result \<times> sqlite_deque \<times> 'a cloud_service_scheme" where
  "flush_step L d w =
    (case next_fault w of (f, w) \<Rightarrow>
       (case sq_peek f d of
          (Inl e, d) \<Rightarrow> (Inr False, d, if e = IndexError then w else spool_failed w)
        | (Inr encoded, d) \<Rightarrow>
            (case parse_pub L encoded of
               None \<Rightarrow>
                 (if sq_length d = 0
                  then (Inr True, d, w\<lparr>cloud_spool_corrupt_dropped := cloud_spool_corrupt_dropped w + 1\<rparr>)
                  else (case next_fault w of (g, w) \<Rightarrow>
                    (case sq_popleft g d of
                       (Inl _, d) \<Rightarrow> (Inr False, d, w)
                     | (Inr _, d) \<Rightarrow>
                         (Inr True, d, w\<lparr>cloud_spool_corrupt_dropped := cloud_spool_corrupt_dropped w + 1\<rparr>))))
             | Some queued \<Rightarrow>
                 (case publish_cloud_message queued w of
                    (Inl e, w) \<Rightarrow> (Inl e, d, w)
                  | (Inr False, w) \<Rightarrow> (Inr False, d, w)
                  | (Inr True, w) \<Rightarrow>
                      (case next_fault w of (g, w) \<Rightarrow>
                        (case sq_popleft g d of
                           (Inl e, d) \<Rightarrow> (Inr False, d, if e = IndexError then w else spool_failed w)
                         | (Inr _, d) \<Rightarrow> (Inr True, d, w)))))))"

lemma flush_step_shorter:
  "flush_step L d w = (Inr True, d', w') \<Longrightarrow> sq_length d' < sq_length d \<or> sq_length d = 0"
  by (fastforce simp: flush_step_def split: prod.splits sum.splits option.splits if_splits bool.splits
      dest: sq_popleft_shorter sq_peek_length)

function flush_loop ::
  "lib \<Rightarrow> sqlite_deque \<Rightarrow> 'a cloud_service_scheme \<Rightarrow> unit result \<times> sqlite_deque \<times> 'a cloud_service_scheme" where
  "flush_loop L d w =
    (if sq_length d = 0 then (Inr (), d, w)
     else (case flush_step L d w of
             (Inl e, d, w) \<Rightarrow> (Inl e, d, w)
           | (Inr False, d, w) \<Rightarrow> (Inr (), d, w)
           | (Inr True, d, w) \<Rightarrow> flush_loop L d w))"
  by pat_completeness auto
termination
  by (relation "measure (\<lambda>(L, d, w). sq_length d)") (auto dest!: flush_step_shorter [OF sym])

declare flush_loop.simps [simp del]

text \<open>The length after the loop, the marks and the \<open>vacuum\<close> of an empty spool.\<close>

definition flush_done :: "sqlite_deque \<Rightarrow> 'a cloud_service_scheme \<Rightarrow> 'a cloud_service_scheme" where
  "flush_done d w =
    (let w = w\<lparr>cloud_spool_pending_messages := int (sq_length d)\<rparr>;
         w = (if cloud_spool_degraded w then w else w\<lparr>cloud_spool_failure_reason := None\<rparr>)
     in if sq_length d = 0 then
          (case next_fault w of (f, w) \<Rightarrow>
             (case sq_vacuum f d of
                (Inl _, d) \<Rightarrow> spool_failed (w\<lparr>sv_cloud_spool := Some d\<rparr>)
              | (Inr _, d) \<Rightarrow> w\<lparr>sv_cloud_spool := Some d\<rparr>))
        else w\<lparr>sv_cloud_spool := Some d\<rparr>)"

definition flush_cloud_spool :: "lib \<Rightarrow> 'a cloud_service_scheme \<Rightarrow> unit result \<times> 'a cloud_service_scheme" where
  "flush_cloud_spool L w =
    (case sv_cloud_spool w of
       None \<Rightarrow> (Inr (), w)
     | Some d \<Rightarrow>
         (if \<not> sv_cloud_stream w then (Inr (), w)
          else (case flush_loop L d w of
                  (Inl e, d, w) \<Rightarrow> (Inl e, w\<lparr>sv_cloud_spool := Some d\<rparr>)
                | (Inr _, d, w) \<Rightarrow> (Inr (), flush_done d w))))"

section \<open>Enqueueing\<close>

text \<open>A local client waits on a queue of one place; the \<open>finally\<close> of \<open>enqueue_cloud\<close> takes the message out of
  the publish queue again, also when an exception passes (a send that never returns keeps it); the publish
  queue has \<open>cloud_queue_limit\<close> places,
  unbounded when that is zero.\<close>

definition ipc_queue :: "cloud_publish \<Rightarrow> 'a cloud_service_scheme \<Rightarrow> (bytes \<times> cloud_publish list) option" where
  "ipc_queue m w =
    (case cp_correlation_data m of
       Some (b # bs) \<Rightarrow> map_option (Pair (b # bs)) (map_of (sv_ipc_requests w) (b # bs))
     | _ \<Rightarrow> None)"

definition spool_or_drop :: "lib \<Rightarrow> cloud_publish \<Rightarrow> 'a cloud_service_scheme \<Rightarrow> 'a cloud_service_scheme" where
  "spool_or_drop L m w =
    (case spool_cloud_message L m w of
       (True, w) \<Rightarrow> w
     | (False, w) \<Rightarrow> record_cloud_drop (cp_topic_name m) w)"

definition store_and_forward ::
  "lib \<Rightarrow> cloud_publish \<Rightarrow> 'a cloud_service_scheme \<Rightarrow> unit result \<times> 'a cloud_service_scheme" where
  "store_and_forward L m w =
    (case flush_cloud_spool L w of
       (Inl e, w) \<Rightarrow> (Inl e, w)
     | (Inr _, w) \<Rightarrow>
         (case publish_cloud_message m w of
            (Inl e, w) \<Rightarrow> (Inl e, w)
          | (Inr True, w) \<Rightarrow> (Inr (), w)
          | (Inr False, w) \<Rightarrow> (Inr (), spool_or_drop L m w)))"

definition enqueue_cloud ::
  "lib \<Rightarrow> cloud_publish \<Rightarrow> bridge_request option \<Rightarrow> 'a cloud_service_scheme
    \<Rightarrow> unit result \<times> 'a cloud_service_scheme" where
  "enqueue_cloud L message reply_context w =
    (let m = resolve_cloud_context message reply_context
     in case ipc_queue m w of
          Some (c, q) \<Rightarrow>
            (if q \<noteq> [] then (Inl QueueFull, w)
             else (Inr (), w\<lparr>sv_ipc_requests := AList.update c (q @ [m]) (sv_ipc_requests w)\<rparr>))
        | None \<Rightarrow>
            (let w = (if py_contains ''console'' (cp_topic_name m)
                      then w\<lparr>sv_console_queues := map (\<lambda>q. q @ [m]) (sv_console_queues w)\<rparr> else w)
             in if 0 < st_cloud_queue_limit w \<and> st_cloud_queue_limit w \<le> int (length (cloud_publish_queue w))
                then (Inl QueueFull, w)
                else (case store_and_forward L m (w\<lparr>cloud_publish_queue := cloud_publish_queue w @ [m]\<rparr>) of
                        (r, w) \<Rightarrow> (r, if r = Inl Suspended then w
                                      else w\<lparr>cloud_publish_queue := tl (cloud_publish_queue w)\<rparr>))))"

section \<open>Lemmas\<close>

text \<open>What flushing and spooling leave alone; the sent messages only grow.\<close>

definition cloud_frame :: "'a cloud_service_scheme \<Rightarrow> 'a cloud_service_scheme \<Rightarrow> bool" where
  "cloud_frame w w' \<longleftrightarrow>
     cloud_dropped_messages w' = cloud_dropped_messages w \<and> device_id w' = device_id w
   \<and> st_cloud_queue_limit w' = st_cloud_queue_limit w \<and> cloud_publish_queue w' = cloud_publish_queue w
   \<and> sv_cloud_stream w' = sv_cloud_stream w \<and> sv_ipc_requests w' = sv_ipc_requests w
   \<and> sv_console_queues w' = sv_console_queues w \<and> sv_db_error w' = sv_db_error w \<and> (\<exists>s. sv_sent w' = sv_sent w @ s)
   \<and> set (stream_sends w') \<subseteq> set (stream_sends w)"

lemma cloud_frame_refl [simp]: "cloud_frame w w"
  by (simp add: cloud_frame_def)

lemma cloud_frame_trans [trans]: "cloud_frame u v \<Longrightarrow> cloud_frame v w \<Longrightarrow> cloud_frame u w"
  by (auto simp: cloud_frame_def)

lemma cloud_frame_updates [simp]:
  "cloud_frame w (v\<lparr>cloud_spool_dropped_limit := x1\<rparr>) = cloud_frame w v"
  "cloud_frame w (v\<lparr>cloud_spool_corrupt_dropped := x1\<rparr>) = cloud_frame w v"
  "cloud_frame w (v\<lparr>cloud_spool_trim_events := x1\<rparr>) = cloud_frame w v"
  "cloud_frame w (v\<lparr>cloud_spool_last_trim_unix := x2\<rparr>) = cloud_frame w v"
  "cloud_frame w (v\<lparr>cloud_spool_degraded := x3\<rparr>) = cloud_frame w v"
  "cloud_frame w (v\<lparr>cloud_spool_failure_reason := x4\<rparr>) = cloud_frame w v"
  "cloud_frame w (v\<lparr>cloud_spool_pending_messages := x1\<rparr>) = cloud_frame w v"
  "cloud_frame w (v\<lparr>sv_cloud_spool := x5\<rparr>) = cloud_frame w v"
  "cloud_frame w (spool_failed v) = cloud_frame w v"
  by (simp_all add: cloud_frame_def spool_failed_def)

lemma cloud_frame_from [simp]:
  "cloud_frame (v\<lparr>cloud_spool_dropped_limit := x1\<rparr>) w = cloud_frame v w"
  "cloud_frame (v\<lparr>cloud_spool_corrupt_dropped := x1\<rparr>) w = cloud_frame v w"
  "cloud_frame (v\<lparr>cloud_spool_trim_events := x1\<rparr>) w = cloud_frame v w"
  "cloud_frame (v\<lparr>cloud_spool_last_trim_unix := x2\<rparr>) w = cloud_frame v w"
  "cloud_frame (v\<lparr>cloud_spool_failure_reason := x4\<rparr>) w = cloud_frame v w"
  "cloud_frame (v\<lparr>cloud_spool_pending_messages := x1\<rparr>) w = cloud_frame v w"
  by (simp_all add: cloud_frame_def)

lemma next_fault_frame: "next_fault w = (f, w') \<Longrightarrow> cloud_frame w w'"
  by (auto simp: next_fault_def cloud_frame_def split: list.splits)

lemma publish_frame: "publish_cloud_message m w = (b, w') \<Longrightarrow> cloud_frame w w'"
  by (auto simp: publish_cloud_message_def next_send_def cloud_frame_def split: if_splits list.splits sum.splits)

lemma publish_raises:
  "publish_cloud_message m w = (Inl e, w') \<Longrightarrow>
    \<not> publish_catches e \<and> sv_cloud_stream w \<and> Inl e \<in> set (stream_sends w)"
  by (auto simp: publish_cloud_message_def next_send_def split: if_splits list.splits sum.splits)

lemma publish_sent:
  "publish_cloud_message m w = (Inr True, w') \<Longrightarrow>
    sv_sent w' = sv_sent w @ [cloud_envelope_of (device_id w) m] \<and> sv_cloud_spool w' = sv_cloud_spool w"
  by (auto simp: publish_cloud_message_def next_send_def split: if_splits list.splits sum.splits)

lemma publish_spool: "publish_cloud_message m w = (b, w') \<Longrightarrow> sv_cloud_spool w' = sv_cloud_spool w"
  by (auto simp: publish_cloud_message_def next_send_def split: if_splits list.splits sum.splits)

lemma next_fault_spool: "next_fault (w :: 'a cloud_service_scheme) = (f, w') \<Longrightarrow> sv_cloud_spool w' = sv_cloud_spool w"
  by (auto simp: next_fault_def split: list.splits)

text \<open>The invariant of the spool: it is on a file, has room for an entry, and its cached length does not
  exceed the number of rows. A database error keeps it, unless a retry fails after its own effect.\<close>

definition sq_fits :: "sqlite_deque \<Rightarrow> bool" where
  "sq_fits d \<longleftrightarrow> \<not> in_memory (sq_path d) \<and> sq_maxlen d \<noteq> Some 0 \<and> sq_length d \<le> length (sq_rows d)"

fun rolls_back :: "fault \<Rightarrow> bool" where
  "rolls_back (RetryFails _ after) = (\<not> after)"
| "rolls_back _ = True"

definition spool_safe :: "'a cloud_service_scheme \<Rightarrow> bool" where
  "spool_safe w \<longleftrightarrow> list_all rolls_back (db_faults w) \<and> (\<forall>d. sv_cloud_spool w = Some d \<longrightarrow> sq_fits d)"

lemma sq_fits_ops:
  assumes "rolls_back f" "sq_fits d"
  shows "sq_peek f d = (r1, d1) \<Longrightarrow> sq_fits d1"
    and "sq_popleft f d = (r1, d1) \<Longrightarrow> sq_fits d1"
    and "sq_append f x d = (r2, d1) \<Longrightarrow> sq_fits d1"
    and "sq_vacuum f d = (r2, d1) \<Longrightarrow> sq_fits d1"
  using assms
  by (cases f; auto simp: sq_peek_def sq_popleft_def sq_append_def sq_vacuum_def sq_execute_def sq_attempt_def
      sq_peek_impl_def sq_popleft_impl_def sq_append_impl_def sq_connect_def sq_recreate_db_def sq_commit_def
      sq_fits_def Let_def split: if_splits sum.splits prod.splits list.splits option.splits)+

text \<open>A successful append puts the item last.\<close>

lemma append_last:
  assumes "sq_append f x d = (Inr u, d')" "sq_fits d"
  shows "sq_rows d' \<noteq> [] \<and> last (sq_rows d') = x"
proof -
  have "sq_rows d1 \<noteq> [] \<and> last (sq_rows d1) = x" if "sq_attempt (sq_append_impl (sq_maxlen d) x) e = (Inr u, d1)"
    "sq_fits e" "sq_maxlen e = sq_maxlen d" for e d1
    using that by (auto simp: sq_attempt_def sq_append_impl_def sq_commit_def sq_connect_def sq_fits_def Let_def
        split: option.splits if_splits)
  then show ?thesis
    using assms by (cases f) (auto simp: sq_append_def sq_execute_def sq_recreate_db_def sq_fits_def Let_def)
qed

text \<open>The spool invariant through the loops, as a pair of the script and the deque.\<close>

definition spool_inv :: "sqlite_deque \<Rightarrow> 'a cloud_service_scheme \<Rightarrow> bool" where
  "spool_inv d w \<longleftrightarrow> sq_fits d \<and> list_all rolls_back (db_faults w)"

lemma next_fault_inv:
  "next_fault w = (f, w') \<Longrightarrow> spool_inv d w \<Longrightarrow> rolls_back f \<and> spool_inv d w'"
  by (auto simp: next_fault_def spool_inv_def split: list.splits)

lemma spool_inv_updates [simp]:
  "spool_inv d (w\<lparr>cloud_spool_dropped_limit := x1\<rparr>) = spool_inv d w"
  "spool_inv d (w\<lparr>cloud_spool_corrupt_dropped := x1\<rparr>) = spool_inv d w"
  "spool_inv d (w\<lparr>cloud_spool_trim_events := x1\<rparr>) = spool_inv d w"
  "spool_inv d (w\<lparr>cloud_spool_last_trim_unix := x2\<rparr>) = spool_inv d w"
  "spool_inv d (w\<lparr>cloud_spool_degraded := x3\<rparr>) = spool_inv d w"
  "spool_inv d (w\<lparr>cloud_spool_failure_reason := x4\<rparr>) = spool_inv d w"
  "spool_inv d (w\<lparr>cloud_spool_pending_messages := x1\<rparr>) = spool_inv d w"
  "spool_inv d (w\<lparr>sv_cloud_spool := x5\<rparr>) = spool_inv d w"
  "spool_inv d (spool_failed w) = spool_inv d w"
  by (simp_all add: spool_inv_def spool_failed_def)

lemma publish_inv: "publish_cloud_message m w = (b, w') \<Longrightarrow> spool_inv d w' = spool_inv d w"
  by (auto simp: publish_cloud_message_def next_send_def spool_inv_def split: if_splits list.splits sum.splits)

lemma spool_inv_ops:
  assumes "spool_inv d w" "next_fault w = (f, w1)"
  shows "sq_peek f d = (r1, d1) \<Longrightarrow> spool_inv d1 w1"
    and "sq_popleft f d = (r1, d1) \<Longrightarrow> spool_inv d1 w1"
    and "sq_append f x d = (r2, d1) \<Longrightarrow> spool_inv d1 w1"
    and "sq_vacuum f d = (r2, d1) \<Longrightarrow> spool_inv d1 w1"
  using next_fault_inv [OF assms(2,1)] sq_fits_ops [of f d] by (auto simp: spool_inv_def)

lemma trim_frame:
  "trim_spool k d w = (d', w') \<Longrightarrow> cloud_frame w w' \<and> (spool_inv d w \<longrightarrow> spool_inv d' w')"
proof (induction k d w rule: trim_spool.induct)
  case (1 k d w)
  obtain f w1 where f: "next_fault w = (f, w1)" by fastforce
  obtain r d1 where p: "sq_popleft f d = (r, d1)" by fastforce
  show ?case
    using 1 f p spool_inv_ops(2) [OF _ f p] next_fault_frame [OF f]
    by (subst (asm) (2) trim_spool.simps) (auto split: if_splits sum.splits dest: cloud_frame_trans)
qed

lemma flush_step_frame:
  assumes "flush_step L d w = (b, d', w')"
  shows "cloud_frame w w' \<and> (spool_inv d w \<longrightarrow> spool_inv d' w')"
proof -
  obtain f w1 where f: "next_fault w = (f, w1)" by fastforce
  obtain r d1 where pk: "sq_peek f d = (r, d1)" by fastforce
  note A = next_fault_frame [OF f] spool_inv_ops(1) [OF _ f pk]
  have "cloud_frame w1 w'"
    using assms f pk
    by (auto simp: flush_step_def split: sum.splits option.splits if_splits bool.splits prod.splits
        dest!: next_fault_frame publish_frame; blast intro: cloud_frame_trans)
  moreover have "spool_inv d1 w1 \<longrightarrow> spool_inv d' w'"
    using assms f pk
    by (auto simp: flush_step_def split: sum.splits option.splits if_splits bool.splits prod.splits
        dest: spool_inv_ops(2) publish_inv; metis spool_inv_ops(2) publish_inv)
  ultimately show ?thesis using A cloud_frame_trans by metis
qed

lemma flush_step_raises:
  assumes "flush_step L d w = (Inl e, d', w')"
  shows "\<not> publish_catches e \<and> sv_cloud_stream w \<and> Inl e \<in> set (stream_sends w)"
proof -
  obtain f w1 where f: "next_fault w = (f, w1)" by fastforce
  have "\<exists>m w2. publish_cloud_message m w1 = (Inl e, w2)"
    using assms f by (auto simp: flush_step_def split: sum.splits option.splits if_splits bool.splits prod.splits)
  with publish_raises next_fault_frame [OF f] show ?thesis by (fastforce simp: cloud_frame_def)
qed

lemma flush_loop_cases:
  assumes "flush_loop L d w = (r, d', w')"
  obtains (again) d1 w1 where "sq_length d \<noteq> 0" "flush_step L d w = (Inr True, d1, w1)" "flush_loop L d1 w1 = (r, d', w')"
  | (over) "r = Inr ()" "d' = d" "w' = w"
  | (stopped) "sq_length d \<noteq> 0" "flush_step L d w = (Inr False, d', w')" "r = Inr ()"
  | (raised) e where "sq_length d \<noteq> 0" "flush_step L d w = (Inl e, d', w')" "r = Inl e"
proof -
  obtain b d1 w1 where s: "flush_step L d w = (b, d1, w1)" by (cases "flush_step L d w") auto
  consider "sq_length d = 0" | "sq_length d \<noteq> 0" "b = Inr True" | "sq_length d \<noteq> 0" "b = Inr False"
    | e where "sq_length d \<noteq> 0" "b = Inl e"
    by (cases b) auto
  then show ?thesis using assms s that by cases (subst (asm) flush_loop.simps, simp)+
qed

lemma flush_loop_frame:
  "flush_loop L d w = (r, d', w') \<Longrightarrow> cloud_frame w w' \<and> (spool_inv d w \<longrightarrow> spool_inv d' w')
     \<and> (\<forall>e. r = Inl e \<longrightarrow> \<not> publish_catches e \<and> sv_cloud_stream w \<and> Inl e \<in> set (stream_sends w))"
proof (induction L d w rule: flush_loop.induct)
  case (1 L d w)
  from "1.prems" show ?case
  proof (cases rule: flush_loop_cases)
    case (again d1 w1)
    note s = flush_step_frame [OF again(2)]
    have "cloud_frame w1 w' \<and> (spool_inv d1 w1 \<longrightarrow> spool_inv d' w')
       \<and> (\<forall>e. r = Inl e \<longrightarrow> \<not> publish_catches e \<and> sv_cloud_stream w1 \<and> Inl e \<in> set (stream_sends w1))"
      using "1.IH" [OF again(1) again(2) [symmetric] refl refl refl again(3)] .
    with s cloud_frame_trans [of w w1 w'] show ?thesis by (auto simp: cloud_frame_def)
  next
    case stopped
    then show ?thesis using flush_step_frame [OF stopped(2)] by simp
  next
    case (raised e)
    then show ?thesis using flush_step_frame [OF raised(2)] flush_step_raises [OF raised(2)] by simp
  qed simp
qed

lemma flush_done_frame: "cloud_frame w (flush_done d w)"
  by (auto simp: flush_done_def Let_def split: if_splits prod.splits sum.splits dest!: next_fault_frame)

lemma flush_frame:
  assumes "flush_cloud_spool L w = (r, w')"
  shows "cloud_frame w w' \<and> (\<forall>e. r = Inl e \<longrightarrow> \<not> publish_catches e \<and> sv_cloud_stream w \<and> Inl e \<in> set (stream_sends w))"
proof (cases "sv_cloud_spool w")
  case (Some d)
  obtain q d1 w1 where l: "flush_loop L d w = (q, d1, w1)" by (cases "flush_loop L d w") auto
  show ?thesis
    using flush_loop_frame [OF l] l assms Some flush_done_frame [of w1 d1] cloud_frame_trans [of w w1 "flush_done d1 w1"]
    by (cases q) (auto simp: flush_cloud_spool_def split: if_splits)
qed (use assms in \<open>auto simp: flush_cloud_spool_def\<close>)

lemma flush_done_safe:
  assumes "spool_inv d w"
  shows "spool_safe (flush_done d w)"
proof -
  have "spool_safe (u\<lparr>sv_cloud_spool := Some e\<rparr>) \<longleftrightarrow> spool_inv e u" for e and u :: "'a cloud_service_scheme"
    by (auto simp: spool_safe_def spool_inv_def)
  moreover have "spool_safe (spool_failed u) = spool_safe u" for u :: "'a cloud_service_scheme"
    by (simp add: spool_safe_def spool_failed_def)
  ultimately show ?thesis
    using assms by (auto simp: flush_done_def Let_def split: if_splits prod.splits sum.splits dest: spool_inv_ops(4) [rotated])
qed

lemma flush_safe:
  assumes "flush_cloud_spool L w = (Inr (), w')" "spool_safe w"
  shows "spool_safe w'"
proof (cases "sv_cloud_spool w")
  case (Some d)
  obtain q d1 w1 where l: "flush_loop L d w = (q, d1, w1)" by (cases "flush_loop L d w") auto
  then have "spool_inv d1 w1" using flush_loop_frame [OF l] assms(2) Some by (simp add: spool_inv_def spool_safe_def)
  then show ?thesis
    using assms l Some flush_done_safe by (cases q) (auto simp: flush_cloud_spool_def split: if_splits)
qed (use assms in \<open>simp add: flush_cloud_spool_def\<close>)

lemma spool_frame:
  assumes "spool_cloud_message L m w = (b, w')"
  shows "cloud_frame w w'"
proof (cases "sv_cloud_spool w")
  case (Some d)
  obtain d1 w1 where t: "trim_spool (nat (st_cloud_queue_limit w)) d w = (d1, w1)" by fastforce
  then have "cloud_frame w w1" using trim_frame by blast
  then show ?thesis
    using assms Some t by (auto simp: spool_cloud_message_def Let_def split: prod.splits sum.splits if_splits
        dest!: next_fault_frame; blast intro: cloud_frame_trans)
qed (use assms in \<open>simp add: spool_cloud_message_def\<close>)

lemma spool_stored:
  assumes "spool_cloud_message L m w = (True, w')" and "spool_safe w"
  shows "\<exists>d. sv_cloud_spool w' = Some d \<and> sq_rows d \<noteq> [] \<and> last (sq_rows d) = ser_pub L m"
proof (cases "sv_cloud_spool w")
  case (Some d)
  obtain d1 w1 where t: "trim_spool (nat (st_cloud_queue_limit w)) d w = (d1, w1)" by fastforce
  have "sq_fits d1" using trim_frame [OF t] assms(2) Some by (auto simp: spool_safe_def spool_inv_def)
  then show ?thesis
    using assms(1) Some t append_last
    by (fastforce simp: spool_cloud_message_def Let_def split: prod.splits sum.splits if_splits)
qed (use assms in \<open>simp add: spool_cloud_message_def\<close>)

lemma publish_safe: "publish_cloud_message m w = (b, w') \<Longrightarrow> spool_safe w' = spool_safe w"
  by (auto simp: publish_cloud_message_def next_send_def spool_safe_def split: if_splits list.splits sum.splits)

definition accounted :: "lib \<Rightarrow> cloud_publish \<Rightarrow> 'a cloud_service_scheme \<Rightarrow> 'a cloud_service_scheme \<Rightarrow> bool" where
  "accounted L m w w' \<longleftrightarrow>
     (if cloud_dropped_messages w' = cloud_dropped_messages w
      then (\<exists>s. sv_sent w' = sv_sent w @ s @ [cloud_envelope_of (device_id w) m])
         \<or> (\<exists>d. sv_cloud_spool w' = Some d \<and> sq_rows d \<noteq> [] \<and> last (sq_rows d) = ser_pub L m)
      else cloud_dropped_messages w' = cloud_dropped_messages w + 1
         \<and> map_of (cloud_drop_counts w') (cp_topic_name m) \<noteq> None)"

lemma accounted_updates [simp]:
  "accounted L m (w\<lparr>cloud_publish_queue := q\<rparr>) w' = accounted L m w w'"
  "accounted L m (w\<lparr>sv_console_queues := qs\<rparr>) w' = accounted L m w w'"
  "accounted L m w (w'\<lparr>cloud_publish_queue := q\<rparr>) = accounted L m w w'"
  by (simp_all add: accounted_def cong: if_cong)

lemma store_cases:
  assumes "store_and_forward L m w = (r, w')"
  obtains (flush_raised) e where "flush_cloud_spool L w = (Inl e, w')" "r = Inl e"
  | (send_raised) e w0 where "flush_cloud_spool L w = (Inr (), w0)" "publish_cloud_message m w0 = (Inl e, w')" "r = Inl e"
  | (sent) w0 where "flush_cloud_spool L w = (Inr (), w0)" "publish_cloud_message m w0 = (Inr True, w')" "r = Inr ()"
  | (kept) w0 w1 where "flush_cloud_spool L w = (Inr (), w0)" "publish_cloud_message m w0 = (Inr False, w1)"
      "r = Inr ()" "w' = spool_or_drop L m w1"
  using assms by (auto simp: store_and_forward_def split: prod.splits sum.splits bool.splits)

lemma spool_or_drop_frame:
  "cloud_publish_queue (spool_or_drop L m w) = cloud_publish_queue w \<and> sv_cloud_stream (spool_or_drop L m w) = sv_cloud_stream w"
proof -
  obtain c w1 where s: "spool_cloud_message L m w = (c, w1)" by fastforce
  show ?thesis using spool_frame [OF s] s by (auto simp: spool_or_drop_def cloud_frame_def record_cloud_drop_def split: bool.splits)
qed

lemma store_queue:
  assumes "store_and_forward L m w = (r, w')"
  shows "cloud_publish_queue w' = cloud_publish_queue w" "sv_cloud_stream w' = sv_cloud_stream w"
    "r = Inl e \<Longrightarrow> \<not> publish_catches e \<and> sv_cloud_stream w \<and> Inl e \<in> set (stream_sends w)"
proof -
  have "cloud_publish_queue w' = cloud_publish_queue w \<and> sv_cloud_stream w' = sv_cloud_stream w
    \<and> (r = Inl e \<longrightarrow> \<not> publish_catches e \<and> sv_cloud_stream w \<and> Inl e \<in> set (stream_sends w))"
    using assms
  proof (cases rule: store_cases)
    case (flush_raised e)
    then show ?thesis using flush_frame [OF flush_raised(1)] by (auto simp: cloud_frame_def)
  next
    case (send_raised e w0)
    then show ?thesis using flush_frame [OF send_raised(1)] publish_frame [OF send_raised(2)] publish_raises [OF send_raised(2)]
      by (auto simp: cloud_frame_def)
  next
    case (sent w0)
    then show ?thesis using flush_frame [OF sent(1)] publish_frame [OF sent(2)] by (simp add: cloud_frame_def)
  next
    case (kept w0 w1)
    then show ?thesis using flush_frame [OF kept(1)] publish_frame [OF kept(2)] spool_or_drop_frame [of L m w1]
      by (simp add: cloud_frame_def)
  qed
  then show "cloud_publish_queue w' = cloud_publish_queue w" "sv_cloud_stream w' = sv_cloud_stream w"
    "r = Inl e \<Longrightarrow> \<not> publish_catches e \<and> sv_cloud_stream w \<and> Inl e \<in> set (stream_sends w)" by auto
qed

lemma store_accounted:
  assumes "spool_safe w" "store_and_forward L m w = (Inr (), w')"
  shows "accounted L m w w'"
  using assms(2)
proof (cases rule: store_cases)
  case (sent w0)
  then show ?thesis
    using flush_frame [OF sent(1)] publish_sent [OF sent(2)] publish_frame [OF sent(2)]
    by (auto simp: accounted_def cloud_frame_def)
next
  case (kept w0 w1)
  obtain c w2 where s: "spool_cloud_message L m w1 = (c, w2)" by fastforce
  have safe: "spool_safe w1" using flush_safe [OF kept(1) assms(1)] publish_safe [OF kept(2)] by simp
  have fr: "cloud_frame w w2"
    using flush_frame [OF kept(1)] publish_frame [OF kept(2)] spool_frame [OF s] cloud_frame_trans by metis
  show ?thesis
  proof (cases c)
    case True
    then show ?thesis using fr kept(4) s spool_stored [OF _ safe] by (auto simp: accounted_def cloud_frame_def spool_or_drop_def)
  next
    case False
    then show ?thesis using fr kept(4) s
      by (auto simp: accounted_def cloud_frame_def spool_or_drop_def record_cloud_drop_def update_conv)
  qed
qed auto

text \<open>A healthy database and stream.\<close>

lemma no_fault [simp]: "db_faults w = [] \<Longrightarrow> next_fault w = (NoFault, w)"
  by (simp add: next_fault_def)

lemma healthy_ops:
  assumes "sq_inv d" "sq_rows d = r # rs"
  shows "sq_peek NoFault d = (Inr r, d)"
    and "sq_popleft NoFault d = (Inr r, d\<lparr>sq_rows := rs, sq_length := length rs\<rparr>)"
  using assms by (cases d; simp add: sq_peek_def sq_popleft_def sq_execute_def sq_attempt_def sq_peek_impl_def sq_popleft_impl_def
      sq_connect_def sq_commit_def sq_inv_def)+

lemma healthy_append:
  assumes "sq_inv d" "sq_maxlen d = Some k" "length (sq_rows d) < k"
  shows "sq_append NoFault x d = (Inr (), d\<lparr>sq_rows := sq_rows d @ [x], sq_length := Suc (length (sq_rows d))\<rparr>)"
  using assms by (cases d; simp add: sq_append_def sq_execute_def sq_attempt_def sq_append_impl_def sq_connect_def
      sq_commit_def sq_inv_def)

lemma healthy_trim:
  assumes "sq_inv d" "length (sq_rows d) \<le> k" "0 < k" "db_faults w = []"
  shows "\<exists>n. trim_spool k d w = (d\<lparr>sq_rows := last_n (k - 1) (sq_rows d), sq_length := length (last_n (k - 1) (sq_rows d))\<rparr>,
     w\<lparr>cloud_spool_dropped_limit := n\<rparr>)"
proof (cases "length (sq_rows d) < k")
  case True
  then have "last_n (k - 1) (sq_rows d) = sq_rows d" by simp
  moreover have "d\<lparr>sq_rows := sq_rows d, sq_length := length (sq_rows d)\<rparr> = d"
    using assms(1) by (cases d) (simp add: sq_inv_def)
  moreover have "trim_spool k d w = (d, w\<lparr>cloud_spool_dropped_limit := cloud_spool_dropped_limit w\<rparr>)"
    using True assms(1) by (subst trim_spool.simps) (simp add: sq_inv_def)
  ultimately show ?thesis by metis
next
  case False
  with assms obtain r rs where rs: "sq_rows d = r # rs" by (cases "sq_rows d") auto
  have "last_n (k - 1) (sq_rows d) = rs" using False rs assms(2) by (auto simp: last_n_def)
  moreover have "trim_spool k (d\<lparr>sq_rows := rs, sq_length := length rs\<rparr>) u = (d\<lparr>sq_rows := rs, sq_length := length rs\<rparr>, u)"
    for u :: "'a cloud_service_scheme"
    using False rs assms(2) by (subst trim_spool.simps) simp
  moreover have "\<not> (k = 0 \<or> sq_length d < k)" using False assms(1,3) by (simp add: sq_inv_def)
  then have "trim_spool k d w = trim_spool k (d\<lparr>sq_rows := rs, sq_length := length rs\<rparr>)
      (w\<lparr>cloud_spool_dropped_limit := cloud_spool_dropped_limit w + 1\<rparr>)"
    using assms(4) healthy_ops(2) [OF assms(1) rs] by (subst trim_spool.simps) simp
  ultimately show ?thesis by metis
qed

text \<open>The state while the stream is down, with these rows in the spool.\<close>

definition offline :: "nat \<Rightarrow> bytes list \<Rightarrow> 'a cloud_service_scheme \<Rightarrow> bool" where
  "offline k rows w \<longleftrightarrow> \<not> sv_cloud_stream w \<and> db_faults w = []
     \<and> st_cloud_queue_limit w = int k \<and> 0 < k \<and> length rows \<le> k
     \<and> (\<exists>d. sv_cloud_spool w = Some d \<and> sq_inv d \<and> sq_maxlen d = Some k \<and> sq_rows d = rows)"

lemma offline_spools:
  assumes "offline k rows w"
  shows "\<exists>w'. spool_cloud_message L m w = (True, w') \<and> offline k (last_n k (rows @ [ser_pub L m])) w'
     \<and> sv_sent w' = sv_sent w \<and> stream_sends w' = stream_sends w \<and> device_id w' = device_id w"
proof -
  obtain d where d: "sv_cloud_spool w = Some d" "sq_inv d" "sq_maxlen d = Some k" "sq_rows d = rows"
    using assms by (auto simp: offline_def)
  let ?rows = "last_n (k - 1) rows"
  let ?d = "d\<lparr>sq_rows := ?rows, sq_length := length ?rows\<rparr>"
  obtain n where t: "trim_spool k d w = (?d, w\<lparr>cloud_spool_dropped_limit := n\<rparr>)"
    using healthy_trim [OF d(2), of k w] assms d(4) by (auto simp: offline_def)
  have len: "length ?rows < k" and k: "0 < k" using assms last_n_length [of "k - 1" rows] by (auto simp: offline_def)
  have a: "sq_append NoFault (ser_pub L m) ?d = (Inr (), ?d\<lparr>sq_rows := ?rows @ [ser_pub L m], sq_length := Suc (length ?rows)\<rparr>)"
    using healthy_append [of ?d k] d(2,3) len by (simp add: sq_inv_def)
  have "last_n k (rows @ [ser_pub L m]) = ?rows @ [ser_pub L m]"
    using assms by (auto simp: last_n_def offline_def Suc_diff_le)
  then show ?thesis
    using assms d t a len by (auto simp: spool_cloud_message_def offline_def sq_inv_def Let_def)
qed


lemma offline_enqueue:
  assumes off: "offline k rows w" and m: "cp_correlation_data m = None" and q: "cloud_publish_queue w = []"
  shows "\<exists>w'. enqueue_cloud L m None w = (Inr (), w') \<and> offline k (last_n k (rows @ [ser_pub L m])) w'
     \<and> cloud_publish_queue w' = [] \<and> sv_sent w' = sv_sent w \<and> stream_sends w' = stream_sends w \<and> device_id w' = device_id w"
proof -
  define u where "u = (if py_contains ''console'' (cp_topic_name m)
      then w\<lparr>sv_console_queues := map (\<lambda>q. q @ [m]) (sv_console_queues w)\<rparr> else w)\<lparr>cloud_publish_queue := [m]\<rparr>"
  have u: "offline k rows u" "sv_sent u = sv_sent w" "stream_sends u = stream_sends w" "device_id u = device_id w"
      "cloud_publish_queue u = [m]"
    using off by (auto simp: u_def offline_def)
  obtain w' where s: "spool_cloud_message L m u = (True, w')" "offline k (last_n k (rows @ [ser_pub L m])) w'"
      "sv_sent w' = sv_sent w" "stream_sends w' = stream_sends w" "device_id w' = device_id w"
    using offline_spools [OF u(1), of L m] u(2-) by auto
  have "\<not> sv_cloud_stream u" using u(1) by (simp add: offline_def)
  then have "store_and_forward L m u = (Inr (), w')"
    using s(1) by (simp add: store_and_forward_def flush_cloud_spool_def publish_cloud_message_def spool_or_drop_def
        split: option.splits)
  moreover have "cloud_publish_queue w' = [m]" using spool_frame [OF s(1)] u(5) by (simp add: cloud_frame_def)
  ultimately have "enqueue_cloud L m None w = (Inr (), w'\<lparr>cloud_publish_queue := []\<rparr>)"
    using off m q by (auto simp: enqueue_cloud_def u_def ipc_queue_def resolve_cloud_context_def offline_def Let_def)
  then show ?thesis using s by (simp add: offline_def)
qed

definition enqueue_all :: "lib \<Rightarrow> cloud_publish list \<Rightarrow> 'a cloud_service_scheme \<Rightarrow> 'a cloud_service_scheme" where
  "enqueue_all L ms w = fold (\<lambda>m w. snd (enqueue_cloud L m None w)) ms w"

lemma offline_enqueue_all:
  "offline k rows w \<Longrightarrow> \<forall>m\<in>set ms. cp_correlation_data m = None \<Longrightarrow> cloud_publish_queue w = [] \<Longrightarrow>
   offline k (last_n k (rows @ map (ser_pub L) ms)) (enqueue_all L ms w)
   \<and> sv_sent (enqueue_all L ms w) = sv_sent w \<and> stream_sends (enqueue_all L ms w) = stream_sends w
   \<and> device_id (enqueue_all L ms w) = device_id w"
proof (induction ms arbitrary: rows w)
  case (Cons m ms)
  obtain w' where e: "enqueue_cloud L m None w = (Inr (), w')" "offline k (last_n k (rows @ [ser_pub L m])) w'"
    "cloud_publish_queue w' = []" "sv_sent w' = sv_sent w" "stream_sends w' = stream_sends w" "device_id w' = device_id w"
    using offline_enqueue [OF Cons.prems(1), of m L] Cons.prems(2,3) by auto
  have "last_n k (last_n k (rows @ [ser_pub L m]) @ map (ser_pub L) ms) = last_n k (rows @ ser_pub L m # map (ser_pub L) ms)"
    by (simp add: last_n_append)
  with Cons.IH [OF e(2) _ e(3)] Cons.prems(2) e show ?case by (simp add: enqueue_all_def)
qed (simp add: enqueue_all_def offline_def)

lemma healthy_flush_loop:
  assumes "sq_inv d" "db_faults w = []" "stream_sends w = []" "sv_cloud_stream w"
    and "\<forall>r\<in>set (sq_rows d). parse_pub L r \<noteq> None"
  shows "\<exists>d' w'. flush_loop L d w = (Inr (), d', w') \<and> sq_inv d' \<and> sq_rows d' = [] \<and> db_faults w' = []
     \<and> sv_sent w' = sv_sent w @ map (\<lambda>r. cloud_envelope_of (device_id w) (the (parse_pub L r))) (sq_rows d)"
  using assms
proof (induction "sq_rows d" arbitrary: d w)
  case Nil
  then show ?case by (subst flush_loop.simps) (simp add: sq_inv_def)
next
  case (Cons r rs)
  obtain m where m: "parse_pub L r = Some m" using Cons.prems(5) Cons.hyps(2) by (metis list.set_intros(1) not_None_eq)
  let ?d = "d\<lparr>sq_rows := rs, sq_length := length rs\<rparr>"
  let ?w = "w\<lparr>sv_sent := sv_sent w @ [cloud_envelope_of (device_id w) m],
      cloud_messages_published := cloud_messages_published w + 1\<rparr>"
  have "flush_step L d w = (Inr True, ?d, ?w)"
    using Cons.prems(2-4) healthy_ops [OF Cons.prems(1) Cons.hyps(2) [symmetric]] m
    by (simp add: flush_step_def publish_cloud_message_def next_send_def)
  moreover have "sq_length d \<noteq> 0" using Cons.prems(1) Cons.hyps(2) by (auto simp: sq_inv_def)
  ultimately have "flush_loop L d w = flush_loop L ?d ?w" by (subst flush_loop.simps) simp
  moreover have "\<exists>d' w'. flush_loop L ?d ?w = (Inr (), d', w') \<and> sq_inv d' \<and> sq_rows d' = [] \<and> db_faults w' = []
     \<and> sv_sent w' = sv_sent ?w @ map (\<lambda>r. cloud_envelope_of (device_id w) (the (parse_pub L r))) rs"
    using Cons.hyps(1) [of ?d ?w] Cons.prems by (simp add: sq_inv_def flip: Cons.hyps(2))
  ultimately show ?case using Cons.hyps(2) [symmetric] m by auto
qed

lemma healthy_flush:
  assumes "offline k rows w" "stream_sends w = []" "\<forall>r\<in>set rows. parse_pub L r \<noteq> None"
  shows "\<exists>w'. flush_cloud_spool L (w\<lparr>sv_cloud_stream := True\<rparr>) = (Inr (), w')
     \<and> sv_sent w' = sv_sent w @ map (\<lambda>r. cloud_envelope_of (device_id w) (the (parse_pub L r))) rows
     \<and> cloud_spool_pending_messages w' = 0"
proof -
  obtain d where d: "sv_cloud_spool w = Some d" "sq_inv d" "sq_rows d = rows" using assms(1) by (auto simp: offline_def)
  obtain d' w' where l: "flush_loop L d (w\<lparr>sv_cloud_stream := True\<rparr>) = (Inr (), d', w')" "sq_inv d'" "sq_rows d' = []"
      "db_faults w' = []" "sv_sent w' = sv_sent w @ map (\<lambda>r. cloud_envelope_of (device_id w) (the (parse_pub L r))) rows"
    using healthy_flush_loop [OF d(2), of "w\<lparr>sv_cloud_stream := True\<rparr>" L] assms d(3) by (auto simp: offline_def)
  then show ?thesis using d(1)
    by (auto simp: flush_cloud_spool_def flush_done_def sq_inv_def sq_vacuum_def sq_execute_def sq_attempt_def Let_def)
qed

text \<open>A small concrete service.\<close>

definition sample_service :: cloud_service where
  "sample_service = transport.extend sample_transport
    \<lparr>sv_cloud_stream = False, sv_cloud_spool = Some (SqliteDeque ''/tmp/s.db'' (Some 2) [] True), sv_db_error = ''locked'',
     sv_ipc_requests = [], sv_console_queues = [], sv_sent = []\<rparr>"

definition sample_publish :: "string \<Rightarrow> cloud_publish" where
  "sample_publish t = create_queued_publish t [1] None None []"

lemma sample_service_fields [simp]:
  "sv_cloud_stream sample_service = False" "sv_sent sample_service = []" "sv_ipc_requests sample_service = []"
  "sv_cloud_spool sample_service = Some (SqliteDeque ''/tmp/s.db'' (Some 2) [] True)"
  "cloud_publish_queue sample_service = []" "stream_sends sample_service = []" "db_faults sample_service = []"
  "cloud_dropped_messages sample_service = 0"
  by (simp_all add: sample_service_def sample_transport_def SerialTransport_def sample_state_def create_runtime_state_def
      configure_def sample_env_def transport.defs runtime_state.defs Let_def)

lemma sample_offline: "offline 2 [] (sample_service\<lparr>st_cloud_queue_limit := 2\<rparr>)"
  by (simp add: offline_def SqliteDeque_def sq_inv_def in_memory_def)

text \<open>Publishing touches only the cloud side of the state: \<open>copy_cloud v w\<close> is \<open>w\<close> with that side taken
  from \<open>v\<close>.\<close>

definition copy_cloud :: "'a cloud_service_scheme \<Rightarrow> 'a cloud_service_scheme \<Rightarrow> 'a cloud_service_scheme" where
  "copy_cloud v w = w\<lparr>db_faults := db_faults v, stream_sends := stream_sends v,
     cloud_publish_queue := cloud_publish_queue v, cloud_drop_counts := cloud_drop_counts v,
     cloud_dropped_messages := cloud_dropped_messages v, cloud_messages_published := cloud_messages_published v,
     cloud_spool_corrupt_dropped := cloud_spool_corrupt_dropped v, cloud_spool_dropped_limit := cloud_spool_dropped_limit v,
     cloud_spool_trim_events := cloud_spool_trim_events v, cloud_spool_last_trim_unix := cloud_spool_last_trim_unix v,
     cloud_spool_degraded := cloud_spool_degraded v, cloud_spool_failure_reason := cloud_spool_failure_reason v,
     cloud_spool_pending_messages := cloud_spool_pending_messages v, sv_cloud_spool := sv_cloud_spool v,
     sv_ipc_requests := sv_ipc_requests v, sv_console_queues := sv_console_queues v, sv_sent := sv_sent v\<rparr>"

definition cloud_only :: "'a cloud_service_scheme \<Rightarrow> 'a cloud_service_scheme \<Rightarrow> bool" where
  "cloud_only w w' \<longleftrightarrow> w' = copy_cloud w' w"

lemma copy_copy: "copy_cloud u (copy_cloud v w) = copy_cloud u w"
  by (simp add: copy_cloud_def)

lemma cloud_only_refl [simp]: "cloud_only w w"
  by (simp add: cloud_only_def copy_cloud_def)

lemma cloud_only_trans: "cloud_only u v \<Longrightarrow> cloud_only v w \<Longrightarrow> cloud_only u w"
  unfolding cloud_only_def by (metis copy_copy)

lemma cloud_only_updates [simp]:
  "cloud_only w (w\<lparr>db_faults := a1\<rparr>)" "cloud_only w (w\<lparr>stream_sends := a2\<rparr>)"
  "cloud_only w (w\<lparr>cloud_publish_queue := a3\<rparr>)"
  "cloud_only w (w\<lparr>cloud_drop_counts := a4, cloud_dropped_messages := a5\<rparr>)"
  "cloud_only w (w\<lparr>sv_sent := a6, cloud_messages_published := a5\<rparr>)"
  "cloud_only w (w\<lparr>cloud_spool_corrupt_dropped := a5\<rparr>)" "cloud_only w (w\<lparr>cloud_spool_dropped_limit := a5\<rparr>)"
  "cloud_only w (w\<lparr>cloud_spool_trim_events := a5, cloud_spool_last_trim_unix := a7\<rparr>)"
  "cloud_only w (w\<lparr>cloud_spool_failure_reason := a8\<rparr>)"
  "cloud_only w (spool_failed w)" "cloud_only w (w\<lparr>cloud_spool_pending_messages := a5\<rparr>)"
  "cloud_only w (w\<lparr>sv_cloud_spool := a9\<rparr>)" "cloud_only w (w\<lparr>sv_console_queues := b1\<rparr>)"
  "cloud_only w (w\<lparr>sv_ipc_requests := b2\<rparr>)"
  "cloud_only w (w\<lparr>sv_cloud_spool := a9, cloud_spool_degraded := b3, cloud_spool_failure_reason := a8,
     cloud_spool_pending_messages := a5\<rparr>)"
  by (simp_all add: cloud_only_def copy_cloud_def spool_failed_def)

lemma cloud_only_steps:
  "next_fault w = (f, w') \<Longrightarrow> cloud_only w w'"
  "publish_cloud_message m w = (b, w') \<Longrightarrow> cloud_only w w'"
  "cloud_only w (record_cloud_drop t w)"
proof -
  show "next_fault w = (f, w') \<Longrightarrow> cloud_only w w'" by (auto simp: next_fault_def split: list.splits)
  show "cloud_only w (record_cloud_drop t w)" by (simp add: record_cloud_drop_def)
  assume p: "publish_cloud_message m w = (b, w')"
  obtain c w1 where n: "next_send w = (c, w1)" by fastforce
  then have "cloud_only w w1" by (auto simp: next_send_def split: list.splits)
  then show "cloud_only w w'"
    using p n by (auto simp: publish_cloud_message_def split: if_splits sum.splits intro: cloud_only_trans)
qed

lemma cloud_only_after:
  "cloud_only w v \<Longrightarrow> cloud_only w (v\<lparr>cloud_spool_corrupt_dropped := a5\<rparr>)"
  "cloud_only w v \<Longrightarrow> cloud_only w (v\<lparr>cloud_spool_dropped_limit := a5\<rparr>)"
  "cloud_only w v \<Longrightarrow> cloud_only w (spool_failed v)"
  "cloud_only w v \<Longrightarrow> cloud_only w (v\<lparr>sv_cloud_spool := a9\<rparr>)"
  "cloud_only w v \<Longrightarrow> cloud_only w (v\<lparr>cloud_spool_pending_messages := a5\<rparr>)"
  "cloud_only w v \<Longrightarrow> cloud_only w (v\<lparr>cloud_spool_failure_reason := a8\<rparr>)"
  "cloud_only w v \<Longrightarrow> cloud_only w (v\<lparr>cloud_publish_queue := a3\<rparr>)"
  "cloud_only w v \<Longrightarrow> cloud_only w (v\<lparr>cloud_spool_trim_events := a5, cloud_spool_last_trim_unix := a7\<rparr>)"
  "cloud_only w v \<Longrightarrow> cloud_only w (v\<lparr>sv_cloud_spool := a9, cloud_spool_degraded := b3, cloud_spool_failure_reason := a8,
     cloud_spool_pending_messages := a5\<rparr>)"
  by (rule cloud_only_trans, assumption, simp)+

lemma trim_only: "trim_spool k d w = (d', w') \<Longrightarrow> cloud_only w w'"
proof (induction k d w rule: trim_spool.induct)
  case (1 k d w)
  obtain f w1 where f: "next_fault w = (f, w1)" by fastforce
  obtain r d1 where p: "sq_popleft f d = (r, d1)" by fastforce
  let ?w = "w1\<lparr>cloud_spool_dropped_limit := cloud_spool_dropped_limit w1 + 1\<rparr>"
  note A = cloud_only_steps(1) [OF f]
  show ?case
  proof (cases "k = 0 \<or> sq_length d < k \<or> isl r")
    case True
    then have "w' = w \<or> w' = w1" using "1.prems" f p by (subst (asm) trim_spool.simps) (auto split: if_splits sum.splits)
    then show ?thesis using A by auto
  next
    case False
    then obtain x where r: "r = Inr x" by (cases r) auto
    then have "trim_spool k d1 ?w = (d', w')" using "1.prems" f p False by (subst (asm) trim_spool.simps) simp
    then have "cloud_only ?w w'" using "1.IH" f p r False by auto
    moreover have "cloud_only w ?w" using A by (rule cloud_only_after)
    ultimately show ?thesis by (rule cloud_only_trans [rotated])
  qed
qed

lemma flush_step_only: "flush_step L d w = (b, d', w') \<Longrightarrow> cloud_only w w'"
  by (auto simp: flush_step_def split: sum.splits option.splits if_splits bool.splits prod.splits
      dest!: cloud_only_steps(1,2) intro!: cloud_only_after; blast intro: cloud_only_trans)

lemma flush_loop_only: "flush_loop L d w = (r, d', w') \<Longrightarrow> cloud_only w w'"
proof (induction L d w rule: flush_loop.induct)
  case (1 L d w)
  from "1.prems" show ?case
  proof (cases rule: flush_loop_cases)
    case (again d1 w1)
    show ?thesis
      using flush_step_only [OF again(2)] "1.IH" [OF again(1) again(2) [symmetric] refl refl refl again(3)]
      by (rule cloud_only_trans)
  qed (auto dest: flush_step_only)
qed

lemma flush_done_only: "cloud_only w (flush_done d w)"
proof -
  define v where "v = (if cloud_spool_degraded w then w\<lparr>cloud_spool_pending_messages := int (sq_length d)\<rparr>
      else w\<lparr>cloud_spool_pending_messages := int (sq_length d), cloud_spool_failure_reason := None\<rparr>)"
  have v: "cloud_only w v" by (auto simp: v_def intro: cloud_only_after)
  obtain f u where f: "next_fault v = (f, u)" by fastforce
  have u: "cloud_only w u" by (rule cloud_only_trans [OF v cloud_only_steps(1) [OF f]])
  have "flush_done d w = (if sq_length d = 0 then (case sq_vacuum f d of
        (Inl _, d) \<Rightarrow> spool_failed (u\<lparr>sv_cloud_spool := Some d\<rparr>) | (Inr _, d) \<Rightarrow> u\<lparr>sv_cloud_spool := Some d\<rparr>)
      else v\<lparr>sv_cloud_spool := Some d\<rparr>)"
    using f by (simp add: flush_done_def v_def Let_def)
  then show ?thesis using u v by (auto split: prod.split sum.split intro!: cloud_only_after)
qed

lemma flush_only:
  assumes "flush_cloud_spool L w = (r, w')"
  shows "cloud_only w w'"
proof (cases "sv_cloud_spool w")
  case (Some d)
  obtain q d1 w1 where l: "flush_loop L d w = (q, d1, w1)" by (cases "flush_loop L d w") auto
  then show ?thesis using assms Some flush_loop_only [OF l] cloud_only_trans [OF _ flush_done_only]
    by (cases q) (auto simp: flush_cloud_spool_def split: if_splits intro: cloud_only_after)
qed (use assms in \<open>simp add: flush_cloud_spool_def\<close>)

lemma spool_only: "spool_cloud_message L m w = (b, w') \<Longrightarrow> cloud_only w w'"
proof (cases "sv_cloud_spool w")
  case (Some d)
  assume a: "spool_cloud_message L m w = (b, w')"
  obtain d1 w1 where t: "trim_spool (nat (st_cloud_queue_limit w)) d w = (d1, w1)" by fastforce
  define w2 where "w2 = (if 0 < st_cloud_queue_limit w1 \<and> 0 < cloud_spool_dropped_limit w1
     then w1\<lparr>cloud_spool_trim_events := cloud_spool_trim_events w1 + 1, cloud_spool_last_trim_unix := now_unix w1\<rparr> else w1)"
  have A: "cloud_only w w2" using trim_only [OF t] by (auto simp: w2_def intro: cloud_only_after)
  obtain f w3 where f: "next_fault w2 = (f, w3)" by fastforce
  have "cloud_only w w3" using A cloud_only_steps(1) [OF f] cloud_only_trans by blast
  then show ?thesis using a Some t f
    by (auto simp: spool_cloud_message_def Let_def w2_def [symmetric] split: sum.splits prod.splits intro!: cloud_only_after)
qed (simp add: spool_cloud_message_def)

lemma spool_or_drop_only: "cloud_only w (spool_or_drop L m w)"
  using cloud_only_steps(3) cloud_only_trans
  by (fastforce simp: spool_or_drop_def split: prod.splits bool.splits dest!: spool_only)

lemma store_only:
  assumes "store_and_forward L m w = (r, w')"
  shows "cloud_only w w'"
  using assms
proof (cases rule: store_cases)
  case (flush_raised e)
  then show ?thesis using flush_only by blast
next
  case (send_raised e w0)
  show ?thesis by (rule cloud_only_trans [OF flush_only [OF send_raised(1)] cloud_only_steps(2) [OF send_raised(2)]])
next
  case (sent w0)
  show ?thesis by (rule cloud_only_trans [OF flush_only [OF sent(1)] cloud_only_steps(2) [OF sent(2)]])
next
  case (kept w0 w1)
  show ?thesis
    unfolding kept(4) by (rule cloud_only_trans [OF cloud_only_trans [OF flush_only [OF kept(1)]
        cloud_only_steps(2) [OF kept(2)]] spool_or_drop_only])
qed

lemma enqueue_only:
  assumes "enqueue_cloud L m ctx w = (r, w')"
  shows "cloud_only w w'"
proof -
  let ?m = "resolve_cloud_context m ctx"
  define u where "u = (if py_contains ''console'' (cp_topic_name ?m)
     then w\<lparr>sv_console_queues := map (\<lambda>q. q @ [?m]) (sv_console_queues w)\<rparr> else w)"
  have u: "cloud_only w u" by (simp add: u_def)
  let ?v = "u\<lparr>cloud_publish_queue := cloud_publish_queue u @ [?m]\<rparr>"
  obtain q x where x: "store_and_forward L ?m ?v = (q, x)" by fastforce
  have v: "cloud_only w x"
    using u store_only [OF x] cloud_only_updates(3) cloud_only_trans by metis
  show ?thesis
    using assms u v x
    by (auto simp: enqueue_cloud_def Let_def u_def [symmetric] split: option.splits prod.splits if_splits
        intro: cloud_only_after)
qed

section \<open>Properties\<close>



text \<open>A message is lost without a trace when the send raises what \<open>_publish_cloud_message\<close> does not
  catch, as the exceptions of \<open>grpclib\<close> for a terminated stream: it is neither sent nor spooled nor counted,
  although the spool is there to keep it.\<close>

theorem escaped_send_loses_message:
  assumes "sv_cloud_stream w" and "stream_sends w = Inl e # sends" and "\<not> publish_catches e" and "e \<noteq> Suspended"
    and "sv_cloud_spool w = Some d" and "sq_length d = 0" and "db_faults w = []"
    and "cp_correlation_data m = None" and "cloud_publish_queue w = []"
  shows "\<exists>w'. enqueue_cloud L m None w = (Inl e, w') \<and> sv_sent w' = sv_sent w
     \<and> sv_cloud_spool w' = Some (snd (sq_vacuum NoFault d)) \<and> cloud_publish_queue w' = []
     \<and> cloud_dropped_messages w' = cloud_dropped_messages w \<and> cloud_drop_counts w' = cloud_drop_counts w"
proof -
  define u where "u = (if py_contains ''console'' (cp_topic_name m)
     then w\<lparr>sv_console_queues := map (\<lambda>q. q @ [m]) (sv_console_queues w)\<rparr> else w)\<lparr>cloud_publish_queue := [m]\<rparr>"
  have u: "sv_cloud_stream u" "sv_cloud_spool u = Some d" "stream_sends u = Inl e # sends" "sv_sent u = sv_sent w"
      "db_faults u = []" "cloud_dropped_messages u = cloud_dropped_messages w" "cloud_drop_counts u = cloud_drop_counts w"
    using assms by (simp_all add: u_def)
  have f: "flush_cloud_spool L u = (Inr (), flush_done d u)"
    using u(1,2) assms(6) by (simp add: flush_cloud_spool_def flush_loop.simps)
  have v: "stream_sends (flush_done d u) = Inl e # sends" "sv_cloud_stream (flush_done d u)"
      "sv_cloud_spool (flush_done d u) = Some (snd (sq_vacuum NoFault d))" "sv_sent (flush_done d u) = sv_sent w"
      "cloud_dropped_messages (flush_done d u) = cloud_dropped_messages w" "cloud_drop_counts (flush_done d u) = cloud_drop_counts w"
    using u assms(6) by (auto simp: flush_done_def spool_failed_def Let_def split: prod.splits sum.splits)
  have "store_and_forward L m u = (Inl e, (flush_done d u)\<lparr>stream_sends := sends\<rparr>)"
    using f v(1,2) assms(3) by (simp add: store_and_forward_def publish_cloud_message_def next_send_def)
  moreover have "cloud_publish_queue (flush_done d u) = [m]"
    using flush_done_frame [of u d] by (simp add: cloud_frame_def u_def)
  ultimately have "enqueue_cloud L m None w = (Inl e, (flush_done d u)\<lparr>stream_sends := sends, cloud_publish_queue := []\<rparr>)"
    using assms(4,8,9) by (auto simp: enqueue_cloud_def u_def ipc_queue_def resolve_cloud_context_def Let_def)
  then show ?thesis using v by simp
qed

theorem escaped_send_loses_message_witness:
  "\<exists>w'. enqueue_cloud model_lib (sample_publish ''br/system/status'') None
      (sample_service\<lparr>sv_cloud_stream := True, stream_sends := [Inl GrpcError]\<rparr>) = (Inl GrpcError, w')
     \<and> sv_sent w' = [] \<and> cloud_dropped_messages w' = 0"
  using escaped_send_loses_message [of "sample_service\<lparr>sv_cloud_stream := True, stream_sends := [Inl GrpcError]\<rparr>"
      GrpcError "[]" "SqliteDeque ''/tmp/s.db'' (Some 2) [] True" "sample_publish ''br/system/status''" model_lib]
  by (auto simp: publish_catches_def SqliteDeque_def in_memory_def sample_publish_def create_queued_publish_def)

text \<open>C16 (liveness). Store and forward: messages that are published while the cloud is unreachable wait in
  the spool, and when the stream is back the flush delivers the newest \<open>cloud_queue_limit\<close> of them, in
  the order in which they were published, and leaves the spool empty.\<close>

theorem store_and_forward_fifo:
  assumes "pb_ok L" and "offline k [] w" and "cloud_publish_queue w = []" and "stream_sends w = []"
    and "\<forall>m\<in>set ms. representable_pub m \<and> cp_correlation_data m = None"
  shows "\<exists>w'. flush_cloud_spool L ((enqueue_all L ms w)\<lparr>sv_cloud_stream := True\<rparr>) = (Inr (), w')
     \<and> sv_sent w' = sv_sent w @ map (cloud_envelope_of (device_id w)) (last_n k ms)
     \<and> cloud_spool_pending_messages w' = 0"
proof -
  let ?rows = "map (ser_pub L) (last_n k ms)"
  have e: "offline k ?rows (enqueue_all L ms w)" "sv_sent (enqueue_all L ms w) = sv_sent w"
      "stream_sends (enqueue_all L ms w) = []" "device_id (enqueue_all L ms w) = device_id w"
    using offline_enqueue_all [OF assms(2), of ms L] assms(3-) by (auto simp: last_n_def drop_map)
  have parse: "parse_pub L (ser_pub L m) = Some m" if "m \<in> set (last_n k ms)" for m
    using assms(1,5) that by (auto simp: pb_ok_def last_n_def dest: in_set_dropD)
  then have "map (\<lambda>r. cloud_envelope_of (device_id w) (the (parse_pub L r))) ?rows
      = map (cloud_envelope_of (device_id w)) (last_n k ms)" by simp
  with healthy_flush [OF e(1,3), of L] e parse show ?thesis by auto
qed

theorem store_and_forward_fifo_witness:
  "sv_sent (snd (flush_cloud_spool model_lib ((enqueue_all model_lib (map sample_publish [''a'', ''b'', ''c''])
        (sample_service\<lparr>st_cloud_queue_limit := 2\<rparr>))\<lparr>sv_cloud_stream := True\<rparr>)))
    = map (\<lambda>t. cloud_envelope_of (device_id sample_service) (sample_publish t)) [''b'', ''c'']"
  using store_and_forward_fifo [OF model_lib_ok(1) sample_offline, of "map sample_publish [''a'', ''b'', ''c'']"]
  by (auto simp: sample_publish_def create_queued_publish_def representable_pub_def uint32_ok_def last_n_def)

text \<open>A message can overtake the backlog: when sending the oldest spooled entry fails, the new
  message is still sent at once, so it arrives before everything that waits in the spool.\<close>

theorem new_message_overtakes_spool:
  assumes "sv_cloud_stream w" and "stream_sends w = Inl OSError # Inr () # sends" and "db_faults w = []"
    and "sv_cloud_spool w = Some d" and "sq_inv d" and "sq_rows d = r # rs" and "parse_pub L r \<noteq> None"
  shows "\<exists>w'. store_and_forward L m w = (Inr (), w') \<and> sv_sent w' = sv_sent w @ [cloud_envelope_of (device_id w) m]
     \<and> sv_cloud_spool w' = Some d"
proof -
  obtain p where p: "parse_pub L r = Some p" using assms(7) by auto
  have "flush_step L d w = (Inr False, d, w\<lparr>stream_sends := Inr () # sends\<rparr>)"
    using assms(1-3) healthy_ops(1) [OF assms(5,6)] p
    by (simp add: flush_step_def publish_cloud_message_def publish_catches_def next_send_def)
  moreover have l: "sq_length d \<noteq> 0" using assms(5,6) by (auto simp: sq_inv_def)
  ultimately have "flush_loop L d w = (Inr (), d, w\<lparr>stream_sends := Inr () # sends\<rparr>)" by (subst flush_loop.simps) simp
  then show ?thesis
    using assms(1,4) l by (auto simp: store_and_forward_def flush_cloud_spool_def flush_done_def publish_cloud_message_def
        next_send_def Let_def)
qed

theorem new_message_overtakes_spool_witness:
  "sv_sent (snd (store_and_forward model_lib (sample_publish ''b'') (sample_service\<lparr>sv_cloud_stream := True,
        stream_sends := [Inl OSError, Inr ()],
        sv_cloud_spool := Some (SqliteDeque ''/tmp/s.db'' (Some 2) [ser_pub model_lib (sample_publish ''a'')] True)\<rparr>)))
    = [cloud_envelope_of (device_id sample_service) (sample_publish ''b'')]"
  using new_message_overtakes_spool [of "sample_service\<lparr>sv_cloud_stream := True, stream_sends := [Inl OSError, Inr ()],
      sv_cloud_spool := Some (SqliteDeque ''/tmp/s.db'' (Some 2) [ser_pub model_lib (sample_publish ''a'')] True)\<rparr>" "[]"
      "SqliteDeque ''/tmp/s.db'' (Some 2) [ser_pub model_lib (sample_publish ''a'')] True" _ _ model_lib "sample_publish ''b''"]
  by (auto simp: SqliteDeque_def sq_inv_def in_memory_def model_lib_def)

end
