(* ===== verification/Handshake.thy ===== *)
theory Handshake
  imports Cloud
begin

text \<open>
  \<open>mcubridge/services/handshake.py\<close>: the authenticated synchronisation of the serial link. The manager
  sends a nonce with a tag, the response handler checks the MCU's tag for that nonce and derives the
  session key. While the manager waits, the read task runs: each wait consumes one \<open>pause\<close> of the
  script \<open>hs_pauses\<close>, that is, the packets that arrive meanwhile (they go through \<open>read_loop\<close>, with the
  service's dispatcher as an argument) and the clock afterwards. What the manager relies on in that dispatcher
  is the locale \<open>sync_dispatcher\<close>, which \<open>Core\<close> interprets on \<open>handle_mcu_frame\<close>.
\<close>

section \<open>State\<close>

datatype hs_state = UNSYNCHRONIZED | RESETTING | SYNCING | CONFIRMING | SYNCHRONIZED | FAULT

fun hs_state_value :: "hs_state \<Rightarrow> string" where
  "hs_state_value UNSYNCHRONIZED = ''unsynchronized''"
| "hs_state_value RESETTING = ''resetting''"
| "hs_state_value SYNCING = ''syncing''"
| "hs_state_value CONFIRMING = ''confirming''"
| "hs_state_value SYNCHRONIZED = ''synchronized''"
| "hs_state_value FAULT = ''fault''"

record pause =
  pz_packets :: "bytes list"
  pz_unix :: real
  pz_mono :: real

record handshake = cloud_service +
  hs_fsm_state :: hs_state
  hs_capabilities_future :: "payload option option" \<comment> \<open>the future, and its result once it is done\<close>
  hs_pauses :: "pause list"

text \<open>Waiting: the read task handles the packets, then the clock is read again. What becomes of the
  read task itself does not matter to the waiting one.\<close>

definition take_pause ::
  "lib \<Rightarrow> 'a handshake_scheme dispatcher \<Rightarrow> 'a handshake_scheme \<Rightarrow> 'a handshake_scheme" where
  "take_pause L dispatch w =
    (case hs_pauses w of
       [] \<Rightarrow> w
     | z # zs \<Rightarrow>
         (snd (read_loop L dispatch (map Packet (pz_packets z)) (w\<lparr>hs_pauses := zs\<rparr>)))
           \<lparr>now_unix := pz_unix z, now_mono := pz_mono z\<rparr>)"

section \<open>Timing, tags and keys\<close>

definition serial_timing :: "runtime_config \<Rightarrow> msg" where
  "serial_timing config =
    (let ack_ms = py_round (serial_retry_timeout config * 1000);
         response_ms = py_round (serial_response_timeout config * 1000)
     in HandshakeConfig ack_ms (serial_retry_attempts config) (max response_ms ack_ms))"

definition derive_serial_timing :: "runtime_config \<Rightarrow> msg result" where
  "derive_serial_timing config = mk_msg (serial_timing config)"

definition calculate_handshake_tag :: "lib \<Rightarrow> bytes \<Rightarrow> bytes \<Rightarrow> bytes" where
  "calculate_handshake_tag L secret nonce =
    (if secret = [] then []
     else (let auth_key = hkdf L AEAD_KEY_SIZE (encode_utf8 ''mcubridge-v2'') (encode_utf8 ''handshake-auth'') secret
           in take AEAD_TAG_SIZE (hmac_sha256 L auth_key nonce)))"

definition calculate_session_key :: "lib \<Rightarrow> bytes \<Rightarrow> bytes \<Rightarrow> bytes" where
  "calculate_session_key L secret nonce = hkdf L 32 nonce (encode_utf8 ''session-key'') secret"

definition fatal_threshold :: "runtime_config \<Rightarrow> int" where
  "fatal_threshold config = max 1 (serial_handshake_fatal_failures config)"

definition IMMEDIATE_FATAL_HANDSHAKE_REASONS :: "string list" where
  "IMMEDIATE_FATAL_HANDSHAKE_REASONS = [''sync_auth_mismatch'', ''sync_length_mismatch'']"

section \<open>State changes\<close>

definition set_fsm_state :: "hs_state \<Rightarrow> 'a handshake_scheme \<Rightarrow> 'a handshake_scheme" where
  "set_fsm_state new_state w =
    (let old_state = hs_fsm_state w
     in if old_state = new_state then w
        else (let w = w\<lparr>hs_fsm_state := new_state\<rparr>
              in if new_state = SYNCHRONIZED then mark_synchronized w
                 else if old_state = SYNCHRONIZED then mark_transport_connected w
                 else w))"

definition clear_handshake_expectations :: "'a link_state_scheme \<Rightarrow> 'a link_state_scheme" where
  "clear_handshake_expectations w =
    w\<lparr>link_handshake_nonce := None, link_expected_tag := None, link_nonce_length := 0\<rparr>"

definition publish_handshake_event ::
  "lib \<Rightarrow> string \<Rightarrow> string option \<Rightarrow> string option \<Rightarrow> 'a handshake_scheme \<Rightarrow> unit result \<times> 'a handshake_scheme" where
  "publish_handshake_event L event reason detail w =
    (let txt = (\<lambda>x. case x of None \<Rightarrow> [] | Some s \<Rightarrow> s);
         snapshot = (build_handshake_snapshot w)\<lparr>hn_event := event, hn_reason := txt reason,
                      hn_detail := txt detail, hn_fsm_state := hs_state_value (hs_fsm_state w)\<rparr>;
         message = create_queued_publish
           (txt (get_topic_for_message (cloud_topic_prefix w) (ByName ''HandshakeSnapshot'')))
           (ser_report L (HandshakeSnapshot snapshot)) (Some ''application/x-protobuf'') None
           [(''bridge-event'', ''handshake'')]
     in enqueue_cloud L message None w)"

definition should_mark_failure_fatal :: "string \<Rightarrow> 'a handshake_scheme \<Rightarrow> bool" where
  "should_mark_failure_fatal reason w \<longleftrightarrow>
     reason \<in> set IMMEDIATE_FATAL_HANDSHAKE_REASONS
   \<or> fatal_threshold (tp_config w) \<le> handshake_failure_streak w"

definition maybe_schedule_handshake_backoff :: "string \<Rightarrow> 'a handshake_stats_scheme \<Rightarrow> 'a handshake_stats_scheme" where
  "maybe_schedule_handshake_backoff reason w =
    (let streak = max 1 (handshake_failure_streak w);
         threshold = (if reason \<in> set IMMEDIATE_FATAL_HANDSHAKE_REASONS then 1 else 3)
     in if streak < threshold then w
        else w\<lparr>handshake_backoff_until := now_mono w
               + min (SERIAL_HANDSHAKE_BACKOFF_BASE * 2 ^ nat (streak - threshold)) SERIAL_HANDSHAKE_BACKOFF_MAX\<rparr>)"

text \<open>\<open>handle_handshake_failure\<close>: the bookkeeping, with the detail that is published, and then the
  event.\<close>

definition record_handshake_failure ::
  "string \<Rightarrow> string option \<Rightarrow> 'a handshake_scheme \<Rightarrow> string option \<times> 'a handshake_scheme" where
  "record_handshake_failure reason detail w =
    (let w = set_fsm_state FAULT w;
         w = w\<lparr>handshake_failure_streak := handshake_failure_streak w + 1, last_handshake_error := Some reason,
               last_handshake_unix := now_unix w, handshake_last_duration := handshake_duration_since_start w\<rparr>;
         w = mark_transport_connected w;
         is_fatal = should_mark_failure_fatal reason w;
         fatal_detail =
           (if is_fatal \<and> reason \<notin> set IMMEDIATE_FATAL_HANDSHAKE_REASONS
            then (case detail of Some (c # cs) \<Rightarrow> detail
                  | _ \<Rightarrow> Some (''failure_streak_exceeded_'' @ py_str_int (fatal_threshold (tp_config w))))
            else detail);
         w = (if is_fatal
              then w\<lparr>handshake_fatal_count := handshake_fatal_count w + 1, handshake_fatal_reason := Some reason,
                     handshake_fatal_detail := fatal_detail, handshake_fatal_unix := now_unix w\<rparr> else w)
     in (if is_fatal then fatal_detail else detail, maybe_schedule_handshake_backoff reason w))"

definition handle_handshake_failure ::
  "lib \<Rightarrow> string \<Rightarrow> string option \<Rightarrow> 'a handshake_scheme \<Rightarrow> unit result \<times> 'a handshake_scheme" where
  "handle_handshake_failure L reason detail w =
    (case record_handshake_failure reason detail w of (d, w) \<Rightarrow>
       publish_handshake_event L ''failure'' (Some reason) d w)"

definition record_handshake_success :: "'a handshake_scheme \<Rightarrow> 'a handshake_scheme" where
  "record_handshake_success w =
    (let w = mark_synchronized (w\<lparr>handshake_failure_streak := 0, handshake_backoff_until := 0,
               last_handshake_error := None, last_handshake_unix := now_unix w,
               handshake_last_duration := handshake_duration_since_start w\<rparr>)
     in w\<lparr>handshake_successes := handshake_successes w + 1\<rparr>)"

definition handle_handshake_success :: "lib \<Rightarrow> 'a handshake_scheme \<Rightarrow> unit result \<times> 'a handshake_scheme" where
  "handle_handshake_success L w = publish_handshake_event L ''success'' None None (record_handshake_success w)"

section \<open>The response handler\<close>

text \<open>A rejection: acknowledge as malformed, forget the expectations or not, record the failure.\<close>

definition reject_sync ::
  "lib \<Rightarrow> int \<Rightarrow> bool \<Rightarrow> string \<Rightarrow> string option \<Rightarrow> 'a handshake_scheme \<Rightarrow> bool result \<times> 'a handshake_scheme" where
  "reject_sync L seq_id forget reason detail w =
    (case acknowledge L 69 seq_id STATUS_MALFORMED w of
       (Inl e, w) \<Rightarrow> (Inl e, w)
     | (Inr _, w) \<Rightarrow>
         (case handle_handshake_failure L reason detail (if forget then clear_handshake_expectations w else w) of
            (Inl e, w) \<Rightarrow> (Inl e, w)
          | (Inr _, w) \<Rightarrow> (Inr False, w)))"

datatype sync_packet = SyncPacket bytes bytes | SyncUndecodable | SyncWrongMessage

text \<open>Reading \<open>nonce\<close> and \<open>tag\<close>; another message has no such attributes.\<close>

definition decode_sync :: "lib \<Rightarrow> payload \<Rightarrow> sync_packet" where
  "decode_sync L payload =
    (case payload of
       PMsg (LinkSync nonce tag) \<Rightarrow> SyncPacket nonce tag
     | PMsg _ \<Rightarrow> SyncWrongMessage
     | PBytes b \<Rightarrow> (case parse_as L ''LinkSync'' b of
                      None \<Rightarrow> SyncUndecodable
                    | Some (LinkSync nonce tag) \<Rightarrow> SyncPacket nonce tag
                    | Some _ \<Rightarrow> SyncWrongMessage))"

text \<open>The end of a good exchange. \<open>asyncio.create_task(_fetch_capabilities_with_delay())\<close> only starts
  another task.\<close>

definition complete_sync :: "lib \<Rightarrow> bytes \<Rightarrow> 'a handshake_scheme \<Rightarrow> bool result \<times> 'a handshake_scheme" where
  "complete_sync L nonce w =
    (let secret = serial_shared_secret (tp_config w);
         w = (if secret = [] then w else w\<lparr>link_session_key := Some (calculate_session_key L secret nonce)\<rparr>);
         w = clear_handshake_expectations (set_fsm_state SYNCHRONIZED w)
     in case handle_handshake_success L w of
          (Inl e, w) \<Rightarrow> (Inl e, w)
        | (Inr _, w) \<Rightarrow> (Inr True, w))"

definition check_sync ::
  "lib \<Rightarrow> int \<Rightarrow> bytes \<Rightarrow> bytes \<Rightarrow> bytes \<Rightarrow> 'a handshake_scheme \<Rightarrow> bool result \<times> 'a handshake_scheme" where
  "check_sync L seq_id expected nonce tag_bytes w =
    (let recalculated_tag = calculate_handshake_tag L (serial_shared_secret (tp_config w)) nonce
     in if nonce \<noteq> expected then (Inr False, w)
        else if link_expected_tag w = None \<or> length tag_bytes \<noteq> AEAD_TAG_SIZE \<or> tag_bytes \<noteq> recalculated_tag
        then reject_sync L seq_id True ''sync_auth_mismatch'' (Some ''nonce_or_tag_mismatch'') w
        else complete_sync L nonce w)"

definition handle_link_sync_resp ::
  "lib \<Rightarrow> int \<Rightarrow> payload \<Rightarrow> 'a handshake_scheme \<Rightarrow> bool result \<times> 'a handshake_scheme" where
  "handle_link_sync_resp L seq_id payload w =
    (case link_handshake_nonce w of
       None \<Rightarrow> reject_sync L seq_id False ''unexpected_sync_resp'' None w
     | Some expected \<Rightarrow>
         (let rate_limit = serial_handshake_min_interval (tp_config w)
          in if 0 < rate_limit \<and> now_mono w < handshake_rate_until w
             then reject_sync L seq_id False ''sync_rate_limited'' None w
             else (let w = (if 0 < rate_limit then w\<lparr>handshake_rate_until := now_mono w + rate_limit\<rparr> else w)
                   in case decode_sync L payload of
                        SyncWrongMessage \<Rightarrow> (Inl AttributeError, w)
                      | SyncUndecodable \<Rightarrow> reject_sync L seq_id True ''sync_decode_failed'' None w
                      | SyncPacket nonce tag_bytes \<Rightarrow> check_sync L seq_id expected nonce tag_bytes w)))"

definition handle_link_reset_resp :: "int \<Rightarrow> payload \<Rightarrow> 'a handshake_scheme \<Rightarrow> bool result \<times> 'a handshake_scheme" where
  "handle_link_reset_resp seq_id payload w = (Inr True, w)"

section \<open>Synchronising\<close>

definition fail_attempt ::
  "lib \<Rightarrow> string \<Rightarrow> 'a handshake_scheme \<Rightarrow> bool result \<times> 'a handshake_scheme" where
  "fail_attempt L reason w =
    (case handle_handshake_failure L reason None (clear_handshake_expectations w) of
       (Inl e, w) \<Rightarrow> (Inl e, w)
     | (Inr _, w) \<Rightarrow> (Inr False, w))"

text \<open>\<open>_wait_for_link_sync_confirmation\<close>.\<close>

definition wait_for_link_sync_confirmation ::
  "lib \<Rightarrow> 'a handshake_scheme dispatcher \<Rightarrow> 'a handshake_scheme \<Rightarrow> bool \<times> 'a handshake_scheme" where
  "wait_for_link_sync_confirmation L dispatch w =
    (if is_synchronized w then (True, w)
     else (let w = take_pause L dispatch w in (link_sync_event w \<and> is_synchronized w, w)))"

text \<open>The second half of \<open>_synchronize_attempt\<close>, after \<open>LINK_SYNC\<close> was written.\<close>

definition confirm_attempt ::
  "lib \<Rightarrow> 'a handshake_scheme dispatcher \<Rightarrow> bytes \<Rightarrow> 'a handshake_scheme \<Rightarrow> bool result \<times> 'a handshake_scheme" where
  "confirm_attempt L dispatch nonce w =
    (if hs_fsm_state w = FAULT then (Inr False, w)
     else (let w = (if hs_fsm_state w = SYNCING then set_fsm_state CONFIRMING w else w)
           in case wait_for_link_sync_confirmation L dispatch w of (confirmed, w) \<Rightarrow>
                (let current_state = hs_fsm_state w
                 in if \<not> confirmed then
                      (if current_state = FAULT then (Inr False, w)
                       else if link_handshake_nonce w = Some nonce then fail_attempt L ''link_sync_timeout'' w
                       else (Inr False, clear_handshake_expectations w))
                    else (let w = (if current_state \<noteq> SYNCHRONIZED \<and> current_state \<noteq> FAULT
                                   then set_fsm_state SYNCHRONIZED w else w)
                          in (Inr (hs_fsm_state w = SYNCHRONIZED), w)))))"

definition synchronize_attempt ::
  "lib \<Rightarrow> 'a handshake_scheme dispatcher \<Rightarrow> 'a handshake_scheme \<Rightarrow> bool result \<times> 'a handshake_scheme" where
  "synchronize_attempt L dispatch w =
    (let w = (set_fsm_state RESETTING w)\<lparr>link_sync_event := False\<rparr>
     in case next_rnd HANDSHAKE_NONCE_LENGTH w of (nonce, w) \<Rightarrow>
          (let tag = calculate_handshake_tag L (serial_shared_secret (tp_config w)) nonce;
               w = w\<lparr>link_handshake_nonce := Some nonce, link_nonce_length := int HANDSHAKE_NONCE_LENGTH,
                     link_expected_tag := Some tag\<rparr>
           in case send_raw L 70 (PMsg (serial_timing (tp_config w))) None w of
                (Inl e, w) \<Rightarrow> (Inl e, w)
              | (Inr False, w) \<Rightarrow> fail_attempt L ''link_reset_send_failed'' w
              | (Inr True, w) \<Rightarrow>
                  (let w = take_pause L dispatch (set_fsm_state SYNCING (take_pause L dispatch w))
                   in case send_raw L 68 (PMsg (LinkSync nonce tag)) None w of
                        (Inl e, w) \<Rightarrow> (Inl e, w)
                      | (Inr False, w) \<Rightarrow> fail_attempt L ''link_sync_send_failed'' w
                      | (Inr True, w) \<Rightarrow> confirm_attempt L dispatch nonce (take_pause L dispatch w))))"

text \<open>The retries of \<open>synchronize\<close>, with \<open>n\<close> attempts left and a pause between two of them.\<close>

definition start_attempt :: "'a handshake_scheme \<Rightarrow> 'a handshake_scheme" where
  "start_attempt w =
    set_fsm_state UNSYNCHRONIZED
      (w\<lparr>last_handshake_unix := now_unix w, handshake_last_started := now_mono w,
         handshake_attempts := handshake_attempts w + 1\<rparr>)"

fun synchronize_loop ::
  "lib \<Rightarrow> 'a handshake_scheme dispatcher \<Rightarrow> nat \<Rightarrow> 'a handshake_scheme \<Rightarrow> bool result \<times> 'a handshake_scheme" where
  "synchronize_loop L dispatch 0 w = (Inr False, set_fsm_state FAULT w)"
| "synchronize_loop L dispatch (Suc n) w =
    (case synchronize_attempt L dispatch (start_attempt w) of
       (Inl e, w) \<Rightarrow> (Inl e, w)
     | (Inr True, w) \<Rightarrow> (Inr True, w)
     | (Inr False, w) \<Rightarrow> synchronize_loop L dispatch n (if n = 0 then w else take_pause L dispatch w))"

definition synchronize ::
  "lib \<Rightarrow> 'a handshake_scheme dispatcher \<Rightarrow> 'a handshake_scheme \<Rightarrow> bool result \<times> 'a handshake_scheme" where
  "synchronize L dispatch w = synchronize_loop L dispatch (nat (fatal_threshold (tp_config w))) w"

section \<open>Capabilities\<close>

text \<open>A message of another class is kept as it is by the code; the model has no such value and keeps
  what was there.\<close>

definition parse_capabilities :: "lib \<Rightarrow> payload \<Rightarrow> 'a handshake_scheme \<Rightarrow> 'a handshake_scheme" where
  "parse_capabilities L payload w =
    (case (case payload of PMsg m \<Rightarrow> Some m | PBytes b \<Rightarrow> parse_as L ''Capabilities'' b) of
       Some (Capabilities c) \<Rightarrow> w\<lparr>mcu_capabilities := Some c\<rparr>
     | _ \<Rightarrow> w)"

definition handle_capabilities_resp :: "int \<Rightarrow> payload \<Rightarrow> 'a handshake_scheme \<Rightarrow> bool result \<times> 'a handshake_scheme" where
  "handle_capabilities_resp seq_id payload w =
    (Inr True, if hs_capabilities_future w = Some None then w\<lparr>hs_capabilities_future := Some (Some payload)\<rparr> else w)"

fun fetch_capabilities ::
  "lib \<Rightarrow> 'a handshake_scheme dispatcher \<Rightarrow> nat \<Rightarrow> 'a handshake_scheme \<Rightarrow> bool result \<times> 'a handshake_scheme" where
  "fetch_capabilities L dispatch 0 w = (Inr False, w)"
| "fetch_capabilities L dispatch (Suc n) w =
    (case send_raw L 72 (PBytes []) None (w\<lparr>hs_capabilities_future := Some None\<rparr>) of
       (Inl e, w) \<Rightarrow> (Inl e, w)
     | (Inr False, w) \<Rightarrow> fetch_capabilities L dispatch n (w\<lparr>hs_capabilities_future := None\<rparr>)
     | (Inr True, w) \<Rightarrow>
         (let w = take_pause L dispatch w
          in case hs_capabilities_future w of
               Some (Some payload) \<Rightarrow> (Inr True, (parse_capabilities L payload w)\<lparr>hs_capabilities_future := None\<rparr>)
             | _ \<Rightarrow> fetch_capabilities L dispatch n (w\<lparr>hs_capabilities_future := None\<rparr>)))"

definition fetch_capabilities_with_delay ::
  "lib \<Rightarrow> 'a handshake_scheme dispatcher \<Rightarrow> 'a handshake_scheme \<Rightarrow> bool result \<times> 'a handshake_scheme" where
  "fetch_capabilities_with_delay L dispatch w = fetch_capabilities L dispatch 5 (take_pause L dispatch w)"

section \<open>Lemmas\<close>

text \<open>The fields of the link that publishing does not touch.\<close>

lemma cloud_only_link:
  assumes "cloud_only w w'"
  shows "link_phase w' = link_phase w" "link_sync_event w' = link_sync_event w"
    "link_session_key w' = link_session_key w" "link_handshake_nonce w' = link_handshake_nonce w"
    "link_expected_tag w' = link_expected_tag w" "link_nonce_counter w' = link_nonce_counter w"
    "link_last_nonce_counter w' = link_last_nonce_counter w" "tp_config w' = tp_config w"
    "is_synchronized w' = is_synchronized w" "tp_serial w' = tp_serial w" "tp_is_open w' = tp_is_open w"
    "tp_negotiating w' = tp_negotiating w" "link_writes w' = link_writes w" "link_rnd w' = link_rnd w"
    "link_waits w' = link_waits w" "tp_in_reader w' = tp_in_reader w" "tp_wire w' = tp_wire w"
    "handshake_attempts w' = handshake_attempts w" "handshake_failure_streak w' = handshake_failure_streak w"
    "tp_current w' = tp_current w"
  by (subst assms [unfolded cloud_only_def], simp add: copy_cloud_def is_synchronized_def)+

lemma cloud_only_hs:
  fixes w :: "'a handshake_scheme"
  assumes "cloud_only w w'"
  shows "hs_fsm_state w' = hs_fsm_state w" "hs_pauses w' = hs_pauses w"
    "hs_capabilities_future w' = hs_capabilities_future w"
  by (subst assms [unfolded cloud_only_def], simp add: copy_cloud_def)+

lemma publish_event_only: "publish_handshake_event L ev a b w = (r, w') \<Longrightarrow> cloud_only w w'"
  unfolding publish_handshake_event_def Let_def by (rule enqueue_only)

text \<open>What a failure does to the link.\<close>

lemma set_fsm_fields [simp]:
  "hs_fsm_state (set_fsm_state s w) = s" "link_session_key (set_fsm_state s w) = link_session_key w"
  "link_handshake_nonce (set_fsm_state s w) = link_handshake_nonce w" "tp_config (set_fsm_state s w) = tp_config w"
  "link_last_nonce_counter (set_fsm_state s w) = link_last_nonce_counter w"
  "link_expected_tag (set_fsm_state s w) = link_expected_tag w" "link_writes (set_fsm_state s w) = link_writes w"
  "tp_serial (set_fsm_state s w) = tp_serial w" "link_rnd (set_fsm_state s w) = link_rnd w"
  "hs_pauses (set_fsm_state s w) = hs_pauses w" "now_mono (set_fsm_state s w) = now_mono w"
  "handshake_attempts (set_fsm_state s w) = handshake_attempts w"
  "handshake_rate_until (set_fsm_state s w) = handshake_rate_until w"
  "tp_negotiating (set_fsm_state s w) = tp_negotiating w"
  "tp_in_reader (set_fsm_state s w) = tp_in_reader w"
  by (auto simp: set_fsm_state_def mark_synchronized_def mark_transport_connected_def Let_def)

lemma backoff_fields [simp]:
  "link_phase (maybe_schedule_handshake_backoff r w) = link_phase w"
  "link_session_key (maybe_schedule_handshake_backoff r w) = link_session_key w"
  "link_handshake_nonce (maybe_schedule_handshake_backoff r w) = link_handshake_nonce w"
  "link_last_nonce_counter (maybe_schedule_handshake_backoff r w) = link_last_nonce_counter w"
  "handshake_attempts (maybe_schedule_handshake_backoff r w) = handshake_attempts w"
  by (simp_all add: maybe_schedule_handshake_backoff_def Let_def)

lemma backoff_hs_fields [simp]:
  fixes w :: "'a handshake_scheme"
  shows "tp_config (maybe_schedule_handshake_backoff r w) = tp_config w"
    "hs_fsm_state (maybe_schedule_handshake_backoff r w) = hs_fsm_state w"
    "hs_pauses (maybe_schedule_handshake_backoff r w) = hs_pauses w"
  by (simp_all add: maybe_schedule_handshake_backoff_def Let_def)

lemma record_failure_fields:
  fixes w :: "'a handshake_scheme"
  assumes "record_handshake_failure reason detail w = (d, v)"
  shows "link_phase v = Connected" "hs_fsm_state v = FAULT" "link_session_key v = link_session_key w"
      "link_handshake_nonce v = link_handshake_nonce w" "tp_config v = tp_config w"
      "link_last_nonce_counter v = link_last_nonce_counter w" "handshake_attempts v = handshake_attempts w"
      "hs_pauses v = hs_pauses w"
proof -
  have v: "v = snd (record_handshake_failure reason detail w)" using assms by simp
  show "link_phase v = Connected" "hs_fsm_state v = FAULT" "link_session_key v = link_session_key w"
      "link_handshake_nonce v = link_handshake_nonce w" "tp_config v = tp_config w"
      "link_last_nonce_counter v = link_last_nonce_counter w" "handshake_attempts v = handshake_attempts w"
      "hs_pauses v = hs_pauses w"
    unfolding v by (simp_all add: record_handshake_failure_def mark_transport_connected_def Let_def)
qed

lemma failure_link:
  fixes w :: "'a handshake_scheme"
  assumes "handle_handshake_failure L reason detail w = (r, w')"
  shows "\<not> is_synchronized w'" "hs_fsm_state w' = FAULT" "link_session_key w' = link_session_key w"
    "link_handshake_nonce w' = link_handshake_nonce w" "tp_config w' = tp_config w"
    "link_last_nonce_counter w' = link_last_nonce_counter w" "link_phase w' = Connected"
    "handshake_attempts w' = handshake_attempts w" "hs_pauses w' = hs_pauses w"
proof -
  obtain d v where v: "record_handshake_failure reason detail w = (d, v)" by fastforce
  then have p: "publish_handshake_event L ''failure'' (Some reason) d v = (r, w')"
    using assms by (simp add: handle_handshake_failure_def)
  note o = publish_event_only [OF p]
  show "\<not> is_synchronized w'" "hs_fsm_state w' = FAULT" "link_session_key w' = link_session_key w"
    "link_handshake_nonce w' = link_handshake_nonce w" "tp_config w' = tp_config w"
    "link_last_nonce_counter w' = link_last_nonce_counter w" "link_phase w' = Connected"
    "handshake_attempts w' = handshake_attempts w" "hs_pauses w' = hs_pauses w"
    using record_failure_fields [OF v] by (simp_all add: cloud_only_link [OF o] cloud_only_hs [OF o] is_synchronized_def)
qed

lemma success_link:
  fixes w :: "'a handshake_scheme"
  assumes "handle_handshake_success L w = (r, w')"
  shows "is_synchronized w'" "link_sync_event w'" "hs_fsm_state w' = hs_fsm_state w" "link_session_key w' = link_session_key w"
    "link_handshake_nonce w' = link_handshake_nonce w" "link_last_nonce_counter w' = link_last_nonce_counter w"
    "tp_config w' = tp_config w"
proof -
  note o = publish_event_only [OF assms [unfolded handle_handshake_success_def]]
  show "is_synchronized w'" "link_sync_event w'" "hs_fsm_state w' = hs_fsm_state w" "link_session_key w' = link_session_key w"
    "link_handshake_nonce w' = link_handshake_nonce w" "link_last_nonce_counter w' = link_last_nonce_counter w"
    "tp_config w' = tp_config w"
    by (simp_all add: cloud_only_link [OF o] cloud_only_hs [OF o] record_handshake_success_def mark_synchronized_def
        is_synchronized_def Let_def)
qed

text \<open>Sending a frame touches neither the phase nor the keys.\<close>

lemma send_raw_link:
  fixes w :: "'a handshake_scheme"
  assumes "send_raw L c pl q w = (r, w')"
  shows "link_phase w' = link_phase w" "link_session_key w' = link_session_key w" "is_synchronized w' = is_synchronized w"
    "link_handshake_nonce w' = link_handshake_nonce w" "link_expected_tag w' = link_expected_tag w"
    "link_last_nonce_counter w' = link_last_nonce_counter w" "tp_config w' = tp_config w" "tp_serial w' = tp_serial w"
    "hs_fsm_state w' = hs_fsm_state w" "hs_pauses w' = hs_pauses w" "handshake_attempts w' = handshake_attempts w"
    "link_sync_event w' = link_sync_event w"
proof -
  obtain a b c d e f g where w': "w' = w\<lparr>link_writes := a, link_rnd := b, link_nonce_counter := c,
     tp_sequence_id := d, tp_frames_sent := e, tp_bytes_sent := f, tp_wire := g\<rparr>"
    using send_raw_shape [OF assms] by metis
  show "link_phase w' = link_phase w" "link_session_key w' = link_session_key w" "is_synchronized w' = is_synchronized w"
    "link_handshake_nonce w' = link_handshake_nonce w" "link_expected_tag w' = link_expected_tag w"
    "link_last_nonce_counter w' = link_last_nonce_counter w" "tp_config w' = tp_config w" "tp_serial w' = tp_serial w"
    "hs_fsm_state w' = hs_fsm_state w" "hs_pauses w' = hs_pauses w" "handshake_attempts w' = handshake_attempts w"
    "link_sync_event w' = link_sync_event w"
    by (simp_all add: w' is_synchronized_def)
qed

lemma clear_fields [simp]:
  "link_phase (clear_handshake_expectations w) = link_phase w"
  "link_session_key (clear_handshake_expectations w) = link_session_key w"
  "link_handshake_nonce (clear_handshake_expectations w) = None"
  "link_last_nonce_counter (clear_handshake_expectations w) = link_last_nonce_counter w"
  "is_synchronized (clear_handshake_expectations w) = is_synchronized w"
  by (simp_all add: clear_handshake_expectations_def is_synchronized_def)

lemma clear_hs_fields [simp]:
  fixes w :: "'a handshake_scheme"
  shows "hs_fsm_state (clear_handshake_expectations w) = hs_fsm_state w"
    "tp_config (clear_handshake_expectations w) = tp_config w"
    "hs_pauses (clear_handshake_expectations w) = hs_pauses w"
    "handshake_attempts (clear_handshake_expectations w) = handshake_attempts w"
  by (simp_all add: clear_handshake_expectations_def)

lemma acknowledge_raw:
  "acknowledge L c q st w = (r, w') \<Longrightarrow> w' = w \<or> (\<exists>m. send_raw L st (PMsg m) (Some q) w = (r, w'))"
  by (auto simp: acknowledge_def split: sum.splits)

lemma reject_link:
  fixes w :: "'a handshake_scheme"
  assumes "reject_sync L q forget reason detail w = (r, w')"
  shows "r \<noteq> Inr True" "link_session_key w' = link_session_key w" "is_synchronized w' \<Longrightarrow> is_synchronized w"
    "link_last_nonce_counter w' = link_last_nonce_counter w"
    "r = Inr False \<Longrightarrow> \<not> is_synchronized w' \<and> hs_fsm_state w' = FAULT"
proof -
  obtain ra w1 where a: "acknowledge L 69 q STATUS_MALFORMED w = (ra, w1)" by fastforce
  have A: "link_session_key w1 = link_session_key w" "is_synchronized w1 = is_synchronized w"
      "link_last_nonce_counter w1 = link_last_nonce_counter w"
    using acknowledge_raw [OF a] by (auto dest: send_raw_link(2,3,6))
  let ?v = "if forget then clear_handshake_expectations w1 else w1"
  obtain rf w2 where f: "handle_handshake_failure L reason detail ?v = (rf, w2)" by fastforce
  note F = failure_link [OF f]
  consider e where "r = Inl e" "w' = w1" | e where "r = Inl e" "w' = w2" | "r = Inr False" "w' = w2"
    using assms a f by (auto simp: reject_sync_def split: sum.splits)
  then show "r \<noteq> Inr True" "link_session_key w' = link_session_key w" "is_synchronized w' \<Longrightarrow> is_synchronized w"
    "link_last_nonce_counter w' = link_last_nonce_counter w"
    "r = Inr False \<Longrightarrow> \<not> is_synchronized w' \<and> hs_fsm_state w' = FAULT"
    using A F by (cases; auto split: if_splits)+
qed


lemma tag_length: "mac_ok L \<Longrightarrow> length (calculate_handshake_tag L secret n) = (if secret = [] then 0 else 16)"
  by (simp add: calculate_handshake_tag_def mac_ok_def Let_def)

lemma complete_link:
  fixes w :: "'a handshake_scheme"
  assumes "complete_sync L n w = (r, w')"
  shows "is_synchronized w'" "hs_fsm_state w' = SYNCHRONIZED" "link_sync_event w'" "link_handshake_nonce w' = None"
    "link_session_key w' = (if serial_shared_secret (tp_config w) = [] then link_session_key w
       else Some (calculate_session_key L (serial_shared_secret (tp_config w)) n))"
    "link_last_nonce_counter w' = link_last_nonce_counter w" "r \<noteq> Inr False"
proof -
  let ?v = "if serial_shared_secret (tp_config w) = [] then w
     else w\<lparr>link_session_key := Some (calculate_session_key L (serial_shared_secret (tp_config w)) n)\<rparr>"
  obtain r2 w2 where s: "handle_handshake_success L (clear_handshake_expectations (set_fsm_state SYNCHRONIZED ?v)) = (r2, w2)"
    by fastforce
  then have "w' = w2" and r: "r \<noteq> Inr False" using assms by (auto simp: complete_sync_def Let_def split: sum.splits)
  then show "is_synchronized w'" "hs_fsm_state w' = SYNCHRONIZED" "link_sync_event w'" "link_handshake_nonce w' = None"
    "link_session_key w' = (if serial_shared_secret (tp_config w) = [] then link_session_key w
       else Some (calculate_session_key L (serial_shared_secret (tp_config w)) n))"
    "link_last_nonce_counter w' = link_last_nonce_counter w" "r \<noteq> Inr False"
    using success_link [OF s] r by simp_all
qed

text \<open>A response is accepted when it carries the pending nonce and the tag that the secret gives it.\<close>

definition authentic :: "lib \<Rightarrow> payload \<Rightarrow> 'a handshake_scheme \<Rightarrow> bool" where
  "authentic L payload w \<longleftrightarrow>
     (case decode_sync L payload of
        SyncPacket n t \<Rightarrow> link_handshake_nonce w = Some n \<and> link_expected_tag w \<noteq> None \<and> length t = 16
          \<and> t = calculate_handshake_tag L (serial_shared_secret (tp_config w)) n
      | _ \<Rightarrow> False)"

definition rate_limited :: "'a handshake_scheme \<Rightarrow> bool" where
  "rate_limited w \<longleftrightarrow> 0 < serial_handshake_min_interval (tp_config w) \<and> now_mono w < handshake_rate_until w"

lemma sync_resp_cases:
  fixes w :: "'a handshake_scheme"
  assumes "handle_link_sync_resp L q pl w = (r, w')"
  obtains (accepted) n t u where "authentic L pl w" "\<not> rate_limited w" "decode_sync L pl = SyncPacket n t"
      "complete_sync L n u = (r, w')" "u = w \<or> (\<exists>x. u = w\<lparr>handshake_rate_until := x\<rparr>)"
  | (rejected) f reason d u where "reject_sync L q f reason d u = (r, w')"
      "u = w \<or> (\<exists>x. u = w\<lparr>handshake_rate_until := x\<rparr>)" "\<not> authentic L pl w \<or> rate_limited w"
  | (ignored) "w' = w \<or> (\<exists>x. w' = w\<lparr>handshake_rate_until := x\<rparr>)" "r \<noteq> Inr True" "\<not> authentic L pl w"
proof (cases "link_handshake_nonce w")
  case None
  then show ?thesis using assms rejected [of False] by (simp add: handle_link_sync_resp_def authentic_def split: sync_packet.splits)
next
  case (Some expected)
  show ?thesis
  proof (cases "rate_limited w")
    case True
    then show ?thesis using assms Some rejected [of False] by (simp add: handle_link_sync_resp_def rate_limited_def Let_def)
  next
    case False
    define u where "u = (if 0 < serial_handshake_min_interval (tp_config w)
        then w\<lparr>handshake_rate_until := now_mono w + serial_handshake_min_interval (tp_config w)\<rparr> else w)"
    have u: "u = w \<or> (\<exists>x. u = w\<lparr>handshake_rate_until := x\<rparr>)" by (auto simp: u_def)
    have uf: "tp_config u = tp_config w" "link_expected_tag u = link_expected_tag w" using u by auto
    have run: "(case decode_sync L pl of SyncWrongMessage \<Rightarrow> (Inl AttributeError, u)
         | SyncUndecodable \<Rightarrow> reject_sync L q True ''sync_decode_failed'' None u
         | SyncPacket nonce tag \<Rightarrow> check_sync L q expected nonce tag u) = (r, w')"
      using assms Some False unfolding handle_link_sync_resp_def rate_limited_def u_def Let_def
      by (auto split: if_splits)
    show ?thesis
    proof (cases "decode_sync L pl")
      case (SyncPacket n t)
      show ?thesis
      proof (cases "authentic L pl w")
        case True
        then have "complete_sync L n u = (r, w')"
          using run SyncPacket Some uf by (auto simp: check_sync_def authentic_def Let_def split: if_splits)
        then show ?thesis using accepted True False SyncPacket u by blast
      next
        case na: False
        then show ?thesis
          using run SyncPacket Some uf u ignored rejected [of True _ _ u]
          by (auto simp: check_sync_def authentic_def Let_def split: if_splits)
      qed
    next
      case SyncUndecodable
      then show ?thesis using run rejected [of True _ _ u] u by (auto simp: authentic_def)
    next
      case SyncWrongMessage
      then show ?thesis using run ignored u by (auto simp: authentic_def)
    qed
  qed
qed

text \<open>The read task keeps the number of attempts, when its dispatcher does.\<close>

definition keeps_attempts :: "'a handshake_scheme dispatcher \<Rightarrow> bool" where
  "keeps_attempts dispatch \<longleftrightarrow> (\<forall>c q p w. handshake_attempts (snd (dispatch c q p w)) = handshake_attempts w)"

lemma negotiate_attempts:
  fixes w :: "'a handshake_scheme"
  shows "handshake_attempts (snd (negotiate_baudrate L b fs w)) = handshake_attempts w"
proof -
  obtain r w1 where s: "send_raw L 74 (PMsg (SetBaudratePacket b)) None
      (w\<lparr>tp_negotiating := True, tp_future := Some False\<rparr>) = (r, w1)" by fastforce
  show ?thesis using s send_raw_link(11) [OF s]
    by (auto simp: negotiate_baudrate_def switch_local_baudrate_def split: sum.splits bool.splits)
qed

lemma process_packet_attempts:
  fixes w :: "'a handshake_scheme"
  assumes "keeps_attempts dispatch"
  shows "handshake_attempts (snd (process_packet L dispatch b w)) = handshake_attempts w"
proof (cases "decode_packet L b w")
  case (Inl e)
  then show ?thesis
    by (simp add: process_packet_def check_baudrate_fallback_def negotiate_attempts Let_def)
next
  case (Inr r)
  obtain e p where r: "r = (e, p)" by fastforce
  obtain ok w1 where a: "anti_replay_ok e w = (ok, w1)" by fastforce
  have "handshake_attempts w1 = handshake_attempts w"
    using a by (auto simp: anti_replay_ok_def Let_def split: if_splits prod.splits bool.splits)
  moreover have "handshake_attempts (snd (dispatch c q p (correlate_current L c p w1))) = handshake_attempts w1" for c q
    using assms by (simp add: keeps_attempts_def correlate_current_def)
  ultimately show ?thesis
    using Inr r a by (auto simp: process_packet_def switch_local_baudrate_def split: bool.splits prod.splits sum.splits)
      (metis snd_conv)+
qed

lemma read_loop_attempts:
  fixes w :: "'a handshake_scheme"
  shows "keeps_attempts dispatch \<Longrightarrow> handshake_attempts (snd (read_loop L dispatch evs w)) = handshake_attempts w"
proof (induction L dispatch evs w rule: read_loop.induct)
  case (5 L dispatch b evs w)
  obtain r w1 where p: "process_packet L dispatch b (w\<lparr>tp_in_reader := True\<rparr>) = (r, w1)" by fastforce
  have "handshake_attempts w1 = handshake_attempts w"
    using process_packet_attempts [OF "5.prems", of L b "w\<lparr>tp_in_reader := True\<rparr>"] p by simp
  then show ?case using 5 p by (auto split: sum.splits)
qed simp_all

lemma take_pause_attempts:
  fixes w :: "'a handshake_scheme"
  shows "keeps_attempts dispatch \<Longrightarrow> handshake_attempts (take_pause L dispatch w) = handshake_attempts w"
  by (simp add: take_pause_def read_loop_attempts split: list.splits)

lemma fail_attempt_link:
  fixes w :: "'a handshake_scheme"
  assumes "fail_attempt L reason w = (r, w')"
  shows "r \<noteq> Inr True" "handshake_attempts w' = handshake_attempts w" "hs_fsm_state w' = FAULT"
proof -
  obtain rf w2 where f: "handle_handshake_failure L reason None (clear_handshake_expectations w) = (rf, w2)" by fastforce
  then have "w' = w2" "r \<noteq> Inr True" using assms by (auto simp: fail_attempt_def split: sum.splits)
  with failure_link [OF f] show "r \<noteq> Inr True" "handshake_attempts w' = handshake_attempts w" "hs_fsm_state w' = FAULT"
    by simp_all
qed

lemma confirm_attempt_link:
  fixes w :: "'a handshake_scheme"
  assumes "keeps_attempts dispatch" and "confirm_attempt L dispatch nonce w = (r, w')"
  shows "handshake_attempts w' = handshake_attempts w \<and> (r = Inr True \<longrightarrow> hs_fsm_state w' = SYNCHRONIZED)"
proof -
  let ?v = "if hs_fsm_state w = SYNCING then set_fsm_state CONFIRMING w else w"
  obtain b w1 where c: "wait_for_link_sync_confirmation L dispatch ?v = (b, w1)" by fastforce
  then have w1: "handshake_attempts w1 = handshake_attempts w"
    using assms(1) by (auto simp: wait_for_link_sync_confirmation_def take_pause_attempts Let_def split: if_splits)
  show ?thesis
  proof (cases "\<not> b \<and> hs_fsm_state w1 \<noteq> FAULT \<and> hs_fsm_state w \<noteq> FAULT \<and> link_handshake_nonce w1 = Some nonce")
    case True
    then have "fail_attempt L ''link_sync_timeout'' w1 = (r, w')"
      using assms(2) c by (simp add: confirm_attempt_def Let_def)
    from fail_attempt_link [OF this] w1 show ?thesis by simp
  next
    case False
    then show ?thesis using assms(2) c w1 by (auto simp: confirm_attempt_def Let_def split: if_splits)
  qed
qed

lemma next_rnd_hs:
  fixes w :: "'a handshake_scheme"
  assumes "next_rnd n w = (r, w')"
  shows "length r = n" "handshake_attempts w' = handshake_attempts w" "w' = w\<lparr>link_rnd := link_rnd w'\<rparr>"
  using assms by (auto simp: next_rnd_def split: list.splits)

lemma attempt_link:
  fixes w :: "'a handshake_scheme"
  assumes k: "keeps_attempts dispatch" and run: "synchronize_attempt L dispatch w = (r, w')"
  shows "handshake_attempts w' = handshake_attempts w \<and> (r = Inr True \<longrightarrow> hs_fsm_state w' = SYNCHRONIZED)"
proof -
  define w0 where "w0 = (set_fsm_state RESETTING w)\<lparr>link_sync_event := False\<rparr>"
  obtain n w1 where n: "next_rnd 16 w0 = (n, w1)" by fastforce
  define tag where "tag = calculate_handshake_tag L (serial_shared_secret (tp_config w1)) n"
  define w2 where "w2 = w1\<lparr>link_handshake_nonce := Some n, link_nonce_length := int 16, link_expected_tag := Some tag\<rparr>"
  have a2: "handshake_attempts w2 = handshake_attempts w" using next_rnd_hs(2) [OF n] by (simp add: w0_def w2_def)
  obtain r3 w3 where s3: "send_raw L 70 (PMsg (serial_timing (tp_config w2))) None w2 = (r3, w3)" by fastforce
  define w4 where "w4 = take_pause L dispatch (set_fsm_state SYNCING (take_pause L dispatch w3))"
  obtain r5 w5 where s5: "send_raw L 68 (PMsg (LinkSync n tag)) None w4 = (r5, w5)" by fastforce
  note A = send_raw_link(11) [OF s3] send_raw_link(11) [OF s5]
  have a4: "handshake_attempts w4 = handshake_attempts w3" using k by (simp add: w4_def take_pause_attempts)
  have eq: "(r, w') = (case r3 of Inl e \<Rightarrow> (Inl e, w3) | Inr False \<Rightarrow> fail_attempt L ''link_reset_send_failed'' w3
     | Inr True \<Rightarrow> (case r5 of Inl e \<Rightarrow> (Inl e, w5) | Inr False \<Rightarrow> fail_attempt L ''link_sync_send_failed'' w5
        | Inr True \<Rightarrow> confirm_attempt L dispatch n (take_pause L dispatch w5)))"
    using run unfolding synchronize_attempt_def Let_def w0_def [symmetric] n prod.case tag_def [symmetric] w2_def [symmetric]
      s3 w4_def [symmetric] s5 by (simp split: sum.splits bool.splits)
  consider e where "r3 = Inl e" | "r3 = Inr False" | e where "r3 = Inr True" "r5 = Inl e"
    | "r3 = Inr True" "r5 = Inr False" | "r3 = Inr True" "r5 = Inr True"
    by (cases r3; cases r5) auto
  then show ?thesis
  proof cases
    case 2
    with eq have "fail_attempt L ''link_reset_send_failed'' w3 = (r, w')" by simp
    from fail_attempt_link [OF this] A a2 show ?thesis by simp
  next
    case 4
    with eq have "fail_attempt L ''link_sync_send_failed'' w5 = (r, w')" by simp
    from fail_attempt_link [OF this] A a2 a4 show ?thesis by simp
  next
    case 5
    with eq have "confirm_attempt L dispatch n (take_pause L dispatch w5) = (r, w')" by simp
    from confirm_attempt_link [OF k this] A a2 a4 k show ?thesis by (simp add: take_pause_attempts)
  qed (use eq A a2 a4 in auto)
qed

lemma start_attempts [simp]: "handshake_attempts (start_attempt w) = handshake_attempts w + 1"
  by (simp add: start_attempt_def)

lemma synchronize_loop_outcome:
  fixes w :: "'a handshake_scheme"
  shows "keeps_attempts dispatch \<Longrightarrow> synchronize_loop L dispatch n w = (r, w') \<Longrightarrow>
    handshake_attempts w' \<le> handshake_attempts w + int n
    \<and> (r \<noteq> Inr False \<longrightarrow> handshake_attempts w < handshake_attempts w')
    \<and> (r = Inr True \<longrightarrow> hs_fsm_state w' = SYNCHRONIZED)
    \<and> (r = Inr False \<longrightarrow> hs_fsm_state w' = FAULT \<and> handshake_attempts w' = handshake_attempts w + int n)"
proof (induction n arbitrary: w)
  case (Suc n)
  obtain q w1 where s: "synchronize_attempt L dispatch (start_attempt w) = (q, w1)" by fastforce
  note A = attempt_link [OF Suc.prems(1) s]
  show ?case
  proof (cases "q = Inr False")
    case True
    let ?v = "if n = 0 then w1 else take_pause L dispatch w1"
    have "synchronize_loop L dispatch n ?v = (r, w')" using Suc.prems(2) s True by simp
    from Suc.IH [OF Suc.prems(1) this] A Suc.prems(1) show ?thesis by (auto simp: take_pause_attempts)
  next
    case False
    then have "r = q" "w' = w1" using Suc.prems(2) s by (auto split: sum.splits bool.splits)
    then show ?thesis using A False by auto
  qed
qed auto

text \<open>A pause without packets, and one with a single packet.\<close>

lemma idle_pause:
  "hs_pauses w = z # zs \<Longrightarrow> pz_packets z = [] \<Longrightarrow>
    take_pause L dispatch w = w\<lparr>hs_pauses := zs, now_unix := pz_unix z, now_mono := pz_mono z\<rparr>"
  by (simp add: take_pause_def)

lemma packet_pause:
  "hs_pauses w = z # zs \<Longrightarrow> pz_packets z = [b] \<Longrightarrow> b \<noteq> [] \<Longrightarrow>
    take_pause L dispatch w = (snd (process_packet L dispatch b (w\<lparr>hs_pauses := zs, tp_in_reader := True\<rparr>)))
      \<lparr>tp_in_reader := False, now_unix := pz_unix z, now_mono := pz_mono z\<rparr>"
  by (cases "process_packet L dispatch b (w\<lparr>hs_pauses := zs, tp_in_reader := True\<rparr>)")
    (auto simp: take_pause_def split: sum.splits)

lemma unsync_process:
  fixes w :: "'a handshake_scheme"
  assumes "\<not> is_synchronized w" "\<not> tp_negotiating w"
    and "cobs_dec L b = Some raw" "parse_frame L raw None = Inr (e, pl)"
  shows "\<exists>n m. snd (process_packet L dispatch b w) =
      (let w1 = snd (dispatch (ev_command_id e) (ev_sequence_id e) pl (correlate_current L (ev_command_id e) pl w))
       in w1\<lparr>tp_bytes_received := n, tp_frames_received := m\<rparr>)"
proof -
  obtain r w1 where d: "dispatch (ev_command_id e) (ev_sequence_id e) pl (correlate_current L (ev_command_id e) pl w) = (r, w1)"
    by fastforce
  have "decode_packet L b w = Inr (e, pl)" "anti_replay_ok e w = (True, w)"
    using assms by (simp_all add: decode_packet_def session_key_in_use_def anti_replay_ok_def Let_def)
  then have "snd (process_packet L dispatch b w) = w1\<lparr>tp_bytes_received := tp_bytes_received w1 + (if isl r then 0 else length b),
      tp_frames_received := tp_frames_received w1 + (if isl r then 0 else 1)\<rparr>"
    using d assms(2) by (cases r) (simp_all add: process_packet_def)
  then show ?thesis by (metis d snd_conv)
qed

lemma set_fsm_unsync: "s \<noteq> SYNCHRONIZED \<Longrightarrow> \<not> is_synchronized w \<Longrightarrow> \<not> is_synchronized (set_fsm_state s w)"
  by (auto simp: set_fsm_state_def is_synchronized_def mark_transport_connected_def Let_def)

lemma set_fsm_rest [simp]:
  "tp_wire (set_fsm_state s w) = tp_wire w" "handshake.more (set_fsm_state s w) = handshake.more w"
  by (auto simp: set_fsm_state_def mark_synchronized_def mark_transport_connected_def Let_def)

text \<open>What stays through the sending half of an attempt that started in \<open>w0\<close>, and what has been written.\<close>

definition sync_ready :: "bytes \<Rightarrow> pause list \<Rightarrow> bytes list \<Rightarrow> 'a handshake_scheme \<Rightarrow> 'a handshake_scheme \<Rightarrow> bool" where
  "sync_ready nonce zs wire w0 w \<longleftrightarrow> tp_serial w \<and> link_writes w = [] \<and> \<not> is_synchronized w \<and> \<not> tp_negotiating w
     \<and> hs_pauses w = zs \<and> tp_config w = tp_config w0 \<and> handshake.more w = handshake.more w0 \<and> tp_wire w = wire
     \<and> link_handshake_nonce w = Some nonce \<and> link_expected_tag w \<noteq> None"

lemma sync_ready_set: "s \<noteq> SYNCHRONIZED \<Longrightarrow> sync_ready n zs ps w0 w \<Longrightarrow> sync_ready n zs ps w0 (set_fsm_state s w)"
  by (simp add: sync_ready_def set_fsm_unsync)

lemma sync_ready_idle:
  "pz_packets z = [] \<Longrightarrow> sync_ready n (z # zs) ps w0 w \<Longrightarrow> sync_ready n zs ps w0 (take_pause L dispatch w)"
  by (auto simp: sync_ready_def idle_pause is_synchronized_def)

lemma sync_ready_send:
  assumes "sync_ready n zs ps w0 w" "0 \<le> c" "c \<le> 65535"
  shows "\<exists>w' q raw. send_raw L c (PMsg m) None w = (Inr True, w') \<and> sync_ready n zs (ps @ [cobs_enc L raw @ [0]]) w0 w'
     \<and> build_frame L c q (PMsg m) (Some (replicate 12 0)) None = Inr raw"
proof -
  obtain x k where x: "send_raw L c (PMsg m) None w = (Inr True, w\<lparr>tp_sequence_id := (tp_sequence_id w + 1) mod 65536,
      tp_wire := tp_wire w @ [x], tp_bytes_sent := k, tp_frames_sent := tp_frames_sent w + 1\<rparr>)" (is "_ = (_, ?w)")
    using plain_send [of w c "PMsg m" L] assms by (auto simp: sync_ready_def)
  from send_raw_sent [OF x] obtain q w1 nonce w2 raw where r: "next_seq None w = (q, w1)" "stamp_nonce c w1 = (Inr nonce, w2)"
      "build_frame L c q (PMsg m) (Some nonce) (session_key_in_use w2) = Inr raw"
      "tp_wire ?w = tp_wire w @ [cobs_enc L raw @ [0]]" "session_key_in_use w2 = session_key_in_use w" by metis
  have "\<not> is_synchronized w" using assms(1) by (simp add: sync_ready_def)
  then have "nonce = replicate 12 0" "session_key_in_use w = None"
    using r(1,2) by (auto simp: stamp_nonce_def next_seq_def is_synchronized_def session_key_in_use_def Let_def
        split: if_splits)
  then show ?thesis using x r assms(1) by (auto simp: sync_ready_def is_synchronized_def)
qed

lemma complete_serial:
  fixes w :: "'a handshake_scheme"
  assumes "complete_sync L n w = (r, w')"
  shows "tp_serial w' = tp_serial w \<and> tp_negotiating w' = tp_negotiating w \<and> tp_wire w' = tp_wire w"
proof -
  let ?v = "if serial_shared_secret (tp_config w) = [] then w
     else w\<lparr>link_session_key := Some (calculate_session_key L (serial_shared_secret (tp_config w)) n)\<rparr>"
  let ?u = "record_handshake_success (clear_handshake_expectations (set_fsm_state SYNCHRONIZED ?v))"
  obtain r2 w2 where s: "publish_handshake_event L ''success'' None None ?u = (r2, w2)" by fastforce
  then have "w' = w2" using assms by (auto simp: complete_sync_def handle_handshake_success_def Let_def split: sum.splits)
  moreover have "tp_serial ?u = tp_serial w" "tp_negotiating ?u = tp_negotiating w" "tp_wire ?u = tp_wire w"
    by (simp_all add: record_handshake_success_def mark_synchronized_def clear_handshake_expectations_def Let_def)
  ultimately show ?thesis using cloud_only_link(10,12,17) [OF publish_event_only [OF s]] by simp
qed

text \<open>What the manager relies on in the dispatcher that runs while it waits: it does not count attempts, and
  when it is ready it hands a decoded \<open>LINK_SYNC_RESP\<close> to its handler, after which it may only write. Being ready
  is a matter of the part of the state that the link does not see.\<close>

definition link_fields :: "'a handshake_scheme \<Rightarrow> link_phase \<times> bool \<times> bytes option \<times> hs_state" where
  "link_fields w = (link_phase w, link_sync_event w, link_session_key w, hs_fsm_state w)"

locale sync_dispatcher =
  fixes L :: lib and dispatch :: "'a handshake_scheme dispatcher" and ready :: "'a handshake_scheme \<Rightarrow> bool"
  assumes ready_more: "handshake.more w' = handshake.more w \<Longrightarrow> ready w' = ready w"
    and keeps: "keeps_attempts dispatch"
    and routes: "ready w \<Longrightarrow> snd (handle_link_sync_resp L q (PMsg m) w) = w1 \<Longrightarrow>
      link_fields (snd (dispatch 69 q (PMsg m) w)) = link_fields w1
      \<and> (\<exists>ps. tp_wire (snd (dispatch 69 q (PMsg m) w)) = tp_wire w1 @ ps)"
begin

lemma outcome:
  assumes "synchronize L dispatch w = (r, w')"
  shows "handshake_attempts w < handshake_attempts w'
    \<and> handshake_attempts w' \<le> handshake_attempts w + fatal_threshold (tp_config w)
    \<and> (r = Inr True \<longrightarrow> hs_fsm_state w' = SYNCHRONIZED)
    \<and> (r = Inr False \<longrightarrow> hs_fsm_state w' = FAULT
         \<and> handshake_attempts w' = handshake_attempts w + fatal_threshold (tp_config w))"
proof -
  have "1 \<le> fatal_threshold (tp_config w)" by (simp add: fatal_threshold_def)
  with synchronize_loop_outcome [OF keeps assms [unfolded synchronize_def]] show ?thesis by auto
qed

lemma answered_pause:
  assumes lib: "mac_ok L"
    and secret: "serial_shared_secret (tp_config w) \<noteq> []" "serial_handshake_min_interval (tp_config w) \<le> 0"
    and w: "\<not> is_synchronized w" "\<not> tp_negotiating w" "link_handshake_nonce w = Some nonce" "link_expected_tag w \<noteq> None"
      "hs_pauses w = z # zs" "pz_packets z = [b]" "b \<noteq> []" "ready w"
    and frame: "cobs_dec L b = Some raw" "ev_command_id e = 69" "parse_frame L raw None = Inr (e, PMsg (LinkSync nonce
        (calculate_handshake_tag L (serial_shared_secret (tp_config w)) nonce)))"
  shows "is_synchronized (take_pause L dispatch w) \<and> link_sync_event (take_pause L dispatch w)
    \<and> hs_fsm_state (take_pause L dispatch w) = SYNCHRONIZED
    \<and> link_session_key (take_pause L dispatch w) = Some (calculate_session_key L (serial_shared_secret (tp_config w)) nonce)
    \<and> (\<exists>ps. tp_wire (take_pause L dispatch w) = tp_wire w @ ps)"
proof -
  let ?m = "LinkSync nonce (calculate_handshake_tag L (serial_shared_secret (tp_config w)) nonce)"
  let ?u = "w\<lparr>hs_pauses := zs, tp_in_reader := True\<rparr>" and ?q = "ev_sequence_id e"
  let ?v = "correlate_current L 69 (PMsg ?m) ?u"
  have u: "\<not> is_synchronized ?u" "\<not> tp_negotiating ?u" using w(1,2) by (simp_all add: is_synchronized_def)
  obtain n k where p: "snd (process_packet L dispatch b ?u)
      = (let w1 = snd (dispatch 69 ?q (PMsg ?m) ?v) in w1\<lparr>tp_bytes_received := n, tp_frames_received := k\<rparr>)"
    using unsync_process [OF u frame(1,3), of dispatch] frame(2) by auto
  obtain r w2 where h: "handle_link_sync_resp L ?q (PMsg ?m) ?v = (r, w2)" by fastforce
  have auth: "authentic L (PMsg ?m) ?v" "\<not> rate_limited ?v"
    using lib(1) secret w(3,4) tag_length [of L "serial_shared_secret (tp_config w)" nonce]
    by (simp_all add: authentic_def decode_sync_def correlate_current_def rate_limited_def)
  from h have "is_synchronized w2 \<and> link_sync_event w2 \<and> hs_fsm_state w2 = SYNCHRONIZED
    \<and> link_session_key w2 = Some (calculate_session_key L (serial_shared_secret (tp_config w)) nonce) \<and> tp_wire w2 = tp_wire w"
  proof (cases rule: sync_resp_cases)
    case (accepted n t x)
    have x: "tp_config x = tp_config w" "tp_wire x = tp_wire w" using accepted(5) by (auto simp: correlate_current_def)
    have "n = nonce" using accepted(3) by (simp add: decode_sync_def)
    then show ?thesis using complete_link [OF accepted(4)] complete_serial [OF accepted(4)] x secret(1) by simp
  qed (use auth in auto)
  moreover have "ready ?v" using w(8) ready_more [of ?v w] by (simp add: correlate_current_def)
  from routes [OF this, of ?q ?m w2] h have "link_fields (snd (dispatch 69 ?q (PMsg ?m) ?v)) = link_fields w2"
     "\<exists>ps. tp_wire (snd (dispatch 69 ?q (PMsg ?m) ?v)) = tp_wire w2 @ ps" by auto
  ultimately show ?thesis
    unfolding packet_pause [OF w(5-7)] p Let_def by (simp add: is_synchronized_def link_fields_def)
qed

text \<open>The first attempt, answered after \<open>LINK_SYNC\<close>: what it leads to and what it has written.\<close>

lemma answered_attempt:
  assumes lib: "mac_ok L"
    and secret: "serial_shared_secret (tp_config w) \<noteq> []" "serial_handshake_min_interval (tp_config w) \<le> 0"
    and w: "tp_serial w" "link_writes w = []" "\<not> is_synchronized w" "\<not> tp_negotiating w" "ready w"
    and script: "link_rnd w = [nonce]" "length nonce = 16" "hs_pauses w = [z1, z2, z3]"
      "pz_packets z1 = []" "pz_packets z2 = []" "pz_packets z3 = [b]" "b \<noteq> []"
    and frame: "cobs_dec L b = Some raw" "ev_command_id e = 69" "parse_frame L raw None = Inr (e, PMsg (LinkSync nonce
        (calculate_handshake_tag L (serial_shared_secret (tp_config w)) nonce)))"
  shows "\<exists>w' p q own ps. synchronize L dispatch w = (Inr True, w') \<and> is_synchronized w' \<and> hs_fsm_state w' = SYNCHRONIZED
    \<and> link_session_key w' = Some (calculate_session_key L (serial_shared_secret (tp_config w)) nonce)
    \<and> tp_wire w' = tp_wire w @ p # (cobs_enc L own @ [0]) # ps
    \<and> build_frame L 68 q (PMsg (LinkSync nonce (calculate_handshake_tag L (serial_shared_secret (tp_config w)) nonce)))
        (Some (replicate 12 0)) None = Inr own"
proof -
  let ?cfg = "tp_config w" and ?tag = "calculate_handshake_tag L (serial_shared_secret (tp_config w)) nonce"
  define w0 where "w0 = (set_fsm_state RESETTING (start_attempt w))\<lparr>link_sync_event := False\<rparr>"
  have "\<not> is_synchronized (start_attempt w)"
    unfolding start_attempt_def by (rule set_fsm_unsync) (use w(3) in \<open>simp_all add: is_synchronized_def\<close>)
  moreover have "tp_config (start_attempt w) = ?cfg" "link_rnd (start_attempt w) = [nonce]"
    using script(1) by (simp_all add: start_attempt_def)
  ultimately have start: "\<not> is_synchronized (start_attempt w)" "tp_config (start_attempt w) = ?cfg"
    "link_rnd (start_attempt w) = [nonce]" by auto
  have rnd: "next_rnd 16 w0 = (nonce, w0\<lparr>link_rnd := []\<rparr>)" using script(2) start(3) by (simp add: next_rnd_def w0_def)
  define w2 where "w2 = w0\<lparr>link_rnd := [], link_handshake_nonce := Some nonce, link_nonce_length := int 16, link_expected_tag := Some ?tag\<rparr>"
  have "\<not> is_synchronized w0" using set_fsm_unsync [OF _ start(1), of RESETTING] by (simp add: w0_def is_synchronized_def)
  then have "sync_ready nonce [z1, z2, z3] (tp_wire w) w w2"
    using w script start by (simp add: sync_ready_def w2_def w0_def start_attempt_def is_synchronized_def)
  then obtain w3 x where s3: "send_raw L 70 (PMsg (serial_timing ?cfg)) None w2 = (Inr True, w3)"
      "sync_ready nonce [z1, z2, z3] (tp_wire w @ [x]) w w3"
    using sync_ready_send [of nonce "[z1, z2, z3]" _ w w2 70 L] by fastforce
  define w4 where "w4 = take_pause L dispatch (set_fsm_state SYNCING (take_pause L dispatch w3))"
  have "sync_ready nonce [z3] (tp_wire w @ [x]) w w4"
    unfolding w4_def using sync_ready_idle [OF script(5) sync_ready_set [OF _ sync_ready_idle [OF script(4) s3(2)]]] by simp
  then obtain w5 q own where s5: "send_raw L 68 (PMsg (LinkSync nonce ?tag)) None w4 = (Inr True, w5)"
      "sync_ready nonce [z3] (tp_wire w @ [x, cobs_enc L own @ [0]]) w w5"
      "build_frame L 68 q (PMsg (LinkSync nonce ?tag)) (Some (replicate 12 0)) None = Inr own"
    using sync_ready_send [of nonce "[z3]" "tp_wire w @ [x]" w w4 68 L "LinkSync nonce ?tag"] by auto
  let ?w6 = "take_pause L dispatch w5"
  have "ready w5" using s5(2) w(5) ready_more [of w5 w] by (simp add: sync_ready_def)
  then have w6: "is_synchronized ?w6 \<and> link_sync_event ?w6 \<and> hs_fsm_state ?w6 = SYNCHRONIZED
    \<and> link_session_key ?w6 = Some (calculate_session_key L (serial_shared_secret ?cfg) nonce)
    \<and> (\<exists>ps. tp_wire ?w6 = tp_wire w @ x # (cobs_enc L own @ [0]) # ps)"
    using answered_pause [of w5 nonce z3 "[]" b raw e] lib secret s5(2) script(6,7) frame by (auto simp: sync_ready_def)
  have cfg: "tp_config (w0\<lparr>link_rnd := []\<rparr>) = ?cfg" "tp_config w2 = ?cfg" using start(2) by (simp_all add: w0_def w2_def)
  have "synchronize_attempt L dispatch (start_attempt w) = confirm_attempt L dispatch nonce ?w6"
    unfolding synchronize_attempt_def Let_def w0_def [symmetric] rnd prod.case cfg w2_def [symmetric]
    using s3(1) s5(1) by (simp add: w4_def [symmetric])
  also have "\<dots> = (Inr True, ?w6)"
    using w6 by (simp add: confirm_attempt_def wait_for_link_sync_confirmation_def Let_def)
  finally have "synchronize_attempt L dispatch (start_attempt w) = (Inr True, ?w6)" .
  moreover obtain n where "nat (fatal_threshold ?cfg) = Suc n" by (cases "nat (fatal_threshold ?cfg)") (auto simp: fatal_threshold_def)
  ultimately have "synchronize L dispatch w = (Inr True, ?w6)" by (simp add: synchronize_def)
  then show ?thesis using w6 s5(3) by blast
qed

end

text \<open>A concrete manager, for the witnesses.\<close>

lemma enqueue_idle:
  assumes "cloud_publish_queue w = []" "ipc_queue (resolve_cloud_context m ctx) w = None" "\<not> sv_cloud_stream w"
  shows "\<exists>w'. enqueue_cloud L m ctx w = (Inr (), w') \<and> cloud_publish_queue w' = [] \<and> \<not> sv_cloud_stream w'"
proof -
  let ?m = "resolve_cloud_context m ctx"
  let ?u = "(if py_contains ''console'' (cp_topic_name ?m)
     then w\<lparr>sv_console_queues := map (\<lambda>q. q @ [?m]) (sv_console_queues w)\<rparr> else w)\<lparr>cloud_publish_queue := [?m]\<rparr>"
  obtain r w' where s: "store_and_forward L ?m ?u = (r, w')" by fastforce
  have "r = Inr ()" using store_queue(3) [OF s] assms(3) by (cases r) (auto split: if_splits)
  moreover have "cloud_publish_queue w' = [?m]" "\<not> sv_cloud_stream w'" using store_queue(1,2) [OF s] assms(3) by auto
  ultimately show ?thesis using s assms(1,2) by (auto simp: enqueue_cloud_def Let_def split: if_splits)
qed

lemma publish_event_idle:
  "cloud_publish_queue w = [] \<Longrightarrow> \<not> sv_cloud_stream w \<Longrightarrow>
    \<exists>w'. publish_handshake_event L ev a b w = (Inr (), w') \<and> cloud_publish_queue w' = [] \<and> \<not> sv_cloud_stream w'"
  unfolding publish_handshake_event_def Let_def
  by (rule enqueue_idle) (simp_all add: ipc_queue_def resolve_cloud_context_def create_queued_publish_def)

definition sample_secret :: runtime_config where
  "sample_secret = empty_config\<lparr>serial_shared_secret := [1]\<rparr>"

definition sample_handshake :: handshake where
  "sample_handshake = cloud_service.extend (sample_service\<lparr>tp_config := sample_secret, tp_serial := False,
      link_handshake_nonce := Some [7], link_expected_tag := Some [8], link_last_nonce_counter := 100\<rparr>)
    \<lparr>hs_fsm_state = CONFIRMING, hs_capabilities_future = None, hs_pauses = []\<rparr>"

lemma sample_handshake_fields [simp]:
  "tp_config sample_handshake = sample_secret" "tp_serial sample_handshake = False"
  "link_handshake_nonce sample_handshake = Some [7]" "link_expected_tag sample_handshake = Some [8]"
  "link_last_nonce_counter sample_handshake = 100" "hs_fsm_state sample_handshake = CONFIRMING"
  "hs_pauses sample_handshake = []" "cloud_publish_queue sample_handshake = []" "\<not> sv_cloud_stream sample_handshake"
  "link_phase sample_handshake = Disconnected" "tp_negotiating sample_handshake = False"
  "link_writes sample_handshake = []" "link_rnd sample_handshake = []"
  "serial_shared_secret sample_secret = [1]" "serial_handshake_min_interval sample_secret = 0"
  "fatal_threshold sample_secret = 1"
  by (simp_all add: sample_handshake_def sample_secret_def empty_config_def fatal_threshold_def cloud_service.defs
      sample_service_def sample_transport_def SerialTransport_def sample_state_def create_runtime_state_def
      configure_def sample_env_def transport.defs runtime_state.defs Let_def)

abbreviation (input) sample_tag :: "bytes \<Rightarrow> bytes" where
  "sample_tag n \<equiv> calculate_handshake_tag model_lib [1] n"

lemma complete_idle:
  assumes "cloud_publish_queue w = []" "\<not> sv_cloud_stream w"
  shows "\<exists>w'. complete_sync L n w = (Inr True, w') \<and> cloud_publish_queue w' = [] \<and> \<not> sv_cloud_stream w'"
proof -
  let ?u = "if serial_shared_secret (tp_config w) = [] then w
     else w\<lparr>link_session_key := Some (calculate_session_key L (serial_shared_secret (tp_config w)) n)\<rparr>"
  let ?v = "record_handshake_success (clear_handshake_expectations (set_fsm_state SYNCHRONIZED ?u))"
  have "cloud_publish_queue ?v = []" "\<not> sv_cloud_stream ?v"
    using assms by (simp_all add: record_handshake_success_def clear_handshake_expectations_def set_fsm_state_def
        mark_synchronized_def mark_transport_connected_def Let_def)
  from publish_event_idle [OF this, of L "''success''" None None] show ?thesis
    by (auto simp: complete_sync_def handle_handshake_success_def Let_def)
qed

lemma sample_accepts:
  "\<exists>w'. handle_link_sync_resp model_lib 5 (PMsg (LinkSync [7] (sample_tag [7]))) sample_handshake = (Inr True, w')
     \<and> cloud_publish_queue w' = [] \<and> \<not> sv_cloud_stream w'"
  using complete_idle [of sample_handshake model_lib "[7]"] tag_length [OF model_lib_ok(4), of "[1]" "[7]"]
  by (simp add: handle_link_sync_resp_def decode_sync_def check_sync_def Let_def)

lemma failure_idle:
  fixes w :: "'a handshake_scheme"
  assumes "cloud_publish_queue w = []" "\<not> sv_cloud_stream w"
  shows "\<exists>w'. handle_handshake_failure L reason detail w = (Inr (), w')"
proof -
  obtain d v where v: "record_handshake_failure reason detail w = (d, v)" by fastforce
  have "cloud_publish_queue (snd (record_handshake_failure reason detail w)) = []"
      "\<not> sv_cloud_stream (snd (record_handshake_failure reason detail w))"
    using assms by (simp_all add: record_handshake_failure_def set_fsm_state_def mark_synchronized_def
        mark_transport_connected_def maybe_schedule_handshake_backoff_def Let_def)
  then show ?thesis
    using publish_event_idle [of v L "''failure''" "Some reason" d] v by (auto simp: handle_handshake_failure_def)
qed

lemma reject_idle:
  assumes "cloud_publish_queue w = []" "\<not> sv_cloud_stream w" "\<not> tp_serial w" "link_handshake_nonce w = None"
  shows "\<exists>w'. handle_link_sync_resp L q pl w = (Inr False, w')"
  using failure_idle [OF assms(1,2), of L "''unexpected_sync_resp''" None] assms(3,4)
  by (auto simp: handle_link_sync_resp_def reject_sync_def acknowledge_def mk_msg_def uint32_ok_def send_raw_def)

section \<open>Properties\<close>

text \<open>C4 (safety). Only an authentic response synchronises the link: when handling \<open>LINK_SYNC_RESP\<close>
  reports success, changes the session key or makes the link synchronised, the payload carried the
  pending nonce and its tag under the shared secret, which is not empty; the session key is then derived
  from that nonce and the nonce is spent.\<close>

theorem sync_only_authentic:
  fixes w :: "'a handshake_scheme"
  assumes "handle_link_sync_resp L q pl w = (r, w')"
    and "r = Inr True \<or> link_session_key w' \<noteq> link_session_key w \<or> is_synchronized w' \<and> \<not> is_synchronized w"
  shows "authentic L pl w \<and> serial_shared_secret (tp_config w) \<noteq> []
     \<and> is_synchronized w' \<and> link_handshake_nonce w' = None
     \<and> link_session_key w' = Some (calculate_session_key L (serial_shared_secret (tp_config w)) (the (link_handshake_nonce w)))"
  using assms(1)
proof (cases rule: sync_resp_cases)
  case (accepted n t u)
  have u: "tp_config u = tp_config w" using accepted(5) by auto
  have sec: "serial_shared_secret (tp_config w) \<noteq> []" and n: "link_handshake_nonce w = Some n"
    using accepted(1,3) by (auto simp: authentic_def calculate_handshake_tag_def)
  show ?thesis using complete_link [OF accepted(4)] accepted(1) u sec n by simp
next
  case (rejected f reason d u)
  have "link_session_key u = link_session_key w" "is_synchronized u = is_synchronized w"
    using rejected(2) by (auto simp: is_synchronized_def)
  then show ?thesis using reject_link [OF rejected(1)] assms(2) by auto
next
  case ignored
  then show ?thesis using assms(2) by (auto simp: is_synchronized_def)
qed

theorem sync_only_authentic_witness:
  "\<exists>w'. handle_link_sync_resp model_lib 5 (PMsg (LinkSync [7] (sample_tag [7]))) sample_handshake = (Inr True, w')
     \<and> link_session_key w' = Some (calculate_session_key model_lib [1] [7])"
proof -
  obtain w' where "handle_link_sync_resp model_lib 5 (PMsg (LinkSync [7] (sample_tag [7]))) sample_handshake = (Inr True, w')"
    using sample_accepts by blast
  with sync_only_authentic [OF this] show ?thesis by simp
qed

text \<open>A response that arrives once more breaks the link: after a completed synchronisation, any
  further \<open>LINK_SYNC_RESP\<close> (for example a repetition of the accepted one) that is handled to the end
  leaves the link unsynchronised.\<close>

theorem repeated_sync_resp_breaks_link:
  fixes w :: "'a handshake_scheme"
  assumes "handle_link_sync_resp L q pl w = (Inr True, w1)"
    and "handle_link_sync_resp L q2 pl2 w1 = (Inr b, w2)"
  shows "is_synchronized w1 \<and> \<not> is_synchronized w2 \<and> hs_fsm_state w2 = FAULT \<and> \<not> b"
  using assms(1)
proof (cases rule: sync_resp_cases)
  case (accepted n t u)
  have w1: "is_synchronized w1" "link_handshake_nonce w1 = None" using complete_link [OF accepted(4)] by simp_all
  then have "reject_sync L q2 False ''unexpected_sync_resp'' None w1 = (Inr b, w2)"
    using assms(2) by (simp add: handle_link_sync_resp_def)
  from reject_link [OF this] w1 show ?thesis by (cases b) auto
next
  case (rejected f reason d u)
  then show ?thesis using reject_link(1) by blast
qed auto

theorem repeated_sync_resp_breaks_link_witness:
  "\<exists>w1 w2. handle_link_sync_resp model_lib 5 (PMsg (LinkSync [7] (sample_tag [7]))) sample_handshake = (Inr True, w1)
     \<and> handle_link_sync_resp model_lib 5 (PMsg (LinkSync [7] (sample_tag [7]))) w1 = (Inr False, w2)
     \<and> is_synchronized w1 \<and> \<not> is_synchronized w2"
proof -
  obtain w1 where a: "handle_link_sync_resp model_lib 5 (PMsg (LinkSync [7] (sample_tag [7]))) sample_handshake = (Inr True, w1)"
      "cloud_publish_queue w1 = []" "\<not> sv_cloud_stream w1"
    using sample_accepts by blast
  from a(1) have "link_handshake_nonce w1 = None \<and> \<not> tp_serial w1"
  proof (cases rule: sync_resp_cases)
    case (accepted n t u)
    then have "\<not> tp_serial u" by auto
    then show ?thesis using complete_link [OF accepted(4)] complete_serial [OF accepted(4)] by simp
  next
    case (rejected f reason d u)
    then show ?thesis using reject_link(1) by blast
  qed simp
  then obtain w2 where b: "handle_link_sync_resp model_lib 5 (PMsg (LinkSync [7] (sample_tag [7]))) w1 = (Inr False, w2)"
    using reject_idle a(2,3) by blast
  with repeated_sync_resp_breaks_link [OF a(1) b] a(1) show ?thesis by auto
qed

text \<open>C35 (error). A new session does not forget the old one: synchronising again leaves the last accepted
  counter in place, so every frame of the new session whose counter has not passed that of the old
  session (the MCU starts again from one) is dropped without a trace.\<close>

theorem resync_drops_fresh_frames:
  fixes w :: "'a handshake_scheme"
  assumes "handle_link_sync_resp L q pl w = (Inr True, w1)"
    and "decode_packet L packet w1 = Inr (e, payload)" and "\<not> tp_negotiating w1"
    and "\<not> (STATUS_CODE_MIN \<le> ev_command_id e \<and> ev_command_id e \<le> SYSTEM_COMMAND_MAX)"
    and "extract_nonce_counter (ev_nonce e) = Inr c" and "c \<le> link_last_nonce_counter w"
  shows "process_packet L dispatch packet w1 = (Inr (), w1)"
proof -
  have "is_synchronized w1 \<and> link_last_nonce_counter w1 = link_last_nonce_counter w"
    using assms(1)
  proof (cases rule: sync_resp_cases)
    case (accepted n t u)
    then show ?thesis using complete_link [OF accepted(4)] by auto
  next
    case (rejected f reason d u)
    then show ?thesis using reject_link(1) by blast
  qed auto
  then have "anti_replay_ok e w1 = (False, w1)"
    using assms(4-6) by (auto simp: anti_replay_ok_def validate_nonce_counter_def Let_def)
  then show ?thesis using assms(2,3) by (simp add: process_packet_def)
qed

theorem resync_drops_fresh_frames_witness:
  "\<exists>w1 packet. handle_link_sync_resp model_lib 5 (PMsg (LinkSync [7] (sample_tag [7]))) sample_handshake = (Inr True, w1)
     \<and> (\<exists>e p. decode_packet model_lib packet w1 = Inr (e, p) \<and> ev_command_id e = 112
          \<and> extract_nonce_counter (ev_nonce e) = Inr 1)
     \<and> process_packet model_lib (\<lambda>c q p w. (Inl RuntimeError, w)) packet w1 = (Inr (), w1)"
proof -
  let ?k = "Some (calculate_session_key model_lib [1] [7])" and ?n = "replicate 4 0 @ to_be 8 1 :: bytes"
  have len: "length (calculate_session_key model_lib [1] [7]) = 32"
    by (simp add: calculate_session_key_def model_lib_def)
  obtain w1 where h: "handle_link_sync_resp model_lib 5 (PMsg (LinkSync [7] (sample_tag [7]))) sample_handshake = (Inr True, w1)"
    using sample_accepts by blast
  from h have w1: "link_session_key w1 = ?k \<and> is_synchronized w1 \<and> \<not> tp_negotiating w1"
  proof (cases rule: sync_resp_cases)
    case (accepted n t u)
    have "n = [7]" "\<not> tp_negotiating u" "tp_config u = sample_secret" using accepted(3,5) by (auto simp: decode_sync_def)
    then show ?thesis using complete_link [OF accepted(4)] complete_serial [OF accepted(4)] by simp
  next
    case (rejected f reason d u)
    then show ?thesis using reject_link(1) by blast
  qed simp
  obtain raw where raw: "build_frame model_lib 112 1 (PBytes [1]) (Some ?n) ?k = Inr raw"
    using len by (cases "calculate_session_key model_lib [1] [7]")
      (auto simp: build_frame_def seal_payload_def frame_header_def payload_bytes_def key_set_def
        MAX_PAYLOAD_SIZE_def aead_args_ok_def uint32_ok_def is_system_command_range Let_def)
  obtain p where p: "parse_frame model_lib raw ?k = Inr (\<lparr>ev_version = 2, ev_command_id = 112, ev_sequence_id = 1,
      ev_nonce = ?n, ev_payload = p\<rparr>, delivered model_lib 112 (PBytes [1]) ?k)" (is "_ = Inr (?e, ?d)")
    using build_parse_frame [OF model_lib_ok(1,2) _ _ raw] by auto
  have d: "decode_packet model_lib (cobs_enc model_lib raw) w1 = Inr (?e, ?d)"
    using p w1 model_lib_ok(3) by (simp add: decode_packet_def cobs_ok_def session_key_in_use_def)
  have c: "extract_nonce_counter ?n = Inr 1" by (simp add: extract_nonce_counter_def from_to_be)
  show ?thesis
    using resync_drops_fresh_frames [OF h d, of 1 "\<lambda>c q p w. (Inl RuntimeError, w)"] w1 h d c
    by (intro exI [of _ w1] exI [of _ "cobs_enc model_lib raw"]) auto
qed

end
