(* ===== verification/Service.thy ===== *)
theory Service
  imports Handshake
begin

text \<open>
  \<open>mcubridge/services/runtime.py\<close>, the state of \<open>BridgeService\<close> and its low-level helpers: the console
  queue to the MCU, the sandboxed file system, the pool of child processes, pins and datastore
  publications. The handlers in the theories \<open>Mcu\<close> and \<open>Requests\<close> are built from them.

  File system, disk and child processes are the last part of the outside world: \<open>sv_fs_ops\<close> says of each
  file system call whether it succeeds, \<open>sv_resolve\<close> is \<open>Path.resolve\<close>, \<open>sv_spawns\<close> and \<open>sv_kills\<close> are what
  starting and killing a process meets. A semaphore without a free slot makes the coroutine wait,
  which is the pseudo-exception \<open>Suspended\<close>: no handler catches it.
\<close>

section \<open>State\<close>

text \<open>Starting a process: the operating system refuses, or a child exists.\<close>

datatype spawn = SpawnError | Spawned process_context

text \<open>Killing a process group: it is gone already; it ends after \<open>SIGTERM\<close>; it ends after \<open>SIGKILL\<close>; it
  does not end in time; it is gone at the second signal; the signal is not permitted.\<close>

datatype kill = KillNone | KillTerm int | KillKill int | KillStuck | KillLost | KillDenied

record bridge = handshake +
  sv_serial :: bool \<comment> \<open>\<open>BridgeService.serial\<close> is set\<close>
  sv_process_slots :: int \<comment> \<open>the value of the semaphore\<close>
  sv_monitors :: "(int \<times> int) list" \<comment> \<open>running \<open>_monitor_process\<close> tasks: key, pid of the child\<close>
  sv_pending_mcu_read :: "(bytes list \<times> bytes option) option"
  sv_resolve :: "string \<Rightarrow> string result"
  sv_files :: "string \<rightharpoonup> bytes"
  sv_dirs :: "string \<Rightarrow> bool"
  sv_fs_ops :: "bool list"
  sv_disk :: "(int \<times> int) option" \<comment> \<open>\<open>disk_usage\<close>: used and free bytes\<close>
  sv_spawns :: "spawn list"
  sv_kills :: "kill list"
  sv_cloud_incoming :: "bridge_request list"
  sv_connected_via_http3 :: bool
  sv_retries :: "(string \<times> int) list" \<comment> \<open>the counter \<open>metrics.retries\<close>, by component\<close>
  sv_msg_text :: "msg \<Rightarrow> string" \<comment> \<open>\<open>str()\<close> of a protobuf message\<close>

definition next_fs_op :: "bridge \<Rightarrow> bool \<times> bridge" where
  "next_fs_op w = (case sv_fs_ops w of [] \<Rightarrow> (True, w) | b # bs \<Rightarrow> (b, w\<lparr>sv_fs_ops := bs\<rparr>))"

definition next_spawn :: "bridge \<Rightarrow> spawn \<times> bridge" where
  "next_spawn w = (case sv_spawns w of [] \<Rightarrow> (SpawnError, w) | x # xs \<Rightarrow> (x, w\<lparr>sv_spawns := xs\<rparr>))"

definition next_kill :: "bridge \<Rightarrow> kill \<times> bridge" where
  "next_kill w = (case sv_kills w of [] \<Rightarrow> (KillTerm (- 15), w) | x # xs \<Rightarrow> (x, w\<lparr>sv_kills := xs\<rparr>))"

text \<open>Sequencing: an exception ends the coroutine.\<close>

definition bindr :: "'a result \<times> 'w \<Rightarrow> ('a \<Rightarrow> 'w \<Rightarrow> 'b result \<times> 'w) \<Rightarrow> 'b result \<times> 'w" where
  "bindr x k = (case x of (Inl e, w) \<Rightarrow> (Inl e, w) | (Inr a, w) \<Rightarrow> k a w)"

lemma bindr_simps [simp]: "bindr (Inl e, w) k = (Inl e, w)" "bindr (Inr a, w) k = k a w"
  by (simp_all add: bindr_def)

section \<open>Sending and publishing\<close>

text \<open>\<open>serial.send(command, pb.Message(...))\<close>: building the message may raise \<open>ValueError\<close>.\<close>

definition send_msg :: "lib \<Rightarrow> int \<Rightarrow> msg \<Rightarrow> bridge \<Rightarrow> send_result result \<times> bridge" where
  "send_msg L c m w = (case mk_msg m of Inl e \<Rightarrow> (Inl e, w) | Inr m \<Rightarrow> send L c (PMsg m) None w)"

text \<open>\<open>bool(await serial.send(...))\<close>.\<close>

definition truth :: "send_result result \<times> bridge \<Rightarrow> bool result \<times> bridge" where
  "truth x = bindr x (\<lambda>r w. (Inr (send_truthy r), w))"

definition topic_of :: "string \<Rightarrow> bridge \<Rightarrow> string" where
  "topic_of name w = (case get_topic_for_message (cloud_topic_prefix w) (ByName name) of Some t \<Rightarrow> t | None \<Rightarrow> [])"

definition cloud_path :: "topic \<Rightarrow> string list \<Rightarrow> bridge \<Rightarrow> string" where
  "cloud_path t segments w = topic_path (cloud_topic_prefix w) (topic_value t) segments"

definition PROTOBUF_CONTENT_TYPE :: "string option" where
  "PROTOBUF_CONTENT_TYPE = Some ''application/x-protobuf''"

definition publish_datastore_value ::
  "lib \<Rightarrow> string \<Rightarrow> bytes \<Rightarrow> bridge_request option \<Rightarrow> string option \<Rightarrow> bridge \<Rightarrow> unit result \<times> bridge" where
  "publish_datastore_value L key val reply_context err w =
    (let tp = cloud_path DATASTORE (''get'' # filter (\<lambda>s. s \<noteq> []) (py_split slash key)) w;
         props = (case err of
                    Some e \<Rightarrow> [(''bridge-datastore-key'', key), (''bridge-error'', e)]
                  | None \<Rightarrow> [(''bridge-datastore-key'', key)])
     in enqueue_cloud L (create_queued_publish tp val None (Some 60) props) reply_context w)"

section \<open>Console\<close>

text \<open>The chunks of one buffer, until a send fails.\<close>

fun send_chunks :: "lib \<Rightarrow> bytes list \<Rightarrow> bridge \<Rightarrow> bool result \<times> bridge" where
  "send_chunks L [] w = (Inr True, w)"
| "send_chunks L (chunk # cs) w =
    bindr (send_msg L 96 (ConsoleWrite chunk) w)
      (\<lambda>r w. if send_truthy r then send_chunks L cs w else (Inr False, w))"

text \<open>The loop of \<open>_flush_console_queue\<close> over the buffers that are queued when it starts.\<close>

fun flush_buffers :: "lib \<Rightarrow> bytes list \<Rightarrow> bridge \<Rightarrow> unit result \<times> bridge" where
  "flush_buffers L [] w = (Inr (), w)"
| "flush_buffers L (buf # bs) w =
    (if mcu_is_paused w then (Inr (), w)
     else bindr (send_chunks L (iter_chunks buf MAX_PAYLOAD_SIZE) (w\<lparr>console_to_mcu_queue := bs\<rparr>))
            (\<lambda>ok w. if ok then flush_buffers L bs w
                     else (Inr (), w\<lparr>console_to_mcu_queue :=
                             dq_appendleft (console_maxlen w) buf (console_to_mcu_queue w)\<rparr>)))"

definition flush_console_queue :: "lib \<Rightarrow> bridge \<Rightarrow> unit result \<times> bridge" where
  "flush_console_queue L w =
    (if \<not> sv_serial w then (Inr (), w) else flush_buffers L (console_to_mcu_queue w) w)"

section \<open>Files\<close>

text \<open>\<open>root.joinpath(rel)\<close> for a relative path.\<close>

definition joinpath :: "string \<Rightarrow> string \<Rightarrow> string" where
  "joinpath base rel = (if rel = [] then base else path_join base rel)"

text \<open>\<open>p.is_relative_to(base)\<close> on resolved paths compares their parts.\<close>

definition is_relative_to :: "string \<Rightarrow> string \<Rightarrow> bool" where
  "is_relative_to p base \<longleftrightarrow> take (length (nonempty_segs base)) (nonempty_segs p) = nonempty_segs base"

definition get_safe_path :: "string \<Rightarrow> bridge \<Rightarrow> string option result" where
  "get_safe_path p_str w =
    (case sv_resolve w (file_system_root (tp_config w)) of
       Inl e \<Rightarrow> Inl e
     | Inr base \<Rightarrow>
         (case sv_resolve w (joinpath base (lstrip_chars (\<lambda>c. c = slash) p_str)) of
            Inl e \<Rightarrow> Inl e
          | Inr p \<Rightarrow> Inr (if is_relative_to p base then Some p else None)))"

text \<open>\<open>path.parent.mkdir(parents=True, exist_ok=True)\<close>.\<close>

definition is_ancestor :: "string \<Rightarrow> string \<Rightarrow> bool" where
  "is_ancestor q p \<longleftrightarrow> is_relative_to p q \<and> length (nonempty_segs q) < length (nonempty_segs p)"

definition make_parents :: "string \<Rightarrow> bridge \<Rightarrow> unit result \<times> bridge" where
  "make_parents path w =
    (case next_fs_op w of
       (False, w) \<Rightarrow> (Inl OSError, w)
     | (True, w) \<Rightarrow> (Inr (), w\<lparr>sv_dirs := (\<lambda>q. sv_dirs w q \<or> is_ancestor q path)\<rparr>))"

definition write_bytes :: "string \<Rightarrow> bytes \<Rightarrow> bridge \<Rightarrow> unit result \<times> bridge" where
  "write_bytes path data w =
    (case next_fs_op w of
       (False, w) \<Rightarrow> (Inl OSError, w)
     | (True, w) \<Rightarrow> (Inr (), w\<lparr>sv_files := (sv_files w)(path \<mapsto> data)\<rparr>))"

definition read_bytes :: "string \<Rightarrow> bridge \<Rightarrow> bytes result \<times> bridge" where
  "read_bytes path w =
    (case next_fs_op w of
       (False, w) \<Rightarrow> (Inl OSError, w)
     | (True, w) \<Rightarrow> (case sv_files w path of None \<Rightarrow> (Inl OSError, w) | Some d \<Rightarrow> (Inr d, w)))"

text \<open>\<open>unlink\<close> of a directory is an error.\<close>

definition unlink :: "string \<Rightarrow> bridge \<Rightarrow> unit result \<times> bridge" where
  "unlink path w =
    (case next_fs_op w of
       (False, w) \<Rightarrow> (Inl OSError, w)
     | (True, w) \<Rightarrow> (if sv_files w path = None then (Inl OSError, w)
                    else (Inr (), w\<lparr>sv_files := (sv_files w)(path := None)\<rparr>)))"

definition is_file :: "string \<Rightarrow> bridge \<Rightarrow> bool" where
  "is_file path w \<longleftrightarrow> sv_files w path \<noteq> None"

definition path_exists :: "string \<Rightarrow> bridge \<Rightarrow> bool" where
  "path_exists path w \<longleftrightarrow> sv_files w path \<noteq> None \<or> sv_dirs w path"

definition write_with_quota :: "string \<Rightarrow> bytes \<Rightarrow> bridge \<Rightarrow> bool result \<times> bridge" where
  "write_with_quota path data w =
    (let w = (case sv_disk w of None \<Rightarrow> w | Some (used, free) \<Rightarrow> w\<lparr>file_storage_bytes_used := used\<rparr>);
         full = (case sv_disk w of None \<Rightarrow> False | Some (used, free) \<Rightarrow> free < int (length data))
     in if full then (Inr False, w\<lparr>file_storage_limit_rejections := file_storage_limit_rejections w + 1\<rparr>)
        else bindr (make_parents path w) (\<lambda>_ w. bindr (write_bytes path data w) (\<lambda>_ w. (Inr True, w))))"

section \<open>Processes\<close>

text \<open>\<open>shlex.split\<close> (POSIX rules, split on white space): quotes, double quotes with escapes, backslash.\<close>

datatype shlex_mode = Space | Word | Quote char | Escape "char option"

definition shlex_space :: "char \<Rightarrow> bool" where
  "shlex_space c \<longleftrightarrow> c \<in> {CHR '' '', CHR 0x09, CHR 0x0D, CHR 0x0A}"

abbreviation (input) backslash :: char where "backslash \<equiv> CHR 0x5C"

definition shlex_quote :: "char \<Rightarrow> bool" where
  "shlex_quote c \<longleftrightarrow> c = CHR 0x27 \<or> c = CHR 0x22"

fun shlex_run :: "shlex_mode \<Rightarrow> string \<Rightarrow> bool \<Rightarrow> string \<Rightarrow> string list result" where
  "shlex_run Space tok quoted [] = Inr []"
| "shlex_run Word tok quoted [] = Inr (if tok \<noteq> [] \<or> quoted then [tok] else [])"
| "shlex_run (Quote q) tok quoted [] = Inl ValueError"
| "shlex_run (Escape q) tok quoted [] = Inl ValueError"
| "shlex_run Space tok quoted (c # cs) =
    (if shlex_space c then shlex_run Space [] False cs
     else if c = backslash then shlex_run (Escape None) [] False cs
     else if shlex_quote c then shlex_run (Quote c) [] False cs
     else shlex_run Word [c] False cs)"
| "shlex_run Word tok quoted (c # cs) =
    (if shlex_space c then
       (if tok \<noteq> [] \<or> quoted then map_sum id (Cons tok) (shlex_run Space [] False cs)
        else shlex_run Space [] quoted cs)
     else if shlex_quote c then shlex_run (Quote c) tok quoted cs
     else if c = backslash then shlex_run (Escape None) tok quoted cs
     else shlex_run Word (tok @ [c]) quoted cs)"
| "shlex_run (Quote q) tok quoted (c # cs) =
    (if c = q then shlex_run Word tok True cs
     else if c = backslash \<and> q = CHR 0x22 then shlex_run (Escape (Some q)) tok True cs
     else shlex_run (Quote q) (tok @ [c]) True cs)"
| "shlex_run (Escape None) tok quoted (c # cs) = shlex_run Word (tok @ [c]) quoted cs"
| "shlex_run (Escape (Some q)) tok quoted (c # cs) =
    shlex_run (Quote q) (tok @ (if c \<noteq> backslash \<and> c \<noteq> q then [backslash, c] else [c])) quoted cs"

definition shlex_split :: "string \<Rightarrow> string list result" where
  "shlex_split s = shlex_run Space [] False s"

definition release_slot :: "bridge \<Rightarrow> bridge" where
  "release_slot w = w\<lparr>sv_process_slots := sv_process_slots w + 1\<rparr>"

text \<open>\<open>if self.state.running_processes.pop(pid, None): self._process_slots.release()\<close>.\<close>

definition pop_process :: "int \<Rightarrow> bridge \<Rightarrow> bridge" where
  "pop_process pid w =
    (if map_of (running_processes w) pid = None then w
     else release_slot (w\<lparr>running_processes := AList.delete pid (running_processes w)\<rparr>))"

text \<open>\<open>create_subprocess_exec\<close> with its arguments (none at all is a \<open>TypeError\<close>), registration and the
  monitor task.\<close>

definition spawn_process :: "string list \<Rightarrow> bridge \<Rightarrow> int result \<times> bridge" where
  "spawn_process argv w =
    (if argv = [] then (Inl TypeError, w)
     else (case next_spawn w of
             (SpawnError, w) \<Rightarrow> (Inr 0, release_slot w)
           | (Spawned p, w) \<Rightarrow>
               (let pid = pc_os_pid p AND 0xFFFF
                in (Inr pid, w\<lparr>running_processes :=
                                 AList.update pid (p\<lparr>pc_exit_code := 0\<rparr>) (running_processes w),
                               sv_monitors := sv_monitors w @ [(pid, pc_os_pid p)]\<rparr>))))"

definition run_process :: "string \<Rightarrow> bridge \<Rightarrow> int result \<times> bridge" where
  "run_process command w =
    (if \<not> is_command_allowed (st_allowed_policy w) command then (Inr 0, w)
     else if sv_process_slots w \<le> 0 then (Inl Suspended, w)
     else (let w = w\<lparr>sv_process_slots := sv_process_slots w - 1\<rparr>
           in case shlex_split command of
                Inl e \<Rightarrow> (Inl e, w)
              | Inr argv \<Rightarrow> spawn_process argv w))"

text \<open>The context after the wait, and the code that \<open>_terminate_process\<close> returns.\<close>

definition terminate_process :: "process_context \<Rightarrow> bridge \<Rightarrow> int result \<times> process_context \<times> bridge" where
  "terminate_process p w =
    (case pc_returncode p of
       Some c \<Rightarrow> (Inr c, p, w)
     | None \<Rightarrow>
         (case next_kill w of (k, w) \<Rightarrow>
            (case k of
               KillNone \<Rightarrow> (Inr (- 1), p, w)
             | KillTerm c \<Rightarrow> (Inr c, p\<lparr>pc_returncode := Some c\<rparr>, w)
             | KillKill c \<Rightarrow> (Inr c, p\<lparr>pc_returncode := Some c\<rparr>, w)
             | KillStuck \<Rightarrow> (Inr (- 1), p, w)
             | KillLost \<Rightarrow> (Inl OSError, p, w)
             | KillDenied \<Rightarrow> (Inl OSError, p, w))))"

text \<open>Both kill requests: the exit code is stored in a context that is removed right away.\<close>

definition kill_process :: "int \<Rightarrow> bridge \<Rightarrow> bridge" where
  "kill_process pid w =
    (case map_of (running_processes w) pid of
       None \<Rightarrow> w
     | Some p \<Rightarrow> (case terminate_process p w of (_, _, w) \<Rightarrow> pop_process pid w))"

text \<open>A monitor task: the wait ends with the process or at the timeout; after another minute the entry is
  removed. The context it holds is the one of the child it was created for.\<close>

datatype monitor_wait = Exited int | TimedOut

definition set_process :: "int \<Rightarrow> int \<Rightarrow> (process_context \<Rightarrow> process_context) \<Rightarrow> bridge \<Rightarrow> bridge" where
  "set_process pid os_pid f w =
    w\<lparr>running_processes := map (\<lambda>(k, p). if k = pid \<and> pc_os_pid p = os_pid then (k, f p) else (k, p))
        (running_processes w)\<rparr>"

definition monitor_end :: "int \<times> int \<Rightarrow> bridge \<Rightarrow> bridge" where
  "monitor_end m w = pop_process (fst m) (w\<lparr>sv_monitors := remove1 m (sv_monitors w)\<rparr>)"

definition monitor_woken :: "int \<times> int \<Rightarrow> monitor_wait \<Rightarrow> bridge \<Rightarrow> bridge" where
  "monitor_woken m outcome w =
    (case outcome of
       Exited c \<Rightarrow> set_process (fst m) (snd m) (\<lambda>p. p\<lparr>pc_exit_code := c\<rparr>) w
     | TimedOut \<Rightarrow>
         (case map_of (running_processes w) (fst m) of
            None \<Rightarrow> w
          | Some p \<Rightarrow>
              (if pc_os_pid p \<noteq> snd m then w
               else (case terminate_process p w of
                       (Inl _, _, w) \<Rightarrow> monitor_end m w
                     | (Inr c, p', w) \<Rightarrow> set_process (fst m) (snd m) (\<lambda>_. p'\<lparr>pc_exit_code := c\<rparr>) w))))"

text \<open>\<open>_rd\<close>: data, truncation flag, what stays in the buffer. An open stream without data runs into the
  timeout.\<close>

definition rd :: "bool \<Rightarrow> bytes \<Rightarrow> bytes \<times> bool \<times> bytes" where
  "rd opened data =
    (let n = MAX_PAYLOAD_SIZE - 32
     in if data = [] then ([], opened, []) else (take n data, opened \<or> drop n data \<noteq> [], drop n data))"

definition poll_process :: "int \<Rightarrow> bridge \<Rightarrow> msg result \<times> bridge" where
  "poll_process pid w =
    (case map_of (running_processes w) pid of
       None \<Rightarrow> (mk_msg (ProcessPollResponse STATUS_ERROR 1 [] [] True False False), w)
     | Some p \<Rightarrow>
         (case rd (pc_streams_open p) (pc_stdout p) of (out, out_trunc, out_rest) \<Rightarrow>
          (case rd (pc_streams_open p) (pc_stderr p) of (err, err_trunc, err_rest) \<Rightarrow>
            (let fin = (pc_returncode p \<noteq> None);
                 w = w\<lparr>running_processes := AList.update pid
                         (p\<lparr>pc_stdout := out_rest, pc_stderr := err_rest\<rparr>) (running_processes w)\<rparr>;
                 w = (if fin \<and> \<not> pc_streams_open p \<and> out_rest = [] \<and> err_rest = []
                      then pop_process pid w else w)
             in (mk_msg (ProcessPollResponse STATUS_OK (pc_exit_code p) out err fin out_trunc err_trunc), w)))))"

section \<open>Pins and routes\<close>

text \<open>The text consists of digits, so \<open>int\<close> does not fail.\<close>

definition parse_pin :: "string \<Rightarrow> int" where
  "parse_pin s =
    (let s = py_upper s
     in if py_startswith ''A'' s \<and> py_isdigit (drop 1 s) then digits_val (drop 1 s)
        else if py_isdigit s then digits_val s else - 1)"

definition deduce_action :: "topic_route \<Rightarrow> string option" where
  "deduce_action r =
    (if tr_topic r = SYSTEM then None
     else if tr_topic r = DIGITAL \<or> tr_topic r = ANALOG then
       (if length (tr_segments r) = 1 then Some ''write''
        else if 1 < length (tr_segments r) then Some (py_lower (tr_segments r ! 1)) else None)
     else if tr_topic r = CONSOLE \<and> route_identifier r = ''in'' then Some ''in''
     else if route_identifier r = [] then None else Some (route_identifier r))"

end
