(* ===== verification/Mcu.thy ===== *)
theory Mcu
  imports Service
begin

text \<open>
  \<open>mcubridge/services/runtime.py\<close>, what the MCU asks for: the handlers that \<open>_setup_mcu_registry\<close>
  registers, one definition each, and \<open>handle_mcu_frame\<close>, which gates, decodes, dispatches and
  acknowledges. A handler's result is \<open>False\<close> when the code returns \<open>False\<close>, which suppresses the
  acknowledgement.

  Handlers run inside the read loop of the transport. Python reads an attribute of whatever message it
  was given; the accessors below say which messages have it. Only a link without a session key can
  deliver a message of a class other than the command's own. (Of the messages with a \<open>value\<close>, the two
  that carry bytes would print as their \<open>repr\<close> in \<open>_on_pin_resp\<close>; they are left out.)
\<close>

section \<open>Attributes\<close>

fun msg_data :: "msg \<Rightarrow> bytes result" where
  "msg_data (ConsoleWrite d) = Inr d"
| "msg_data (MailboxPush d) = Inr d"
| "msg_data (FileWrite _ d) = Inr d"
| "msg_data (SpiTransfer d) = Inr d"
| "msg_data (SpiTransferResponse d) = Inr d"
| "msg_data _ = Inl AttributeError"

fun msg_key :: "msg \<Rightarrow> string result" where
  "msg_key (DatastorePut k _) = Inr k"
| "msg_key (DatastoreGet k) = Inr k"
| "msg_key _ = Inl AttributeError"

fun msg_path :: "msg \<Rightarrow> string result" where
  "msg_path (FileWrite p _) = Inr p"
| "msg_path (FileRead p) = Inr p"
| "msg_path (FileRemove p) = Inr p"
| "msg_path _ = Inl AttributeError"

fun msg_content :: "msg \<Rightarrow> bytes result" where
  "msg_content (FileReadResponse c) = Inr c"
| "msg_content (MailboxReadResponse c) = Inr c"
| "msg_content _ = Inl AttributeError"

fun msg_pid :: "msg \<Rightarrow> int result" where
  "msg_pid (ProcessPoll p) = Inr p"
| "msg_pid (ProcessKill p) = Inr p"
| "msg_pid (ProcessRunAsyncResponse p) = Inr p"
| "msg_pid _ = Inl AttributeError"

fun msg_value :: "msg \<Rightarrow> int result" where
  "msg_value (DigitalReadResponse v) = Inr v"
| "msg_value (AnalogReadResponse v) = Inr v"
| "msg_value (DigitalWrite _ v) = Inr v"
| "msg_value (AnalogWrite _ v) = Inr v"
| "msg_value (FreeMemoryResponse v) = Inr v"
| "msg_value _ = Inl AttributeError"

definition attr :: "(msg \<Rightarrow> 'a result) \<Rightarrow> payload \<Rightarrow> 'a result" where
  "attr get p = (case p of PMsg m \<Rightarrow> get m | PBytes _ \<Rightarrow> Inl AttributeError)"

definition payload_class :: "payload \<Rightarrow> string" where
  "payload_class p = (case p of PMsg m \<Rightarrow> msg_class m | PBytes _ \<Rightarrow> [])"

text \<open>\<open>None\<close> and \<open>True\<close> are both not \<open>False\<close>.\<close>

definition handled :: "'a result \<times> bridge \<Rightarrow> bool result \<times> bridge" where
  "handled x = bindr x (\<lambda>_ w. (Inr True, w))"

section \<open>Flow control and console\<close>

definition handle_mcu_xon :: "lib \<Rightarrow> bridge \<Rightarrow> bool result \<times> bridge" where
  "handle_mcu_xon L w = handled (flush_console_queue L (w\<lparr>mcu_is_paused := False, serial_tx_allowed := True\<rparr>))"

definition handle_mcu_xoff :: "bridge \<Rightarrow> bool result \<times> bridge" where
  "handle_mcu_xoff w = (Inr True, w\<lparr>mcu_is_paused := True, serial_tx_allowed := False\<rparr>)"

definition on_mcu_console_write :: "lib \<Rightarrow> payload \<Rightarrow> bridge \<Rightarrow> bool result \<times> bridge" where
  "on_mcu_console_write L p w =
    bindr (attr msg_data p, w) (\<lambda>data w.
      if data = [] then (Inr True, w)
      else handled (enqueue_cloud L
             (create_queued_publish (topic_of (payload_class p) w) data None (Some 5) []) None w))"

section \<open>Datastore\<close>

text \<open>\<open>datastore_cache.set\<close>, when there is a cache.\<close>

definition datastore_set :: "string \<Rightarrow> bytes \<Rightarrow> bridge \<Rightarrow> unit result \<times> bridge" where
  "datastore_set key val w =
    (case datastore_cache w of
       None \<Rightarrow> (Inr (), w)
     | Some c \<Rightarrow> (case next_fault w of (f, w) \<Rightarrow>
         (case sc_set f key val c of (r, c) \<Rightarrow> (r, w\<lparr>datastore_cache := Some c\<rparr>))))"

definition datastore_get :: "string \<Rightarrow> bytes option \<Rightarrow> bridge \<Rightarrow> bytes option \<times> bridge" where
  "datastore_get key dflt w =
    (case datastore_cache w of
       None \<Rightarrow> (dflt, w)
     | Some c \<Rightarrow> (case next_fault w of (f, w) \<Rightarrow>
         (case sc_get f key dflt c of (r, c) \<Rightarrow> (r, w\<lparr>datastore_cache := Some c\<rparr>))))"

definition on_mcu_datastore_put :: "lib \<Rightarrow> payload \<Rightarrow> bridge \<Rightarrow> bool result \<times> bridge" where
  "on_mcu_datastore_put L p w =
    (case p of
       PMsg (DatastorePut key val) \<Rightarrow>
         bindr (datastore_set key val w)
           (\<lambda>_ w. handled (publish_datastore_value L key val None None w))
     | _ \<Rightarrow> (Inl AttributeError, w))"

definition on_mcu_datastore_get :: "lib \<Rightarrow> payload \<Rightarrow> bridge \<Rightarrow> bool result \<times> bridge" where
  "on_mcu_datastore_get L p w =
    (if \<not> sv_serial w then (Inr False, w)
     else bindr (attr msg_key p, w) (\<lambda>key w.
       case datastore_get key (Some []) w of (v, w) \<Rightarrow>
         truth (send_msg L 114 (DatastoreGetResponse (take 255 (case v of Some b \<Rightarrow> b | None \<Rightarrow> []))) w)))"

section \<open>Mailbox\<close>

definition mailbox_append :: "bytes \<Rightarrow> bridge \<Rightarrow> unit result \<times> bridge" where
  "mailbox_append x w =
    (case next_fault w of (f, w) \<Rightarrow>
       (case sq_append f x (mailbox_queue w) of (r, d) \<Rightarrow> (r, w\<lparr>mailbox_queue := d\<rparr>)))"

definition mailbox_popleft :: "bridge \<Rightarrow> bytes result \<times> bridge" where
  "mailbox_popleft w =
    (case next_fault w of (f, w) \<Rightarrow>
       (case sq_popleft f (mailbox_queue w) of (r, d) \<Rightarrow> (r, w\<lparr>mailbox_queue := d\<rparr>)))"

definition incoming_append :: "bytes \<Rightarrow> bridge \<Rightarrow> unit result \<times> bridge" where
  "incoming_append x w =
    (case next_fault w of (f, w) \<Rightarrow>
       (case sq_append f x (mailbox_incoming_queue w) of (r, d) \<Rightarrow> (r, w\<lparr>mailbox_incoming_queue := d\<rparr>)))"

definition incoming_popleft :: "bridge \<Rightarrow> bytes result \<times> bridge" where
  "incoming_popleft w =
    (case next_fault w of (f, w) \<Rightarrow>
       (case sq_popleft f (mailbox_incoming_queue w) of (r, d) \<Rightarrow> (r, w\<lparr>mailbox_incoming_queue := d\<rparr>)))"

text \<open>\<open>except IndexError\<close>: an empty queue gives empty content.\<close>

definition or_empty :: "bytes result \<times> bridge \<Rightarrow> bytes result \<times> bridge" where
  "or_empty x = (case x of (Inl IndexError, w) \<Rightarrow> (Inr [], w) | _ \<Rightarrow> x)"

definition on_mcu_mailbox_push :: "lib \<Rightarrow> payload \<Rightarrow> bridge \<Rightarrow> bool result \<times> bridge" where
  "on_mcu_mailbox_push L p w =
    bindr (attr msg_data p, w) (\<lambda>data w.
      bindr (incoming_append data w) (\<lambda>_ w.
        handled (enqueue_cloud L (create_queued_publish (topic_of (payload_class p) w) data None None []) None w)))"

definition on_mcu_mailbox_available :: "lib \<Rightarrow> bridge \<Rightarrow> bool result \<times> bridge" where
  "on_mcu_mailbox_available L w =
    (if \<not> sv_serial w then (Inr False, w)
     else truth (send_msg L 133 (MailboxAvailableResponse (int (sq_length (mailbox_queue w)))) w))"

definition on_mcu_mailbox_read :: "lib \<Rightarrow> bridge \<Rightarrow> bool result \<times> bridge" where
  "on_mcu_mailbox_read L w =
    (if \<not> sv_serial w then (Inr False, w)
     else bindr (or_empty (mailbox_popleft w))
            (\<lambda>content w. truth (send_msg L 132 (MailboxReadResponse content) w)))"

definition on_mcu_mailbox_processed :: "lib \<Rightarrow> payload \<Rightarrow> bridge \<Rightarrow> bool result \<times> bridge" where
  "on_mcu_mailbox_processed L p w =
    (case p of
       PMsg m \<Rightarrow> handled (enqueue_cloud L
         (create_queued_publish (topic_of (msg_class m) w) (ser L m) PROTOBUF_CONTENT_TYPE None []) None w)
     | PBytes _ \<Rightarrow> (Inl AttributeError, w))"

section \<open>Files\<close>

abbreviation (input) generic :: "string \<Rightarrow> msg" where
  "generic text \<equiv> GenericResponse [] text"

definition on_mcu_file_write :: "lib \<Rightarrow> payload \<Rightarrow> bridge \<Rightarrow> bool result \<times> bridge" where
  "on_mcu_file_write L p w =
    (if \<not> sv_serial w then (Inr False, w)
     else bindr (attr msg_path p, w) (\<lambda>name w.
       bindr (get_safe_path name w, w) (\<lambda>path w.
         bindr (case path of
                  None \<Rightarrow> (Inr False, w)
                | Some path \<Rightarrow> bindr (attr msg_data p, w) (\<lambda>data w. write_with_quota path data w))
           (\<lambda>ok w. if ok then truth (send L STATUS_OK (PBytes []) None w)
                    else truth (send_msg L STATUS_ERROR (generic ''Write failed'') w)))))"

text \<open>The responses of a file read go out whether the previous one was sent or not.\<close>

fun send_file_chunks :: "lib \<Rightarrow> bytes list \<Rightarrow> bridge \<Rightarrow> unit result \<times> bridge" where
  "send_file_chunks L [] w = (Inr (), w)"
| "send_file_chunks L (chunk # cs) w =
    bindr (send_msg L 147 (FileReadResponse chunk) w) (\<lambda>_ w. send_file_chunks L cs w)"

definition on_mcu_file_read :: "lib \<Rightarrow> payload \<Rightarrow> bridge \<Rightarrow> bool result \<times> bridge" where
  "on_mcu_file_read L p w =
    (if \<not> sv_serial w then (Inr True, w)
     else bindr (attr msg_path p, w) (\<lambda>name w.
       bindr (get_safe_path name w, w) (\<lambda>path w.
         case path of
           Some path \<Rightarrow>
             (if is_file path w then
                bindr (read_bytes path w) (\<lambda>data w.
                  handled (if data = [] then send_file_chunks L [[]] w
                           else send_file_chunks L (iter_chunks data (MAX_PAYLOAD_SIZE - 3)) w))
              else handled (send_msg L STATUS_ERROR (generic ''Read failed'') w))
         | None \<Rightarrow> handled (send_msg L STATUS_ERROR (generic ''Read failed'') w))))"

definition on_mcu_file_remove :: "lib \<Rightarrow> payload \<Rightarrow> bridge \<Rightarrow> bool result \<times> bridge" where
  "on_mcu_file_remove L p w =
    (if \<not> sv_serial w then (Inr False, w)
     else bindr (attr msg_path p, w) (\<lambda>name w.
       bindr (get_safe_path name w, w) (\<lambda>path w.
         case path of
           Some path \<Rightarrow>
             (if path_exists path w then
                bindr (unlink path w) (\<lambda>_ w. truth (send L STATUS_OK (PBytes []) None w))
              else truth (send_msg L STATUS_ERROR (generic ''Remove failed'') w))
         | None \<Rightarrow> truth (send_msg L STATUS_ERROR (generic ''Remove failed'') w))))"

definition on_mcu_file_read_resp :: "payload \<Rightarrow> bridge \<Rightarrow> bool result \<times> bridge" where
  "on_mcu_file_read_resp p w =
    (case sv_pending_mcu_read w of
       None \<Rightarrow> (Inr False, w)
     | Some (chunks, result) \<Rightarrow>
         bindr (attr msg_content p, w) (\<lambda>content w.
           (Inr True,
            if content \<noteq> [] then w\<lparr>sv_pending_mcu_read := Some (chunks @ [content], result)\<rparr>
            else if result = None then w\<lparr>sv_pending_mcu_read := Some (chunks, Some (concat chunks))\<rparr>
            else w)))"

section \<open>Processes\<close>

definition on_mcu_process_run :: "lib \<Rightarrow> payload \<Rightarrow> bridge \<Rightarrow> bool result \<times> bridge" where
  "on_mcu_process_run L p w =
    (if \<not> sv_serial w then (Inr False, w)
     else (case p of
       PMsg (ProcessRunAsync command) \<Rightarrow>
         bindr (if command \<noteq> [] \<and> is_command_allowed (st_allowed_policy w) command
                then run_process command w else (Inr 0, w))
           (\<lambda>pid w.
              if pid \<noteq> 0 then truth (send_msg L 165 (ProcessRunAsyncResponse pid) w)
              else bindr (send_msg L STATUS_ERROR (generic ''Exec failed'') w) (\<lambda>_ w. (Inr False, w)))
     | _ \<Rightarrow> (Inl AttributeError, w)))"

definition on_mcu_process_poll :: "lib \<Rightarrow> payload \<Rightarrow> bridge \<Rightarrow> bool result \<times> bridge" where
  "on_mcu_process_poll L p w =
    (if \<not> sv_serial w then (Inr False, w)
     else bindr (attr msg_pid p, w) (\<lambda>pid w.
       bindr (poll_process pid w) (\<lambda>batch w. truth (send L 166 (PMsg batch) None w))))"

definition on_mcu_process_kill :: "payload \<Rightarrow> bridge \<Rightarrow> bool result \<times> bridge" where
  "on_mcu_process_kill p w = bindr (attr msg_pid p, w) (\<lambda>pid w. (Inr True, kill_process pid w))"

section \<open>Responses and status\<close>

definition publish_pin ::
  "lib \<Rightarrow> topic \<Rightarrow> payload \<Rightarrow> pending_pin option \<Rightarrow> bridge \<Rightarrow> bool result \<times> bridge" where
  "publish_pin L tp p req w =
    bindr (attr msg_value p, w) (\<lambda>v w.
      (let pin = (case req of Some r \<Rightarrow> py_str_int (pp_pin r) | None \<Rightarrow> ''unknown'')
       in handled (enqueue_cloud L
            (create_queued_publish (cloud_path tp [pin, ''value''] w) (encode_utf8 (py_str_int v)) None (Some 5)
               [(''bridge-pin'', pin)])
            (case req of Some r \<Rightarrow> pp_reply_context r | None \<Rightarrow> None) w)))"

definition on_mcu_digital_read_resp :: "lib \<Rightarrow> payload \<Rightarrow> bridge \<Rightarrow> bool result \<times> bridge" where
  "on_mcu_digital_read_resp L p w =
    (case pending_digital_reads w of
       [] \<Rightarrow> publish_pin L DIGITAL p None w
     | r # rs \<Rightarrow> publish_pin L DIGITAL p (Some r) (w\<lparr>pending_digital_reads := rs\<rparr>))"

definition on_mcu_analog_read_resp :: "lib \<Rightarrow> payload \<Rightarrow> bridge \<Rightarrow> bool result \<times> bridge" where
  "on_mcu_analog_read_resp L p w =
    (case pending_analog_reads w of
       [] \<Rightarrow> publish_pin L ANALOG p None w
     | r # rs \<Rightarrow> publish_pin L ANALOG p (Some r) (w\<lparr>pending_analog_reads := rs\<rparr>))"

definition on_mcu_spi_resp :: "lib \<Rightarrow> payload \<Rightarrow> bridge \<Rightarrow> bool result \<times> bridge" where
  "on_mcu_spi_resp L p w =
    bindr (attr msg_data p, w) (\<lambda>data w.
      handled (enqueue_cloud L (create_queued_publish (topic_of (payload_class p) w) data None None []) None w))"

text \<open>Only a message without \<open>command_id\<close> matters; undecodable bytes are logged.\<close>

definition on_mcu_ack :: "payload \<Rightarrow> bridge \<Rightarrow> bool result \<times> bridge" where
  "on_mcu_ack p w =
    (case p of PMsg (AckPacket _) \<Rightarrow> (Inr True, w) | PMsg _ \<Rightarrow> (Inl AttributeError, w) | PBytes _ \<Rightarrow> (Inr True, w))"

text \<open>The text of a status frame.\<close>

definition status_text :: "lib \<Rightarrow> payload \<Rightarrow> bridge \<Rightarrow> string" where
  "status_text L p w =
    (if \<not> payload_truthy p then []
     else (case p of
             PMsg (GenericResponse _ text) \<Rightarrow> text
           | PMsg m \<Rightarrow> sv_msg_text w m
           | PBytes b \<Rightarrow>
               (case parse_as L ''GenericResponse'' b of
                  Some (GenericResponse _ text) \<Rightarrow> text
                | Some _ \<Rightarrow> []
                | None \<Rightarrow> (case decode_utf8 b of Inr s \<Rightarrow> s | Inl _ \<Rightarrow> ''<hex:'' @ bytes_hex b @ ''>''))))"

definition handle_mcu_status :: "lib \<Rightarrow> int \<Rightarrow> payload \<Rightarrow> bridge \<Rightarrow> bool result \<times> bridge" where
  "handle_mcu_status L status p w =
    (let (name, descr) = (case map_of status_table status of Some x \<Rightarrow> x | None \<Rightarrow> ([], []));
         report = empty_status_report\<lparr>sr_status := status, sr_name := name, sr_description := descr,
                    sr_message := status_text L p w\<rparr>
     in handled (enqueue_cloud L
          (create_queued_publish (topic_of ''StatusReport'' w) (ser_report L (StatusReport report))
             PROTOBUF_CONTENT_TYPE None [(''bridge-status'', name)]) None w))"

text \<open>A request that only Linux originates is answered with \<open>NOT_IMPLEMENTED\<close>; the result of the send is
  the result of the handler.\<close>

fun not_false :: "send_result \<Rightarrow> bool" where
  "not_false (SBool b) = b"
| "not_false (SPayload _) = True"

definition unsupported :: "lib \<Rightarrow> string \<Rightarrow> bridge \<Rightarrow> bool result \<times> bridge" where
  "unsupported L text w =
    (if \<not> sv_serial w then (Inr False, w)
     else bindr (send_msg L STATUS_NOT_IMPLEMENTED (generic text) w) (\<lambda>r w. (Inr (not_false r), w)))"

section \<open>Dispatch\<close>

text \<open>\<open>protocol.COMMAND_TO_PB\<close>, as \<open>generate_python\<close> builds it.\<close>

definition command_to_pb :: "(int \<times> string) list" where
  "command_to_pb =
    List.map_filter (\<lambda>c. let cls = cmd_name_to_pb_class (cd_name c)
                         in if cls \<in> set payload_field_map then Some (cd_value c, cls) else None) commands"

type_synonym mcu_handler = "int \<Rightarrow> payload \<Rightarrow> bridge \<Rightarrow> bool result \<times> bridge"

definition mcu_registry :: "lib \<Rightarrow> (int \<times> mcu_handler) list" where
  "mcu_registry L =
    [(79, \<lambda>_ _. handle_mcu_xon L), (78, \<lambda>_ _. handle_mcu_xoff),
     (96, \<lambda>_. on_mcu_console_write L),
     (112, \<lambda>_. on_mcu_datastore_put L), (113, \<lambda>_. on_mcu_datastore_get L),
     (131, \<lambda>_. on_mcu_mailbox_push L), (130, \<lambda>_ _. on_mcu_mailbox_available L),
     (128, \<lambda>_ _. on_mcu_mailbox_read L), (129, \<lambda>_. on_mcu_mailbox_processed L),
     (144, \<lambda>_. on_mcu_file_write L), (145, \<lambda>_. on_mcu_file_read L), (146, \<lambda>_. on_mcu_file_remove L),
     (147, \<lambda>_. on_mcu_file_read_resp),
     (161, \<lambda>_. on_mcu_process_run L), (162, \<lambda>_. on_mcu_process_poll L),
     (178, \<lambda>_. on_mcu_spi_resp L), (STATUS_ACK, \<lambda>_. on_mcu_ack),
     (85, \<lambda>_. on_mcu_digital_read_resp L), (86, \<lambda>_. on_mcu_analog_read_resp L),
     (163, \<lambda>_. on_mcu_process_kill),
     (83, \<lambda>_ _. unsupported L ''linux_originates_digital_read_requests''),
     (84, \<lambda>_ _. unsupported L ''linux_originates_analog_read_requests''),
     (73, handle_capabilities_resp), (69, handle_link_sync_resp L), (71, handle_link_reset_resp)]
    @ map (\<lambda>s. (s, \<lambda>_. handle_mcu_status L s)) (filter (\<lambda>s. s \<noteq> STATUS_ACK) status_values)"

text \<open>The message that the handler gets.\<close>

definition decode_command :: "lib \<Rightarrow> int \<Rightarrow> payload \<Rightarrow> payload result" where
  "decode_command L command_id payload =
    (case payload of
       PMsg _ \<Rightarrow> Inr payload
     | PBytes b \<Rightarrow>
         (case map_of command_to_pb command_id of
            None \<Rightarrow> Inr payload
          | Some cls \<Rightarrow> (case parse_as L cls b of None \<Rightarrow> Inl DecodeError | Some m \<Rightarrow> Inr (PMsg m))))"

definition frame_admitted :: "int \<Rightarrow> bridge \<Rightarrow> bool" where
  "frame_admitted command_id w \<longleftrightarrow>
     is_synchronized w \<or> command_id \<in> set status_values \<or> command_id \<in> {69, 71}"

definition handle_mcu_frame :: "lib \<Rightarrow> bridge dispatcher" where
  "handle_mcu_frame L command_id sequence_id payload w =
    (if \<not> sv_serial w \<or> \<not> frame_admitted command_id w then (Inr (), w)
     else (case map_of (mcu_registry L) command_id of
       Some handler \<Rightarrow>
         bindr (decode_command L command_id payload, w) (\<lambda>p w.
           bindr (handler sequence_id p w) (\<lambda>ok w.
             if ok \<and> command_id \<notin> set status_values
             then bindr (acknowledge L command_id sequence_id STATUS_ACK w) (\<lambda>_ w. (Inr (), w))
             else (Inr (), w)))
     | None \<Rightarrow>
         (if response_to_request command_id = None
          then bindr (send L STATUS_NOT_IMPLEMENTED (PBytes []) None
                        (w\<lparr>unknown_command_metric := unknown_command_metric w + 1\<rparr>)) (\<lambda>_ w. (Inr (), w))
          else (Inr (), w))))"

end
