(* ===== verification/Requests.thy ===== *)
theory Requests
  imports Mcu
begin

text \<open>
  \<open>mcubridge/services/runtime.py\<close>, what cloud and local clients ask for: \<open>handle_request\<close> parses the
  topic, waits for the link where the MCU is needed, checks the authorisation and dispatches to one
  handler per topic; \<open>_cloud_incoming_worker\<close> feeds it. While a request waits for the link or for the
  chunks of an MCU file, the read task runs (a \<open>pause\<close>, with \<open>handle_mcu_frame\<close> as its dispatcher).
\<close>

section \<open>Requests\<close>

text \<open>What may be passed instead of a \<open>BridgeRequest\<close>: an object with the attributes of one, or with the
  two optional ones inside \<open>properties\<close>.\<close>

record inbound_message =
  im_topic :: string
  im_payload :: bytes
  im_response_topic :: "string option"
  im_correlation_data :: "bytes option"
  im_properties :: "(string option \<times> bytes option) option"

datatype inbound = Request bridge_request | Message inbound_message

definition some_nonempty :: "'a list option \<Rightarrow> 'a list option" where
  "some_nonempty x = (case x of Some (c # cs) \<Rightarrow> x | _ \<Rightarrow> None)"

definition request_of :: "inbound \<Rightarrow> bridge_request" where
  "request_of x =
    (case x of
       Request r \<Rightarrow> r
     | Message m \<Rightarrow>
         (let rt = (case im_response_topic m of
                      Some t \<Rightarrow> Some t | None \<Rightarrow> (case im_properties m of Some (t, _) \<Rightarrow> t | None \<Rightarrow> None));
              cd = (case im_correlation_data m of
                      Some c \<Rightarrow> Some c | None \<Rightarrow> (case im_properties m of Some (_, c) \<Rightarrow> c | None \<Rightarrow> None))
          in \<lparr>br_topic = im_topic m, br_payload = im_payload m,
              br_correlation_data = some_nonempty cd, br_response_topic = some_nonempty rt\<rparr>))"

section \<open>Console, datastore, mailbox\<close>

definition handle_console :: "lib \<Rightarrow> bridge_request \<Rightarrow> bridge \<Rightarrow> unit result \<times> bridge" where
  "handle_console L inbound w =
    (if br_payload inbound = [] then (Inr (), w)
     else flush_console_queue L (w\<lparr>console_to_mcu_queue :=
            dq_append (console_maxlen w) (br_payload inbound) (console_to_mcu_queue w)\<rparr>))"

definition handle_datastore :: "lib \<Rightarrow> topic_route \<Rightarrow> bridge_request \<Rightarrow> bridge \<Rightarrow> unit result \<times> bridge" where
  "handle_datastore L route inbound w =
    (let key = py_join [slash] (remainder route); pl = br_payload inbound
     in if key = [] then (Inr (), w)
        else if route_identifier route = ''put'' then
          (if length key \<le> 255 \<and> length pl \<le> 255
           then bindr (datastore_set key pl w)
                  (\<lambda>_ w. publish_datastore_value L key pl (Some inbound) None w)
           else (Inr (), w))
        else if route_identifier route = ''get'' then
          (case datastore_get key None w of
             (Some val, w) \<Rightarrow> publish_datastore_value L key val (Some inbound) None w
           | (None, w) \<Rightarrow>
               (if remainder route \<noteq> [] \<and> last (remainder route) = ''request''
                then publish_datastore_value L key [] (Some inbound) (Some ''datastore-miss'') w
                else (Inr (), w)))
        else (Inr (), w))"

definition handle_mailbox :: "lib \<Rightarrow> topic_route \<Rightarrow> bridge_request \<Rightarrow> bridge \<Rightarrow> unit result \<times> bridge" where
  "handle_mailbox L route inbound w =
    (if \<not> sv_serial w then (Inr (), w)
     else if route_identifier route = ''write'' then
       bindr (mailbox_append (br_payload inbound) w) (\<lambda>_ w.
         bindr (send_msg L 131 (MailboxPush (br_payload inbound)) w) (\<lambda>_ w. (Inr (), w)))
     else if route_identifier route = ''read'' then
       bindr (or_empty (incoming_popleft w)) (\<lambda>data w.
         enqueue_cloud L (create_queued_publish (cloud_path MAILBOX [''read'', ''response''] w) data None None [])
           (Some inbound) w)
     else (Inr (), w))"

section \<open>Files\<close>

text \<open>\<open>_handle_file_mcu_read\<close>: the chunks arrive while the request waits; \<open>target\<close> starts with \<open>mcu/\<close>. The
  pending read is cleared after the wait, also when publishing raises, but not when the send raises.\<close>

definition mcu_read_failed :: "lib \<Rightarrow> bridge_request \<Rightarrow> string \<Rightarrow> string \<Rightarrow> string \<Rightarrow> bridge \<Rightarrow> unit result \<times> bridge" where
  "mcu_read_failed L ctx response_topic text reason w =
    enqueue_cloud L (create_queued_publish response_topic (encode_utf8 text) None None
      [(''bridge-error'', reason)]) (Some ctx) w"

definition await_mcu_read :: "lib \<Rightarrow> bridge_request \<Rightarrow> string \<Rightarrow> bridge \<Rightarrow> unit result \<times> bridge" where
  "await_mcu_read L ctx response_topic w =
    (let w = take_pause L (handle_mcu_frame L) w
     in case (case sv_pending_mcu_read w of
                Some (_, Some res) \<Rightarrow>
                  enqueue_cloud L (create_queued_publish response_topic res None None []) (Some ctx) w
              | _ \<Rightarrow> mcu_read_failed L ctx response_topic ''error:mcu_file_read_timeout'' ''mcu-file-read-timeout'' w)
          of (r, w) \<Rightarrow> (r, w\<lparr>sv_pending_mcu_read := None\<rparr>))"

definition handle_file_mcu_read :: "lib \<Rightarrow> bridge_request \<Rightarrow> string \<Rightarrow> bridge \<Rightarrow> unit result \<times> bridge" where
  "handle_file_mcu_read L ctx target w =
    (if \<not> sv_serial w then (Inr (), w)
     else (let response_topic = cloud_path FILE [''read'', ''response'', target] w
           in bindr (send_raw L 145 (PMsg (FileRead (drop (length MCU_FS_PREFIX) target))) None
                       (w\<lparr>sv_pending_mcu_read := Some ([], None)\<rparr>))
                (\<lambda>sent w.
                   if sent then await_mcu_read L ctx response_topic w
                   else bindr (mcu_read_failed L ctx response_topic ''error:mcu_file_read_dispatch_failed''
                                ''mcu-file-read-dispatch-failed'' w)
                          (\<lambda>_ w. (Inr (), w\<lparr>sv_pending_mcu_read := None\<rparr>)))))"

definition handle_file_mcu :: "lib \<Rightarrow> string \<Rightarrow> string \<Rightarrow> bridge_request \<Rightarrow> bridge \<Rightarrow> unit result \<times> bridge" where
  "handle_file_mcu L act target inbound w =
    (let name = drop (length MCU_FS_PREFIX) target
     in if act = ''read'' then handle_file_mcu_read L inbound target w
        else if act = ''write'' then
          bindr (send_msg L 144 (FileWrite name (br_payload inbound)) w) (\<lambda>r w.
            if send_truthy r
            then enqueue_cloud L (create_queued_publish (cloud_path FILE [''read'', target] w)
                   (br_payload inbound) None None []) (Some inbound) w
            else (Inr (), w))
        else if act = ''remove'' then
          bindr (send_msg L 146 (FileRemove name) w) (\<lambda>_ w. (Inr (), w))
        else (Inr (), w))"

definition handle_file_local :: "lib \<Rightarrow> string \<Rightarrow> string \<Rightarrow> bridge_request \<Rightarrow> bridge \<Rightarrow> unit result \<times> bridge" where
  "handle_file_local L act target inbound w =
    bindr (get_safe_path target w, w) (\<lambda>path w.
      case path of
        None \<Rightarrow> (Inr (), w)
      | Some path \<Rightarrow>
          (if act = ''write'' then
             bindr (write_with_quota path (br_payload inbound) w) (\<lambda>ok w.
               if ok then enqueue_cloud L (create_queued_publish (cloud_path FILE [''read'', target] w)
                            (br_payload inbound) None None []) (Some inbound) w
               else (Inr (), w))
           else if act = ''read'' \<and> is_file path w then
             (if py_endswith ''response'' (br_topic inbound) then (Inr (), w)
              else bindr (read_bytes path w) (\<lambda>data w.
                     enqueue_cloud L (create_queued_publish (cloud_path FILE [''read'', ''response'', target] w)
                       data None None []) (Some inbound) w))
           else if act = ''remove'' \<and> path_exists path w then unlink path w
           else (Inr (), w)))"

definition handle_file :: "lib \<Rightarrow> topic_route \<Rightarrow> bridge_request \<Rightarrow> bridge \<Rightarrow> unit result \<times> bridge" where
  "handle_file L route inbound w =
    (if \<not> sv_serial w then (Inr (), w)
     else (let target = py_join [slash] (remainder route)
           in case route_action route of
                None \<Rightarrow> (Inr (), w)
              | Some act \<Rightarrow>
                  (if target = [] then (Inr (), w)
                   else if py_startswith MCU_FS_PREFIX target then handle_file_mcu L act target inbound w
                   else handle_file_local L act target inbound w)))"

section \<open>Shell\<close>

text \<open>The command of a \<open>run_async\<close> request: a protobuf message when the payload starts with its first tag,
  else text.\<close>

definition shell_command :: "lib \<Rightarrow> bytes \<Rightarrow> string result" where
  "shell_command L pl =
    (if take 1 pl = [0x0A] then
       (case parse_as L ''ProcessRunAsync'' pl of
          None \<Rightarrow> Inl DecodeError | Some (ProcessRunAsync c) \<Rightarrow> Inr c | Some _ \<Rightarrow> Inl AttributeError)
     else map_sum id py_strip (decode_utf8 pl))"

definition shell_rejects :: "pyexc \<Rightarrow> bool" where
  "shell_rejects e \<longleftrightarrow> e \<in> {DecodeError, UnicodeDecodeError, ValueError, OSError, TimeoutError}"

definition shell_run_async :: "lib \<Rightarrow> bridge_request \<Rightarrow> bridge \<Rightarrow> unit result \<times> bridge" where
  "shell_run_async L inbound w =
    bindr (case bindr (shell_command L (br_payload inbound), w) run_process of
             (Inl e, w) \<Rightarrow> if shell_rejects e then (Inr 0, w) else (Inl e, w)
           | (Inr pid, w) \<Rightarrow> (Inr pid, w))
      (\<lambda>pid w. enqueue_cloud L (create_queued_publish (cloud_path SHELL [''run_async'', ''response''] w)
                 (ser L (ProcessRunAsyncResponse pid)) PROTOBUF_CONTENT_TYPE None []) (Some inbound) w)"

definition handle_shell :: "lib \<Rightarrow> topic_route \<Rightarrow> bridge_request \<Rightarrow> bridge \<Rightarrow> unit result \<times> bridge" where
  "handle_shell L route inbound w =
    (case tr_segments route of
       [] \<Rightarrow> (Inr (), w)
     | act # rest \<Rightarrow>
         (if act = ''run_async'' then shell_run_async L inbound w
          else if (act = ''poll'' \<or> act = ''kill'') \<and> length rest = 1 then
            bindr (py_int (hd rest), w) (\<lambda>pid w.
              if act = ''poll'' then
                bindr (poll_process pid w) (\<lambda>batch w.
                  enqueue_cloud L (create_queued_publish
                      (cloud_path SHELL [''poll'', py_str_int pid, ''response''] w) (ser L batch)
                      PROTOBUF_CONTENT_TYPE None []) (Some inbound) w)
              else (Inr (), kill_process pid w))
          else (Inr (), w)))"

section \<open>SPI and pins\<close>

definition handle_spi :: "lib \<Rightarrow> topic_route \<Rightarrow> bridge_request \<Rightarrow> bridge \<Rightarrow> unit result \<times> bridge" where
  "handle_spi L route inbound w =
    (if \<not> sv_serial w then (Inr (), w)
     else if route_identifier route = ''begin'' then
       bindr (send L 176 (PBytes []) None w) (\<lambda>_ w. (Inr (), w))
     else if route_identifier route = ''end'' then
       bindr (send L 179 (PBytes []) None w) (\<lambda>_ w. (Inr (), w))
     else if route_identifier route = ''config'' then
       (case parse_as L ''SpiConfig'' (br_payload inbound) of
          None \<Rightarrow> (Inr (), w)
        | Some m \<Rightarrow>
            (case send L 180 (PMsg m) None w of
               (Inl e, w) \<Rightarrow> (if e \<in> {DecodeError, TypeError, ValueError, UnicodeDecodeError}
                              then (Inr (), w) else (Inl e, w))
             | (Inr _, w) \<Rightarrow> (Inr (), w)))
     else if route_identifier route = ''transfer'' then
       (if br_payload inbound = [] then (Inr (), w)
        else bindr (send_msg L 177 (SpiTransfer (br_payload inbound)) w) (\<lambda>r w.
          case r of
            SPayload (PBytes b) \<Rightarrow>
              (case parse_as L ''SpiTransferResponse'' b of
                 None \<Rightarrow> (Inl DecodeError, w)
               | Some m \<Rightarrow> bindr (msg_data m, w) (\<lambda>data w.
                   enqueue_cloud L (create_queued_publish (cloud_path SPI [''transfer'', ''response''] w)
                     data None None []) (Some inbound) w))
          | _ \<Rightarrow> (Inr (), w)))
     else (Inr (), w))"

text \<open>An enumeration field takes any 32-bit value.\<close>

definition mk_pin_mode :: "int \<Rightarrow> int \<Rightarrow> msg result" where
  "mk_pin_mode pin mode =
    (if - (2 ^ 31) \<le> mode \<and> mode < 2 ^ 31 then mk_msg (PinMode pin mode) else Inl ValueError)"

definition pin_overflow_report :: "topic \<Rightarrow> int \<Rightarrow> status_report" where
  "pin_overflow_report t pin =
    empty_status_report\<lparr>sr_status := STATUS_ERROR, sr_topic := topic_value t, sr_pin := pin,
      sr_action := ''read'', sr_reason := ''pending-pin-overflow''\<rparr>"

definition pin_overflow :: "lib \<Rightarrow> topic \<Rightarrow> int \<Rightarrow> bridge_request \<Rightarrow> bridge \<Rightarrow> unit result \<times> bridge" where
  "pin_overflow L t pin inbound w =
    (if \<not> uint32_ok pin then (Inl ValueError, w)
     else enqueue_cloud L (create_queued_publish (topic_of ''StatusReport'' w)
            (ser_report L (StatusReport (pin_overflow_report t pin))) PROTOBUF_CONTENT_TYPE None
            [(''bridge-error'', ''pending-pin-overflow''), (''bridge-pin'', py_str_int pin)]) (Some inbound) w)"

text \<open>A read request is remembered before it is sent, and stays when sending fails.\<close>

definition pin_read :: "lib \<Rightarrow> topic \<Rightarrow> int \<Rightarrow> bridge_request \<Rightarrow> bridge \<Rightarrow> unit result \<times> bridge" where
  "pin_read L t pin inbound w =
    (let req = \<lparr>pp_pin = pin, pp_reply_context = Some inbound\<rparr>;
         q = (if t = DIGITAL then pending_digital_reads w else pending_analog_reads w)
     in if int (length q) < st_pending_pin_request_limit w then
          bindr (send_msg L (if t = DIGITAL then 83 else 84) (PinRead pin)
                   (if t = DIGITAL then w\<lparr>pending_digital_reads := q @ [req]\<rparr>
                    else w\<lparr>pending_analog_reads := q @ [req]\<rparr>)) (\<lambda>_ w. (Inr (), w))
        else pin_overflow L t pin inbound w)"

definition handle_pin :: "lib \<Rightarrow> topic_route \<Rightarrow> bridge_request \<Rightarrow> bridge \<Rightarrow> unit result \<times> bridge" where
  "handle_pin L route inbound w =
    (if \<not> sv_serial w then (Inr (), w)
     else (case tr_segments route of
       [] \<Rightarrow> (Inl IndexError, w)
     | seg # rest \<Rightarrow>
         (let pin = parse_pin seg
          in if pin < 0 then (Inr (), w)
             else bindr (decode_utf8 (br_payload inbound), w) (\<lambda>pl w.
               if length rest = 1 then
                 (if hd rest = ''mode'' then
                    bindr (py_int pl, w) (\<lambda>mode w.
                      bindr (mk_pin_mode pin mode, w) (\<lambda>m w.
                        bindr (send L 80 (PMsg m) None w) (\<lambda>_ w. (Inr (), w))))
                  else if hd rest = ''read'' then pin_read L (tr_topic route) pin inbound w
                  else (Inr (), w))
               else bindr (send_msg L (if tr_topic route = DIGITAL then 81 else 82)
                            (DigitalWrite pin (if py_isdigit pl then digits_val pl else 0)) w)
                      (\<lambda>_ w. (Inr (), w))))))"

section \<open>System\<close>

definition version_text :: "int \<Rightarrow> int \<Rightarrow> int \<Rightarrow> string" where
  "version_text a b c = py_str_int a @ ''.'' @ py_str_int b @ ''.'' @ py_str_int c"

definition request_mcu_version :: "lib \<Rightarrow> bridge_request option \<Rightarrow> bridge \<Rightarrow> bool result \<times> bridge" where
  "request_mcu_version L inbound w =
    (if \<not> sv_serial w then (Inr False, w)
     else bindr (send L 64 (PBytes []) None w) (\<lambda>r w.
       case r of
         SPayload (PBytes b) \<Rightarrow>
           (case parse_as L ''VersionResponse'' b of
              Some (VersionResponse major minor patch) \<Rightarrow>
                bindr (enqueue_cloud L (create_queued_publish (topic_of ''VersionResponse'' w)
                         (encode_utf8 (version_text major minor patch)) None (Some 60) []) inbound
                         (w\<lparr>mcu_version := Some (major, minor, patch)\<rparr>)) (\<lambda>_ w. (Inr True, w))
            | Some _ \<Rightarrow> (Inl AttributeError, w)
            | None \<Rightarrow> (Inl DecodeError, w))
       | _ \<Rightarrow> (Inr False, w)))"

definition request_free_memory :: "lib \<Rightarrow> bridge_request \<Rightarrow> bridge \<Rightarrow> unit result \<times> bridge" where
  "request_free_memory L inbound w =
    bindr (send L 66 (PBytes []) None w) (\<lambda>r w.
      case r of
        SPayload (PBytes b) \<Rightarrow>
          (case parse_as L ''FreeMemoryResponse'' b of
             None \<Rightarrow> (Inl DecodeError, w)
           | Some m \<Rightarrow> bindr (msg_value m, w) (\<lambda>v w.
               enqueue_cloud L (create_queued_publish (topic_of ''FreeMemoryResponse'' w)
                 (encode_utf8 (py_str_int v)) None None []) (Some inbound) w))
      | _ \<Rightarrow> (Inr (), w))"

definition publish_snapshot :: "lib \<Rightarrow> string \<Rightarrow> bridge_request \<Rightarrow> bridge \<Rightarrow> unit result \<times> bridge" where
  "publish_snapshot L flavor inbound w =
    (let (cls, snap) = (if flavor = ''handshake''
                        then (''HandshakeSnapshot'', HandshakeSnapshot (build_handshake_snapshot w))
                        else (''BridgeSnapshot'', BridgeSnapshot (build_bridge_snapshot w)))
     in enqueue_cloud L (create_queued_publish (topic_of cls w) (ser_report L snap)
          PROTOBUF_CONTENT_TYPE None []) (Some inbound) w)"

definition handle_system :: "lib \<Rightarrow> topic_route \<Rightarrow> bridge_request \<Rightarrow> bridge \<Rightarrow> unit result \<times> bridge" where
  "handle_system L route inbound w =
    (if \<not> sv_serial w then (Inr (), w)
     else if route_identifier route = ''bootloader'' then
       bindr (send_msg L 76 (EnterBootloader BOOTLOADER_MAGIC) w) (\<lambda>_ w. (Inr (), w))
     else if route_identifier route = ''free_memory'' \<and> ''get'' \<in> set (tr_segments route) then
       request_free_memory L inbound w
     else if route_identifier route = ''version'' \<and> ''get'' \<in> set (tr_segments route) then
       bindr (request_mcu_version L (Some inbound) w) (\<lambda>_ w. (Inr (), w))
     else if route_identifier route = ''bridge'' then
       publish_snapshot L (if 1 < length (tr_segments route) then tr_segments route ! 1 else ''summary'') inbound w
     else (Inr (), w))"

section \<open>Dispatch\<close>

text \<open>Waiting for the link ends with it or with the timeout; the request goes on either way.\<close>

definition await_link :: "lib \<Rightarrow> topic_route \<Rightarrow> bridge \<Rightarrow> bridge" where
  "await_link L route w =
    (if tr_topic route \<in> {DIGITAL, ANALOG, CONSOLE, SPI} \<and> \<not> link_sync_event w
     then take_pause L (handle_mcu_frame L) w else w)"

definition authorised :: "topic_route \<Rightarrow> bridge \<Rightarrow> bool" where
  "authorised route w =
    (case deduce_action route of
       None \<Rightarrow> True
     | Some action \<Rightarrow>
         action = []
         \<or> (case st_topic_authorization w of
              None \<Rightarrow> False
            | Some auth \<Rightarrow> allows_topic auth (topic_value (tr_topic route)) action))"

definition forbidden_report :: "topic_route \<Rightarrow> status_report" where
  "forbidden_report route =
    empty_status_report\<lparr>sr_status := 403, sr_topic := topic_value (tr_topic route),
      sr_action := (case deduce_action route of Some a \<Rightarrow> a | None \<Rightarrow> []), sr_reason := ''forbidden''\<rparr>"

definition reject_cloud :: "lib \<Rightarrow> topic_route \<Rightarrow> bridge_request \<Rightarrow> bridge \<Rightarrow> unit result \<times> bridge" where
  "reject_cloud L route ctx w =
    enqueue_cloud L (create_queued_publish (topic_of ''StatusReport'' w)
      (ser_report L (StatusReport (forbidden_report route))) PROTOBUF_CONTENT_TYPE None
      [(''bridge-error'', TOPIC_FORBIDDEN_REASON)]) (Some ctx) w"

definition dispatch_request :: "lib \<Rightarrow> topic_route \<Rightarrow> bridge_request \<Rightarrow> bridge \<Rightarrow> unit result \<times> bridge" where
  "dispatch_request L route request w =
    (case tr_topic route of
       CONSOLE \<Rightarrow> handle_console L request w
     | DATASTORE \<Rightarrow> handle_datastore L route request w
     | MAILBOX \<Rightarrow> handle_mailbox L route request w
     | FILE \<Rightarrow> handle_file L route request w
     | SHELL \<Rightarrow> handle_shell L route request w
     | SPI \<Rightarrow> handle_spi L route request w
     | DIGITAL \<Rightarrow> handle_pin L route request w
     | ANALOG \<Rightarrow> handle_pin L route request w
     | SYSTEM \<Rightarrow> handle_system L route request w
     | STATUS \<Rightarrow> (Inr (), w))"

definition handle_request :: "lib \<Rightarrow> inbound \<Rightarrow> bridge \<Rightarrow> unit result \<times> bridge" where
  "handle_request L x w =
    (let request = request_of x
     in case parse_topic (cloud_topic_prefix w) (br_topic request) of
          None \<Rightarrow> (Inr (), w)
        | Some route \<Rightarrow>
            (let w = await_link L route w
             in if authorised route w then dispatch_request L route request w
                else reject_cloud L route request w))"

section \<open>The worker\<close>

text \<open>What \<open>_cloud_incoming_worker\<close> logs and survives; anything else ends it, and the session with it.\<close>

definition worker_catches :: "pyexc \<Rightarrow> bool" where
  "worker_catches e \<longleftrightarrow> e \<in> {ValueError, UnicodeDecodeError, RuntimeError, QueueFull}"

fun worker_loop :: "lib \<Rightarrow> bridge_request list \<Rightarrow> bridge \<Rightarrow> unit result \<times> bridge" where
  "worker_loop L [] w = (Inr (), w)"
| "worker_loop L (m # ms) w =
    (case handle_request L (Request m) (w\<lparr>sv_cloud_incoming := ms\<rparr>) of
       (Inr _, w) \<Rightarrow> worker_loop L ms w
     | (Inl e, w) \<Rightarrow> if worker_catches e then worker_loop L ms w else (Inl e, w))"

definition cloud_incoming_worker :: "lib \<Rightarrow> bridge \<Rightarrow> unit result \<times> bridge" where
  "cloud_incoming_worker L w = worker_loop L (sv_cloud_incoming w) w"

end
