(* ===== verification/Core.thy ===== *)
theory Core
  imports Requests
begin

text \<open>
  Invariants of the running service. \<open>core\<close> is the part of the state that neither the link nor the
  cloud path touches; the locale \<open>core_invariant\<close> shows that a property of it survives everything that
  only sends, publishes or stores, the read loop included, and \<open>bridge_invariant\<close> adds the few operations
  that change the core and concludes that every handler keeps the property. It is interpreted on the
  process pool, on the file sandbox and on the count of handshake attempts; with the last one,
  \<open>handle_mcu_frame\<close> is shown to be the dispatcher that the handshake relies on.
\<close>

section \<open>The core\<close>

text \<open>The part of the state that neither the link nor the cloud path touches: the process pool, the files,
  what never changes, and the attempts that only the handshake manager counts.\<close>

definition core ::
  "bridge \<Rightarrow> (int \<times> (int \<times> process_context) list \<times> (int \<times> int) list) \<times> (string \<rightharpoonup> bytes)
    \<times> runtime_config \<times> (string \<Rightarrow> string result) \<times> string list \<times> int \<times> int" where
  "core w = ((sv_process_slots w, running_processes w, sv_monitors w), sv_files w,
     tp_config w, sv_resolve w, st_allowed_policy w, st_process_max_concurrent w, handshake_attempts w)"

lemma core_fields:
  assumes "core w' = core w"
  shows "sv_process_slots w' = sv_process_slots w" "running_processes w' = running_processes w"
    "sv_monitors w' = sv_monitors w" "sv_files w' = sv_files w" "tp_config w' = tp_config w"
    "sv_resolve w' = sv_resolve w" "st_allowed_policy w' = st_allowed_policy w"
    "st_process_max_concurrent w' = st_process_max_concurrent w"
  using assms by (simp_all add: core_def)

lemma core_link [simp]:
  "core (w\<lparr>link_writes := a1\<rparr>) = core w" "core (w\<lparr>link_rnd := a2\<rparr>) = core w" "core (w\<lparr>link_waits := a3\<rparr>) = core w"
  "core (w\<lparr>link_nonce_counter := a4\<rparr>) = core w" "core (w\<lparr>tp_sequence_id := a4\<rparr>) = core w"
  "core (w\<lparr>tp_frames_sent := a5\<rparr>) = core w" "core (w\<lparr>tp_bytes_sent := a5\<rparr>) = core w" "core (w\<lparr>tp_wire := a6\<rparr>) = core w"
  "core (w\<lparr>tp_current := a7\<rparr>) = core w" "core (w\<lparr>tp_in_reader := a8\<rparr>) = core w"
  "core (w\<lparr>tp_negotiating := a8\<rparr>) = core w" "core (w\<lparr>tp_future := a9\<rparr>) = core w" "core (w\<lparr>tp_baud := a4\<rparr>) = core w"
  "core (w\<lparr>tp_crc_errors := a4\<rparr>) = core w" "core (w\<lparr>tp_bytes_received := a5\<rparr>) = core w"
  "core (w\<lparr>tp_frames_received := a5\<rparr>) = core w" "core (w\<lparr>serial_decode_errors := a4\<rparr>) = core w"
  "core (w\<lparr>link_last_nonce_counter := a4\<rparr>) = core w" "core (w\<lparr>now_unix := b1\<rparr>) = core w" "core (w\<lparr>now_mono := b1\<rparr>) = core w"
  "core (w\<lparr>hs_pauses := b2\<rparr>) = core w" "core (w\<lparr>link_phase := b3\<rparr>) = core w" "core (w\<lparr>link_sync_event := a8\<rparr>) = core w"
  "core (w\<lparr>link_session_key := b4\<rparr>) = core w" "core (w\<lparr>link_handshake_nonce := b4\<rparr>) = core w"
  "core (w\<lparr>link_expected_tag := b4\<rparr>) = core w" "core (w\<lparr>link_nonce_length := a4\<rparr>) = core w"
  "core (w\<lparr>mcu_is_paused := a8\<rparr>) = core w" "core (w\<lparr>serial_tx_allowed := a8\<rparr>) = core w"
  "core (w\<lparr>mcu_version := b5\<rparr>) = core w" "core (w\<lparr>mcu_capabilities := b6\<rparr>) = core w"
  "core (w\<lparr>hs_fsm_state := b7\<rparr>) = core w" "core (w\<lparr>hs_capabilities_future := b8\<rparr>) = core w"
  by (simp_all add: core_def)

lemma core_service [simp]:
  "core (w\<lparr>console_to_mcu_queue := c1\<rparr>) = core w" "core (w\<lparr>datastore_cache := c2\<rparr>) = core w"
  "core (w\<lparr>mailbox_queue := c3\<rparr>) = core w" "core (w\<lparr>mailbox_incoming_queue := c3\<rparr>) = core w"
  "core (w\<lparr>pending_digital_reads := c4\<rparr>) = core w" "core (w\<lparr>pending_analog_reads := c4\<rparr>) = core w"
  "core (w\<lparr>file_storage_bytes_used := c5\<rparr>) = core w" "core (w\<lparr>file_storage_limit_rejections := c5\<rparr>) = core w"
  "core (w\<lparr>unknown_command_metric := c5\<rparr>) = core w" "core (w\<lparr>sv_pending_mcu_read := c6\<rparr>) = core w"
  "core (w\<lparr>sv_fs_ops := c7\<rparr>) = core w" "core (w\<lparr>sv_dirs := c8\<rparr>) = core w" "core (w\<lparr>sv_spawns := c9\<rparr>) = core w"
  "core (w\<lparr>sv_kills := d1\<rparr>) = core w" "core (w\<lparr>sv_cloud_incoming := d2\<rparr>) = core w" "core (w\<lparr>db_faults := d3\<rparr>) = core w"
  "core (w\<lparr>uart_ok := a8\<rparr>) = core w" "core (w\<lparr>handshake_successes := c5\<rparr>) = core w"
  "core (w\<lparr>handshake_failure_streak := c5\<rparr>) = core w" "core (w\<lparr>handshake_backoff_until := d4\<rparr>) = core w"
  "core (w\<lparr>handshake_rate_until := d4\<rparr>) = core w" "core (w\<lparr>last_handshake_error := d5\<rparr>) = core w"
  "core (w\<lparr>last_handshake_unix := d4\<rparr>) = core w" "core (w\<lparr>handshake_last_duration := d4\<rparr>) = core w"
  "core (w\<lparr>handshake_fatal_count := c5\<rparr>) = core w" "core (w\<lparr>handshake_fatal_reason := d5\<rparr>) = core w"
  "core (w\<lparr>handshake_fatal_detail := d5\<rparr>) = core w" "core (w\<lparr>handshake_fatal_unix := d4\<rparr>) = core w"
  "core (w\<lparr>handshake_last_started := d4\<rparr>) = core w" "core (w\<lparr>sv_cloud_stream := a8\<rparr>) = core w"
  "core (w\<lparr>sv_connected_via_http3 := a8\<rparr>) = core w" "core (w\<lparr>sv_retries := d6\<rparr>) = core w" "core (w\<lparr>tp_serial := a8\<rparr>) = core w"
  "core (w\<lparr>tp_is_open := a8\<rparr>) = core w" "core (w\<lparr>serial_writer_attached := a8\<rparr>) = core w"
  "core (w\<lparr>sv_ipc_requests := d7\<rparr>) = core w" "core (w\<lparr>sv_console_queues := d8\<rparr>) = core w" "core (w\<lparr>sv_sent := d9\<rparr>) = core w"
  "core (w\<lparr>stream_sends := e1\<rparr>) = core w" "core (w\<lparr>sv_disk := e2\<rparr>) = core w"
  by (simp_all add: core_def)

lemma core_cloud: "cloud_only w w' \<Longrightarrow> core w' = core w"
  by (subst (asm) cloud_only_def, erule ssubst) (simp add: copy_cloud_def core_def)

lemma core_send_raw: "send_raw L c pl q w = (r, w') \<Longrightarrow> core w' = core w"
  by (auto simp: send_raw_def next_seq_def stamp_nonce_def next_rnd_def next_write_def Let_def
      split: if_splits prod.splits sum.splits option.splits list.splits bool.splits)

lemma core_send_attempts: "send_attempts L c pl n p w = (r, p', w') \<Longrightarrow> core w' = core w"
proof (induction L c pl n p w rule: send_attempts.induct)
  case (2 L c pl n p w)
  obtain r1 w1 where s: "send_raw L c pl None w = (r1, w1)" by fastforce
  obtain lw w2 where n: "next_wait w1 = (lw, w2)" by fastforce
  have w2: "core w2 = core w"
    using core_send_raw [OF s] n by (auto simp: next_wait_def split: list.splits)
  show ?case
    using "2.prems" "2.IH" s n w2 core_send_raw [OF s]
    by (auto simp: Let_def split: sum.splits bool.splits if_splits)
qed simp

lemma core_send: "send L c pl q w = (r, w') \<Longrightarrow> core w' = core w"
  by (auto simp: send_def Let_def split: if_splits prod.splits sum.splits
      dest!: core_send_raw core_send_attempts)

lemma core_acknowledge: "acknowledge L c q st w = (r, w') \<Longrightarrow> core w' = core w"
  by (auto simp: acknowledge_def split: sum.splits dest: core_send_raw)

lemma core_enqueue: "enqueue_cloud L m ctx w = (r, w') \<Longrightarrow> core w' = core w"
  using core_cloud enqueue_only by metis

lemma reject_sync_bind:
  "reject_sync L q forget reason d w =
    bindr (acknowledge L 69 q STATUS_MALFORMED w) (\<lambda>_ w.
      bindr (handle_handshake_failure L reason d (if forget then clear_handshake_expectations w else w))
        (\<lambda>_ w. (Inr False, w)))"
  by (auto simp: reject_sync_def bindr_def split: prod.splits sum.splits)

lemma complete_sync_bind:
  "complete_sync L nonce w =
    (let secret = serial_shared_secret (tp_config w);
         w = (if secret = [] then w else w\<lparr>link_session_key := Some (calculate_session_key L secret nonce)\<rparr>);
         w = clear_handshake_expectations (set_fsm_state SYNCHRONIZED w)
     in bindr (handle_handshake_success L w) (\<lambda>_ w. (Inr True, w)))"
  by (auto simp: complete_sync_def bindr_def Let_def split: prod.splits sum.splits)

section \<open>Invariants over the core\<close>

definition holds :: "(bridge \<Rightarrow> bool) \<Rightarrow> 'a result \<times> bridge \<Rightarrow> bool" where
  "holds P x \<longleftrightarrow> P (snd x)"

lemma holds_pair [simp]: "holds P (r, w) = P w"
  by (simp add: holds_def)

lemma holds_bind: "holds P x \<Longrightarrow> (\<And>a w. P w \<Longrightarrow> holds P (k a w)) \<Longrightarrow> holds P (bindr x k)"
  by (cases x; cases "fst x") (auto simp: holds_def bindr_def)

lemma holds_if: "(b \<Longrightarrow> holds P x) \<Longrightarrow> (\<not> b \<Longrightarrow> holds P y) \<Longrightarrow> holds P (if b then x else y)"
  by simp

text \<open>A property that only looks at the core is kept by everything that sends, publishes or stores.\<close>

locale core_invariant =
  fixes P :: "bridge \<Rightarrow> bool"
  assumes core_cong: "core w' = core w \<Longrightarrow> P w \<Longrightarrow> P w'"
begin

lemma core_iff: "core w' = core w \<Longrightarrow> P w' = P w"
  using core_cong by metis

lemmas P_updates [simp] = core_link [THEN core_iff] core_service [THEN core_iff]

lemma P_enqueue: "P w \<Longrightarrow> holds P (enqueue_cloud L m ctx w)"
  using core_enqueue core_cong by (metis holds_def prod.collapse)

lemma P_send: "P w \<Longrightarrow> holds P (send L c pl q w)"
  using core_send core_cong by (metis holds_def prod.collapse)

lemma P_send_raw: "P w \<Longrightarrow> holds P (send_raw L c pl q w)"
  using core_send_raw core_cong by (metis holds_def prod.collapse)

lemma P_acknowledge: "P w \<Longrightarrow> holds P (acknowledge L c q st w)"
  using core_acknowledge core_cong by (metis holds_def prod.collapse)

lemma P_send_msg: "P w \<Longrightarrow> holds P (send_msg L c m w)"
  by (auto simp: send_msg_def P_send split: sum.splits)

lemma P_truth: "holds P x \<Longrightarrow> holds P (truth x)"
  by (auto simp: truth_def intro: holds_bind)

lemma P_handled: "holds P x \<Longrightarrow> holds P (handled x)"
  by (auto simp: handled_def intro: holds_bind)

lemma P_fault: "next_fault w = (f, w') \<Longrightarrow> P w \<Longrightarrow> P w'"
  by (rule core_cong) (auto simp: next_fault_def split: list.splits)

lemmas P_basic = P_enqueue P_send P_send_raw P_acknowledge P_send_msg P_truth P_handled

lemma P_publish_datastore: "P w \<Longrightarrow> holds P (publish_datastore_value L k v c e w)"
  by (simp add: publish_datastore_value_def P_enqueue)

lemma P_send_chunks: "P w \<Longrightarrow> holds P (send_chunks L cs w)"
  by (induction L cs w rule: send_chunks.induct) (auto intro!: holds_bind P_send_msg)

lemma P_flush_buffers: "P w \<Longrightarrow> holds P (flush_buffers L bs w)"
proof (induction bs arbitrary: w)
  case (Cons b bs)
  then show ?case by (auto intro!: holds_bind P_send_chunks)
qed simp

lemma P_flush: "P w \<Longrightarrow> holds P (flush_console_queue L w)"
  by (simp add: flush_console_queue_def P_flush_buffers)

lemma P_next_fs_op: "next_fs_op w = (b, w') \<Longrightarrow> P w' = P w"
  by (auto simp: next_fs_op_def split: list.splits)

lemma P_make_parents: "P w \<Longrightarrow> holds P (make_parents p w)"
  by (auto simp: make_parents_def P_next_fs_op split: prod.splits bool.splits)

lemma P_read_bytes: "P w \<Longrightarrow> holds P (read_bytes p w)"
  by (auto simp: read_bytes_def P_next_fs_op split: prod.splits bool.splits option.splits)

lemma P_datastore_set: "P w \<Longrightarrow> holds P (datastore_set k v w)"
  by (auto simp: datastore_set_def split: option.splits prod.splits dest: P_fault)

lemma P_datastore_get: "datastore_get k d w = (v, w') \<Longrightarrow> P w \<Longrightarrow> P w'"
  by (auto simp: datastore_get_def split: option.splits prod.splits dest: P_fault)

lemma P_mailbox:
  "P w \<Longrightarrow> holds P (mailbox_append x w)" "P w \<Longrightarrow> holds P (mailbox_popleft w)"
  "P w \<Longrightarrow> holds P (incoming_append x w)" "P w \<Longrightarrow> holds P (incoming_popleft w)"
  by (auto simp: mailbox_append_def mailbox_popleft_def incoming_append_def incoming_popleft_def
      split: prod.splits dest: P_fault)

lemma P_or_empty: "holds P x \<Longrightarrow> holds P (or_empty x)"
  by (auto simp: or_empty_def split: prod.splits sum.splits pyexc.splits)

lemmas P_stores = P_basic P_publish_datastore P_flush P_read_bytes P_datastore_set P_mailbox P_or_empty

text \<open>The handlers that leave the core alone.\<close>

lemma P_xon: "P w \<Longrightarrow> holds P (handle_mcu_xon L w)" "P w \<Longrightarrow> holds P (handle_mcu_xoff w)"
  by (simp_all add: handle_mcu_xon_def handle_mcu_xoff_def P_stores)

lemma P_console_write: "P w \<Longrightarrow> holds P (on_mcu_console_write L p w)"
  by (auto simp: on_mcu_console_write_def intro!: holds_bind P_stores)

lemma P_datastore_put: "P w \<Longrightarrow> holds P (on_mcu_datastore_put L p w)"
  by (auto simp: on_mcu_datastore_put_def split: payload.splits msg.split intro!: holds_bind P_stores)

lemma P_mcu_datastore_get: "P w \<Longrightarrow> holds P (on_mcu_datastore_get L p w)"
  by (auto simp: on_mcu_datastore_get_def split: prod.splits dest: P_datastore_get intro!: holds_bind P_stores)

lemma P_mcu_mailbox:
  "P w \<Longrightarrow> holds P (on_mcu_mailbox_push L p w)" "P w \<Longrightarrow> holds P (on_mcu_mailbox_available L w)"
  "P w \<Longrightarrow> holds P (on_mcu_mailbox_read L w)" "P w \<Longrightarrow> holds P (on_mcu_mailbox_processed L p w)"
  by (auto simp: on_mcu_mailbox_push_def on_mcu_mailbox_available_def on_mcu_mailbox_read_def
      on_mcu_mailbox_processed_def split: payload.splits intro!: holds_bind P_stores)

lemma P_send_file_chunks: "P w \<Longrightarrow> holds P (send_file_chunks L cs w)"
  by (induction L cs w rule: send_file_chunks.induct) (auto intro!: holds_bind P_send_msg)

lemma P_file_read: "P w \<Longrightarrow> holds P (on_mcu_file_read L p w)"
  by (auto simp: on_mcu_file_read_def split: option.splits intro!: holds_bind P_stores P_send_file_chunks)

lemma P_file_read_resp: "P w \<Longrightarrow> holds P (on_mcu_file_read_resp p w)"
  by (auto simp: on_mcu_file_read_resp_def split: option.splits intro!: holds_bind)

lemma P_pin: "P w \<Longrightarrow> holds P (publish_pin L t p req w)"
  by (auto simp: publish_pin_def Let_def intro!: holds_bind P_stores)

lemma P_responses:
  "P w \<Longrightarrow> holds P (on_mcu_digital_read_resp L p w)" "P w \<Longrightarrow> holds P (on_mcu_analog_read_resp L p w)"
  "P w \<Longrightarrow> holds P (on_mcu_spi_resp L p w)" "P w \<Longrightarrow> holds P (on_mcu_ack p w)"
  "P w \<Longrightarrow> holds P (handle_mcu_status L st p w)" "P w \<Longrightarrow> holds P (unsupported L text w)"
  by (auto simp: on_mcu_digital_read_resp_def on_mcu_analog_read_resp_def on_mcu_spi_resp_def on_mcu_ack_def
      handle_mcu_status_def unsupported_def split: list.splits payload.splits msg.split prod.splits
      intro!: holds_bind P_stores P_pin)

text \<open>The handshake.\<close>

lemma P_link_marks [simp]:
  "P (mark_synchronized w) = P w" "P (mark_transport_connected w) = P w" "P (clear_handshake_expectations w) = P w"
  "P (mark_transport_disconnected w) = P w"
  by (simp_all add: mark_synchronized_def mark_transport_connected_def mark_transport_disconnected_def
      clear_handshake_expectations_def)

lemma P_set_fsm [simp]: "P (set_fsm_state s w) = P w"
  by (simp add: set_fsm_state_def Let_def)

lemma P_publish_event: "P w \<Longrightarrow> holds P (publish_handshake_event L e a b w)"
  by (simp add: publish_handshake_event_def Let_def P_enqueue)

lemma P_record_failure: "record_handshake_failure reason d w = (d', w') \<Longrightarrow> P w' = P w"
  by (auto simp: record_handshake_failure_def maybe_schedule_handshake_backoff_def Let_def split: if_splits)

lemma P_failure: "P w \<Longrightarrow> holds P (handle_handshake_failure L reason d w)"
  by (auto simp: handle_handshake_failure_def P_record_failure P_publish_event split: prod.splits)

lemma P_reject_sync: "P w \<Longrightarrow> holds P (reject_sync L q forget reason d w)"
  by (auto simp: reject_sync_bind intro!: holds_bind P_acknowledge P_failure)

lemma P_complete_sync: "P w \<Longrightarrow> holds P (complete_sync L nonce w)"
  by (auto simp: complete_sync_bind handle_handshake_success_def record_handshake_success_def Let_def
      intro!: holds_bind P_publish_event)

lemma P_sync_resp: "P w \<Longrightarrow> holds P (handle_link_sync_resp L q p w)"
  by (auto simp: handle_link_sync_resp_def check_sync_def Let_def P_reject_sync P_complete_sync
      split: option.splits sync_packet.splits)

lemma P_link_responses:
  "P w \<Longrightarrow> holds P (handle_link_reset_resp q p w)" "P w \<Longrightarrow> holds P (handle_capabilities_resp q p w)"
  by (simp_all add: handle_link_reset_resp_def handle_capabilities_resp_def)

text \<open>The read loop, for a dispatcher that keeps the property.\<close>

lemma P_negotiate: "P (snd (negotiate_baudrate L b fs w)) = P w"
proof -
  obtain r w1 where s: "send_raw L 74 (PMsg (SetBaudratePacket b)) None
      (w\<lparr>tp_negotiating := True, tp_future := Some False\<rparr>) = (r, w1)" by fastforce
  have "P w1 = P w" using core_iff [OF core_send_raw [OF s]] by simp
  then show ?thesis using s
    by (auto simp: negotiate_baudrate_def switch_local_baudrate_def split: sum.splits bool.splits)
qed

lemma P_fallback: "P (check_baudrate_fallback L w) = P w"
  by (simp add: check_baudrate_fallback_def Let_def P_negotiate)

lemma P_anti_replay: "anti_replay_ok e w = (b, w') \<Longrightarrow> P w' = P w"
  by (auto simp: anti_replay_ok_def Let_def split: if_splits prod.splits bool.splits)

lemma P_process_packet:
  assumes "\<And>c q p v. P v \<Longrightarrow> holds P (dispatch c q p v)" "P w"
  shows "holds P (process_packet L dispatch b w)"
proof (cases "decode_packet L b w")
  case (Inl e)
  then show ?thesis using assms(2) by (simp add: process_packet_def P_fallback)
next
  case (Inr x)
  obtain e p where x: "x = (e, p)" by fastforce
  obtain ok w1 where a: "anti_replay_ok e w = (ok, w1)" by fastforce
  have "P w1" using P_anti_replay [OF a] assms(2) by simp
  then have "holds P (dispatch (ev_command_id e) (ev_sequence_id e) p (correlate_current L (ev_command_id e) p w1))"
    by (intro assms) (simp add: correlate_current_def)
  then show ?thesis using Inr x a assms(2) \<open>P w1\<close>
    by (auto simp: process_packet_def switch_local_baudrate_def holds_def split: sum.splits prod.splits bool.splits)
qed

lemma P_read_loop:
  assumes "\<And>c q p v. P v \<Longrightarrow> holds P (dispatch c q p v)"
  shows "P w \<Longrightarrow> holds P (read_loop L dispatch evs w)"
proof (induction L dispatch' \<equiv> dispatch evs w rule: read_loop.induct)
  case (5 L b evs w)
  have "holds P (process_packet L dispatch b (w\<lparr>tp_in_reader := True\<rparr>))"
    by (rule P_process_packet) (use assms 5 in simp_all)
  then show ?case using 5 by (auto simp: holds_def split: prod.splits sum.splits)
qed simp_all

lemma P_take_pause:
  assumes "\<And>c q p v. P v \<Longrightarrow> holds P (dispatch c q p v)" "P w"
  shows "P (take_pause L dispatch w)"
  using P_read_loop [of dispatch] assms by (auto simp: take_pause_def holds_def split: list.splits)

end

locale bridge_invariant = core_invariant +
  assumes P_set_file: "P w \<Longrightarrow> get_safe_path name w = Inr (Some path) \<Longrightarrow>
      P (w\<lparr>sv_files := (sv_files w)(path := v)\<rparr>)"
    and P_run: "P w \<Longrightarrow> holds P (run_process command w)"
    and P_poll: "P w \<Longrightarrow> holds P (poll_process pid w)"
    and P_kill: "P w \<Longrightarrow> P (kill_process pid w)"
begin

text \<open>The check of the path is not invalidated by what happens before the write.\<close>

lemma safe_path_cong:
  "sv_resolve w' = sv_resolve w \<Longrightarrow> tp_config w' = tp_config w \<Longrightarrow> get_safe_path name w' = get_safe_path name w"
  by (simp add: get_safe_path_def cong: sum.case_cong)

lemma next_fs_op_core: "next_fs_op w = (b, w') \<Longrightarrow> core w' = core w"
  by (auto simp: next_fs_op_def split: list.splits)

lemma P_write_bytes:
  assumes "P w" "get_safe_path name w = Inr (Some path)"
  shows "holds P (write_bytes path d w)"
proof -
  obtain b w1 where n: "next_fs_op w = (b, w1)" by fastforce
  note c = next_fs_op_core [OF n]
  have "get_safe_path name w1 = Inr (Some path)"
    using assms(2) safe_path_cong core_fields(5,6) [OF c] by metis
  then show ?thesis
    using n P_set_file [of w1 name path "Some d"] core_cong [OF c assms(1)]
    by (auto simp: write_bytes_def split: bool.splits)
qed

lemma P_unlink:
  assumes "P w" "get_safe_path name w = Inr (Some path)"
  shows "holds P (unlink path w)"
proof -
  obtain b w1 where n: "next_fs_op w = (b, w1)" by fastforce
  note c = next_fs_op_core [OF n]
  have "get_safe_path name w1 = Inr (Some path)"
    using assms(2) safe_path_cong core_fields(5,6) [OF c] by metis
  then show ?thesis
    using n P_set_file [of w1 name path None] core_cong [OF c assms(1)]
    by (auto simp: unlink_def split: bool.splits)
qed

lemma P_write_quota:
  assumes "P w" "get_safe_path name w = Inr (Some path)"
  shows "holds P (write_with_quota path d w)"
proof -
  define u where "u = (case sv_disk w of None \<Rightarrow> w | Some (used, free) \<Rightarrow> w\<lparr>file_storage_bytes_used := used\<rparr>)"
  have u: "core u = core w" by (auto simp: u_def split: option.splits)
  obtain r w1 where m: "make_parents path u = (r, w1)" by fastforce
  have c: "core w1 = core w"
    using m u by (auto simp: make_parents_def split: bool.splits prod.splits dest!: next_fs_op_core)
  have "get_safe_path name w1 = Inr (Some path)"
    using assms(2) safe_path_cong core_fields(5,6) [OF c] by metis
  then have "holds P (write_bytes path d w1)" using core_cong [OF c assms(1)] by (rule P_write_bytes [rotated])
  moreover have "P u" using core_cong [OF u assms(1)] .
  ultimately show ?thesis
    using m core_cong [OF c assms(1)]
    by (cases r) (auto simp: write_with_quota_def Let_def u_def [symmetric] intro!: holds_bind)
qed

text \<open>The MCU's handlers.\<close>

lemma P_file_write: "P w \<Longrightarrow> holds P (on_mcu_file_write L p w)"
  unfolding on_mcu_file_write_def
  by (cases "attr msg_path p"; cases "attr msg_data p"; cases "get_safe_path (projr (attr msg_path p)) w")
    (auto split: option.splits intro!: holds_bind P_stores P_write_quota)

lemma P_file_remove: "P w \<Longrightarrow> holds P (on_mcu_file_remove L p w)"
  unfolding on_mcu_file_remove_def
  by (cases "attr msg_path p"; cases "get_safe_path (projr (attr msg_path p)) w")
    (auto split: option.splits intro!: holds_bind P_stores P_unlink)

lemma P_process:
  "P w \<Longrightarrow> holds P (on_mcu_process_run L p w)" "P w \<Longrightarrow> holds P (on_mcu_process_poll L p w)"
  "P w \<Longrightarrow> holds P (on_mcu_process_kill p w)"
  by (auto simp: on_mcu_process_run_def on_mcu_process_poll_def on_mcu_process_kill_def
      split: payload.splits msg.split intro!: holds_bind P_stores P_run P_poll P_kill)

lemma P_registry: "map_of (mcu_registry L) c = Some h \<Longrightarrow> P w \<Longrightarrow> holds P (h q p w)"
  by (auto simp: mcu_registry_def P_xon P_console_write P_datastore_put P_mcu_datastore_get P_mcu_mailbox
      P_file_write P_file_read P_file_remove P_file_read_resp P_process P_responses P_link_responses P_sync_resp
      split: if_splits)

lemma P_frame: "P w \<Longrightarrow> holds P (handle_mcu_frame L c q p w)"
  by (auto simp: handle_mcu_frame_def split: option.splits intro!: holds_bind P_registry P_basic)

lemma P_pause: "P w \<Longrightarrow> P (take_pause L (handle_mcu_frame L) w)"
  by (rule P_take_pause) (simp_all add: P_frame)

text \<open>The handlers of requests.\<close>

lemma P_simple_requests:
  "P w \<Longrightarrow> holds P (handle_console L r w)" "P w \<Longrightarrow> holds P (handle_mailbox L t r w)"
  by (auto simp: handle_console_def handle_mailbox_def intro!: holds_bind P_stores)

lemma P_datastore_request: "P w \<Longrightarrow> holds P (handle_datastore L t r w)"
  by (cases "datastore_get (py_join [slash] (remainder t)) None w")
    (auto simp: handle_datastore_def Let_def split: option.splits dest: P_datastore_get intro!: holds_bind P_stores)

lemma P_spi_config:
  assumes "P w"
  shows "holds P (case send L 180 (PMsg m) None w of
      (Inl e, w) \<Rightarrow> (if catches e then (Inr (), w) else (Inl e, w)) | (Inr _, w) \<Rightarrow> (Inr (), w))"
  using P_send [OF assms, of L 180 "PMsg m" None] by (auto simp: holds_def split: prod.splits sum.splits)

lemma P_spi: "P w \<Longrightarrow> holds P (handle_spi L t r w)"
  unfolding handle_spi_def
  by (intro holds_if) (auto split: option.split send_result.split payload.split
      intro!: holds_bind P_stores P_spi_config)

lemma P_file_mcu_read: "P w \<Longrightarrow> holds P (handle_file_mcu_read L r tg w)"
proof -
  have a: "holds P (await_mcu_read L r rt v)" if "P v" for rt v
    using P_pause [OF that, of L] P_enqueue
    by (auto simp: await_mcu_read_def mcu_read_failed_def Let_def holds_def split: option.splits prod.splits;
        metis snd_conv)
  show "P w \<Longrightarrow> ?thesis"
    by (auto simp: handle_file_mcu_read_def mcu_read_failed_def Let_def intro!: holds_bind P_stores a)
qed

lemma P_file_local:
  assumes "P w"
  shows "holds P (handle_file_local L act tg r w)"
proof (cases "get_safe_path tg w")
  case (Inr x)
  show ?thesis
  proof (cases x)
    case (Some path)
    note s = Inr [unfolded Some]
    show ?thesis
      unfolding handle_file_local_def s bindr_simps option.case
      by (intro holds_if holds_bind P_stores P_write_quota [OF _ s] P_unlink [OF _ s]) (simp_all add: assms)
  qed (simp add: handle_file_local_def Inr assms)
qed (simp add: handle_file_local_def assms)

lemma P_file_mcu: "P w \<Longrightarrow> holds P (handle_file_mcu L act tg r w)"
  unfolding handle_file_mcu_def Let_def
  by (intro holds_if holds_bind P_stores P_file_mcu_read) simp_all

lemma P_file: "P w \<Longrightarrow> holds P (handle_file L t r w)"
  by (cases "route_action t") (simp_all add: handle_file_def Let_def P_file_mcu P_file_local)

lemma P_shell_run: "P w \<Longrightarrow> holds P (shell_run_async L r w)"
proof -
  assume "P w"
  then have "holds P (bindr (shell_command L (br_payload r), w) run_process)"
    by (auto intro!: holds_bind P_run)
  then show ?thesis
    unfolding shell_run_async_def
    by (intro holds_bind P_enqueue) (auto simp: holds_def split: prod.splits sum.splits)
qed

lemma P_shell: "P w \<Longrightarrow> holds P (handle_shell L t r w)"
  unfolding handle_shell_def
  by (cases "tr_segments t") (auto simp only: list.case holds_pair intro!: holds_if holds_bind P_stores P_shell_run P_poll P_kill)

lemma P_pin_request: "P w \<Longrightarrow> holds P (handle_pin L t r w)"
  by (auto simp: handle_pin_def pin_read_def pin_overflow_def Let_def split: list.split
      intro!: holds_bind P_stores)

lemma P_version: "P w \<Longrightarrow> holds P (request_mcu_version L c w)"
  by (auto simp: request_mcu_version_def split: send_result.split payload.split option.split msg.split
      intro!: holds_bind P_stores)

lemma P_system: "P w \<Longrightarrow> holds P (handle_system L t r w)"
  unfolding handle_system_def
  by (intro holds_if) (auto simp: request_free_memory_def publish_snapshot_def split: send_result.split payload.split
      option.split intro!: holds_bind P_stores P_version)

lemma P_request: "P w \<Longrightarrow> holds P (handle_request L x w)"
  by (auto simp: handle_request_def Let_def dispatch_request_def reject_cloud_def await_link_def
      split: option.split topic.split
      intro!: P_enqueue P_simple_requests P_datastore_request P_spi P_file P_shell P_pin_request P_system P_pause)

lemma P_worker: "P w \<Longrightarrow> holds P (worker_loop L ms w)"
proof (induction ms arbitrary: w)
  case (Cons m ms)
  have "holds P (handle_request L (Request m) (w\<lparr>sv_cloud_incoming := ms\<rparr>))"
    using Cons.prems by (intro P_request) simp
  then show ?case using Cons.IH by (auto simp: holds_def split: prod.splits sum.splits)
qed simp

end

section \<open>The process pool\<close>

text \<open>The children that are tracked and the free slots together never exceed \<open>k\<close>.\<close>

definition pool_within :: "int \<Rightarrow> bridge \<Rightarrow> bool" where
  "pool_within k w \<longleftrightarrow> 0 \<le> sv_process_slots w
     \<and> sv_process_slots w + int (length (running_processes w)) \<le> k \<and> distinct (map fst (running_processes w))"

lemma length_delete_distinct:
  "distinct (map fst xs) \<Longrightarrow> map_of xs k \<noteq> None \<Longrightarrow> Suc (length (AList.delete k xs)) = length xs"
proof (induction xs)
  case (Cons x xs)
  show ?case
  proof (cases "fst x = k")
    case True
    then have "k \<notin> fst ` set xs" using Cons.prems by auto
    then have "AList.delete k xs = xs" by (force simp: AList.delete_eq filter_id_conv)
    then show ?thesis using True by (simp add: AList.delete_eq case_prod_beta)
  next
    case False
    then have "map_of xs k \<noteq> None" using Cons.prems by (cases x) auto
    then show ?thesis using Cons False by (simp add: AList.delete_eq case_prod_beta)
  qed
qed simp

lemma length_update:
  "length (AList.update k v xs) = (if k \<in> fst ` set xs then length xs else Suc (length xs))"
proof -
  have "length (AList.update k v xs) = length (map fst (AList.update k v xs))" by simp
  then show ?thesis by (simp only: update_keys) auto
qed

lemma distinct_keys_update: "distinct (map fst xs) \<Longrightarrow> distinct (map fst (AList.update k v xs))"
  by (rule AList.distinct_update)

lemma pool_pop: "pool_within k w \<Longrightarrow> pool_within k (pop_process pid w)"
proof (cases "map_of (running_processes w) pid")
  case (Some p)
  assume "pool_within k w"
  then show ?thesis
    using length_delete_distinct [of "running_processes w" pid] Some
    by (auto simp: pop_process_def release_slot_def pool_within_def AList.distinct_delete)
qed (simp add: pop_process_def)

lemma pool_core: "core w' = core w \<Longrightarrow> pool_within k w \<Longrightarrow> pool_within k w'"
  by (simp add: pool_within_def core_def)

lemma next_kill_core: "next_kill w = (x, w') \<Longrightarrow> core w' = core w"
  by (auto simp: next_kill_def split: list.splits)

lemma terminate_core: "terminate_process p w = (r, p', w') \<Longrightarrow> core w' = core w"
  by (auto simp: terminate_process_def split: option.splits prod.splits kill.splits dest: next_kill_core)

lemma pool_kill: "pool_within k w \<Longrightarrow> pool_within k (kill_process pid w)"
  by (auto simp: kill_process_def split: option.splits prod.splits intro!: pool_pop
      intro: pool_core [OF terminate_core])

lemma pool_same_keys:
  "pool_within k w \<Longrightarrow> map fst xs = map fst (running_processes w) \<Longrightarrow> pool_within k (w\<lparr>running_processes := xs\<rparr>)"
  using length_map [of fst xs] length_map [of fst "running_processes w"] by (simp add: pool_within_def)

lemma pool_set: "pool_within k w \<Longrightarrow> pool_within k (set_process pid os f w)"
proof -
  assume "pool_within k w"
  moreover have "map fst (map (\<lambda>(q, p). if q = pid \<and> pc_os_pid p = os then (q, f p) else (q, p)) xs) = map fst xs" for xs
    by (induction xs) auto
  ultimately show ?thesis unfolding set_process_def by (intro pool_same_keys) auto
qed

lemma next_spawn_core: "next_spawn w = (x, w') \<Longrightarrow> core w' = core w"
  by (auto simp: next_spawn_def split: list.splits)

lemma pool_run: "pool_within k w \<Longrightarrow> holds (pool_within k) (run_process c w)"
proof -
  assume p: "pool_within k w"
  let ?v = "w\<lparr>sv_process_slots := sv_process_slots w - 1\<rparr>"
  obtain x u where n: "next_spawn ?v = (x, u)" by fastforce
  have f: "sv_process_slots u = sv_process_slots w - 1" "running_processes u = running_processes w"
    using core_fields(1,2) [OF next_spawn_core [OF n]] by simp_all
  show ?thesis
    using p n f by (cases x) (auto simp: run_process_def spawn_process_def release_slot_def pool_within_def Let_def
        length_update distinct_keys_update split: sum.split)
qed

lemma pool_poll: "pool_within k w \<Longrightarrow> holds (pool_within k) (poll_process pid w)"
proof -
  assume p: "pool_within k w"
  have u: "pool_within k (w\<lparr>running_processes := AList.update pid q (running_processes w)\<rparr>)"
    if "map_of (running_processes w) pid = Some z" for q z
    using that p map_of_SomeD [OF that] by (intro pool_same_keys) (force simp: update_keys)+
  show ?thesis
    using p by (auto simp: poll_process_def Let_def u pool_pop split: option.splits prod.splits)
qed

interpretation pool: bridge_invariant "pool_within k" for k
proof unfold_locales
  show "pool_within k w'" if "core w' = core w" "pool_within k w" for w w'
    using that by (rule pool_core)
  show "pool_within k (w\<lparr>sv_files := (sv_files w)(path := v)\<rparr>)" if "pool_within k w" for w path v
    using that by (simp add: pool_within_def)
qed (simp_all add: pool_run pool_poll pool_kill)

section \<open>The sandbox\<close>

text \<open>Compared with \<open>w0\<close>, only files under the resolved root have changed.\<close>

definition sandboxed :: "bridge \<Rightarrow> bridge \<Rightarrow> bool" where
  "sandboxed w0 w \<longleftrightarrow> tp_config w = tp_config w0 \<and> sv_resolve w = sv_resolve w0
     \<and> (\<forall>p. sv_files w p \<noteq> sv_files w0 p \<longrightarrow>
          (\<exists>base. sv_resolve w0 (file_system_root (tp_config w0)) = Inr base \<and> is_relative_to p base))"

lemma safe_path_relative:
  "get_safe_path name w = Inr (Some p) \<Longrightarrow>
    \<exists>base. sv_resolve w (file_system_root (tp_config w)) = Inr base \<and> is_relative_to p base"
  by (auto simp: get_safe_path_def split: sum.splits if_splits)

lemma pop_keeps [simp]: "sandboxed w0 (pop_process pid w) = sandboxed w0 w"
  by (simp add: sandboxed_def pop_process_def release_slot_def)

lemma sandboxed_updates [simp]:
  "sandboxed w0 (w\<lparr>running_processes := a\<rparr>) = sandboxed w0 w" "sandboxed w0 (w\<lparr>sv_process_slots := b\<rparr>) = sandboxed w0 w"
  "sandboxed w0 (w\<lparr>sv_monitors := c\<rparr>) = sandboxed w0 w" "sandboxed w0 (release_slot w) = sandboxed w0 w"
  "sandboxed w0 (set_process pid os f w) = sandboxed w0 w"
  by (simp_all add: sandboxed_def release_slot_def set_process_def)

lemma sandboxed_core: "core w' = core w \<Longrightarrow> sandboxed w0 w \<Longrightarrow> sandboxed w0 w'"
  by (simp add: sandboxed_def core_def)

lemma sandboxed_kill: "sandboxed w0 w \<Longrightarrow> sandboxed w0 (kill_process pid w)"
  by (auto simp: kill_process_def split: option.splits prod.splits intro: sandboxed_core [OF terminate_core])

lemma sandboxed_run: "sandboxed w0 w \<Longrightarrow> holds (sandboxed w0) (run_process c w)"
proof -
  assume "sandboxed w0 w"
  moreover obtain x u where n: "next_spawn (w\<lparr>sv_process_slots := sv_process_slots w - 1\<rparr>) = (x, u)" by fastforce
  ultimately have "sandboxed w0 u" by (auto intro: sandboxed_core [OF next_spawn_core])
  then show ?thesis
    using \<open>sandboxed w0 w\<close> n
    by (cases x) (auto simp: run_process_def spawn_process_def Let_def split: sum.split)
qed

lemma sandboxed_poll: "sandboxed w0 w \<Longrightarrow> holds (sandboxed w0) (poll_process pid w)"
  by (auto simp: poll_process_def Let_def split: option.splits prod.splits)

interpretation sandbox: bridge_invariant "sandboxed w0" for w0
proof unfold_locales
  show "sandboxed w0 w'" if "core w' = core w" "sandboxed w0 w" for w w'
    using that by (rule sandboxed_core)
  show "sandboxed w0 (w\<lparr>sv_files := (sv_files w)(path := v)\<rparr>)"
    if "sandboxed w0 w" "get_safe_path name w = Inr (Some path)" for w name path v
    using that safe_path_relative [OF that(2)] by (auto simp: sandboxed_def)
qed (simp_all add: sandboxed_run sandboxed_poll sandboxed_kill)

section \<open>The dispatcher of the handshake\<close>

text \<open>No handler counts a synchronisation attempt.\<close>

lemma attempts_process:
  "handshake_attempts (snd (run_process c w)) = handshake_attempts w"
  "handshake_attempts (snd (poll_process pid w)) = handshake_attempts w"
  "handshake_attempts (kill_process pid w) = handshake_attempts w"
proof -
  obtain x u where n: "next_spawn (w\<lparr>sv_process_slots := sv_process_slots w - 1\<rparr>) = (x, u)" by fastforce
  have "handshake_attempts u = handshake_attempts w" using next_spawn_core [OF n] by (simp add: core_def)
  then show "handshake_attempts (snd (run_process c w)) = handshake_attempts w"
    using n by (cases x) (auto simp: run_process_def spawn_process_def release_slot_def Let_def split: sum.split)
  show "handshake_attempts (snd (poll_process pid w)) = handshake_attempts w"
    by (auto simp: poll_process_def pop_process_def release_slot_def Let_def split: option.splits prod.splits)
  have "handshake_attempts w' = handshake_attempts w" if "terminate_process p w = (r, p', w')" for p r p' w'
    using terminate_core [OF that] by (simp add: core_def)
  then show "handshake_attempts (kill_process pid w) = handshake_attempts w"
    by (auto simp: kill_process_def pop_process_def release_slot_def split: option.splits prod.splits)
qed

interpretation attempts: bridge_invariant "\<lambda>w. handshake_attempts w = n" for n
proof unfold_locales
  show "handshake_attempts w' = n" if "core w' = core w" "handshake_attempts w = n" for w w'
    using that by (simp add: core_def)
qed (simp_all add: holds_def attempts_process)

lemma send_raw_wire: "send_raw L c pl q w = (r, w') \<Longrightarrow> \<exists>ps. tp_wire w' = tp_wire w @ ps"
  by (auto simp: send_raw_def next_seq_def stamp_nonce_def next_rnd_def next_write_def Let_def
      split: if_splits prod.splits sum.splits option.splits list.splits bool.splits)

lemma serial_more: "handshake.more w' = handshake.more w \<Longrightarrow> sv_serial w' = sv_serial w" for w w' :: bridge
  by (cases w; cases w') simp

text \<open>While the service has its transport, a decoded \<open>LINK_SYNC_RESP\<close> reaches its handler, and all that follows is
  an acknowledgement.\<close>

lemma sync_resp_routed:
  assumes "sv_serial w" "snd (handle_link_sync_resp L q (PMsg m) w) = w1"
  shows "link_fields (snd (handle_mcu_frame L 69 q (PMsg m) w)) = link_fields w1
    \<and> (\<exists>ps. tp_wire (snd (handle_mcu_frame L 69 q (PMsg m) w)) = tp_wire w1 @ ps)"
proof -
  obtain r where h: "handle_link_sync_resp L q (PMsg m) w = (r, w1)" using assms(2) by (cases "handle_link_sync_resp L q (PMsg m) w") auto
  obtain ra w2 where a: "acknowledge L 69 q STATUS_ACK w1 = (ra, w2)" by fastforce
  have "link_fields w2 = link_fields w1 \<and> (\<exists>ps. tp_wire w2 = tp_wire w1 @ ps)"
    using acknowledge_raw [OF a] by (auto simp: link_fields_def dest: send_raw_wire send_raw_link(1,2,9,12))
  moreover have "snd (handle_mcu_frame L 69 q (PMsg m) w) = w1 \<or> snd (handle_mcu_frame L 69 q (PMsg m) w) = w2"
    using assms(1) h a
    by (cases r; cases ra) (auto simp: handle_mcu_frame_def mcu_registry_def frame_admitted_def decode_command_def)
  ultimately show ?thesis by auto
qed

interpretation dispatcher: sync_dispatcher L "handle_mcu_frame L" sv_serial for L
proof unfold_locales
  show "keeps_attempts (handle_mcu_frame L)"
    unfolding keeps_attempts_def using attempts.P_frame [OF refl, unfolded holds_def] by (intro allI)
qed (fact serial_more sync_resp_routed)+

end
