(* ===== verification/Runtime.thy ===== *)
theory Runtime
  imports Core
begin

text \<open>
  The life of the daemon: construction (\<open>daemon.py\<close>, \<open>BridgeService.__init__\<close>), the serial session
  (\<open>SerialTransport.run\<close>, \<open>on_serial_connected\<close>, \<open>on_serial_disconnected\<close>), the cloud session, the local
  gRPC service, supervision and shutdown of \<open>mcubridge/services/runtime.py\<close>.

  A session is a list of what happens in it, and a component that reconnects takes a list of sessions;
  at the end of the list it is still waiting for the next one (\<open>Suspended\<close>). \<open>ConnectionError\<close> is an
  \<open>OSError\<close>. What \<open>grpclib\<close> raises, when a stream is opened, read, written or left, is part of the session.
\<close>

section \<open>Construction\<close>

text \<open>What the host contributes to the initial state.\<close>

record host =
  ho_resolve :: "string \<Rightarrow> string result"
  ho_files :: "string \<rightharpoonup> bytes"
  ho_dirs :: "string \<Rightarrow> bool"
  ho_fs_ops :: "bool list"
  ho_disk :: "(int \<times> int) option"
  ho_spawns :: "spawn list"
  ho_kills :: "kill list"
  ho_pauses :: "pause list"
  ho_db_error :: string
  ho_spool_rows :: "bytes list"
  ho_spool_mkdir :: bool \<comment> \<open>the directory of the spool could be made\<close>
  ho_spool_ok :: bool
  ho_msg_text :: "msg \<Rightarrow> string"

text \<open>The spool of the service, if a directory is configured.\<close>

definition service_spool :: "host \<Rightarrow> transport \<Rightarrow> sqlite_deque option result" where
  "service_spool h t =
    (if cloud_spool_dir (tp_config t) = [] then Inr None
     else (case new_SqliteDeque (ho_spool_mkdir h) (path_join (cloud_spool_dir (tp_config t)) ''spool.db'')
                  (Some (nat (st_cloud_queue_limit t))) (ho_spool_rows h) (ho_spool_ok h) of
             Inl e \<Rightarrow> Inl e | Inr d \<Rightarrow> Inr (Some d)))"

text \<open>\<open>BridgeService.__init__\<close> on a transport; the timing message is built first and may be out of range, and the
  directory of the spool may not be made.\<close>

definition BridgeService :: "host \<Rightarrow> transport \<Rightarrow> bridge result" where
  "BridgeService h t =
    (case (derive_serial_timing (tp_config t), service_spool h t) of
       (Inl e, _) \<Rightarrow> Inl e
     | (Inr _, Inl e) \<Rightarrow> Inl e
     | (Inr _, Inr spool) \<Rightarrow> Inr (handshake.extend
         (cloud_service.extend
           (transport.extend t
             \<lparr>sv_cloud_stream = False, sv_cloud_spool = spool,
              sv_db_error = ho_db_error h, sv_ipc_requests = [], sv_console_queues = [], sv_sent = []\<rparr>)
           \<lparr>hs_fsm_state = UNSYNCHRONIZED, hs_capabilities_future = None, hs_pauses = ho_pauses h\<rparr>)
         \<lparr>sv_serial = True, sv_process_slots = st_process_max_concurrent t, sv_monitors = [],
          sv_pending_mcu_read = None, sv_resolve = ho_resolve h, sv_files = ho_files h, sv_dirs = ho_dirs h,
          sv_fs_ops = ho_fs_ops h, sv_disk = ho_disk h, sv_spawns = ho_spawns h, sv_kills = ho_kills h,
          sv_cloud_incoming = [], sv_connected_via_http3 = False, sv_retries = [],
          sv_msg_text = ho_msg_text h\<rparr>))"

text \<open>The strict-mode gate of \<open>daemon.app\<close>.\<close>

definition strict_mode :: "runtime_config \<Rightarrow> runtime_config" where
  "strict_mode config =
    (if serial_shared_secret config = DEFAULT_SERIAL_SHARED_SECRET then config\<lparr>cloud_enabled := False\<rparr> else config)"

text \<open>\<open>daemon.app\<close> up to the event loop: \<open>Inl\<close> is the exception that ends it, or \<open>None\<close> for the \<open>sys.exit(1)\<close> of a
  failed self-test.\<close>

definition app_start ::
  "host \<Rightarrow> (runtime_config \<Rightarrow> runtime_state) \<Rightarrow> bool \<Rightarrow> runtime_config result \<Rightarrow> pyexc option + bridge" where
  "app_start h create_state crypto_ok loaded =
    (case loaded of
       Inl e \<Rightarrow> Inl (Some e)
     | Inr config \<Rightarrow>
         (if \<not> crypto_ok then Inl None
          else (let state = create_state config; config = strict_mode config
                in case BridgeService h (SerialTransport config state) of Inl e \<Rightarrow> Inl (Some e) | Inr w \<Rightarrow> Inr w)))"

section \<open>The serial session\<close>

definition on_serial_connected :: "lib \<Rightarrow> bridge \<Rightarrow> unit result \<times> bridge" where
  "on_serial_connected L w =
    bindr (synchronize L (handle_mcu_frame L) (mark_transport_connected w)) (\<lambda>_ w.
      if is_synchronized w
      then bindr (request_mcu_version L None w) (\<lambda>_ w. flush_console_queue L w)
      else (Inr (), w))"

text \<open>\<open>reset\<close>: the failure mark on the abandoned command is for a sender that still holds it; between two
  steps of the model none does.\<close>

definition reset_transport :: "bridge \<Rightarrow> bridge" where
  "reset_transport w = w\<lparr>tp_current := None\<rparr>"

definition on_serial_disconnected :: "bridge \<Rightarrow> bridge" where
  "on_serial_disconnected w =
    (let w = (mark_transport_disconnected w)\<lparr>pending_digital_reads := [], pending_analog_reads := [],
               mcu_is_paused := False, serial_tx_allowed := True\<rparr>;
         w = clear_handshake_expectations w
     in if sv_serial w then reset_transport w else w)"

text \<open>One connection: whether the port opens, the frames met during the negotiation, what the reader then
  meets, and whether \<open>stop\<close> is called before the reader ends.\<close>

record serial_session =
  ses_opens :: bool
  ses_negotiation :: "int list"
  ses_reads :: "rx list"
  ses_stopped :: bool

definition connect_baud :: "runtime_config \<Rightarrow> int" where
  "connect_baud config = (if serial_safe_baud config = 0 then 115200 else serial_safe_baud config)"

definition open_port :: "bridge \<Rightarrow> bridge" where
  "open_port w = w\<lparr>tp_serial := True, tp_is_open := True, tp_baud := connect_baud (tp_config w),
     serial_writer_attached := True\<rparr>"

definition close_port :: "bridge \<Rightarrow> bridge" where
  "close_port w = w\<lparr>tp_serial := False, tp_is_open := False\<rparr>"

definition negotiate_session :: "lib \<Rightarrow> int list \<Rightarrow> bridge \<Rightarrow> unit result \<times> bridge" where
  "negotiate_session L frames w =
    (if serial_baud (tp_config w) = connect_baud (tp_config w) then (Inr (), w)
     else (case negotiate_baudrate L (serial_baud (tp_config w)) frames w of
             (True, w) \<Rightarrow> (Inr (), w) | (False, w) \<Rightarrow> (Inl OSError, w)))"

text \<open>The body and its \<open>finally\<close>: awaiting a read task that failed raises its exception again, before the
  service hears of the disconnection.\<close>

definition run_session :: "lib \<Rightarrow> serial_session \<Rightarrow> bridge \<Rightarrow> unit result \<times> bridge" where
  "run_session L s w =
    (case bindr (negotiate_session L (ses_negotiation s) w) (\<lambda>_ w. on_serial_connected L w) of
       (Inl e, w) \<Rightarrow> (Inl e, on_serial_disconnected w)
     | (Inr _, w) \<Rightarrow>
         (case read_loop L (handle_mcu_frame L) (ses_reads s) w of
            (Inl e, w) \<Rightarrow> (Inl e, w)
          | (Inr _, w) \<Rightarrow>
              ((if ses_stopped s then Inr () else Inl OSError), on_serial_disconnected w)))"

definition connect_and_run :: "lib \<Rightarrow> serial_session \<Rightarrow> bridge \<Rightarrow> unit result \<times> bridge" where
  "connect_and_run L s w =
    (if \<not> ses_opens s then (Inl OSError, w)
     else (case run_session L s (open_port w) of (r, w) \<Rightarrow> (r, if r = Inl Suspended then w else close_port w)))"

fun serial_run :: "lib \<Rightarrow> serial_session list \<Rightarrow> bridge \<Rightarrow> unit result \<times> bridge" where
  "serial_run L [] w = (Inl Suspended, w)"
| "serial_run L (s # ss) w =
    (case connect_and_run L s w of
       (Inr u, w) \<Rightarrow> (Inr u, w)
     | (Inl e, w) \<Rightarrow> if e = Suspended then (Inl e, w) else serial_run L ss w)"

section \<open>The cloud session\<close>

text \<open>What the stream delivers; \<open>WorkerTurn\<close> is the worker task getting its turn.\<close>

datatype cloud_event = Pong | CommandRequest string bytes nat | OtherEnvelope | WorkerTurn | StreamBroken pyexc

definition command_request :: "string \<Rightarrow> bytes \<Rightarrow> nat \<Rightarrow> bridge \<Rightarrow> bridge_request" where
  "command_request path payload seq w =
    \<lparr>br_topic = topic_path (cloud_topic_prefix w) path [], br_payload = payload,
     br_correlation_data = Some (to_be 8 seq), br_response_topic = Some ''cloud''\<rparr>"

text \<open>\<open>blocked\<close>: the worker waits inside a request and takes no other.\<close>

fun session_loop :: "lib \<Rightarrow> bool \<Rightarrow> cloud_event list \<Rightarrow> bridge \<Rightarrow> unit result \<times> bridge" where
  "session_loop L blocked [] w = (Inr (), w)"
| "session_loop L blocked (Pong # evs) w = session_loop L blocked evs w"
| "session_loop L blocked (OtherEnvelope # evs) w = session_loop L blocked evs w"
| "session_loop L blocked (CommandRequest path payload seq # evs) w =
    session_loop L blocked evs
      (w\<lparr>sv_cloud_incoming := sv_cloud_incoming w @ [command_request path payload seq w]\<rparr>)"
| "session_loop L blocked (WorkerTurn # evs) w =
    (if blocked then session_loop L blocked evs w
     else (case cloud_incoming_worker L w of
             (Inr _, w) \<Rightarrow> session_loop L False evs w
           | (Inl e, w) \<Rightarrow> if e = Suspended then session_loop L True evs w else (Inl e, w)))"
| "session_loop L blocked (StreamBroken e # evs) w = (Inl e, w)"

definition send_cloud_event :: "string \<Rightarrow> string \<Rightarrow> string \<Rightarrow> bridge \<Rightarrow> unit result \<times> bridge" where
  "send_cloud_event event_type severity description w =
    (if \<not> sv_cloud_stream w then (Inr (), w)
     else (case next_send w of
             (Inl e, w) \<Rightarrow> (Inl e, w)
           | (Inr _, w) \<Rightarrow>
               (Inr (), w\<lparr>sv_sent := sv_sent w @ [\<lparr>ce_protocol_version = 2, ce_device_id = device_id w,
                  ce_sequence_id = 0, ce_timestamp_utc = \<lfloor>now_unix w\<rfloor>,
                  ce_payload = EventNotification event_type severity description\<rparr>]\<rparr>)))"

text \<open>How a session ends: without an exception; by an exception outside the task group; by an exception inside
  it, which arrives as an \<open>ExceptionGroup\<close>; or not, when a send never returns.\<close>

datatype session_end = Closed | Raised pyexc | RaisedGroup pyexc | Waiting

text \<open>A session as the library shapes it: what opening the stream raises, what the stream then delivers, and what
  leaving the stream raises (\<open>grpclib\<close> waits there for the trailing metadata, and the client has not ended its half).\<close>

record cloud_session =
  cs_opens :: "unit result"
  cs_events :: "cloud_event list"
  cs_leave :: "unit result"

definition raised_outside :: "pyexc \<Rightarrow> session_end" where
  "raised_outside e = (if e = Suspended then Waiting else Raised e)"

text \<open>The body of \<open>async with stub.Session.open() as stream\<close>.\<close>

definition session_body :: "lib \<Rightarrow> cloud_event list \<Rightarrow> bridge \<Rightarrow> session_end \<times> bridge" where
  "session_body L evs w =
    (case bindr (send_cloud_event ''status_online'' ''info'' ''Device online'' w) (\<lambda>_ w. flush_cloud_spool L w) of
       (Inl e, w) \<Rightarrow> (raised_outside e, w)
     | (Inr _, w) \<Rightarrow>
         (case session_loop L False evs w of
            (Inr _, w) \<Rightarrow> (Closed, w)
          | (Inl e, w) \<Rightarrow> (RaisedGroup e, w)))"

text \<open>An exception of leaving takes the place of what the body ended with.\<close>

definition leave_session :: "unit result \<Rightarrow> session_end \<Rightarrow> session_end" where
  "leave_session leave x = (case leave of Inl e \<Rightarrow> Raised e | Inr _ \<Rightarrow> x)"

definition connect_cloud_session :: "lib \<Rightarrow> cloud_session \<Rightarrow> bridge \<Rightarrow> session_end \<times> bridge" where
  "connect_cloud_session L s w =
    (let w = w\<lparr>sv_connected_via_http3 := cloud_http3_enabled (tp_config w)\<rparr>
     in case cs_opens s of
          Inl e \<Rightarrow> (raised_outside e, if e = Suspended then w else w\<lparr>sv_cloud_stream := False\<rparr>)
        | Inr _ \<Rightarrow>
            (case session_body L (cs_events s) (w\<lparr>sv_cloud_stream := True\<rparr>) of
               (Waiting, w) \<Rightarrow> (Waiting, w)
             | (x, w) \<Rightarrow> (leave_session (cs_leave s) x, w\<lparr>sv_cloud_stream := False\<rparr>)))"

definition count_retry :: "string \<Rightarrow> 'a bridge_scheme \<Rightarrow> 'a bridge_scheme" where
  "count_retry name w =
    w\<lparr>sv_retries := AList.update name
        ((case map_of (sv_retries w) name of Some n \<Rightarrow> n | None \<Rightarrow> 0) + 1) (sv_retries w)\<rparr>"

text \<open>The retries of \<open>run_cloud\<close>: only errors outside the task group are retried.\<close>

fun cloud_sessions :: "lib \<Rightarrow> cloud_session list \<Rightarrow> bridge \<Rightarrow> session_end \<times> bridge" where
  "cloud_sessions L [] w = (Waiting, w)"
| "cloud_sessions L (s # ss) w =
    (case connect_cloud_session L s w of
       (Raised e, w) \<Rightarrow>
         (if e \<in> {OSError, TimeoutError} then cloud_sessions L ss (count_retry ''cloud_connect'' w)
          else (Raised e, w))
     | (x, w) \<Rightarrow> (x, w))"

definition run_cloud ::
  "lib \<Rightarrow> ssl_context option result \<Rightarrow> cloud_session list \<Rightarrow> bridge \<Rightarrow> session_end \<times> bridge" where
  "run_cloud L tls sessions w =
    (if \<not> cloud_enabled (tp_config w) then (Closed, w)
     else (case tls of Inl e \<Rightarrow> (Raised e, w) | Inr _ \<Rightarrow> cloud_sessions L sessions w))"

section \<open>Supervision\<close>

text \<open>A supervised task is restarted after every exception that is not fatal; \<open>max_restarts\<close> bounds the
  attempts. \<open>None\<close> as the value of the loop means that it goes on for ever.\<close>

partial_function (option) supervise_loop ::
  "('a bridge_scheme \<Rightarrow> unit result \<times> 'a bridge_scheme) \<Rightarrow> (pyexc \<Rightarrow> bool) \<Rightarrow> string \<Rightarrow> nat option \<Rightarrow> nat
    \<Rightarrow> 'a bridge_scheme \<Rightarrow> (unit result \<times> 'a bridge_scheme) option" where
  "supervise_loop factory fatal name limit n w =
    (case factory w of
       (Inr u, w) \<Rightarrow> Some (Inr u, w)
     | (Inl e, w) \<Rightarrow>
         (if e = Suspended \<or> fatal e then Some (Inl e, w)
          else if limit = Some (Suc n) then Some (Inl e, count_retry name w)
          else supervise_loop factory fatal name limit (Suc n) (count_retry name w)))"

definition supervise ::
  "string \<Rightarrow> ('a bridge_scheme \<Rightarrow> unit result \<times> 'a bridge_scheme) \<Rightarrow> (pyexc \<Rightarrow> bool) \<Rightarrow> nat option
    \<Rightarrow> 'a bridge_scheme \<Rightarrow> (unit result \<times> 'a bridge_scheme) option" where
  "supervise name factory fatal max_restarts w =
    supervise_loop factory fatal name (if max_restarts = Some 0 then None else max_restarts) 0 w"

text \<open>The optional tasks of \<open>run\<close>, in the order they are created.\<close>

definition task_names :: "runtime_config \<Rightarrow> string list" where
  "task_names config =
    [''serial-link'', ''cloud-link'', ''status-writer'', ''metrics-publisher'']
    @ (if 0 < bridge_summary_interval config \<or> 0 < bridge_handshake_interval config
       then [''bridge-snapshots''] else [])
    @ (if watchdog_enabled config then [''watchdog''] else [])
    @ (if metrics_enabled config then [''prometheus-exporter''] else [])
    @ [''ipc-server'']"

text \<open>\<open>cleanup\<close> and the \<open>finally\<close> of \<open>run\<close>.\<close>

definition cleanup :: "bridge \<Rightarrow> bridge" where
  "cleanup w = cleanup_state (w\<lparr>sv_serial := False, sv_cloud_spool := None\<rparr>)"

section \<open>Local clients\<close>

definition empty_publish :: cloud_publish where
  "empty_publish =
    \<lparr>cp_topic_name = [], cp_payload = [], cp_qos = 0, cp_content_type = None, cp_message_expiry_interval = None,
     cp_correlation_data = None, cp_user_properties = [], cp_subscription_identifier = []\<rparr>"

definition ipc_pending :: "bytes \<Rightarrow> bridge \<Rightarrow> cloud_publish list" where
  "ipc_pending c w = (case map_of (sv_ipc_requests w) c of Some q \<Rightarrow> q | None \<Rightarrow> [])"

definition ipc_request :: "cloud_publish \<Rightarrow> bytes \<Rightarrow> bridge_request" where
  "ipc_request request correlation =
    \<lparr>br_topic = cp_topic_name request, br_payload = cp_payload request,
     br_correlation_data = Some correlation, br_response_topic = None\<rparr>"

text \<open>The answer to a client that registered a queue: what is there, else what arrives in fifteen seconds,
  else an empty message. \<open>alive\<close> is whether the client still takes it.\<close>

definition ipc_await :: "lib \<Rightarrow> bool \<Rightarrow> bytes \<Rightarrow> bridge \<Rightarrow> cloud_publish option result \<times> bridge" where
  "ipc_await L alive c w =
    (let w = (if ipc_pending c w = [] then take_pause L (handle_mcu_frame L) w else w);
         response = (case ipc_pending c w of [] \<Rightarrow> empty_publish | m # _ \<Rightarrow> m)
     in (Inr (if alive then Some response else None), w))"

definition ipc_forget :: "bytes \<Rightarrow> bridge \<Rightarrow> bridge" where
  "ipc_forget c w = w\<lparr>sv_ipc_requests := AList.delete c (sv_ipc_requests w)\<rparr>"

text \<open>\<open>LocalBridgeService.Publish\<close>: the message sent back to the client, if any.\<close>

definition ipc_publish ::
  "lib \<Rightarrow> bool \<Rightarrow> cloud_publish \<Rightarrow> bridge \<Rightarrow> cloud_publish option result \<times> bridge" where
  "ipc_publish L alive request w =
    (case cp_correlation_data request of
       Some c \<Rightarrow>
         (case (case handle_request L (Request (ipc_request request c))
                       (w\<lparr>sv_ipc_requests := AList.update c [] (sv_ipc_requests w)\<rparr>) of
                  (Inl e, w) \<Rightarrow> (if e \<in> {OSError, TimeoutError} then Inr None else Inl e, w)
                | (Inr _, w) \<Rightarrow> ipc_await L alive c w) of
            (r, w) \<Rightarrow> (r, if r = Inl Suspended then w else ipc_forget c w))
     | None \<Rightarrow>
         (case next_rnd 12 w of (c, w) \<Rightarrow>
            (case handle_request L (Request (ipc_request request c)) w of
               (Inl e, w) \<Rightarrow> (if e \<in> {OSError, TimeoutError} then Inr None else Inl e, w)
             | (Inr _, w) \<Rightarrow> (Inr (if alive then Some empty_publish else None), w))))"

text \<open>\<open>SubscribeConsole\<close>: a queue of its own, its messages in order, and its removal. A subscriber is
  known by the position of its queue.\<close>

definition console_subscribe :: "bridge \<Rightarrow> bridge" where
  "console_subscribe w = w\<lparr>sv_console_queues := sv_console_queues w @ [[]]\<rparr>"

definition console_next :: "nat \<Rightarrow> bridge \<Rightarrow> cloud_publish option \<times> bridge" where
  "console_next i w =
    (if i < length (sv_console_queues w) \<and> sv_console_queues w ! i \<noteq> []
     then (Some (hd (sv_console_queues w ! i)),
           w\<lparr>sv_console_queues := (sv_console_queues w)[i := tl (sv_console_queues w ! i)]\<rparr>)
     else (None, w))"

definition console_unsubscribe :: "nat \<Rightarrow> bridge \<Rightarrow> bridge" where
  "console_unsubscribe i w =
    w\<lparr>sv_console_queues := take i (sv_console_queues w) @ drop (Suc i) (sv_console_queues w)\<rparr>"

section \<open>Invariants through the sessions\<close>

locale session_invariant = bridge_invariant +
  assumes P_start: "P w \<Longrightarrow> P (start_attempt w)"
begin

lemma P_send_raw_dest: "send_raw L c pl q w = (r, w') \<Longrightarrow> P w \<Longrightarrow> P w'"
  by (rule core_cong [OF core_send_raw])

lemma P_next_rnd: "next_rnd n w = (x, w') \<Longrightarrow> P w \<Longrightarrow> P w'"
  by (rule core_cong) (auto simp: next_rnd_def split: list.splits)

lemma P_fail_attempt: "P w \<Longrightarrow> holds P (fail_attempt L reason w)"
  using P_failure [of "clear_handshake_expectations w" L reason None]
  by (auto simp: fail_attempt_def holds_def split: prod.splits sum.splits)

lemma P_confirm:
  assumes "P w"
  shows "holds P (confirm_attempt L (handle_mcu_frame L) nonce w)"
proof -
  define v where "v = (if hs_fsm_state w = SYNCING then set_fsm_state CONFIRMING w else w)"
  obtain ok u where u: "wait_for_link_sync_confirmation L (handle_mcu_frame L) v = (ok, u)" by fastforce
  have "P v" using assms by (simp add: v_def)
  then have "P u" using u P_pause by (auto simp: wait_for_link_sync_confirmation_def Let_def split: if_splits)
  then show ?thesis
    using assms u by (auto simp: confirm_attempt_def Let_def v_def [symmetric] P_fail_attempt split: prod.splits)
qed

lemma P_sync_attempt:
  assumes "P w"
  shows "holds P (synchronize_attempt L (handle_mcu_frame L) w)"
proof -
  obtain nonce w1 where n: "next_rnd HANDSHAKE_NONCE_LENGTH ((set_fsm_state RESETTING w)\<lparr>link_sync_event := False\<rparr>)
      = (nonce, w1)" by fastforce
  have w1: "P w1" using P_next_rnd [OF n] assms by simp
  obtain r w3 where s: "send_raw L 70 (PMsg (serial_timing (tp_config w1))) None
      (w1\<lparr>link_handshake_nonce := Some nonce, link_nonce_length := 16,
        link_expected_tag := Some (calculate_handshake_tag L (serial_shared_secret (tp_config w1)) nonce)\<rparr>) = (r, w3)"
    by fastforce
  have w3: "P w3" using P_send_raw_dest [OF s] w1 by simp
  define w4 where "w4 = take_pause L (handle_mcu_frame L) (set_fsm_state SYNCING (take_pause L (handle_mcu_frame L) w3))"
  have w4: "P w4" using w3 by (simp add: w4_def P_pause)
  obtain r' w5 where s': "send_raw L 68 (PMsg (LinkSync nonce
      (calculate_handshake_tag L (serial_shared_secret (tp_config w1)) nonce))) None w4 = (r', w5)" by fastforce
  have w5: "P w5" using P_send_raw_dest [OF s'] w4 .
  show ?thesis
    using s s' n w3 w5
    by (cases r; cases r')
      (auto simp: synchronize_attempt_def Let_def w4_def [symmetric] P_fail_attempt P_confirm P_pause
        split: bool.split)
qed

lemma P_sync_loop: "P w \<Longrightarrow> holds P (synchronize_loop L (handle_mcu_frame L) n w)"
proof (induction n arbitrary: w)
  case (Suc n)
  from P_sync_attempt [OF P_start [OF Suc.prems], of L] show ?case
    using Suc.IH P_pause by (auto simp: holds_def split: prod.splits sum.splits bool.splits)
qed simp

lemma P_connected: "P w \<Longrightarrow> holds P (on_serial_connected L w)"
  by (auto simp: on_serial_connected_def synchronize_def intro!: holds_bind P_sync_loop P_version P_flush)

lemma P_disconnected: "P (on_serial_disconnected w) = P w"
  by (simp add: on_serial_disconnected_def reset_transport_def Let_def)

lemma P_negotiate_session: "P w \<Longrightarrow> holds P (negotiate_session L fs w)"
  using P_negotiate [of L "serial_baud (tp_config w)" fs w]
  by (auto simp: negotiate_session_def split: prod.splits bool.splits)

lemma P_run_session:
  assumes "P w"
  shows "holds P (run_session L s w)"
proof -
  obtain r w1 where b: "bindr (negotiate_session L (ses_negotiation s) w) (\<lambda>_ w. on_serial_connected L w) = (r, w1)"
    by fastforce
  have "holds P (r, w1)" unfolding b [symmetric] by (intro holds_bind P_negotiate_session P_connected assms)
  then have w1: "P w1" by simp
  have "holds P (read_loop L (handle_mcu_frame L) (ses_reads s) w1)"
    by (rule P_read_loop) (simp_all add: P_frame w1)
  then show ?thesis using w1 b
    by (auto simp: run_session_def holds_def P_disconnected split: sum.splits prod.splits)
qed

lemma P_connect_and_run: "P w \<Longrightarrow> holds P (connect_and_run L s w)"
  using P_run_session [of "open_port w" L s]
  by (auto simp: connect_and_run_def open_port_def close_port_def holds_def split: prod.splits)

lemma P_session_loop: "P w \<Longrightarrow> holds P (session_loop L b evs w)"
proof (induction L b evs w rule: session_loop.induct)
  case (5 L b evs w)
  have "holds P (cloud_incoming_worker L w)" unfolding cloud_incoming_worker_def by (rule P_worker) (rule 5)
  then show ?case using 5 by (auto simp: holds_def split: prod.splits sum.splits)
qed simp_all

lemma P_flush_spool: "P w \<Longrightarrow> holds P (flush_cloud_spool L w)"
  using core_cloud [OF flush_only] core_cong by (metis holds_def prod.collapse)

lemma P_cloud_event: "P w \<Longrightarrow> holds P (send_cloud_event a b c w)"
  by (auto simp: send_cloud_event_def next_send_def split: list.splits sum.splits prod.splits)

lemma P_session_body:
  assumes "P w"
  shows "P (snd (session_body L evs w))"
proof -
  obtain r w1 where e: "bindr (send_cloud_event ''status_online'' ''info'' ''Device online'' w)
      (\<lambda>_ w. flush_cloud_spool L w) = (r, w1)" by fastforce
  have "holds P (r, w1)" unfolding e [symmetric] by (intro holds_bind P_cloud_event P_flush_spool assms)
  then have w1: "P w1" by simp
  have "holds P (session_loop L False evs w1)" by (rule P_session_loop [OF w1])
  then show ?thesis using e w1 by (auto simp: session_body_def holds_def split: sum.splits prod.splits)
qed

lemma P_cloud_session: "P w \<Longrightarrow> P (snd (connect_cloud_session L s w))"
  using P_session_body [of "w\<lparr>sv_connected_via_http3 := cloud_http3_enabled (tp_config w), sv_cloud_stream := True\<rparr>"
      L "cs_events s"]
  by (auto simp: connect_cloud_session_def Let_def split: sum.split prod.split session_end.split)

lemma P_ipc: "P w \<Longrightarrow> holds P (ipc_publish L alive m w)"
proof -
  assume p: "P w"
  obtain c w0 where n: "next_rnd 12 w = (c, w0)" by fastforce
  have w0: "P w0" using P_next_rnd [OF n p] .
  have r: "P v'" if "handle_request L x v = (q, v')" "P v" for x v q v'
    using P_request [OF that(2), of L x] that(1) by simp
  have a: "P v'" if "ipc_await L alive d v = (q, v')" "P v" for d v q v'
    using that P_pause by (auto simp: ipc_await_def Let_def split: if_splits)
  show ?thesis
    using p w0 n
    by (cases "cp_correlation_data m")
      (auto simp: ipc_publish_def ipc_forget_def holds_def split: prod.splits sum.splits if_splits dest!: r dest: a)
qed

end

section \<open>Steps of the running service\<close>

text \<open>What can happen next to a running service: a frame or a request is handled, a local client
  publishes, a serial or a cloud session runs, a monitor task goes on, a child process writes or ends, or
  the outside world changes.\<close>

inductive bridge_step :: "lib \<Rightarrow> bridge \<Rightarrow> bridge \<Rightarrow> bool" for L where
  step_frame: "bridge_step L w (snd (handle_mcu_frame L c q p w))"
| step_request: "bridge_step L w (snd (handle_request L x w))"
| step_worker: "bridge_step L w (snd (cloud_incoming_worker L w))"
| step_client: "bridge_step L w (snd (ipc_publish L alive m w))"
| step_serial: "bridge_step L w (snd (connect_and_run L s w))"
| step_cloud: "bridge_step L w (snd (connect_cloud_session L s w))"
| step_monitor_wakes: "bridge_step L w (monitor_woken m x w)"
| step_monitor_ends: "bridge_step L w (monitor_end m w)"
| step_child: "bridge_step L w (set_process pid os (\<lambda>p. p\<lparr>pc_returncode := rc, pc_stdout := out, pc_stderr := err,
      pc_streams_open := opened\<rparr>) w)"
| step_world: "bridge_step L w (w\<lparr>now_unix := a, now_mono := b, db_faults := fs, link_writes := ws, link_waits := ls,
      link_rnd := rs, stream_sends := ss, uart_ok := u, hs_pauses := zs, sv_fs_ops := os, sv_disk := d, sv_spawns := ps, sv_kills := ks\<rparr>)"

definition bridge_reachable :: "lib \<Rightarrow> bridge \<Rightarrow> bridge \<Rightarrow> bool" where
  "bridge_reachable L = (bridge_step L)\<^sup>*\<^sup>*"

text \<open>The operations of a running service keep what its handlers keep, given the same of monitors and
  children.\<close>

locale running_invariant = session_invariant +
  assumes P_monitor_end: "P w \<Longrightarrow> P (monitor_end m w)"
    and P_set_process: "P w \<Longrightarrow> P (set_process pid os f w)"
begin

lemma P_monitor_woken: "P w \<Longrightarrow> P (monitor_woken m x w)"
proof (cases x)
  case TimedOut
  assume p: "P w"
  have "P w'" if "terminate_process q w = (r, q', w')" for q r q' w'
    using p by (rule core_cong [OF terminate_core [OF that]])
  then show ?thesis using p TimedOut
    by (auto simp: monitor_woken_def P_monitor_end P_set_process split: option.split prod.splits sum.split)
qed (simp add: monitor_woken_def P_set_process)

lemma P_step: "bridge_step L w w' \<Longrightarrow> P w \<Longrightarrow> P w'"
proof (induction rule: bridge_step.induct)
  case (step_frame w c q p) then show ?case using P_frame by (metis holds_def)
next
  case (step_request w x) then show ?case using P_request by (metis holds_def)
next
  case (step_worker w) then show ?case using P_worker by (metis holds_def cloud_incoming_worker_def)
next
  case (step_client w alive m) then show ?case using P_ipc by (metis holds_def)
next
  case (step_serial w s) then show ?case using P_connect_and_run by (metis holds_def)
qed (simp_all add: P_cloud_session P_monitor_woken P_monitor_end P_set_process)

lemma P_reachable: "bridge_reachable L w w' \<Longrightarrow> P w \<Longrightarrow> P w'"
  unfolding bridge_reachable_def by (induction rule: rtranclp_induct) (auto intro: P_step)

end

interpretation pool_running: running_invariant "pool_within k" for k
proof unfold_locales
  show "pool_within k (start_attempt w)" if "pool_within k w" for w
    using that by (simp add: pool_within_def start_attempt_def set_fsm_state_def mark_transport_connected_def Let_def)
  show "pool_within k (monitor_end m w)" if "pool_within k w" for m w
    unfolding monitor_end_def using that by (intro pool_pop) (simp add: pool_within_def)
qed (rule pool_set)

interpretation sandbox_running: running_invariant "sandboxed w0" for w0
proof unfold_locales
  show "sandboxed w0 (start_attempt w)" if "sandboxed w0 w" for w
    using that by (simp add: sandboxed_def start_attempt_def set_fsm_state_def mark_transport_connected_def Let_def)
qed (simp_all add: monitor_end_def)

text \<open>The supervised cloud link: an \<open>ExceptionGroup\<close> is an exception like any other to the supervisor.\<close>

definition cloud_link ::
  "lib \<Rightarrow> ssl_context option result \<Rightarrow> cloud_session list \<Rightarrow> bridge \<Rightarrow> unit result \<times> bridge" where
  "cloud_link L tls sessions w =
    (case run_cloud L tls sessions w of
       (Closed, w) \<Rightarrow> (Inr (), w)
     | (Raised e, w) \<Rightarrow> (Inl e, w)
     | (RaisedGroup e, w) \<Rightarrow> (Inl RuntimeError, w)
     | (Waiting, w) \<Rightarrow> (Inl Suspended, w))"

lemma supervise_returns:
  "factory w = (Inr u, w') \<Longrightarrow> supervise name factory fatal m w = Some (Inr u, w')"
  by (simp add: supervise_def supervise_loop.simps)

text \<open>A session that ends without an exception is the end of the supervised link: neither \<open>run_cloud\<close> nor its supervisor,
  which only react to exceptions, connects again. An exception of \<open>grpclib\<close> is not retried by \<open>run_cloud\<close>; it is the
  supervisor that starts the link anew.\<close>

lemma cloud_link_ends:
  assumes "cloud_enabled (tp_config w)"
  shows "connect_cloud_session L s w = (Closed, w') \<Longrightarrow>
      supervise ''cloud-link'' (cloud_link L (Inr ctx) (s # later)) fatal None w = Some (Inr (), w')"
    and "connect_cloud_session L s w = (Raised GrpcError, w') \<Longrightarrow> cloud_link L (Inr ctx) (s # later) w = (Inl GrpcError, w')"
proof -
  show "supervise ''cloud-link'' (cloud_link L (Inr ctx) (s # later)) fatal None w = Some (Inr (), w')"
    if "connect_cloud_session L s w = (Closed, w')"
    using that assms by (intro supervise_returns) (simp add: cloud_link_def run_cloud_def)
qed (use assms in \<open>simp add: cloud_link_def run_cloud_def\<close>)

lemma resolve_request_fields:
  "cp_payload (resolve_cloud_context m ctx) = cp_payload m"
  "cp_correlation_data (resolve_cloud_context m (Some r)) =
     (case br_correlation_data r of None \<Rightarrow> cp_correlation_data m | Some c \<Rightarrow> Some c)"
  by (auto simp: resolve_cloud_context_def Let_def split: option.splits)

lemma enqueue_local:
  assumes "br_correlation_data r = Some c" "c \<noteq> []" "map_of (sv_ipc_requests w) c = Some []"
  shows "enqueue_cloud L m (Some r) w =
    (Inr (), w\<lparr>sv_ipc_requests := AList.update c [resolve_cloud_context m (Some r)] (sv_ipc_requests w)\<rparr>)"
  using assms by (cases c) (simp_all add: enqueue_cloud_def ipc_queue_def resolve_request_fields)

lemma datastore_get_file:
  assumes "datastore_cache w = Some d" "\<not> in_memory (sc_path d)" "db_faults w = []"
  shows "datastore_get key dflt w = ((case sc_rows d key of Some v \<Rightarrow> Some v | None \<Rightarrow> dflt), w)"
  using assms by (simp add: datastore_get_def next_fault_def sc_get_def sc_execute_def sc_connect_def Let_def)

lemma bridge_reachable_refl: "bridge_reachable L w w"
  by (simp add: bridge_reachable_def)


text \<open>A small concrete service.\<close>

definition sample_host :: host where
  "sample_host = \<lparr>ho_resolve = Inr, ho_files = Map.empty, ho_dirs = (\<lambda>_. False), ho_fs_ops = [], ho_disk = None,
     ho_spawns = [], ho_kills = [], ho_pauses = [], ho_db_error = [], ho_spool_rows = [],
     ho_spool_mkdir = True, ho_spool_ok = True,
     ho_msg_text = (\<lambda>_. [])\<rparr>"

definition sample_base :: transport where
  "sample_base = sample_transport\<lparr>tp_config := empty_config\<lparr>file_system_root := ''/tmp/r'', cloud_enabled := True\<rparr>,
     st_process_max_concurrent := 1, cloud_topic_prefix := ''br'', tp_serial := False\<rparr>"

lemma sample_base_fields [simp]:
  "running_processes sample_base = []" "tp_serial sample_base = False" "cloud_topic_prefix sample_base = ''br''"
  "db_faults sample_base = []" "stream_sends sample_base = []" "st_process_max_concurrent sample_base = 1"
  "tp_config sample_base = empty_config\<lparr>file_system_root := ''/tmp/r'', cloud_enabled := True\<rparr>"
  "cloud_publish_queue sample_base = []" "link_phase sample_base = Disconnected" "tp_negotiating sample_base = False"
  "link_writes sample_base = []"
  by (simp_all add: sample_base_def sample_transport_def SerialTransport_def sample_state_def create_runtime_state_def
      configure_def sample_env_def runtime_state.defs Let_def)

definition sample_bridge :: bridge where
  "sample_bridge = projr (BridgeService sample_host sample_base)"

lemma sample_starts: "BridgeService sample_host sample_base = Inr sample_bridge"
  by (simp add: sample_bridge_def BridgeService_def service_spool_def derive_serial_timing_def mk_msg_def serial_timing_def
      empty_config_def uint32_ok_def py_round_def Let_def)

lemma BridgeService_fields:
  assumes "BridgeService h t = Inr w"
  shows "sv_serial w" "sv_process_slots w = st_process_max_concurrent t" "running_processes w = running_processes t"
    "sv_resolve w = ho_resolve h" "sv_files w = ho_files h" "sv_fs_ops w = ho_fs_ops h" "sv_disk w = ho_disk h"
    "tp_serial w = tp_serial t" "sv_ipc_requests w = []" "cloud_topic_prefix w = cloud_topic_prefix t"
    "db_faults w = db_faults t" "tp_config w = tp_config t" "stream_sends w = stream_sends t"
    "st_process_max_concurrent w = st_process_max_concurrent t" "cloud_publish_queue w = cloud_publish_queue t"
    "cloud_spool_dir (tp_config t) = [] \<Longrightarrow> sv_cloud_spool w = None" "link_phase w = link_phase t"
    "tp_negotiating w = tp_negotiating t" "link_writes w = link_writes t"
  using assms
  by (auto simp: BridgeService_def service_spool_def transport.defs handshake.defs cloud_service.defs split: sum.splits)

lemmas sample_bridge_fields [simp] =
  BridgeService_fields [OF sample_starts, unfolded sample_base_fields sample_host_def, simplified]

lemma sample_bridge_config [simp]: "file_system_root (tp_config sample_bridge) = ''/tmp/r''" "cloud_enabled (tp_config sample_bridge)"
  by simp_all

text \<open>A child that ended by a signal cannot be polled: its negative exit code does not fit the response, so
  the poll raises \<open>ValueError\<close>, after the entry may already have been removed.\<close>

lemma poll_signalled_child:
  assumes "map_of (running_processes w) pid = Some p" "pc_exit_code p < 0"
  shows "fst (poll_process pid w) = Inl ValueError"
  using assms by (auto simp: poll_process_def mk_msg_def uint32_ok_def Let_def split: prod.splits)

text \<open>\<open>_monitor_process\<close> gives a child that exceeded its time such a code.\<close>

lemma timed_out_child_unpollable:
  assumes "map_of (running_processes w) pid = Some p" "pc_os_pid p = os" "pc_returncode p = None" "sv_kills w = []"
    and "distinct (map fst (running_processes w))"
  shows "fst (poll_process pid (monitor_woken (pid, os) TimedOut w)) = Inl ValueError"
proof -
  have t: "terminate_process p w = (Inr (- 15), p\<lparr>pc_returncode := Some (- 15)\<rparr>, w)"
    using assms(3,4) by (simp add: terminate_process_def next_kill_def)
  let ?q = "p\<lparr>pc_returncode := Some (- 15), pc_exit_code := - 15\<rparr>"
  have "map_of (map (\<lambda>(k, p). if k = pid \<and> pc_os_pid p = os then (k, ?q) else (k, p)) xs) pid = Some ?q"
    if "map_of xs pid = Some p" for xs
    using that assms(2) by (induction xs) (auto split: if_splits)
  then have "map_of (running_processes (monitor_woken (pid, os) TimedOut w)) pid = Some ?q"
    using assms(1,2) t by (simp add: monitor_woken_def set_process_def)
  then show ?thesis by (rule poll_signalled_child) simp
qed

text \<open>When the read task dies of an exception that \<open>_read_loop\<close> does not catch, awaiting it raises the
  exception again before \<open>on_serial_disconnected\<close>: the port is closed, but the link still counts as
  synchronised.\<close>

lemma failed_reader_skips_disconnect:
  assumes "ses_opens s" "e \<noteq> Suspended"
    and "bindr (negotiate_session L (ses_negotiation s) (open_port w)) (\<lambda>_ w. on_serial_connected L w) = (Inr (), w1)"
    and "read_loop L (handle_mcu_frame L) (ses_reads s) w1 = (Inl e, w2)" "is_synchronized w2"
  shows "connect_and_run L s w = (Inl e, close_port w2) \<and> is_synchronized (close_port w2)"
  using assms by (simp add: connect_and_run_def run_session_def close_port_def is_synchronized_def)

text \<open>A frame whose payload does not parse as the message of its command is such an exception.\<close>

lemma undecodable_payload_escapes:
  assumes "sv_serial w" "is_synchronized w" "map_of (mcu_registry L) c = Some h"
    and "map_of command_to_pb c = Some cls" "parse_as L cls b = None"
  shows "handle_mcu_frame L c q (PBytes b) w = (Inl DecodeError, w) \<and> \<not> read_loop_catches DecodeError"
  using assms by (simp add: handle_mcu_frame_def frame_admitted_def decode_command_def read_loop_catches_def)

text \<open>With a bound on the restarts a supervised task always ends.\<close>

lemma supervise_loop_bounded:
  "n < m \<Longrightarrow> \<exists>x. supervise_loop factory fatal name (Some m) n w = Some x"
proof (induction "m - n" arbitrary: n w)
  case (Suc d)
  obtain r v where f: "factory w = (r, v)" by fastforce
  show ?case
  proof (cases "Suc n = m")
    case True
    then show ?thesis by (subst supervise_loop.simps) (auto simp: f split: sum.split)
  next
    case False
    then have "\<exists>x. supervise_loop factory fatal name (Some m) (Suc n) (count_retry name v) = Some x"
      using Suc.hyps(1) [of "Suc n"] Suc.hyps(2) Suc.prems by simp
    then show ?thesis by (subst supervise_loop.simps) (auto simp: f split: sum.split)
  qed
qed simp

lemma supervise_bounded: "0 < m \<Longrightarrow> \<exists>x. supervise name factory fatal (Some m) w = Some x"
  using supervise_loop_bounded [of 0 m] by (simp add: supervise_def)

text \<open>Without a bound, a task whose failures keep a state from which it fails again is restarted for ever.\<close>

lemma supervise_loop_diverges:
  assumes step: "\<And>w. I w \<Longrightarrow> \<exists>e w'. factory w = (Inl e, w') \<and> e \<noteq> Suspended \<and> \<not> fatal e \<and> I (count_retry name w')"
    and start: "I w"
  shows "supervise_loop factory fatal name None n w = None"
proof -
  have "f = factory \<and> g = fatal \<and> m = name \<and> l = None \<and> I w \<longrightarrow> False"
    if "supervise_loop f g m l n w = Some y" for f g m l n w y
  proof (rule supervise_loop.raw_induct [OF _ that], intro impI)
    fix loop f g m l n w y
    assume ih: "\<And>f g m l n w y. loop f g m l n w = Some y
        \<Longrightarrow> f = factory \<and> g = fatal \<and> m = name \<and> l = None \<and> I w \<longrightarrow> False"
      and body: "(case f w of
          (Inl e, w) \<Rightarrow> if e = Suspended \<or> g e then Some (Inl e, w)
            else if l = Some (Suc n) then Some (Inl e, count_retry m w) else loop f g m l (Suc n) (count_retry m w)
        | (Inr u, w) \<Rightarrow> Some (Inr u, w)) = Some y"
      and now: "f = factory \<and> g = fatal \<and> m = name \<and> l = None \<and> I w"
    obtain e w' where "factory w = (Inl e, w')" "e \<noteq> Suspended" "\<not> fatal e" "I (count_retry name w')"
      using step now by blast
    then show False using ih [of factory fatal name None "Suc n" "count_retry name w'" y] body now by simp
  qed
  then show ?thesis using start by (metis not_Some_eq)
qed

text \<open>A pin request that could not be sent stays queued, so the next response, to a later request for
  another pin, is published as the value of the first.\<close>

lemma unsent_pin_read_misattributed:
  assumes "tp_serial w = False" "0 < st_pending_pin_request_limit w" "pending_digital_reads w = []"
    and "uint32_ok pin"
  shows "pin_read L DIGITAL pin r w = (Inr (), w\<lparr>pending_digital_reads := [\<lparr>pp_pin = pin, pp_reply_context = Some r\<rparr>]\<rparr>)"
    and "on_mcu_digital_read_resp L p (w\<lparr>pending_digital_reads := \<lparr>pp_pin = pin, pp_reply_context = Some r\<rparr> # rs\<rparr>)
       = publish_pin L DIGITAL p (Some \<lparr>pp_pin = pin, pp_reply_context = Some r\<rparr>) (w\<lparr>pending_digital_reads := rs\<rparr>)"
  using assms by (simp_all add: pin_read_def send_msg_def mk_msg_def send_def on_mcu_digital_read_resp_def)

section \<open>Properties\<close>

text \<open>C2 (invariant). Whatever frames, requests, clients, sessions, timeouts and child processes do, in any
  order, the service never tracks more children than \<open>process_max_concurrent\<close>, and the semaphore is never
  released more often than it was acquired.\<close>

theorem process_pool_bounded:
  assumes "BridgeService h t = Inr w0" "running_processes t = []" "0 \<le> st_process_max_concurrent t"
    and "bridge_reachable L w0 w"
  shows "0 \<le> sv_process_slots w
     \<and> sv_process_slots w + int (length (running_processes w)) \<le> st_process_max_concurrent t"
proof -
  have "pool_within (st_process_max_concurrent t) w0"
    using assms(1-3)
    by (auto simp: BridgeService_def pool_within_def handshake.defs cloud_service.defs transport.defs split: sum.splits)
  then show ?thesis
    using pool_running.P_reachable [OF assms(4)] by (auto simp: pool_within_def)
qed

theorem process_pool_bounded_witness:
  "0 \<le> sv_process_slots sample_bridge
     \<and> sv_process_slots sample_bridge + int (length (running_processes sample_bridge)) \<le> 1"
  using process_pool_bounded [OF sample_starts _ _ bridge_reachable_refl [of model_lib]]
  by simp

text \<open>C37 (error). A command with an unbalanced quote costs a slot that never comes back: the slot is taken
  before \<open>shlex.split\<close> raises, only \<open>OSError\<close> gives it back, and nothing that happens later does. When it was
  the last one, every further command waits for ever.\<close>

theorem unbalanced_quote_leaks_slot:
  assumes "pool_within k w" "0 < sv_process_slots w"
    and "is_command_allowed (st_allowed_policy w) command" "shlex_split command = Inl e"
  shows "run_process command w = (Inl e, w\<lparr>sv_process_slots := sv_process_slots w - 1\<rparr>)
     \<and> (\<forall>w'. bridge_reachable L (snd (run_process command w)) w' \<longrightarrow>
          sv_process_slots w' + int (length (running_processes w')) \<le> k - 1
          \<and> (k = 1 \<and> is_command_allowed (st_allowed_policy w') other
               \<longrightarrow> run_process other w' = (Inl Suspended, w')))"
proof (intro conjI allI impI)
  show r: "run_process command w = (Inl e, w\<lparr>sv_process_slots := sv_process_slots w - 1\<rparr>)"
    using assms by (simp add: run_process_def Let_def)
  fix w' assume "bridge_reachable L (snd (run_process command w)) w'"
  moreover have "pool_within (k - 1) (snd (run_process command w))"
    using assms(1,2) by (simp add: r pool_within_def)
  ultimately have p: "pool_within (k - 1) w'" using pool_running.P_reachable by blast
  then show "sv_process_slots w' + int (length (running_processes w')) \<le> k - 1" by (simp add: pool_within_def)
  assume "k = 1 \<and> is_command_allowed (st_allowed_policy w') other"
  then show "run_process other w' = (Inl Suspended, w')" using p by (auto simp: pool_within_def run_process_def)
qed

theorem unbalanced_quote_leaks_slot_witness:
  "run_process [CHR 0x27] (sample_bridge\<lparr>st_allowed_policy := [''*'']\<rparr>) =
     (Inl ValueError, sample_bridge\<lparr>st_allowed_policy := [''*''], sv_process_slots := 0\<rparr>)
   \<and> run_process ''ls'' (sample_bridge\<lparr>st_allowed_policy := [''*''], sv_process_slots := 0\<rparr>) =
     (Inl Suspended, sample_bridge\<lparr>st_allowed_policy := [''*''], sv_process_slots := 0\<rparr>)"
proof -
  let ?w = "sample_bridge\<lparr>st_allowed_policy := [''*'']\<rparr>"
  have a: "is_command_allowed [''*''] [CHR 0x27]" "is_command_allowed [''*''] ''ls''"
    by (simp_all add: is_command_allowed_def py_split_ws_def py_strip_def strip_chars_def is_space_def
        ALLOWED_COMMAND_WILDCARD_def)
  have "pool_within 1 ?w" by (simp add: pool_within_def)
  moreover have "shlex_split [CHR 0x27] = Inl ValueError" by (simp add: shlex_split_def shlex_space_def shlex_quote_def)
  ultimately show ?thesis
    using unbalanced_quote_leaks_slot [of 1 ?w "[CHR 0x27]" ValueError model_lib "''ls''"] a
      bridge_reachable_refl [of model_lib]
    by simp
qed



text \<open>C20 (functional). A local client is answered: its datastore query goes through parsing, authorisation
  and the cache, and the value comes back to it under its own correlation data; nothing of it reaches the
  cloud stream or the spool, and its registration is gone afterwards.\<close>

theorem local_query_answered:
  assumes "cp_correlation_data m = Some c" "c \<noteq> []"
    and "parse_topic (cloud_topic_prefix w) (cp_topic_name m) = Some route"
    and "tr_topic route = DATASTORE" "tr_segments route = ''get'' # k # ks" "py_join [slash] (k # ks) \<noteq> []"
    and "authorised route w"
    and "datastore_cache w = Some d" "\<not> in_memory (sc_path d)" "db_faults w = []"
    and "sc_rows d (py_join [slash] (k # ks)) = Some v"
  shows "\<exists>reply w'. ipc_publish L True m w = (Inr (Some reply), w') \<and> cp_payload reply = v
     \<and> cp_correlation_data reply = Some c \<and> map_of (sv_ipc_requests w') c = None
     \<and> sv_sent w' = sv_sent w \<and> sv_cloud_spool w' = sv_cloud_spool w
     \<and> cloud_dropped_messages w' = cloud_dropped_messages w"
proof -
  let ?w = "w\<lparr>sv_ipc_requests := AList.update c [] (sv_ipc_requests w)\<rparr>"
  let ?key = "py_join [slash] (k # ks)"
  have a: "authorised route ?w" using assms(7) by (simp add: authorised_def split: option.splits)
  have g: "datastore_get ?key None ?w = (Some v, ?w)"
    using assms(8-11) by (simp add: datastore_get_file)
  have l: "await_link L route ?w = ?w" using assms(4) by (simp add: await_link_def)
  have r: "remainder route = k # ks" "route_identifier route = ''get''"
    using assms(5) by (simp_all add: remainder_def route_identifier_def)
  define msg where "msg = create_queued_publish
     (cloud_path DATASTORE (''get'' # filter (\<lambda>s. s \<noteq> []) (py_split slash ?key)) ?w) v None (Some 60)
     [(''bridge-datastore-key'', ?key)]"
  define reply where "reply = resolve_cloud_context msg (Some (ipc_request m c))"
  have q: "handle_request L (Request (ipc_request m c)) ?w =
      (Inr (), ?w\<lparr>sv_ipc_requests := AList.update c [reply] (sv_ipc_requests ?w)\<rparr>)"
    using assms(3,4,6) a l r g enqueue_local [of "ipc_request m c" c ?w L msg] assms(2)
    by (simp add: handle_request_def Let_def request_of_def ipc_request_def dispatch_request_def handle_datastore_def
        publish_datastore_value_def msg_def reply_def update_conv)
  have "cp_payload reply = v" "cp_correlation_data reply = Some c"
    by (simp_all add: reply_def resolve_request_fields msg_def create_queued_publish_def ipc_request_def)
  then show ?thesis
    using q assms(1)
    by (simp add: ipc_publish_def ipc_await_def ipc_pending_def ipc_forget_def update_conv delete_conv Let_def)
qed

theorem local_query_answered_witness:
  "\<exists>reply w'. ipc_publish model_lib True ((create_queued_publish ''br/datastore/get/k'' [] None None [])\<lparr>cp_correlation_data := Some [1]\<rparr>)
       (sample_bridge\<lparr>st_topic_authorization := Some (\<lambda>_. True),
          datastore_cache := Some \<lparr>sc_path = ''/tmp/d.db'', sc_rows = [''k'' \<mapsto> [42]]\<rparr>\<rparr>) = (Inr (Some reply), w')
     \<and> cp_payload reply = [42] \<and> cp_correlation_data reply = Some [1]"
proof -
  let ?m = "(create_queued_publish ''br/datastore/get/k'' [] None None [])\<lparr>cp_correlation_data := Some [1]\<rparr>"
  let ?w = "sample_bridge\<lparr>st_topic_authorization := Some (\<lambda>_. True),
          datastore_cache := Some \<lparr>sc_path = ''/tmp/d.db'', sc_rows = [''k'' \<mapsto> [42]]\<rparr>\<rparr>"
  let ?r = "\<lparr>tr_raw = ''br/datastore/get/k'', tr_prefix = ''br'', tr_topic = DATASTORE, tr_segments = [''get'', ''k'']\<rparr>"
  have "parse_topic ''br'' ''br/datastore/get/k'' = Some ?r"
    by (simp add: parse_topic_def nonempty_segs_def slash_def Topic_def topics_def Let_def)
  moreover have "authorised ?r ?w"
    by (simp add: authorised_def deduce_action_def route_identifier_def allows_topic_def topic_auth_mapping_eval
        py_lower_def to_lower_def char_of_eq_iff)
  ultimately show ?thesis
    using local_query_answered [of ?m "[1]" ?w ?r "''k''" "[]" "\<lparr>sc_path = ''/tmp/d.db'', sc_rows = [''k'' \<mapsto> [42]]\<rparr>" "[42]" model_lib]
    by (auto simp: create_queued_publish_def in_memory_def)
qed

text \<open>C14 (liveness). The handshake completes with a peer that knows the secret: when the service has its transport,
  the port takes the frames and a correct \<open>LINK_SYNC_RESP\<close> arrives after \<open>LINK_SYNC\<close>, the first attempt succeeds
  through the service's own dispatcher, and both sides can derive the same session key from the nonce.\<close>

theorem synchronize_with_honest_peer:
  assumes lib: "mac_ok L"
    and secret: "serial_shared_secret (tp_config w) \<noteq> []" "serial_handshake_min_interval (tp_config w) \<le> 0"
    and w: "tp_serial w" "link_writes w = []" "\<not> is_synchronized w" "\<not> tp_negotiating w" "sv_serial w"
    and script: "link_rnd w = [nonce]" "length nonce = 16" "hs_pauses w = [z1, z2, z3]"
      "pz_packets z1 = []" "pz_packets z2 = []" "pz_packets z3 = [b]" "b \<noteq> []"
    and frame: "cobs_dec L b = Some raw" "ev_command_id e = 69" "parse_frame L raw None = Inr (e, PMsg (LinkSync nonce
        (calculate_handshake_tag L (serial_shared_secret (tp_config w)) nonce)))"
  shows "\<exists>w'. synchronize L (handle_mcu_frame L) w = (Inr True, w') \<and> is_synchronized w' \<and> hs_fsm_state w' = SYNCHRONIZED
    \<and> link_session_key w' = Some (calculate_session_key L (serial_shared_secret (tp_config w)) nonce)"
  using dispatcher.answered_attempt [OF assms] by blast

text \<open>A state and a response for the witnesses.\<close>

definition sample_connecting :: "bytes \<Rightarrow> bridge" where
  "sample_connecting b = sample_bridge\<lparr>tp_serial := True, tp_config := (tp_config sample_bridge)\<lparr>serial_shared_secret := [1]\<rparr>,
     link_rnd := [replicate 16 7], hs_pauses := [\<lparr>pz_packets = [], pz_unix = 1, pz_mono = 1\<rparr>,
       \<lparr>pz_packets = [], pz_unix = 1, pz_mono = 1\<rparr>, \<lparr>pz_packets = [b], pz_unix = 2, pz_mono = 2\<rparr>]\<rparr>"

lemma sample_connecting_fields [simp]:
  "serial_shared_secret (tp_config (sample_connecting b)) = [1]" "serial_handshake_min_interval (tp_config (sample_connecting b)) = 0"
  "tp_serial (sample_connecting b)" "link_writes (sample_connecting b) = []" "\<not> is_synchronized (sample_connecting b)"
  "\<not> tp_negotiating (sample_connecting b)" "sv_serial (sample_connecting b)" "link_rnd (sample_connecting b) = [replicate 16 7]"
  by (simp_all add: sample_connecting_def is_synchronized_def empty_config_def)

lemma sample_response:
  "\<exists>b raw e. b \<noteq> [] \<and> cobs_dec model_lib b = Some raw \<and> ev_command_id e = 69
    \<and> parse_frame model_lib raw None = Inr (e, PMsg (LinkSync (replicate 16 7) (sample_tag (replicate 16 7))))"
proof -
  let ?n = "replicate 16 7 :: bytes"
  obtain raw where raw: "build_frame model_lib 69 1 (PMsg (LinkSync ?n (sample_tag ?n))) (Some (replicate 12 0)) None = Inr raw"
    by (cases "''LinkSync'' \<in> set payload_field_map")
      (auto simp: build_frame_def seal_payload_def key_set_def uint32_ok_def Let_def)
  obtain p where p: "parse_frame model_lib raw None = Inr (\<lparr>ev_version = 2, ev_command_id = 69, ev_sequence_id = 1,
      ev_nonce = replicate 12 0, ev_payload = p\<rparr>, PMsg (LinkSync ?n (sample_tag ?n)))"
    using build_parse_frame [OF model_lib_ok(1,2) _ _ raw] by (auto simp: delivered_def key_set_def representable_msg_def)
  have "cobs_enc model_lib raw \<noteq> []" "cobs_dec model_lib (cobs_enc model_lib raw) = Some raw"
    using model_lib_ok(3) by (simp_all add: cobs_ok_def) (simp add: model_lib_def index_bytes_def)
  with p show ?thesis by fastforce
qed

theorem synchronize_with_honest_peer_witness:
  "\<exists>b w'. synchronize model_lib (handle_mcu_frame model_lib) (sample_connecting b) = (Inr True, w') \<and> is_synchronized w'"
proof -
  obtain b raw e where "b \<noteq> []" "cobs_dec model_lib b = Some raw" "ev_command_id e = 69"
    "parse_frame model_lib raw None = Inr (e, PMsg (LinkSync (replicate 16 7) (sample_tag (replicate 16 7))))"
    using sample_response by blast
  then have "\<exists>w'. synchronize model_lib (handle_mcu_frame model_lib) (sample_connecting b) = (Inr True, w')
     \<and> is_synchronized w' \<and> hs_fsm_state w' = SYNCHRONIZED
     \<and> link_session_key w' = Some (calculate_session_key model_lib (serial_shared_secret (tp_config (sample_connecting b)))
         (replicate 16 7))"
    by (intro synchronize_with_honest_peer [OF model_lib_ok(4), where e = e and raw = raw and b = b])
      (simp_all, simp_all add: sample_connecting_def, simp_all)
  then show ?thesis by blast
qed

text \<open>C36 (error). The tag authenticates the nonce, not its sender: the response that the manager accepts is a copy of
  its own \<open>LINK_SYNC\<close> message. The second frame that this very run writes carries the same payload as the accepted
  response, under command 68 instead of 69, so a peer that does not know the secret synchronises the link by
  sending back what it has just read.\<close>

theorem sync_reflection_accepted:
  assumes lib: "mac_ok L" and codec: "pb_ok L" "aead_ok L" "cobs_ok L"
    and secret: "serial_shared_secret (tp_config w) \<noteq> []" "serial_handshake_min_interval (tp_config w) \<le> 0"
    and w: "tp_serial w" "link_writes w = []" "\<not> is_synchronized w" "\<not> tp_negotiating w" "sv_serial w"
    and script: "link_rnd w = [nonce]" "length nonce = 16" "hs_pauses w = [z1, z2, z3]"
      "pz_packets z1 = []" "pz_packets z2 = []" "pz_packets z3 = [b]" "b \<noteq> []"
    and frame: "cobs_dec L b = Some raw" "ev_command_id e = 69" "parse_frame L raw None = Inr (e, PMsg (LinkSync nonce
        (calculate_handshake_tag L (serial_shared_secret (tp_config w)) nonce)))"
  shows "\<exists>w' p packet ps own e'. synchronize L (handle_mcu_frame L) w = (Inr True, w') \<and> is_synchronized w'
    \<and> tp_wire w' = tp_wire w @ p # (packet @ [0]) # ps
    \<and> cobs_dec L packet = Some own \<and> parse_frame L own None = Inr (e', snd (projr (parse_frame L raw None)))
    \<and> ev_command_id e' = 68"
proof -
  let ?m = "LinkSync nonce (calculate_handshake_tag L (serial_shared_secret (tp_config w)) nonce)"
  obtain w' p q own ps where r: "synchronize L (handle_mcu_frame L) w = (Inr True, w')" "is_synchronized w'"
      "tp_wire w' = tp_wire w @ p # (cobs_enc L own @ [0]) # ps"
      "build_frame L 68 q (PMsg ?m) (Some (replicate 12 0)) None = Inr own"
    using dispatcher.answered_attempt [OF lib secret w script frame] by blast
  obtain y where "parse_frame L own None = Inr (\<lparr>ev_version = 2, ev_command_id = 68, ev_sequence_id = q,
      ev_nonce = replicate 12 0, ev_payload = y\<rparr>, PMsg ?m)"
    using build_parse_frame [OF codec(1,2) _ _ r(4)] by (auto simp: delivered_def key_set_def representable_msg_def)
  moreover have "cobs_dec L (cobs_enc L own) = Some own" using codec(3) by (simp add: cobs_ok_def)
  ultimately show ?thesis
    using r(1-3) frame(3)
    by (intro exI [of _ w'] exI [of _ p] exI [of _ "cobs_enc L own"] exI [of _ ps] exI [of _ own] exI) auto
qed

theorem sync_reflection_accepted_witness:
  "\<exists>b w' p packet ps own e'. synchronize model_lib (handle_mcu_frame model_lib) (sample_connecting b) = (Inr True, w')
     \<and> tp_wire w' = tp_wire (sample_connecting b) @ p # (packet @ [0]) # ps \<and> cobs_dec model_lib packet = Some own
     \<and> parse_frame model_lib own None = Inr (e', PMsg (LinkSync (replicate 16 7) (sample_tag (replicate 16 7))))
     \<and> ev_command_id e' = 68"
proof -
  obtain b raw e where b: "b \<noteq> []" "cobs_dec model_lib b = Some raw" "ev_command_id e = 69"
    "parse_frame model_lib raw None = Inr (e, PMsg (LinkSync (replicate 16 7) (sample_tag (replicate 16 7))))"
    using sample_response by blast
  then have "\<exists>w' p packet ps own e'. synchronize model_lib (handle_mcu_frame model_lib) (sample_connecting b) = (Inr True, w')
     \<and> is_synchronized w' \<and> tp_wire w' = tp_wire (sample_connecting b) @ p # (packet @ [0]) # ps
     \<and> cobs_dec model_lib packet = Some own
     \<and> parse_frame model_lib own None = Inr (e', snd (projr (parse_frame model_lib raw None))) \<and> ev_command_id e' = 68"
    by (intro sync_reflection_accepted [OF model_lib_ok(4,1,2,3), where nonce = "replicate 16 7" and e = e and b = b])
      (simp_all, simp_all add: sample_connecting_def, simp_all)
  then show ?thesis unfolding b(4) sum.sel snd_conv by blast
qed

text \<open>C15 (bounds). Synchronising makes at least one and at most \<open>_fatal_threshold\<close> attempts, whatever arrives
  meanwhile and also when it ends in an exception: when it returns, it has succeeded in state \<open>SYNCHRONIZED\<close>, or used
  up the attempts and ended in \<open>FAULT\<close>.\<close>

theorem synchronize_outcome:
  assumes "synchronize L (handle_mcu_frame L) w = (r, w')"
  shows "handshake_attempts w < handshake_attempts w'
    \<and> handshake_attempts w' \<le> handshake_attempts w + fatal_threshold (tp_config w)
    \<and> (r = Inr True \<longrightarrow> hs_fsm_state w' = SYNCHRONIZED)
    \<and> (r = Inr False \<longrightarrow> hs_fsm_state w' = FAULT
         \<and> handshake_attempts w' = handshake_attempts w + fatal_threshold (tp_config w))"
  using assms by (rule dispatcher.outcome)

theorem synchronize_outcome_witness:
  "\<exists>b w'. synchronize model_lib (handle_mcu_frame model_lib) (sample_connecting b) = (Inr True, w')
     \<and> hs_fsm_state w' = SYNCHRONIZED \<and> handshake_attempts w' = handshake_attempts (sample_connecting b) + 1"
proof -
  obtain b raw e where b: "b \<noteq> []" "cobs_dec model_lib b = Some raw" "ev_command_id e = 69"
    "parse_frame model_lib raw None = Inr (e, PMsg (LinkSync (replicate 16 7) (sample_tag (replicate 16 7))))"
    using sample_response by blast
  then have "\<exists>w' p q own ps. synchronize model_lib (handle_mcu_frame model_lib) (sample_connecting b) = (Inr True, w')
     \<and> is_synchronized w' \<and> hs_fsm_state w' = SYNCHRONIZED
     \<and> link_session_key w' = Some (calculate_session_key model_lib (serial_shared_secret (tp_config (sample_connecting b))) (replicate 16 7))
     \<and> tp_wire w' = tp_wire (sample_connecting b) @ p # (cobs_enc model_lib own @ [0]) # ps
     \<and> build_frame model_lib 68 q (PMsg (LinkSync (replicate 16 7) (calculate_handshake_tag model_lib
          (serial_shared_secret (tp_config (sample_connecting b))) (replicate 16 7)))) (Some (replicate 12 0)) None = Inr own"
    by (intro dispatcher.answered_attempt [OF model_lib_ok(4), where e = e and raw = raw and b = b])
      (simp_all, simp_all add: sample_connecting_def, simp_all)
  then obtain w' where s: "synchronize model_lib (handle_mcu_frame model_lib) (sample_connecting b) = (Inr True, w')" by blast
  have "fatal_threshold (tp_config (sample_connecting b)) = 1"
    by (simp add: sample_connecting_def fatal_threshold_def empty_config_def)
  with synchronize_outcome [OF s] s show ?thesis by (intro exI [of _ b] exI [of _ w']) auto
qed

text \<open>C40 (error). The strict mode does not engage for the default secret: without a usable UCI system the
  configuration carries the base64 text of \<open>DEFAULT_SERIAL_SHARED_SECRET\<close>, which the gate of \<open>daemon.app\<close>
  does not recognise, so the cloud transport stays enabled under a published secret.\<close>

theorem default_secret_escapes_strict_mode:
  assumes "u \<in> {UciMissing, UciNoClass, UciNoGetAll, UciRaises}"
    and "volatile_path (pe_resolve env ''/tmp/yun_files'')"
    and "volatile_path (pe_resolve env ''/tmp/mcubridge/spool'')"
  shows "\<exists>cfg. load_runtime_config env u [] = (Inr cfg, ''uci'')
     \<and> serial_shared_secret cfg = encode_utf8 (b64encode DEFAULT_SERIAL_SHARED_SECRET)
     \<and> strict_mode cfg = cfg \<and> cloud_enabled (strict_mode cfg)"
proof -
  let ?cfg = "normalise_config (default_message env)"
  have s: "serial_shared_secret ?cfg = encode_utf8 ''ZmFpbHNhZmVfc2VjcmV0X21vZGU=''" "cloud_enabled ?cfg"
    by (simp_all add: normalise_config_def default_message_def Let_def)
  then have "serial_shared_secret ?cfg \<noteq> DEFAULT_SERIAL_SHARED_SECRET"
    by (simp add: DEFAULT_SERIAL_SHARED_SECRET_def encode_utf8_def)
  then have "strict_mode ?cfg = ?cfg" by (simp add: strict_mode_def)
  then show ?thesis
    using default_config_loads [OF assms] s default_secret_b64 by auto
qed

theorem default_secret_escapes_strict_mode_witness:
  "\<exists>cfg. load_runtime_config \<lparr>pe_resolve = (\<lambda>p. p), pe_repr = (\<lambda>_. [])\<rparr> UciMissing [] = (Inr cfg, ''uci'')
     \<and> cloud_enabled (strict_mode cfg)"
  using default_secret_escapes_strict_mode [of UciMissing "\<lparr>pe_resolve = (\<lambda>p. p), pe_repr = (\<lambda>_. [])\<rparr>"]
  by (auto simp: volatile_path_def VOLATILE_STORAGE_PATHS_def py_startswith_def)

text \<open>C6 (safety). A request that the topic authorisation does not allow has no effect but a report of status
  403 to whoever asked: nothing is written to the serial port, no file, process, datastore entry, mailbox or
  console buffer changes.\<close>

theorem forbidden_request_only_reported:
  assumes "parse_topic (cloud_topic_prefix w) (br_topic r) = Some route"
    and "\<not> authorised route (await_link L route w)"
    and "handle_request L (Request r) w = (res, w')"
  shows "handle_request L (Request r) w = enqueue_cloud L
        (create_queued_publish (topic_of ''StatusReport'' (await_link L route w))
          (ser_report L (StatusReport (forbidden_report route))) PROTOBUF_CONTENT_TYPE None
          [(''bridge-error'', ''topic-action-forbidden'')]) (Some r) (await_link L route w)
     \<and> (let v = await_link L route w in
          tp_wire w' = tp_wire v \<and> core w' = core v \<and> datastore_cache w' = datastore_cache v
          \<and> mailbox_queue w' = mailbox_queue v \<and> mailbox_incoming_queue w' = mailbox_incoming_queue v
          \<and> console_to_mcu_queue w' = console_to_mcu_queue v
          \<and> pending_digital_reads w' = pending_digital_reads v \<and> pending_analog_reads w' = pending_analog_reads v)"
proof -
  let ?v = "await_link L route w"
  have h: "handle_request L (Request r) w = reject_cloud L route r ?v"
    using assms(1,2) by (simp add: handle_request_def request_of_def Let_def)
  then have "reject_cloud L route r ?v = (res, w')" using assms(3) by simp
  then have o: "cloud_only ?v w'" unfolding reject_cloud_def by (rule enqueue_only)
  have "datastore_cache w' = datastore_cache ?v" "mailbox_queue w' = mailbox_queue ?v"
    "mailbox_incoming_queue w' = mailbox_incoming_queue ?v" "console_to_mcu_queue w' = console_to_mcu_queue ?v"
    "pending_digital_reads w' = pending_digital_reads ?v" "pending_analog_reads w' = pending_analog_reads ?v"
    by (subst o [unfolded cloud_only_def], simp add: copy_cloud_def)+
  then show ?thesis
    using h core_cloud [OF o] cloud_only_link(17) [OF o]
    by (simp add: reject_cloud_def TOPIC_FORBIDDEN_REASON_def Let_def)
qed

theorem forbidden_request_only_reported_witness:
  "core (snd (handle_request model_lib (Request \<lparr>br_topic = ''br/datastore/put/k'', br_payload = [1],
        br_correlation_data = None, br_response_topic = None\<rparr>) (sample_bridge\<lparr>st_topic_authorization := None\<rparr>)))
     = core sample_bridge"
proof -
  let ?q = "\<lparr>br_topic = ''br/datastore/put/k'', br_payload = [1], br_correlation_data = None, br_response_topic = None\<rparr>"
  let ?w = "sample_bridge\<lparr>st_topic_authorization := None\<rparr>"
  let ?r = "\<lparr>tr_raw = ''br/datastore/put/k'', tr_prefix = ''br'', tr_topic = DATASTORE, tr_segments = [''put'', ''k'']\<rparr>"
  have "parse_topic ''br'' ''br/datastore/put/k'' = Some ?r"
    by (simp add: parse_topic_def nonempty_segs_def slash_def Topic_def topics_def Let_def)
  moreover have "await_link model_lib ?r ?w = ?w" by (simp add: await_link_def)
  moreover have "\<not> authorised ?r ?w"
    by (simp add: authorised_def deduce_action_def route_identifier_def)
  moreover obtain res v where h: "handle_request model_lib (Request ?q) ?w = (res, v)" by fastforce
  ultimately have "core v = core ?w"
    using forbidden_request_only_reported [of ?w ?q ?r model_lib res v] by (simp add: Let_def)
  then show ?thesis by (simp add: h core_def)
qed

end
