(* ===== verification/Telemetry.thy ===== *)
theory Telemetry
  imports Runtime
begin

text \<open>
  The periodic tasks: \<open>mcubridge/metrics.py\<close> (metrics and bridge snapshots to the cloud, the Prometheus
  collector), \<open>mcubridge/state/status.py\<close> (the status file), \<open>mcubridge/watchdog.py\<close>, and the rest of
  \<open>mcubridge/state/context.py\<close> that they read. A loop that runs until it is cancelled is given by the number
  of its ticks; the exceptions that end it early are its result.
\<close>

section \<open>Metrics to the cloud\<close>

text \<open>\<open>const.PROP_KEY_...\<close> and \<open>PROP_VAL_...\<close>; \<open>float_text\<close> is \<open>str()\<close> of a float.\<close>

definition metrics_properties :: "(real \<Rightarrow> string) \<Rightarrow> daemon_metrics \<Rightarrow> bridge \<Rightarrow> (string \<times> string) list" where
  "metrics_properties float_text snapshot w =
    (if dm_spool_degraded snapshot
     then [(''bridge-spool'', if dm_spool_failure_reason snapshot = [] then ''unknown''
              else dm_spool_failure_reason snapshot)] else [])
    @ (if 0 < file_storage_limit_rejections w then [(''bridge-files'', ''quota-blocked'')]
       else if 0 < file_write_limit_rejections w then [(''bridge-files'', ''write-limit'')] else [])
    @ [(''bridge-watchdog-enabled'', if dm_watchdog_enabled snapshot then ''1'' else ''0'')]
    @ (if dm_watchdog_enabled snapshot
       then [(''bridge-watchdog-interval'', float_text (dm_watchdog_interval snapshot))] else [])"

definition build_metrics_message ::
  "lib \<Rightarrow> (real \<Rightarrow> string) \<Rightarrow> daemon_metrics \<Rightarrow> int \<Rightarrow> bridge \<Rightarrow> cloud_publish" where
  "build_metrics_message L float_text snapshot expiry w =
    (let message = create_queued_publish (cloud_path SYSTEM [''metrics''] w)
           (ser_report L (DaemonMetrics snapshot)) PROTOBUF_CONTENT_TYPE (Some expiry) []
     in replace_cloud_publish message
          (cp_user_properties message @ metrics_properties float_text snapshot w))"

definition emit_metrics_snapshot :: "lib \<Rightarrow> (real \<Rightarrow> string) \<Rightarrow> int \<Rightarrow> bridge \<Rightarrow> unit result \<times> bridge" where
  "emit_metrics_snapshot L float_text expiry w =
    enqueue_cloud L (build_metrics_message L float_text (build_metrics_snapshot w) expiry w) None w"

text \<open>\<open>max(1, math.ceil(max(min_interval, interval)))\<close>.\<close>

definition tick_seconds :: "real \<Rightarrow> int" where
  "tick_seconds interval = max 1 \<lceil>max 5 interval\<rceil>"

text \<open>\<open>ticks\<close> rounds; \<open>OSError\<close> and \<open>RuntimeError\<close> are logged, anything else ends the task.\<close>

definition survives_tick :: "pyexc \<Rightarrow> bool" where
  "survives_tick e \<longleftrightarrow> e \<in> {OSError, TimeoutError, RuntimeError}"

fun repeat_ticks ::
  "(bridge \<Rightarrow> unit result \<times> bridge) \<Rightarrow> (pyexc \<Rightarrow> bool) \<Rightarrow> nat \<Rightarrow> bridge \<Rightarrow> unit result \<times> bridge" where
  "repeat_ticks tick survives 0 w = (Inr (), w)"
| "repeat_ticks tick survives (Suc n) w =
    (case tick w of
       (Inr _, w) \<Rightarrow> repeat_ticks tick survives n w
     | (Inl e, w) \<Rightarrow> if survives e then repeat_ticks tick survives n w else (Inl e, w))"

definition publish_metrics ::
  "lib \<Rightarrow> (real \<Rightarrow> string) \<Rightarrow> real \<Rightarrow> nat \<Rightarrow> bridge \<Rightarrow> unit result \<times> bridge" where
  "publish_metrics L float_text interval ticks w =
    (if interval \<le> 0 then (Inl ValueError, w)
     else repeat_ticks (emit_metrics_snapshot L float_text (2 * tick_seconds interval)) survives_tick ticks w)"

section \<open>Snapshots to the cloud\<close>

definition BRIDGE_SNAPSHOT_EXPIRY_SECONDS :: int where
  "BRIDGE_SNAPSHOT_EXPIRY_SECONDS = 30"

definition build_bridge_snapshot_message :: "lib \<Rightarrow> string \<Rightarrow> report \<Rightarrow> bridge \<Rightarrow> cloud_publish" where
  "build_bridge_snapshot_message L flavor snapshot w =
    create_queued_publish
      (cloud_path SYSTEM [''bridge'', if flavor = ''handshake'' then ''handshake'' else ''summary'', ''value''] w)
      (ser_report L snapshot) PROTOBUF_CONTENT_TYPE (Some BRIDGE_SNAPSHOT_EXPIRY_SECONDS)
      [(''bridge-snapshot'', flavor)]"

text \<open>Errors of the snapshot itself are logged.\<close>

definition emit_bridge_snapshot :: "lib \<Rightarrow> string \<Rightarrow> bridge \<Rightarrow> unit result \<times> bridge" where
  "emit_bridge_snapshot L flavor w =
    (let snapshot = (if flavor = ''handshake'' then HandshakeSnapshot (build_handshake_snapshot w)
                     else BridgeSnapshot (build_bridge_snapshot w))
     in case enqueue_cloud L (build_bridge_snapshot_message L flavor snapshot w) None w of
          (Inl e, w) \<Rightarrow>
            (if e \<in> {TypeError, ValueError, UnicodeDecodeError, OSError, TimeoutError, AttributeError}
             then (Inr (), w) else (Inl e, w))
        | (Inr _, w) \<Rightarrow> (Inr (), w))"

text \<open>The two loops of \<open>publish_bridge_snapshots\<close>, with the order in which they get their turns.\<close>

definition snapshot_flavors :: "real \<Rightarrow> real \<Rightarrow> string list" where
  "snapshot_flavors summary_interval handshake_interval =
    (if 0 < summary_interval then [''summary''] else []) @ (if 0 < handshake_interval then [''handshake''] else [])"

fun publish_bridge_snapshots ::
  "lib \<Rightarrow> real \<Rightarrow> real \<Rightarrow> string list \<Rightarrow> bridge \<Rightarrow> unit result \<times> bridge" where
  "publish_bridge_snapshots L summary handshake [] w = (Inl Suspended, w)"
| "publish_bridge_snapshots L summary handshake (flavor # turns) w =
    (if flavor \<notin> set (snapshot_flavors summary handshake) then publish_bridge_snapshots L summary handshake turns w
     else (case emit_bridge_snapshot L flavor w of
             (Inr _, w) \<Rightarrow> publish_bridge_snapshots L summary handshake turns w
           | (Inl e, w) \<Rightarrow> if survives_tick e then publish_bridge_snapshots L summary handshake turns w
                           else (Inl e, w)))"

section \<open>The Prometheus collector\<close>

datatype gauge = Gauge string "(string list \<times> real) list"

definition mailbox_queue_depth :: "bridge \<Rightarrow> nat" where
  "mailbox_queue_depth w = sq_length (mailbox_queue w)"

definition mailbox_incoming_queue_depth :: "bridge \<Rightarrow> nat" where
  "mailbox_incoming_queue_depth w = sq_length (mailbox_incoming_queue w)"

definition collect :: "bridge \<Rightarrow> gauge list" where
  "collect w =
    [Gauge ''mcubridge_queue_depth''
       [([''cloud_publish''], real (length (cloud_publish_queue w))),
        ([''console_tx''], real (length (console_to_mcu_queue w))),
        ([''mailbox_tx''], real (mailbox_queue_depth w)),
        ([''mailbox_rx''], real (mailbox_incoming_queue_depth w)),
        ([''pending_digital_read''], real (length (pending_digital_reads w))),
        ([''pending_analog_read''], real (length (pending_analog_reads w))),
        ([''running_process''], real (length (running_processes w)))],
     Gauge ''mcubridge_file_storage_bytes_used'' [([], of_int (file_storage_bytes_used w))],
     Gauge ''mcubridge_link_synchronized'' [([], if is_synchronized w then 1 else 0)],
     Gauge ''mcubridge_supervisor_worker_restarts''
       (map (\<lambda>(k, v). ([k], of_int (ss_restarts v))) (supervisor_stats w))]"

section \<open>Status file\<close>

text \<open>\<open>build_status_snapshot\<close>, and writing it: a temporary file, then an atomic replacement. \<open>to_json\<close> is
  \<open>MessageToJson\<close>; the steps that may fail are the directory, the temporary file and the rename.\<close>

definition build_status_snapshot :: "bridge \<Rightarrow> daemon_metrics \<times> bridge_snapshot" where
  "build_status_snapshot w = (build_metrics_snapshot w, build_bridge_snapshot w)"

definition STATUS_FILE :: string where
  "STATUS_FILE = ''/tmp/mcubridge_status.json''"

definition write_status_file ::
  "((daemon_metrics \<times> bridge_snapshot) \<Rightarrow> bytes) \<Rightarrow> string \<Rightarrow> (daemon_metrics \<times> bridge_snapshot) \<Rightarrow> bridge \<Rightarrow> bridge" where
  "write_status_file to_json temp_name payload w =
    (case make_parents STATUS_FILE w of
       (Inl _, w) \<Rightarrow> w
     | (Inr _, w) \<Rightarrow>
         (case write_bytes temp_name (to_json payload) w of
            (Inl _, w) \<Rightarrow> w
          | (Inr _, w) \<Rightarrow>
              (case next_fs_op w of
                 (False, w) \<Rightarrow> w
               | (True, w) \<Rightarrow>
                   w\<lparr>sv_files := (sv_files w)(STATUS_FILE \<mapsto> to_json payload, temp_name := None)\<rparr>)))"

text \<open>One round of \<open>status_writer\<close>; every error of the write is logged.\<close>

definition status_tick ::
  "((daemon_metrics \<times> bridge_snapshot) \<Rightarrow> bytes) \<Rightarrow> string \<Rightarrow> bridge \<Rightarrow> unit result \<times> bridge" where
  "status_tick to_json temp_name w = (Inr (), write_status_file to_json temp_name (build_status_snapshot w) w)"

section \<open>Watchdog\<close>

definition watchdog_interval_of :: "real \<Rightarrow> real" where
  "watchdog_interval_of interval = max WATCHDOG_MIN_INTERVAL interval"

text \<open>\<open>kick\<close>: \<open>written\<close> is whether the token went out.\<close>

definition kick :: "bool \<Rightarrow> bridge \<Rightarrow> bridge" where
  "kick written w =
    (if written then w\<lparr>watchdog_beats := watchdog_beats w + 1, last_watchdog_beat := now_unix w\<rparr> else w)"

text \<open>\<open>run\<close>: the clock and the outcome of each pulse.\<close>

fun watchdog_run :: "(real \<times> bool) list \<Rightarrow> bridge \<Rightarrow> bridge" where
  "watchdog_run [] w = w"
| "watchdog_run ((t, written) # ps) w = watchdog_run ps (kick written (w\<lparr>now_unix := t\<rparr>))"

section \<open>Observations\<close>

text \<open>\<open>_apply_spool_observation\<close>: a key that is absent leaves its field alone.\<close>

record spool_observation =
  so_corrupt_dropped :: "int option"
  so_dropped_due_to_limit :: "int option"
  so_trim_events :: "int option"
  so_last_trim_unix :: "real option"

definition apply_spool_observation :: "spool_observation \<Rightarrow> 'a cloud_stats_scheme \<Rightarrow> 'a cloud_stats_scheme" where
  "apply_spool_observation x s =
    (let pick = (\<lambda>v d. case v of Some n \<Rightarrow> n | None \<Rightarrow> d)
     in s\<lparr>cloud_spool_corrupt_dropped := pick (so_corrupt_dropped x) (cloud_spool_corrupt_dropped s),
          cloud_spool_dropped_limit := pick (so_dropped_due_to_limit x) (cloud_spool_dropped_limit s),
          cloud_spool_trim_events := pick (so_trim_events x) (cloud_spool_trim_events s),
          cloud_spool_last_trim_unix :=
            (case so_last_trim_unix x of Some t \<Rightarrow> t | None \<Rightarrow> cloud_spool_last_trim_unix s)\<rparr>)"

text \<open>\<open>apply_handshake_stats\<close>: an absent key is zero; the values are numbers here.\<close>

record handshake_observation =
  hb_attempts :: "int option"
  hb_successes :: "int option"
  hb_failure_streak :: "int option"
  hb_last_duration :: "real option"
  hb_last_unix :: "real option"
  hb_backoff_until :: "real option"
  hb_rate_limit_until :: "real option"

definition apply_handshake_stats :: "handshake_observation \<Rightarrow> 'a handshake_stats_scheme \<Rightarrow> 'a handshake_stats_scheme" where
  "apply_handshake_stats x s =
    (let int0 = (\<lambda>v. case v of Some n \<Rightarrow> n | None \<Rightarrow> 0); real0 = (\<lambda>v. case v of Some t \<Rightarrow> t | None \<Rightarrow> 0)
     in s\<lparr>handshake_attempts := int0 (hb_attempts x), handshake_successes := int0 (hb_successes x),
          handshake_failure_streak := int0 (hb_failure_streak x),
          handshake_last_duration := real0 (hb_last_duration x), last_handshake_unix := real0 (hb_last_unix x),
          handshake_backoff_until := real0 (hb_backoff_until x),
          handshake_rate_until := real0 (hb_rate_limit_until x)\<rparr>)"

section \<open>Lemmas\<close>

text \<open>A reader of the status file sees the old content or the whole new one, whichever steps fail.\<close>

lemma status_file_atomic:
  assumes "temp_name \<noteq> STATUS_FILE"
  shows "sv_files (snd (status_tick to_json temp_name w)) STATUS_FILE
     \<in> {sv_files w STATUS_FILE, Some (to_json (build_status_snapshot w))}"
  using assms
  by (auto simp: status_tick_def write_status_file_def make_parents_def write_bytes_def next_fs_op_def
      split: list.splits bool.splits)

lemma status_tick_never_fails: "fst (status_tick to_json temp_name w) = Inr ()"
  by (simp add: status_tick_def)

text \<open>The counter of the watchdog counts the pulses that went out.\<close>

lemma watchdog_counts: "watchdog_beats (watchdog_run ps w) = watchdog_beats w + int (length (filter snd ps))"
  by (induction ps w rule: watchdog_run.induct) (auto simp: kick_def)

lemma watchdog_interval_bound: "1 / 2 \<le> watchdog_interval_of t"
  by (simp add: watchdog_interval_of_def WATCHDOG_MIN_INTERVAL_def)

lemma tick_seconds_bounds: "5 \<le> tick_seconds t" "t \<le> tick_seconds t"
  by (auto simp: tick_seconds_def max_def le_ceiling_iff)

text \<open>A full publish queue ends the metrics task, because \<open>QueueFull\<close> is neither an \<open>OSError\<close> nor a
  \<open>RuntimeError\<close>.\<close>

lemma metrics_task_ends_on_full_queue:
  assumes "0 < interval" "0 < st_cloud_queue_limit w" "st_cloud_queue_limit w \<le> int (length (cloud_publish_queue w))"
  shows "fst (publish_metrics L ft interval (Suc n) w) = Inl QueueFull"
proof -
  have "ipc_queue (build_metrics_message L ft sn e w) w = None" for sn e
    by (simp add: ipc_queue_def build_metrics_message_def replace_cloud_publish_def create_queued_publish_def Let_def)
  then show ?thesis
    using assms
    by (simp add: publish_metrics_def emit_metrics_snapshot_def enqueue_cloud_def resolve_cloud_context_def
        survives_tick_def Let_def)
qed

end
