(* ===== verification/Lifecycle.thy ===== *)
theory Lifecycle
  imports Runtime
begin

text \<open>
  The whole of \<open>daemon.app\<close> after its command line: start, event loop, the \<open>finally\<close> of \<open>BridgeService.run\<close> and the
  exception handling around it; and the local server \<open>run_ipc_server\<close>. What the closed databases, the file system and
  the socket answer are arguments, and so is the life of the service between start and end.
\<close>

section \<open>Teardown\<close>

text \<open>The databases are closed; their errors and those of the file system are logged, any other exception leaves the
  block. The mailboxes swallow every exception.\<close>

record teardown_answers =
  ta_close_spool :: "unit result"
  ta_close_cache :: "unit result"
  ta_unlink_status :: "unit result"

definition close_logged :: "pyexc \<Rightarrow> bool" where
  "close_logged e \<longleftrightarrow> e \<in> {DatabaseError, OSError, TimeoutError}"

definition closing :: "bool \<Rightarrow> unit result \<Rightarrow> unit result" where
  "closing present answer =
    (if \<not> present then Inr ()
     else (case answer of Inl e \<Rightarrow> if close_logged e then Inr () else Inl e | Inr _ \<Rightarrow> Inr ()))"

definition teardown :: "teardown_answers \<Rightarrow> bridge \<Rightarrow> unit result \<times> bridge" where
  "teardown a w =
    (case closing (sv_cloud_spool w \<noteq> None) (ta_close_spool a) of
       Inl e \<Rightarrow> (Inl e, w)
     | Inr _ \<Rightarrow>
         (let w = w\<lparr>sv_cloud_spool := None\<rparr>
          in case closing (datastore_cache w \<noteq> None) (ta_close_cache a) of
               Inl e \<Rightarrow> (Inl e, w)
             | Inr _ \<Rightarrow> (ta_unlink_status a, cleanup (w\<lparr>datastore_cache := None\<rparr>))))"

text \<open>\<open>run\<close> once its task group has ended: \<open>raised\<close> are the exceptions of the tasks. They are logged and raised again
  as a group; a cancellation is not. An exception of the teardown replaces the group.\<close>

datatype run_end = Returned | Raised pyexc | Grouped "pyexc list"

definition run_finish :: "pyexc list \<Rightarrow> teardown_answers \<Rightarrow> bridge \<Rightarrow> run_end \<times> bridge" where
  "run_finish raised a w =
    (case teardown a w of
       (Inl e, w) \<Rightarrow> (Raised e, w)
     | (Inr _, w) \<Rightarrow> (if raised = [] then Returned else Grouped raised, w))"

section \<open>The exit of the daemon\<close>

text \<open>The exceptions that \<open>app\<close> handles (\<open>SerialHandshakeFatal\<close> is a \<open>RuntimeError\<close>); what it does not handle leaves
  the interpreter with a traceback.\<close>

definition app_handles :: "pyexc \<Rightarrow> bool" where
  "app_handles e \<longleftrightarrow> e \<in> {TimeoutError, OSError, RuntimeError, ValueError, UnicodeDecodeError, TypeError}"

datatype app_exit = ExitStatus int | Traceback "pyexc list" | KilledBySigterm

text \<open>The handlers for one exception and for a group, which is split into what is handled and what is not.\<close>

definition exit_of :: "run_end \<Rightarrow> app_exit" where
  "exit_of r =
    (case r of
       Returned \<Rightarrow> ExitStatus 0
     | Raised e \<Rightarrow> if app_handles e then ExitStatus 1 else Traceback [e]
     | Grouped es \<Rightarrow>
         (if list_all (\<lambda>e. \<not> app_handles e) es then Traceback es
          else if list_all app_handles es then ExitStatus 1
          else Traceback (filter (\<lambda>e. \<not> app_handles e) es)))"

text \<open>How the event loop ends. The task group ends with the exceptions of its tasks, none when it was cancelled: the
  runner turns the first \<open>SIGINT\<close> into a cancellation, which \<open>run\<close> swallows. A second one is a \<open>KeyboardInterrupt\<close>;
  closing the runner still runs the teardown. No handler for \<open>SIGTERM\<close> is ever installed: the process ends at once
  and no Python code runs.\<close>

datatype loop_end = GroupEnds "pyexc list" | KeyboardInterrupts | SigtermArrives

definition app_end :: "teardown_answers \<Rightarrow> loop_end \<Rightarrow> bridge \<Rightarrow> app_exit \<times> bridge" where
  "app_end a x w =
    (case x of
       GroupEnds raised \<Rightarrow> (case run_finish raised a w of (r, w) \<Rightarrow> (exit_of r, cleanup w))
     | KeyboardInterrupts \<Rightarrow> (ExitStatus 0, cleanup (snd (teardown a w)))
     | SigtermArrives \<Rightarrow> (KilledBySigterm, w))"

text \<open>\<open>app\<close>: \<open>interrupted\<close> is a \<open>KeyboardInterrupt\<close> during the start. \<open>life\<close> is what the service does until the loop ends.
  There is a service to look at afterwards only when one was made.\<close>

definition app ::
  "host \<Rightarrow> (runtime_config \<Rightarrow> runtime_state) \<Rightarrow> bool \<Rightarrow> runtime_config result \<Rightarrow> bool
    \<Rightarrow> (bridge \<Rightarrow> loop_end \<times> bridge) \<Rightarrow> teardown_answers \<Rightarrow> app_exit \<times> bridge option" where
  "app h create_state crypto_ok loaded interrupted life a =
    (if interrupted then (ExitStatus 0, None)
     else (case app_start h create_state crypto_ok loaded of
             Inl None \<Rightarrow> (ExitStatus 1, None)
           | Inl (Some e) \<Rightarrow> (exit_of (Raised e), None)
           | Inr w \<Rightarrow>
               (case life w of (x, w) \<Rightarrow>
                  (case app_end a x w of (status, w) \<Rightarrow> (status, Some w)))))"

section \<open>The local server\<close>

record ipc_answers =
  ia_unlink :: "unit result"
  ia_mkdir :: "unit result"
  ia_start :: "unit result"
  ia_chmod :: "unit result"
  ia_closed :: "unit result"

text \<open>How the server ends, and the socket it served, if it got that far: its path and whether its mode was set to
  660. A failure to remove an old socket or to set the mode is only logged.\<close>

definition os_error :: "pyexc \<Rightarrow> bool" where
  "os_error e \<longleftrightarrow> e \<in> {OSError, TimeoutError}"

definition tolerated :: "unit result \<Rightarrow> unit result" where
  "tolerated r = (case r of Inl e \<Rightarrow> if os_error e then Inr () else Inl e | Inr _ \<Rightarrow> Inr ())"

definition run_ipc_server :: "string option \<Rightarrow> ipc_answers \<Rightarrow> unit result \<times> (string \<times> bool) option" where
  "run_ipc_server socket_env a =
    (let socket_path = (case socket_env of Some p \<Rightarrow> p | None \<Rightarrow> ''/var/run/mcubridge.sock'')
     in case tolerated (ia_unlink a) of
          Inl e \<Rightarrow> (Inl e, None)
        | Inr _ \<Rightarrow>
            (case ia_mkdir a of
               Inl e \<Rightarrow> (Inl e, None)
             | Inr _ \<Rightarrow>
                 (case ia_start a of
                    Inl e \<Rightarrow> (Inl e, None)
                  | Inr _ \<Rightarrow>
                      (case tolerated (ia_chmod a) of
                         Inl e \<Rightarrow> (Inl e, Some (socket_path, False))
                       | Inr _ \<Rightarrow> (ia_closed a, Some (socket_path, ia_chmod a = Inr ()))))))"

section \<open>Lemmas\<close>

lemma cleanup_twice: "cleanup (cleanup w) = cleanup w"
  by (simp add: cleanup_def cleanup_state_def)

text \<open>After a clean-up the service is deaf and tracks no child: a frame has no effect and no kill or poll finds a
  process. The phase of the link is not reset, so a link that was synchronised still counts as such.\<close>

lemma cleanup_deaf:
  "handle_mcu_frame L c q p (cleanup w) = (Inr (), cleanup w)" "running_processes (cleanup w) = []"
  "is_synchronized (cleanup w) = is_synchronized w"
  by (simp_all add: handle_mcu_frame_def cleanup_def cleanup_state_def is_synchronized_def)

text \<open>The files and the link keys survive a clean-up.\<close>

lemma cleanup_keeps: "sv_files (cleanup w) = sv_files w" "link_session_key (cleanup w) = link_session_key w"
  by (simp_all add: cleanup_def cleanup_state_def)

lemma closing_logged: "r = Inr () \<or> (\<exists>e. r = Inl e \<and> close_logged e) \<Longrightarrow> closing present r = Inr ()"
  by (auto simp: closing_def)

text \<open>The socket is served with the mode of the umask when the mode cannot be set: the server runs all the same.\<close>

lemma ipc_served_unprotected:
  assumes "ia_unlink a = Inr ()" "ia_mkdir a = Inr ()" "ia_start a = Inr ()" "ia_chmod a = Inl OSError"
  shows "run_ipc_server None a = (ia_closed a, Some (''/var/run/mcubridge.sock'', False))"
  using assms by (simp add: run_ipc_server_def tolerated_def os_error_def)

lemma ipc_not_served:
  "snd (run_ipc_server p a) = None \<Longrightarrow> \<exists>e. fst (run_ipc_server p a) = Inl e"
  by (auto simp: run_ipc_server_def Let_def split: sum.splits)

lemma exit_of_grouped:
  "exit_of (Grouped es) = (if filter (\<lambda>e. \<not> app_handles e) es = [] \<and> es \<noteq> [] then ExitStatus 1
     else Traceback (filter (\<lambda>e. \<not> app_handles e) es))"
proof (cases "list_all (\<lambda>e. \<not> app_handles e) es")
  case True
  then have "filter (\<lambda>e. \<not> app_handles e) es = es" by (simp add: list_all_iff filter_id_conv)
  with True show ?thesis by (simp add: exit_of_def)
next
  case False
  then have "es \<noteq> []" by auto
  then show ?thesis using False by (auto simp: exit_of_def list_all_iff filter_empty_conv)
qed

lemma teardown_files: "teardown a w = (r, w') \<Longrightarrow> sv_files w' = sv_files w"
  by (auto simp: teardown_def Let_def cleanup_keeps split: sum.splits)

text \<open>A configuration that starts, for the witness.\<close>

definition sample_app_config :: runtime_config where
  "sample_app_config = empty_config\<lparr>file_system_root := ''/tmp/r'', cloud_enabled := True\<rparr>"

text \<open>The exit once the service runs.\<close>

lemma running_exit:
  assumes "app_start h create_state crypto_ok loaded = Inr w0" and "life w0 = (e, w)"
    and "ta_unlink_status a = Inr ()" and "\<forall>x. ta_close_spool a = Inl x \<or> ta_close_cache a = Inl x \<longrightarrow> x \<in> {DatabaseError, OSError, TimeoutError}"
  shows "\<exists>status w'. app h create_state crypto_ok loaded False life a = (status, Some w')
     \<and> status = (case e of
          GroupEnds es \<Rightarrow>
            (let unhandled = filter (\<lambda>x. x \<notin> {TimeoutError, OSError, RuntimeError, ValueError, UnicodeDecodeError, TypeError}) es
             in if es = [] then ExitStatus 0 else if unhandled = [] then ExitStatus 1 else Traceback unhandled)
        | KeyboardInterrupts \<Rightarrow> ExitStatus 0
        | SigtermArrives \<Rightarrow> KilledBySigterm)
     \<and> sv_files w' = sv_files w
     \<and> (if e = SigtermArrives then w' = w
        else running_processes w' = [] \<and> handle_mcu_frame L c q p w' = (Inr (), w'))"
proof -
  have c: "closing b (ta_close_spool a) = Inr ()" "closing b (ta_close_cache a) = Inr ()" for b
    using assms(4) by (cases "ta_close_spool a"; cases "ta_close_cache a"; simp add: closing_def close_logged_def)+
  obtain w1 where t: "teardown a w = (Inr (), w1)" using c assms(3) by (auto simp: teardown_def Let_def)
  have files: "sv_files (cleanup w1) = sv_files w" using teardown_files [OF t] cleanup_keeps by simp
  have run: "app h create_state crypto_ok loaded False life a = (case app_end a e w of (x, w) \<Rightarrow> (x, Some w))"
    using assms(1,2) by (simp add: app_def)
  show ?thesis
  proof (cases e)
    case (GroupEnds es)
    have "app_end a e w = (exit_of (if es = [] then Returned else Grouped es), cleanup w1)"
      using GroupEnds t by (simp add: app_end_def run_finish_def)
    moreover have "exit_of (if es = [] then Returned else Grouped es) = (if es = [] then ExitStatus 0
        else if filter (\<lambda>x. \<not> app_handles x) es = [] then ExitStatus 1 else Traceback (filter (\<lambda>x. \<not> app_handles x) es))"
      using exit_of_grouped by (simp add: exit_of_def)
    ultimately show ?thesis
      using run GroupEnds files cleanup_deaf unfolding app_handles_def Let_def by auto
  next
    case KeyboardInterrupts
    then show ?thesis using run t files cleanup_deaf by (auto simp: app_end_def)
  next
    case SigtermArrives
    then show ?thesis using run by (simp add: app_end_def)
  qed
qed

section \<open>Properties\<close>



end
