(* ===== verification/Exporter.thy ===== *)
theory Exporter
  imports Telemetry Lifecycle "HOL-Library.Sublist"
begin

text \<open>
  The metrics the daemon declares (\<open>mcubridge/state/metrics.py\<close>) and the HTTP server that exposes them
  (\<open>PrometheusExporter\<close> of \<open>mcubridge/metrics.py\<close>). The registry is the one of \<open>prometheus_client\<close>: registering a
  family is a parameter, and so is what the HTTP server answers.
\<close>

section \<open>The declared metrics\<close>

text \<open>The constructors of \<open>prometheus_client\<close> with what the declarations hand them; the help texts are left out.\<close>

datatype metric_kind = Counter | Histogram "int list" | Info | Enum "string list"

record family =
  fam_name :: string
  fam_kind :: metric_kind
  fam_labels :: "string list"

definition counter :: "string \<Rightarrow> family" where
  "counter name = \<lparr>fam_name = name, fam_kind = Counter, fam_labels = []\<rparr>"

definition labelled_counter :: "string \<Rightarrow> string \<Rightarrow> family" where
  "labelled_counter name label = \<lparr>fam_name = name, fam_kind = Counter, fam_labels = [label]\<rparr>"

definition link_state_metric :: family where
  "link_state_metric =
    \<lparr>fam_name = ''mcubridge_link_state'', fam_kind = Enum [''disconnected'', ''connected'', ''synchronized''],
     fam_labels = []\<rparr>"

definition handshake_state_metric :: family where
  "handshake_state_metric =
    \<lparr>fam_name = ''mcubridge_handshake_state'',
     fam_kind = Enum [''unsynchronized'', ''resetting'', ''syncing'', ''confirming'', ''synchronized'', ''fault''],
     fam_labels = []\<rparr>"

definition DaemonMetrics_families :: "family list" where
  "DaemonMetrics_families =
    [labelled_counter ''mcubridge_supervisor_failures_total'' ''task'',
     counter ''mcubridge_cloud_messages_published_total'',
     counter ''mcubridge_cloud_messages_dropped_total'',
     counter ''mcubridge_serial_bytes_sent_total'',
     counter ''mcubridge_serial_bytes_received_total'',
     counter ''mcubridge_serial_frames_sent_total'',
     counter ''mcubridge_serial_frames_received_total'',
     counter ''mcubridge_serial_retries_total'',
     counter ''mcubridge_serial_failures_total'',
     counter ''mcubridge_serial_crc_errors_total'',
     counter ''mcubridge_serial_decode_errors_total'',
     \<lparr>fam_name = ''mcubridge_serial_latency_ms'',
      fam_kind = Histogram [5, 10, 25, 50, 100, 250, 500, 1000, 2500, 5000], fam_labels = []\<rparr>,
     \<lparr>fam_name = ''mcubridge_rpc_latency_ms'',
      fam_kind = Histogram [50, 100, 250, 500, 1000, 2500, 5000], fam_labels = []\<rparr>,
     counter ''mcubridge_unknown_commands_total'',
     labelled_counter ''mcubridge_mcu_status_total'' ''status'',
     counter ''mcubridge_handshake_attempts_total'',
     counter ''mcubridge_handshake_success_total'',
     counter ''mcubridge_watchdog_beats_total'',
     counter ''mcubridge_uptime_seconds_total'',
     \<lparr>fam_name = ''mcubridge_build'', fam_kind = Info, fam_labels = []\<rparr>,
     link_state_metric,
     handshake_state_metric,
     labelled_counter ''mcubridge_retries_total'' ''component'']"

text \<open>Each declaration registers its family; the first that is refused raises. \<open>register\<close> is the registry.\<close>

fun register_all :: "(family \<Rightarrow> 'r \<Rightarrow> 'r result) \<Rightarrow> family list \<Rightarrow> 'r \<Rightarrow> 'r result" where
  "register_all register [] reg = Inr reg"
| "register_all register (f # fs) reg =
    (case register f reg of Inl e \<Rightarrow> Inl e | Inr reg \<Rightarrow> register_all register fs reg)"

text \<open>\<open>_set_build_info\<close>: the installed version, if the package is known.\<close>

definition build_info :: "string option \<Rightarrow> (string \<times> string) list" where
  "build_info version = [(''version'', case version of Some v \<Rightarrow> v | None \<Rightarrow> ''dev''), (''python'', ''3.13'')]"

definition DaemonMetrics_init ::
  "(family \<Rightarrow> 'r \<Rightarrow> 'r result) \<Rightarrow> 'r \<Rightarrow> string option \<Rightarrow> ('r \<times> (string \<times> string) list) result" where
  "DaemonMetrics_init register reg version =
    (case register_all register DaemonMetrics_families reg of
       Inl e \<Rightarrow> Inl e
     | Inr reg \<Rightarrow> Inr (reg, build_info version))"

text \<open>\<open>state()\<close> of an \<open>Enum\<close>: a name that is not declared raises \<open>ValueError\<close>.\<close>

definition enum_state :: "family \<Rightarrow> string \<Rightarrow> string result" where
  "enum_state f s =
    (case fam_kind f of
       Enum states \<Rightarrow> if s \<in> set states then Inr s else Inl ValueError
     | _ \<Rightarrow> Inl AttributeError)"

fun link_phase_value :: "link_phase \<Rightarrow> string" where
  "link_phase_value Disconnected = ''disconnected''"
| "link_phase_value Connected = ''connected''"
| "link_phase_value Synchronized = ''synchronized''"

section \<open>The exporter\<close>

text \<open>The exporter beside the service. \<open>ex_server\<close> is \<open>_server\<close> with the port it is bound to, \<open>ex_socket\<close> whether
  its socket is open, \<open>ex_registered\<close> whether the registry holds the collector; \<open>ex_serves\<close> are the ends of the
  coming calls of \<open>serve_forever\<close>, none being that it goes on serving.\<close>

record exporter = bridge +
  ex_host :: string
  ex_port :: int
  ex_server :: "int option"
  ex_socket :: bool
  ex_collector :: bool
  ex_registered :: bool
  ex_serves :: "unit result list"

text \<open>The constructor: \<open>registered\<close> is what the registry answers to the two collectors, \<open>bound\<close> what \<open>make_server\<close>
  does, the port it got or its exception.\<close>

definition PrometheusExporter ::
  "string \<Rightarrow> int \<Rightarrow> unit result \<Rightarrow> int result \<Rightarrow> unit result list \<Rightarrow> bridge \<Rightarrow> exporter result" where
  "PrometheusExporter host port registered bound serves w =
    (case registered of
       Inl e \<Rightarrow> Inl e
     | Inr _ \<Rightarrow>
         (case bound of
            Inl e \<Rightarrow> Inl e
          | Inr p \<Rightarrow>
              Inr (bridge.extend w
                \<lparr>ex_host = (if host \<noteq> [] then host else ''0.0.0.0''), ex_port = port, ex_server = Some p,
                 ex_socket = True, ex_collector = True, ex_registered = True, ex_serves = serves\<rparr>)))"

definition exporter_port :: "exporter \<Rightarrow> int" where
  "exporter_port x = (case ex_server x of Some p \<Rightarrow> p | None \<Rightarrow> ex_port x)"

text \<open>The \<open>finally\<close> of \<open>run\<close>, which a cancellation reaches as well.\<close>

definition exporter_finally :: "exporter \<Rightarrow> exporter" where
  "exporter_finally x =
    (let x = (if ex_server x \<noteq> None \<and> ex_collector x then x\<lparr>ex_registered := False\<rparr> else x);
         x = (if ex_server x \<noteq> None then x\<lparr>ex_socket := False\<rparr> else x)
     in x\<lparr>ex_collector := False, ex_server := None\<rparr>)"

text \<open>\<open>run\<close>: with no server left, reading \<open>serve_forever\<close> of \<open>None\<close> raises.\<close>

definition exporter_run :: "exporter \<Rightarrow> unit result \<times> exporter" where
  "exporter_run x =
    (case ex_server x of
       None \<Rightarrow> (Inl AttributeError, exporter_finally x)
     | Some _ \<Rightarrow>
         (case ex_serves x of
            [] \<Rightarrow> (Inl Suspended, x)
          | r # rs \<Rightarrow> (r, exporter_finally (x\<lparr>ex_serves := rs\<rparr>))))"

text \<open>What \<open>BridgeService.run\<close> does of it: the exporter is made in the body of the task group, so that its exception
  ends the daemon, and its \<open>run\<close> is supervised without fatal exceptions.\<close>

definition start_exporter ::
  "unit result \<Rightarrow> int result \<Rightarrow> unit result list \<Rightarrow> bridge \<Rightarrow> exporter option result" where
  "start_exporter registered bound serves w =
    (if metrics_enabled (tp_config w)
     then map_sum id Some
       (PrometheusExporter (metrics_host (tp_config w)) (metrics_port (tp_config w)) registered bound serves w)
     else Inr None)"

definition exporter_task :: "exporter \<Rightarrow> (unit result \<times> exporter) option" where
  "exporter_task x = supervise ''prometheus-exporter'' exporter_run (\<lambda>_. False) None x"

section \<open>Lemmas\<close>

text \<open>The names a family may put into the registry: its name without the \<open>_total\<close> of a counter, and that name with
  the suffixes of the exposition format.\<close>

definition stem :: "family \<Rightarrow> string" where
  "stem f = (if fam_kind f = Counter \<and> py_endswith ''_total'' (fam_name f) then take (length (fam_name f) - 6) (fam_name f) else fam_name f)"

definition exposed_names :: "family \<Rightarrow> string list" where
  "exposed_names f =
    map (append (stem f)) [[], ''_total'', ''_created'', ''_bucket'', ''_sum'', ''_count'', ''_info'']"

text \<open>What the constructors demand of a declaration: the name is an identifier in which colons are allowed, a label is
  an identifier that does not start with two underscores, the buckets of a histogram ascend and \<open>le\<close> is not one of its
  labels, an enumeration has states, none twice, and no label of its own name.\<close>

definition name_letter :: "char \<Rightarrow> bool" where
  "name_letter c \<longleftrightarrow> (let n = of_char c :: nat in 97 \<le> n \<and> n \<le> 122 \<or> 65 \<le> n \<and> n \<le> 90) \<or> c = CHR ''_''"

definition name_digit :: "char \<Rightarrow> bool" where
  "name_digit c \<longleftrightarrow> (let n = of_char c :: nat in 48 \<le> n \<and> n \<le> 57)"

definition metric_name_ok :: "string \<Rightarrow> bool" where
  "metric_name_ok s \<longleftrightarrow> s \<noteq> [] \<and> \<not> name_digit (hd s) \<and> list_all (\<lambda>c. name_letter c \<or> name_digit c \<or> c = CHR '':'') s"

definition label_name_ok :: "string \<Rightarrow> bool" where
  "label_name_ok s \<longleftrightarrow> s \<noteq> [] \<and> \<not> name_digit (hd s) \<and> list_all (\<lambda>c. name_letter c \<or> name_digit c) s
     \<and> \<not> py_startswith ''__'' s"

definition declaration_ok :: "family \<Rightarrow> bool" where
  "declaration_ok f \<longleftrightarrow> metric_name_ok (fam_name f) \<and> list_all label_name_ok (fam_labels f)
    \<and> (case fam_kind f of
         Histogram bs \<Rightarrow> bs \<noteq> [] \<and> sorted_wrt (<) bs \<and> ''le'' \<notin> set (fam_labels f)
       | Enum ss \<Rightarrow> ss \<noteq> [] \<and> distinct ss \<and> fam_name f \<notin> set (fam_labels f)
       | _ \<Rightarrow> True)"

lemma families_ok: "list_all declaration_ok DaemonMetrics_families"
  by code_simp

text \<open>No stem is a prefix of another, so no two families can expose the same name.\<close>

lemma parallel_stems_distinct:
  assumes "distinct ss"
  shows "sorted_wrt (\<lambda>a b. \<not> prefix a b \<and> \<not> prefix b a) as \<Longrightarrow> distinct (concat (map (\<lambda>a. map (append a) ss) as))"
proof (induction as)
  case (Cons a as)
  have "a @ s \<noteq> b @ t" if "b \<in> set as" for b s t
    using Cons.prems that by (auto simp: append_eq_append_conv2 prefix_def)
  then show ?case using Cons assms by (auto simp: distinct_map inj_on_def)
qed simp

lemma stems_parallel: "sorted_wrt (\<lambda>a b. \<not> prefix a b \<and> \<not> prefix b a) (map stem DaemonMetrics_families)"
  by code_simp

lemma families_distinct: "distinct (concat (map exposed_names DaemonMetrics_families))"
  using parallel_stems_distinct [OF _ stems_parallel,
      of "[[], ''_total'', ''_created'', ''_bucket'', ''_sum'', ''_count'', ''_info'']"]
  by (simp add: exposed_names_def [abs_def] comp_def)

text \<open>A registry that refuses only duplicate names and malformed declarations takes any list of well-formed families
  whose names do not meet.\<close>

lemma register_all_accepts:
  assumes register: "\<And>f r. declaration_ok f \<Longrightarrow> set (series f) \<inter> names r = {}
      \<Longrightarrow> \<exists>r'. register f r = Inr r' \<and> names r' = names r \<union> set (series f)"
    and series: "\<And>f. set (series f) \<subseteq> set (exposed_names f)"
  shows "list_all declaration_ok fs \<Longrightarrow> distinct (concat (map exposed_names fs))
    \<Longrightarrow> names r \<inter> set (concat (map exposed_names fs)) = {}
    \<Longrightarrow> \<exists>r'. register_all register fs r = Inr r' \<and> names r' = names r \<union> (\<Union>f\<in>set fs. set (series f))"
proof (induction fs arbitrary: r)
  case (Cons f fs)
  then have "declaration_ok f" "set (series f) \<inter> names r = {}"
    using series [of f] by auto
  then obtain r1 where r1: "register f r = Inr r1" "names r1 = names r \<union> set (series f)"
    using register by blast
  moreover have "names r1 \<inter> set (concat (map exposed_names fs)) = {}"
    using Cons.prems series [of f] r1(2) by auto
  ultimately obtain r2 where
    "register_all register fs r1 = Inr r2" "names r2 = names r1 \<union> (\<Union>f\<in>set fs. set (series f))"
    using Cons.IH [of r1] Cons.prems by auto
  with r1 show ?case by auto
qed simp

lemma enum_states_declared:
  "enum_state handshake_state_metric (hs_state_value s) = Inr (hs_state_value s)"
  "enum_state link_state_metric (link_phase_value p) = Inr (link_phase_value p)"
  by (cases s; simp add: enum_state_def handshake_state_metric_def)
    (cases p; simp add: enum_state_def link_state_metric_def)

text \<open>The server, its socket and the registered collector come and go together.\<close>

definition exporter_wf :: "exporter \<Rightarrow> bool" where
  "exporter_wf x \<longleftrightarrow> ex_socket x = (ex_server x \<noteq> None) \<and> ex_collector x = (ex_server x \<noteq> None)
     \<and> ex_registered x = (ex_server x \<noteq> None)"

lemma exporter_made_wf:
  "PrometheusExporter host port reg bound serves w = Inr x \<Longrightarrow> exporter_wf x"
  by (auto simp: PrometheusExporter_def exporter_wf_def bridge.defs split: sum.splits)

lemma exporter_finally_releases:
  "exporter_wf x \<Longrightarrow> exporter_wf (exporter_finally x) \<and> \<not> ex_socket (exporter_finally x)
     \<and> \<not> ex_registered (exporter_finally x)"
  by (auto simp: exporter_wf_def exporter_finally_def Let_def)

lemma exporter_run_wf: "exporter_wf x \<Longrightarrow> exporter_wf (snd (exporter_run x))"
  using exporter_finally_releases [of x] exporter_finally_releases [of "x\<lparr>ex_serves := tl (ex_serves x)\<rparr>"]
  by (auto simp: exporter_run_def exporter_wf_def split: option.splits list.splits)

lemma exporter_finally_server [simp]: "ex_server (exporter_finally x) = None"
  by (simp add: exporter_finally_def Let_def)

lemma count_retry_server [simp]: "ex_server (count_retry name x) = ex_server x"
  by (simp add: count_retry_def)

lemma exporter_restarts_fail:
  "ex_server x = None \<Longrightarrow> supervise_loop exporter_run (\<lambda>_. False) name None n x = None"
  by (rule supervise_loop_diverges [where I = "\<lambda>x. ex_server x = None"]) (auto simp: exporter_run_def)

text \<open>The optional exporter ends the daemon when its port is taken: its constructor is not supervised.\<close>

lemma busy_port_ends_daemon:
  assumes "metrics_enabled (tp_config w)" "start_exporter (Inr ()) (Inl OSError) serves w = Inl e"
    and "fst (teardown a w) = Inr ()"
  shows "fst (app_end a (GroupEnds [e]) w) = ExitStatus 1"
proof -
  have "e = OSError" using assms(1,2) by (simp add: start_exporter_def PrometheusExporter_def)
  then show ?thesis
    using assms(3) by (auto simp: app_end_def run_finish_def exit_of_def app_handles_def split: prod.split sum.split)
qed

section \<open>Properties\<close>

text \<open>A registry as \<open>prometheus_client\<close> documents it, for the witness.\<close>

definition model_register :: "family \<Rightarrow> string list \<Rightarrow> string list result" where
  "model_register f reg =
    (if declaration_ok f \<and> list_all (\<lambda>n. n \<notin> set reg) (exposed_names f) then Inr (exposed_names f @ reg)
     else Inl ValueError)"

text \<open>C22 (type). The metrics of the daemon are well declared, their names and labels included: with any registry that
  accepts a well-formed family whose time series are new, and in which the time series of a family are its name with the suffixes of the exposition
  format, building \<open>DaemonMetrics\<close> on an empty registry never raises and every declared series is in the registry
  afterwards; and every state that the handshake and the link ever report is a declared state of its enumeration, so
  that reporting it cannot raise.\<close>

theorem declared_metrics_accepted:
  assumes "\<And>f r. declaration_ok f \<Longrightarrow> set (series f) \<inter> names r = {}
      \<Longrightarrow> \<exists>r'. register f r = Inr r' \<and> names r' = names r \<union> set (series f)"
    and "\<And>f. set (series f) \<subseteq> set (exposed_names f)"
    and "names reg = {}"
  shows "(\<exists>reg'. DaemonMetrics_init register reg version = Inr (reg', build_info version)
        \<and> names reg' = (\<Union>f\<in>set DaemonMetrics_families. set (series f)))
     \<and> (\<forall>s. enum_state handshake_state_metric (hs_state_value s) = Inr (hs_state_value s))
     \<and> (\<forall>p. enum_state link_state_metric (link_phase_value p) = Inr (link_phase_value p))"
proof -
  obtain reg' where "register_all register DaemonMetrics_families reg = Inr reg'"
      "names reg' = (\<Union>f\<in>set DaemonMetrics_families. set (series f))"
    using register_all_accepts [of series names register DaemonMetrics_families reg, OF assms(1,2)]
      families_ok families_distinct assms(3) by auto
  then show ?thesis by (simp add: DaemonMetrics_init_def enum_states_declared)
qed

theorem declared_metrics_accepted_witness:
  "\<exists>reg. DaemonMetrics_init model_register [] None = Inr (reg, [(''version'', ''dev''), (''python'', ''3.13'')])
     \<and> ''mcubridge_retries_total'' \<in> set reg"
proof -
  have member: "labelled_counter ''mcubridge_retries_total'' ''component'' \<in> set DaemonMetrics_families"
    by (simp add: DaemonMetrics_families_def)
  have "''mcubridge_retries_total'' \<in> set (exposed_names (labelled_counter ''mcubridge_retries_total'' ''component''))"
    by (simp add: exposed_names_def stem_def labelled_counter_def py_endswith_def)
  moreover have "\<exists>r'. model_register f r = Inr r' \<and> set r' = set r \<union> set (exposed_names f)"
    if "declaration_ok f" "set (exposed_names f) \<inter> set r = {}" for f r
    using that by (auto simp: model_register_def list_all_iff)
  ultimately show ?thesis
    using declared_metrics_accepted [of exposed_names set model_register "[]" None] member
    by (auto simp: build_info_def)
qed

text \<open>C39 (error). The exporter does not survive an error of its server. Once \<open>serve_forever\<close> has ended with an
  exception, the clean-up of \<open>run\<close> has closed the socket, taken the collector out of the registry and dropped the
  server, and the supervisor calls \<open>run\<close> of the same object again: every restart fails, the task never ends and the
  metrics stay unreachable, whatever the server would have answered.\<close>

theorem exporter_never_recovers:
  assumes "start_exporter (Inr ()) (Inr p) (Inl e # serves) w = Inr (Some x)" "e \<noteq> Suspended"
  shows "exporter_port x = p \<and> ex_socket x \<and> fst (exporter_run x) = Inl e
     \<and> \<not> ex_socket (snd (exporter_run x)) \<and> \<not> ex_registered (snd (exporter_run x))
     \<and> exporter_task x = None"
proof -
  have wf: "exporter_wf x" and x: "ex_server x = Some p" "ex_serves x = Inl e # serves"
    using assms(1)
    by (auto simp: start_exporter_def PrometheusExporter_def exporter_wf_def bridge.defs split: if_splits)
  have run: "exporter_run x = (Inl e, exporter_finally (x\<lparr>ex_serves := serves\<rparr>))"
    using x by (simp add: exporter_run_def)
  have "exporter_wf (x\<lparr>ex_serves := serves\<rparr>)" using wf by (simp add: exporter_wf_def)
  moreover have "exporter_task x = None"
    using assms(2) run
    by (simp add: exporter_task_def supervise_def supervise_loop.simps [of _ _ _ _ 0] exporter_restarts_fail)
  ultimately show ?thesis
    using exporter_finally_releases [of "x\<lparr>ex_serves := serves\<rparr>"] run wf x
    by (simp add: exporter_port_def exporter_wf_def)
qed

theorem exporter_never_recovers_witness:
  "\<exists>x. start_exporter (Inr ()) (Inr 9130) [Inl OSError, Inr ()]
         (sample_bridge\<lparr>tp_config := (tp_config sample_bridge)\<lparr>metrics_enabled := True\<rparr>\<rparr>) = Inr (Some x)
     \<and> exporter_port x = 9130 \<and> exporter_task x = None"
proof -
  let ?w = "sample_bridge\<lparr>tp_config := (tp_config sample_bridge)\<lparr>metrics_enabled := True\<rparr>\<rparr>"
  obtain x where x: "start_exporter (Inr ()) (Inr 9130) [Inl OSError, Inr ()] ?w = Inr (Some x)"
    by (simp add: start_exporter_def PrometheusExporter_def)
  with exporter_never_recovers [OF x] show ?thesis by simp
qed

end
