(* ===== verification/Shell.thy ===== *)
theory Shell
  imports Runtime
begin

text \<open>
  The shell policy against what is executed: \<open>is_command_allowed\<close> of \<open>mcubridge/protocol/structures.py\<close> looks
  at the first word of a command as \<open>str.split\<close> finds it, \<open>_run_process\<close> of
  \<open>mcubridge/services/runtime.py\<close> starts the first word that \<open>shlex.split\<close> finds.
\<close>

section \<open>What a command starts\<close>

text \<open>The first word of a command, as the policy and as \<open>shlex\<close> see it.\<close>

lemma split_runs_trailing: "\<forall>c\<in>set ys. p c \<Longrightarrow> split_runs p acc (xs @ ys) = split_runs p acc xs"
proof (induction p acc xs rule: split_runs.induct)
  case (1 p acc)
  have "split_runs p [] ys = []" if "\<forall>c\<in>set ys. p c" for ys using that by (induction ys) auto
  with 1 show ?case by (cases ys) auto
qed auto

lemma split_runs_leading: "split_runs p [] (dropWhile p s) = split_runs p [] s"
  by (induction s) auto

lemma split_runs_strip: "split_runs p [] (strip_chars p s) = split_runs p [] s"
proof -
  have "rev (dropWhile p (rev t)) @ rev (takeWhile p (rev t)) = t" for t
    by (metis rev_append rev_rev_ident takeWhile_dropWhile_id)
  moreover have "\<forall>c\<in>set (rev (takeWhile p (rev t))). p c" for t by (auto dest: set_takeWhileD)
  ultimately have "split_runs p [] (rev (dropWhile p (rev t))) = split_runs p [] t" for t
    using split_runs_trailing by metis
  then show ?thesis by (simp add: strip_chars_def split_runs_leading)
qed

lemma split_runs_word:
  "acc \<noteq> [] \<Longrightarrow> split_runs p acc s = (rev acc @ takeWhile (\<lambda>c. \<not> p c) s) # split_runs p [] (dropWhile (\<lambda>c. \<not> p c) s)"
  by (induction s arbitrary: acc) auto

lemma split_runs_first:
  assumes "split_runs p [] s = x # xs"
  shows "x = takeWhile (\<lambda>c. \<not> p c) (dropWhile p s)" "x \<noteq> []"
proof -
  have e: "split_runs p [] (dropWhile p s) = x # xs" using assms by (simp add: split_runs_leading)
  then obtain c cs where d: "dropWhile p s = c # cs" by (cases "dropWhile p s") auto
  have "\<not> p c" using d hd_dropWhile [of p s] by auto
  then show "x = takeWhile (\<lambda>c. \<not> p c) (dropWhile p s)" "x \<noteq> []"
    using e by (auto simp: d split_runs_word)
qed

definition shlex_plain :: "char \<Rightarrow> bool" where
  "shlex_plain c \<longleftrightarrow> \<not> shlex_space c \<and> \<not> shlex_quote c \<and> c \<noteq> backslash"

lemma shlex_leading: "shlex_run Space [] False (dropWhile shlex_space s) = shlex_run Space [] False s"
  by (induction s) auto

lemma shlex_word:
  "\<forall>c\<in>set t. shlex_plain c \<Longrightarrow> shlex_run Word tok q (t @ rest) = shlex_run Word (tok @ t) q rest"
  by (induction t arbitrary: tok) (auto simp: shlex_plain_def)

lemma shlex_first:
  assumes "t \<noteq> []" "\<forall>c\<in>set t. shlex_plain c" "rest = [] \<or> shlex_space (hd rest)"
    and "shlex_run Space [] False (t @ rest) = Inr argv"
  shows "\<exists>args. argv = t # args"
proof -
  obtain c u where t: "t = c # u" using assms(1) by (cases t) auto
  have "shlex_run Space [] False (t @ rest) = shlex_run Word t False rest"
    using assms(2) shlex_word [of u "[c]" False rest] by (auto simp: t shlex_plain_def)
  then show ?thesis
    using assms(1,3,4)
    by (cases rest) (auto simp: map_sum_def split: sum.splits)
qed

lemma shlex_split_first:
  assumes "py_split_ws (py_strip command) = x # xs" "\<forall>c\<in>set x. \<not> shlex_quote c \<and> c \<noteq> backslash"
    and "\<forall>c\<in>set command. is_space c \<longrightarrow> shlex_space c" "shlex_split command = Inr argv"
  shows "\<exists>args. argv = x # args"
proof -
  have sp: "is_space c = shlex_space c" if "c \<in> set command" for c
    using assms(3) that by (auto simp: shlex_space_def is_space_def)
  have "split_runs is_space [] command = x # xs"
    using assms(1) by (simp add: py_split_ws_def py_strip_def split_runs_strip)
  note f = split_runs_first [OF this]
  have d: "dropWhile is_space command = dropWhile shlex_space command"
    using sp by (simp cong: dropWhile_cong)
  let ?r = "dropWhile shlex_space command"
  have sub: "set ?r \<subseteq> set command" by (auto dest: set_dropWhileD)
  have t: "takeWhile (\<lambda>c. \<not> is_space c) ?r = takeWhile (\<lambda>c. \<not> shlex_space c) ?r"
    using sp sub by (intro takeWhile_cong) auto
  define rest where "rest = dropWhile (\<lambda>c. \<not> shlex_space c) ?r"
  have x: "x = takeWhile (\<lambda>c. \<not> shlex_space c) ?r" using f(1) by (simp add: d t)
  then have r: "?r = x @ rest" by (simp add: rest_def)
  have "\<forall>c\<in>set x. shlex_plain c"
    using assms(2) by (auto simp: shlex_plain_def x dest: set_takeWhileD)
  moreover have "rest = [] \<or> shlex_space (hd rest)"
    using hd_dropWhile [of "\<lambda>c. \<not> shlex_space c" ?r] by (auto simp: rest_def)
  moreover have "shlex_run Space [] False (x @ rest) = Inr argv"
    using assms(4) shlex_leading [of command] unfolding r shlex_split_def by simp
  ultimately show ?thesis using shlex_first f(2) by blast
qed

lemma py_lower_keeps:
  "\<not> shlex_quote (to_lower c) \<and> to_lower c \<noteq> backslash \<Longrightarrow> \<not> shlex_quote c \<and> c \<noteq> backslash"
  by (auto simp: shlex_quote_def to_lower_def)

text \<open>The policy splits at more characters than \<open>shlex\<close>: with a form feed the policy sees another program than
  the one that would be started.\<close>

lemma form_feed_evades_policy:
  "is_command_allowed [''ls''] (''ls'' @ [CHR 0x0C] @ ''x'') \<and> shlex_split (''ls'' @ [CHR 0x0C] @ ''x'') = Inr [''ls'' @ [CHR 0x0C] @ ''x'']"
  by (simp add: is_command_allowed_def py_split_ws_def py_strip_def strip_chars_def is_space_def
      ALLOWED_COMMAND_WILDCARD_def shlex_split_def shlex_space_def shlex_quote_def py_lower_def to_lower_def
      fnmatch_literal)

section \<open>Properties\<close>

text \<open>C24 (safety). What the policy allows is what runs, for a policy of plain words (no glob, quote or backslash) and a
  command whose white space is white space to \<open>shlex\<close> as well (no form feed or vertical tab, with which the policy can
  be evaded): a child process is started only for a program whose name, in lower case, is a word of the
  configuration, however the arguments are quoted.\<close>

theorem started_program_allowed:
  assumes "st_allowed_policy w = create_allowed_policy es"
    and "\<forall>t\<in>set (policy_tokens es). \<forall>c\<in>set t. c \<notin> {CHR ''*'', CHR ''?'', CHR ''['', CHR 0x27, CHR 0x22, CHR 0x5C}"
    and "\<forall>c\<in>set command. is_space c \<longrightarrow> shlex_space c"
    and "run_process command w = (Inr pid, w')" "running_processes w' \<noteq> running_processes w"
  shows "\<exists>program args. shlex_split command = Inr (program # args) \<and> py_lower program \<in> set (policy_tokens es)"
proof -
  have a: "is_command_allowed (create_allowed_policy es) command"
    using assms(1,4,5) by (auto simp: run_process_def split: if_splits)
  have lit: "\<forall>t\<in>set (policy_tokens es). \<forall>c\<in>set t. c \<notin> {CHR ''*'', CHR ''?'', CHR ''[''}"
    using assms(2) by blast
  obtain x xs where x: "py_split_ws (py_strip command) = x # xs" "py_lower x \<in> set (policy_tokens es)"
    using a literal_policy_exact [OF lit] by blast
  have "\<forall>c\<in>set x. \<not> shlex_quote c \<and> c \<noteq> backslash"
  proof
    fix c assume "c \<in> set x"
    then have "to_lower c \<in> set (py_lower x)" by (simp add: py_lower_def)
    from bspec [OF bspec [OF assms(2) x(2)] this] have "to_lower c \<notin> {CHR 0x27, CHR 0x22, CHR 0x5C}" by simp
    then show "\<not> shlex_quote c \<and> c \<noteq> backslash" by - (rule py_lower_keeps, simp add: shlex_quote_def)
  qed
  moreover have "shlex_split command \<noteq> Inl e" for e
  proof
    assume "shlex_split command = Inl e"
    with a assms(1) have "fst (run_process command w) \<in> {Inl e, Inl Suspended}" by (simp add: run_process_def Let_def)
    with assms(4) show False by simp
  qed
  then obtain argv where v: "shlex_split command = Inr argv" by (cases "shlex_split command") blast+
  ultimately obtain args where "argv = x # args" using shlex_split_first [OF x(1) _ assms(3) v] by blast
  with v x(2) show ?thesis by blast
qed

theorem started_program_allowed_witness:
  "\<exists>program args. shlex_split ''ls -l'' = Inr (program # args) \<and> py_lower program \<in> set (policy_tokens [''ls, cat''])"
proof -
  define child where "child = \<lparr>pc_os_pid = 77, pc_returncode = None, pc_stdout = [], pc_stderr = [], pc_streams_open = True, pc_exit_code = 0\<rparr>"
  let ?w = "sample_bridge\<lparr>st_allowed_policy := create_allowed_policy [''ls, cat''], sv_spawns := [Spawned child]\<rparr>"
  have t: "policy_tokens [''ls, cat''] = [''ls'', ''cat'']"
    by (simp add: policy_tokens_def token_sep_def is_space_def py_strip_def strip_chars_def py_lower_def to_lower_def)
  have s: "shlex_split ''ls -l'' = Inr [''ls'', ''-l'']"
    by (simp add: shlex_split_def shlex_space_def shlex_quote_def)
  have "py_split_ws (py_strip ''ls -l'') = [''ls'', ''-l'']" "py_lower ''ls'' = ''ls''"
    by (simp_all add: py_split_ws_def is_space_def py_strip_def strip_chars_def py_lower_def to_lower_def)
  then have a: "is_command_allowed (create_allowed_policy [''ls, cat'']) ''ls -l''"
    by (simp add: literal_policy_exact t)
  have "\<exists>pid w'. run_process ''ls -l'' ?w = (Inr pid, w') \<and> running_processes w' \<noteq> running_processes ?w"
    by (simp add: run_process_def a s spawn_process_def next_spawn_def Let_def)
  then show ?thesis
    using started_program_allowed [of ?w "[''ls, cat'']" "''ls -l''"]
    by (auto simp: t is_space_def shlex_space_def)
qed

end
