(* ===== verification/Gateway.thy ===== *)
theory Gateway
  imports Messages "HOL-Library.AList" "HOL-Library.Sublist"
begin

text \<open>
  \<open>mcubridge-gateway/gateway.py\<close>: the gRPC server at the other end of the daemon's cloud stream. It keeps
  one stream per device name in \<open>connections\<close> and answers keepalive pings. A session is known by the number
  of its stream. The TLS library is an argument (\<open>load_chain\<close> and \<open>load_ca\<close> say what loading the files
  gives), and so is what the peer presents.
\<close>

section \<open>State\<close>

text \<open>What \<open>stream.peer.cert()\<close> gives: nothing, the subject of a certificate as a list of relative names, or a
  structure on which the iteration raises.\<close>

datatype peer_cert = NoCert | Subject "(string \<times> string) list list" | BadCert pyexc

record pong =
  pg_protocol_version :: int
  pg_device_id :: string
  pg_sequence_id :: nat
  pg_roundtrip_ms :: int

record gateway =
  gw_use_tls :: bool
  gw_cert_file :: "string option"
  gw_key_file :: "string option"
  gw_ca_file :: "string option"
  gw_connections :: "(string \<times> nat) list"
  gw_sessions :: "(nat \<times> string) list" \<comment> \<open>the running \<open>Session\<close> calls with their \<open>device_id\<close>\<close>
  gw_sent :: "(nat \<times> pong) list"

definition ProtobufGateway :: "bool \<Rightarrow> string option \<Rightarrow> string option \<Rightarrow> string option \<Rightarrow> gateway" where
  "ProtobufGateway use_tls cert key ca =
    \<lparr>gw_use_tls = use_tls, gw_cert_file = cert, gw_key_file = key, gw_ca_file = ca,
     gw_connections = [], gw_sessions = [], gw_sent = []\<rparr>"

section \<open>TLS\<close>

text \<open>\<open>bool()\<close> of an optional string.\<close>

definition given :: "string option \<Rightarrow> bool" where
  "given x \<longleftrightarrow> (case x of None \<Rightarrow> False | Some s \<Rightarrow> s \<noteq> [])"

datatype verify_mode = CERT_NONE | CERT_REQUIRED

definition gateway_ssl_context ::
  "(string \<Rightarrow> string \<Rightarrow> unit result) \<Rightarrow> (string \<Rightarrow> unit result) \<Rightarrow> gateway \<Rightarrow> verify_mode option result" where
  "gateway_ssl_context load_chain load_ca g =
    (if \<not> gw_use_tls g then Inr None
     else if \<not> given (gw_cert_file g) \<or> \<not> given (gw_key_file g) then Inr None
     else (case load_chain (the (gw_cert_file g)) (the (gw_key_file g)) of
             Inl e \<Rightarrow> Inl e
           | Inr _ \<Rightarrow>
               (if given (gw_ca_file g)
                then (case load_ca (the (gw_ca_file g)) of Inl e \<Rightarrow> Inl e | Inr _ \<Rightarrow> Inr (Some CERT_REQUIRED))
                else Inr (Some CERT_NONE))))"

section \<open>Sessions\<close>

text \<open>The name of a device: the last common name of its certificate, else its address.\<close>

definition anonymous_id :: "(string \<times> int) option \<Rightarrow> string" where
  "anonymous_id peer =
    (case peer of None \<Rightarrow> ''anonymous-unknown'' | Some (h, p) \<Rightarrow> ''anonymous-'' @ h @ '':'' @ py_str_int p)"

definition common_name :: "(string \<times> string) list list \<Rightarrow> string \<Rightarrow> string" where
  "common_name subject device_id =
    fold (\<lambda>sub d. fold (\<lambda>(key, val) d. if key = ''commonName'' then val else d) sub d) subject device_id"

text \<open>The exceptions of the certificate that end the session quietly. \<open>ssl.SSLError\<close> is the only \<open>OSError\<close> that
  the iteration raises, and it raises no \<open>KeyError\<close>.\<close>

definition cert_error :: "pyexc \<Rightarrow> bool" where
  "cert_error e \<longleftrightarrow> e \<in> {OSError, AttributeError, TypeError}"

text \<open>\<open>Session\<close> up to its loop: \<open>Inr False\<close> when the session is refused.\<close>

definition session_start ::
  "nat \<Rightarrow> (string \<times> int) option \<Rightarrow> peer_cert \<Rightarrow> gateway \<Rightarrow> bool result \<times> gateway" where
  "session_start stream peer cert g =
    (let register = (\<lambda>device_id. (Inr True,
           g\<lparr>gw_connections := AList.update device_id stream (gw_connections g),
             gw_sessions := (stream, device_id) # gw_sessions g\<rparr>))
     in case cert of
          NoCert \<Rightarrow> register (anonymous_id peer)
        | Subject subject \<Rightarrow> register (common_name subject (anonymous_id peer))
        | BadCert e \<Rightarrow> (if cert_error e then Inr False else Inl e, g))"

text \<open>The \<open>finally\<close> of \<open>Session\<close>.\<close>

definition session_finish :: "nat \<Rightarrow> gateway \<Rightarrow> gateway" where
  "session_finish stream g =
    (case map_of (gw_sessions g) stream of
       None \<Rightarrow> g
     | Some device_id \<Rightarrow>
         g\<lparr>gw_connections := AList.delete device_id (gw_connections g),
           gw_sessions := AList.delete stream (gw_sessions g)\<rparr>)"

text \<open>What the stream delivers. A ping carries whether the answer can be written; the other payloads
  (telemetry, events, command responses) are only logged.\<close>

datatype gateway_event = Ping nat bool | Report cloud_envelope | NetworkError | SessionCancelled

definition pong_for :: "nat \<Rightarrow> pong" where
  "pong_for seq = \<lparr>pg_protocol_version = 2, pg_device_id = ''CLOUD_GW'', pg_sequence_id = seq, pg_roundtrip_ms = 0\<rparr>"

datatype session_outcome = Ended | NetworkFailed | Cancelled

fun session_loop_gw :: "nat \<Rightarrow> gateway_event list \<Rightarrow> gateway \<Rightarrow> session_outcome \<times> gateway" where
  "session_loop_gw stream [] g = (Ended, g)"
| "session_loop_gw stream (Ping seq written # evs) g =
    (if written then session_loop_gw stream evs (g\<lparr>gw_sent := gw_sent g @ [(stream, pong_for seq)]\<rparr>)
     else (NetworkFailed, g))"
| "session_loop_gw stream (Report _ # evs) g = session_loop_gw stream evs g"
| "session_loop_gw stream (NetworkError # evs) g = (NetworkFailed, g)"
| "session_loop_gw stream (SessionCancelled # evs) g = (Cancelled, g)"

text \<open>The rest of \<open>Session\<close> once the device is registered; a network error is logged.\<close>

definition session_rest :: "nat \<Rightarrow> gateway_event list \<Rightarrow> gateway \<Rightarrow> session_outcome \<times> gateway" where
  "session_rest stream evs g =
    (case session_loop_gw stream evs g of
       (r, g) \<Rightarrow> (if r = NetworkFailed then Ended else r, session_finish stream g))"

text \<open>Sessions run concurrently. One step registers a new stream, lets a session take some events without
  ending, or lets it run to its end.\<close>

inductive gateway_step :: "gateway \<Rightarrow> gateway \<Rightarrow> bool" where
  gw_connect: "map_of (gw_sessions g) stream = None \<Longrightarrow>
     gateway_step g (snd (session_start stream peer cert g))"
| gw_turn: "map_of (gw_sessions g) stream = Some d \<Longrightarrow> session_loop_gw stream evs g = (Ended, g') \<Longrightarrow>
     gateway_step g g'"
| gw_end: "map_of (gw_sessions g) stream = Some d \<Longrightarrow>
     gateway_step g (snd (session_rest stream evs g))"

section \<open>Lemmas\<close>

definition connections_live :: "gateway \<Rightarrow> bool" where
  "connections_live g \<longleftrightarrow> distinct (map fst (gw_sessions g))
     \<and> (\<forall>d s. map_of (gw_connections g) d = Some s \<longrightarrow> map_of (gw_sessions g) s = Some d)"

lemma loop_keeps:
  "session_loop_gw stream evs g = (r, g') \<Longrightarrow>
     gw_connections g' = gw_connections g \<and> gw_sessions g' = gw_sessions g"
  by (induction stream evs g rule: session_loop_gw.induct) (auto split: if_splits)

text \<open>The pings of a session, and those among them that are answered: all, unless the session breaks.\<close>

fun pings :: "gateway_event list \<Rightarrow> nat list" where
  "pings [] = []"
| "pings (Ping seq _ # evs) = seq # pings evs"
| "pings (_ # evs) = pings evs"

lemma loop_answers:
  "session_loop_gw stream evs g = (r, g') \<Longrightarrow>
     \<exists>answered. gw_sent g' = gw_sent g @ map (\<lambda>seq. (stream, pong_for seq)) answered
       \<and> prefix answered (pings evs) \<and> (r = Ended \<longrightarrow> answered = pings evs)"
proof (induction stream evs g rule: session_loop_gw.induct)
  case (2 stream seq written evs g)
  show ?case
  proof (cases written)
    case True
    with 2 obtain xs where "gw_sent g' = gw_sent g @ map (\<lambda>seq. (stream, pong_for seq)) (seq # xs)"
      "prefix xs (pings evs)" "r = Ended \<longrightarrow> xs = pings evs"
      by auto
    then show ?thesis by (intro exI [of _ "seq # xs"]) simp
  next
    case False
    with 2 show ?thesis by (intro exI [of _ "[]"]) auto
  qed
qed auto

lemma start_live: "connections_live g \<Longrightarrow> map_of (gw_sessions g) stream = None \<Longrightarrow>
    connections_live (snd (session_start stream peer cert g))"
  by (auto simp: connections_live_def session_start_def update_conv Let_def map_of_eq_None_iff split: peer_cert.split)

lemma finish_live:
  assumes "connections_live g"
  shows "connections_live (session_finish stream g)"
proof (cases "map_of (gw_sessions g) stream")
  case (Some device)
  have "map_of (AList.delete stream (gw_sessions g)) s = Some d"
    if "map_of (AList.delete device (gw_connections g)) d = Some s" for d s
  proof -
    have "d \<noteq> device" "map_of (gw_connections g) d = Some s"
      using that by (auto simp: delete_conv split: if_splits)
    then have "map_of (gw_sessions g) s = Some d" using assms unfolding connections_live_def by blast
    moreover from this have "s \<noteq> stream" using \<open>d \<noteq> device\<close> Some by auto
    ultimately show ?thesis by (simp add: delete_conv)
  qed
  then show ?thesis
    using assms Some by (auto simp: connections_live_def session_finish_def distinct_delete)
qed (simp add: session_finish_def assms)

lemma step_live: "gateway_step g g' \<Longrightarrow> connections_live g \<Longrightarrow> connections_live g'"
proof (induction rule: gateway_step.induct)
  case (gw_turn g stream d evs g')
  then show ?case using loop_keeps by (force simp: connections_live_def)
next
  case (gw_end g stream d evs)
  obtain r g1 where l: "session_loop_gw stream evs g = (r, g1)" by fastforce
  then have "connections_live g1" using loop_keeps gw_end by (force simp: connections_live_def)
  then show ?case by (simp add: session_rest_def l finish_live)
qed (rule start_live)

text \<open>A device that connects again before its old session has ended is forgotten when the old one ends: the
  entry of the new stream is removed although its session runs.\<close>

lemma stale_session_forgets_device:
  assumes "map_of (gw_sessions g) old = Some d" "map_of (gw_sessions g) new = Some d" "old \<noteq> new"
    and "map_of (gw_connections g) d = Some new"
  shows "map_of (gw_sessions (session_finish old g)) new = Some d \<and> map_of (gw_connections (session_finish old g)) d = None"
  using assms by (simp add: session_finish_def delete_conv)

text \<open>Clients are verified exactly when TLS is in use with a CA file; without certificate or key the server
  runs in the clear, whatever \<open>use_tls\<close> says.\<close>

lemma gateway_verifies_clients:
  "gateway_ssl_context load_chain load_ca g = Inr (Some CERT_REQUIRED) \<longleftrightarrow>
     gw_use_tls g \<and> given (gw_cert_file g) \<and> given (gw_key_file g) \<and> given (gw_ca_file g)
     \<and> load_chain (the (gw_cert_file g)) (the (gw_key_file g)) = Inr () \<and> load_ca (the (gw_ca_file g)) = Inr ()"
  "\<not> given (gw_cert_file g) \<or> \<not> given (gw_key_file g) \<Longrightarrow> gateway_ssl_context load_chain load_ca g = Inr None"
  by (auto simp: gateway_ssl_context_def split: sum.splits)

section \<open>Properties\<close>

text \<open>C31 (invariant). Whatever devices connect, ping, report, break off and reconnect, in any order: the stream
  that the gateway has registered for a device belongs to a running session of that device; and in each turn a
  session answers its pings in order, each with its own sequence number, on its own stream, and nothing else.\<close>

theorem gateway_connections_live:
  assumes "gateway_step\<^sup>*\<^sup>* (ProtobufGateway tls cert key ca) g"
  shows "(map_of (gw_connections g) device = Some stream \<longrightarrow> map_of (gw_sessions g) stream = Some device)
     \<and> (session_loop_gw s evs g = (Ended, g') \<longrightarrow>
          gw_sent g' = gw_sent g @ map (\<lambda>seq. (s, pong_for seq)) (pings evs)
          \<and> gw_connections g' = gw_connections g)"
proof -
  have "connections_live (ProtobufGateway tls cert key ca)"
    by (simp add: connections_live_def ProtobufGateway_def)
  with assms have "connections_live g" by (induction rule: rtranclp_induct) (auto intro: step_live)
  then show ?thesis
    using loop_answers [of s evs g Ended g'] loop_keeps [of s evs g Ended g']
    unfolding connections_live_def by blast
qed

theorem gateway_connections_live_witness:
  "let g = snd (session_start 7 None (Subject [[(''commonName'', ''yun'')]]) (ProtobufGateway True None None None))
   in map_of (gw_connections g) ''yun'' = Some 7 \<and> map_of (gw_sessions g) 7 = Some ''yun''
     \<and> gw_sent (snd (session_loop_gw 7 [Ping 1 True, Ping 2 True] g)) = [(7, pong_for 1), (7, pong_for 2)]"
proof -
  define g where "g = snd (session_start 7 None (Subject [[(''commonName'', ''yun'')]]) (ProtobufGateway True None None None))"
  have "gateway_step (ProtobufGateway True None None None) g"
    unfolding g_def by (rule gw_connect) (simp add: ProtobufGateway_def)
  then have r: "gateway_step\<^sup>*\<^sup>* (ProtobufGateway True None None None) g" by blast
  have c: "map_of (gw_connections g) ''yun'' = Some 7" "gw_sent g = []"
    by (simp_all add: g_def session_start_def ProtobufGateway_def common_name_def Let_def)
  obtain g' where l: "session_loop_gw 7 [Ping 1 True, Ping 2 True] g = (Ended, g')" by simp
  from gateway_connections_live [OF r, of "''yun''" 7] c(1) have "map_of (gw_sessions g) 7 = Some ''yun''" by blast
  moreover from gateway_connections_live [OF r, of _ _ 7 "[Ping 1 True, Ping 2 True]" g'] l
  have "gw_sent g' = [(7, pong_for 1), (7, pong_for 2)]" by (simp add: c)
  ultimately show ?thesis using c l unfolding g_def [symmetric] by (simp only: Let_def snd_conv simp_thms)
qed

end
