(* ===== verification/Decimal.thy ===== *)
theory Decimal
  imports Prelude
begin

text \<open>
  Decimal numbers: what \<open>str\<close> prints of a number is what \<open>int\<close> reads.
\<close>

lemma digit_val_char: "n < 10 \<Longrightarrow> digit_val (char_of (48 + n)) = int n"
proof -
  assume "n < 10"
  then have "of_char (char_of (48 + n)) = 48 + n" by simp
  then have "int (of_char (char_of (48 + n))) = 48 + int n" by simp
  then show ?thesis by (simp only: digit_val_def of_nat_of_char)
qed

lemma nat_digits_digit: "c \<in> set (nat_digits n) \<Longrightarrow> is_digit c"
proof (induction n rule: nat_digits.induct)
  case (1 n)
  then show ?case
    by (subst (asm) nat_digits.simps) (auto simp: is_digit_def split: if_splits)
qed

lemma nat_digits_nonempty [simp]: "nat_digits n \<noteq> []"
  by (subst nat_digits.simps) simp

lemma digits_val_snoc: "digits_val (ds @ [c]) = digits_val ds * 10 + digit_val c"
  by (simp add: digits_val_def)

lemma digits_val_nat_digits: "digits_val (nat_digits n) = int n"
proof (induction n rule: nat_digits.induct)
  case (1 n)
  show ?case
  proof (cases "n < 10")
    case True
    then show ?thesis using digits_val_snoc [of "[]" "char_of (48 + n)"]
      by (subst nat_digits.simps) (simp add: digits_val_def digit_val_char)
  next
    case False
    then have "digits_val (nat_digits n) = int (n div 10) * 10 + int (n mod 10)"
      using 1 by (subst nat_digits.simps) (simp add: digits_val_snoc digit_val_char)
    also have "\<dots> = int n" by (metis div_mult_mod_eq of_nat_add of_nat_mult of_nat_numeral)
    finally show ?thesis .
  qed
qed

lemma digits_val_nonneg: "list_all is_digit s \<Longrightarrow> 0 \<le> digits_val s"
proof (induction s rule: rev_induct)
  case (snoc c s)
  then have "48 \<le> (of_char c :: nat)" "0 \<le> digits_val s" by (simp_all add: is_digit_def)
  then have "int 48 \<le> int (of_char c)" by (simp only: of_nat_le_iff)
  then have "0 \<le> digit_val c" by (simp only: digit_val_def of_nat_of_char)
  with \<open>0 \<le> digits_val s\<close> show ?case by (simp add: digits_val_snoc)
qed (simp add: digits_val_def)

lemma py_isdigit_nat_digits [simp]: "py_isdigit (nat_digits n)"
  by (auto simp: py_isdigit_def list_all_iff nat_digits_digit)

lemma is_digit_plain: "is_digit c \<Longrightarrow> c \<noteq> slash \<and> to_upper c = c \<and> c \<noteq> CHR ''A'' \<and> \<not> is_space c \<and> c \<noteq> CHR ''-'' \<and> c \<noteq> CHR ''+''"
  by (auto simp: is_digit_def to_upper_def slash_def is_space_def)

lemma digits_segs: "py_isdigit s \<Longrightarrow> nonempty_segs s = [s]"
proof -
  assume d: "py_isdigit s"
  then have "slash \<notin> set s" using is_digit_plain by (auto simp: py_isdigit_def list_all_iff)
  with d show ?thesis by (simp add: nonempty_segs_def py_split_no_sep py_isdigit_def)
qed

end
