(* ===== verification/Clients.thy ===== *)
theory Clients
  imports Runtime Decimal
begin

text \<open>
  The local clients of the daemon: the command line tools and the CGI script of \<open>mcubridge/scripts/\<close>
  (\<open>mcubridge_led_control.py\<close>, \<open>mcubridge_file_push.py\<close>, \<open>pin_rest_cgi.py\<close>,
  \<open>mcubridge_rotate_credentials.py\<close>) and the client library of \<open>mcubridge-client-examples/mcubridge_client/\<close>
  (\<open>definitions.py\<close>, \<open>env.py\<close>, \<open>cli.py\<close>, \<open>spi.py\<close>). They talk to the daemon by one call of its local
  service; what the daemon does with their messages is \<open>ipc_publish\<close> of the theory \<open>Runtime\<close>. The outcome of
  the call itself, of the JSON library and of UCI are arguments.
\<close>

section \<open>Messages\<close>

text \<open>\<open>pb.CloudQueuedPublish(topic_name=..., payload=..., qos=1)\<close>.\<close>

definition local_message :: "string \<Rightarrow> bytes \<Rightarrow> cloud_publish" where
  "local_message topic payload = empty_publish\<lparr>cp_topic_name := topic, cp_payload := payload, cp_qos := 1\<rparr>"

section \<open>LED control\<close>

text \<open>Exit status and the message that was handed to the daemon; \<open>published\<close> is how the call ends. An exception
  that the script does not catch ends it with status 1.\<close>

definition call_status :: "int \<Rightarrow> unit result \<Rightarrow> int" where
  "call_status failed published =
    (case published of
       Inr _ \<Rightarrow> 0
     | Inl e \<Rightarrow> if e \<in> {OSError, TimeoutError, RuntimeError, ValueError, UnicodeDecodeError} then failed else 1)"

definition led_control :: "string \<Rightarrow> int \<Rightarrow> runtime_config \<Rightarrow> unit result \<Rightarrow> int \<times> cloud_publish option" where
  "led_control state pin config published =
    (let state_norm = py_lower state
     in if state_norm \<noteq> ''on'' \<and> state_norm \<noteq> ''off'' then (2, None)
        else (call_status 4 published,
              Some (local_message (topic_path (topic_prefix config) (topic_value DIGITAL) [py_str_int pin])
                (encode_utf8 (if state_norm = ''on'' then ''1'' else ''0'')))))"

section \<open>Pushing files\<close>

text \<open>\<open>source\<close> is the content of the source file, \<open>None\<close> when it does not exist or is a directory.\<close>

definition push_segments :: "bool \<Rightarrow> string \<Rightarrow> string list" where
  "push_segments mcu target =
    [''write''] @ (if mcu then [''mcu''] else []) @ [lstrip_chars (\<lambda>c. c = slash) target]"

definition file_push ::
  "bytes option \<Rightarrow> string \<Rightarrow> bool \<Rightarrow> runtime_config \<Rightarrow> unit result \<Rightarrow> int \<times> cloud_publish option" where
  "file_push source target mcu config published =
    (case source of
       None \<Rightarrow> (2, None)
     | Some data \<Rightarrow>
         (call_status 1 published,
          Some (local_message (topic_path (topic_prefix config) (topic_value FILE) (push_segments mcu target)) data)))"

section \<open>Pin control over HTTP\<close>

record environ =
  en_path_info :: "string option"
  en_request_method :: "string option"
  en_content_length :: "string option"
  en_input :: bytes

record pin_response =
  rs_code :: string
  rs_status :: string
  rs_message :: string
  rs_data :: "(int \<times> string) option"

definition error_response :: "string \<Rightarrow> string \<Rightarrow> pin_response" where
  "error_response code text = \<lparr>rs_code = code, rs_status = ''error'', rs_message = text, rs_data = None\<rparr>"

text \<open>\<open>re.match(r"/pin/(\d+)", path)\<close>: the pattern is not anchored at the end.\<close>

definition match_pin :: "string \<Rightarrow> string option" where
  "match_pin path =
    (if py_startswith ''/pin/'' path
     then (let ds = takeWhile is_digit (drop 5 path) in if ds = [] then None else Some ds)
     else None)"

text \<open>What the WSGI server reads for \<open>read(n)\<close>.\<close>

definition read_body :: "int \<Rightarrow> bytes \<Rightarrow> bytes" where
  "read_body n input = (if n < 0 then input else take (nat n) input)"

text \<open>The exceptions that become an answer with status 500; \<open>json_format.ParseError\<close> is a \<open>DecodeError\<close> here.\<close>

definition cgi_catches :: "pyexc \<Rightarrow> bool" where
  "cgi_catches e \<longleftrightarrow> e \<in> {ValueError, UnicodeDecodeError, TypeError, OSError, TimeoutError, DecodeError}"

text \<open>The body of the \<open>try\<close> block from the configuration on. \<open>parse_state\<close> is \<open>json_format.Parse\<close> followed by
  reading the field; an empty body leaves it empty. The second component is the message that was published;
  \<open>published\<close> is how the publication ends.\<close>

definition pin_application ::
  "(bytes \<Rightarrow> string result) \<Rightarrow> unit result \<Rightarrow> environ \<Rightarrow> runtime_config \<Rightarrow> pin_response result \<times> cloud_publish option" where
  "pin_application parse_state published env config =
    (case match_pin (case en_path_info env of Some p \<Rightarrow> p | None \<Rightarrow> []) of
       None \<Rightarrow> (Inr (error_response ''400 Bad Request'' ''Invalid path''), None)
     | Some ds \<Rightarrow>
         (if en_request_method env \<noteq> Some ''POST''
          then (Inr (error_response ''405 Method Not Allowed'' ''Method not allowed''), None)
          else
            (case py_int (case en_content_length env of Some l \<Rightarrow> l | None \<Rightarrow> ''0'') of
               Inl e \<Rightarrow> (Inl e, None)
             | Inr body_len \<Rightarrow>
                 (case (if body_len = 0 then Inr [] else parse_state (read_body body_len (en_input env))) of
                    Inl e \<Rightarrow> (Inl e, None)
                  | Inr s \<Rightarrow>
                      (let state = py_upper s; pin = digits_val ds
                       in if state \<noteq> ''ON'' \<and> state \<noteq> ''OFF''
                          then (Inr (error_response ''400 Bad Request'' ''Invalid state''), None)
                          else
                            (let m = local_message (topic_path (topic_prefix config) (topic_value DIGITAL) [py_str_int pin])
                                       (encode_utf8 (if state = ''ON'' then ''1'' else ''0''))
                             in (case published of
                                   Inl e \<Rightarrow> Inl e
                                 | Inr _ \<Rightarrow>
                                     (if uint32_ok pin
                                      then Inr \<lparr>rs_code = ''200 OK'', rs_status = ''ok'', rs_message = [],
                                                rs_data = Some (pin, state)\<rparr>
                                      else Inl ValueError), Some m)))))))"

text \<open>\<open>application\<close>: \<open>exc_text\<close> is \<open>str()\<close> of the exception; anything else leaves the WSGI application.\<close>

definition application ::
  "(pyexc \<Rightarrow> string) \<Rightarrow> (bytes \<Rightarrow> string result) \<Rightarrow> unit result \<Rightarrow> runtime_config result \<Rightarrow> environ
    \<Rightarrow> pin_response result \<times> cloud_publish option" where
  "application exc_text parse_state published loaded env =
    (case (case loaded of
             Inl e \<Rightarrow> (Inl e, None)
           | Inr config \<Rightarrow> pin_application parse_state published env config) of
       (Inl e, m) \<Rightarrow> (if cgi_catches e then Inr (error_response ''500 Internal Server Error'' (exc_text e)) else Inl e, m)
     | x \<Rightarrow> x)"

section \<open>Rotating credentials\<close>

text \<open>Exit status, the two values written to UCI, and whether the service was restarted. \<open>rnd\<close> are the random
  bytes of \<open>secrets.token_hex\<close>, \<open>password\<close> is what \<open>secrets.token_urlsafe\<close> gives.\<close>

definition rotate_credentials ::
  "bool \<Rightarrow> string \<Rightarrow> bytes \<Rightarrow> string \<Rightarrow> bool \<Rightarrow> bool \<Rightarrow> int \<times> (string \<times> string) option \<times> bool" where
  "rotate_credentials force answer rnd password uci_ok no_restart =
    (if \<not> force \<and> py_strip (py_lower answer) \<noteq> ''y'' \<and> py_strip (py_lower answer) \<noteq> ''yes'' then (0, None, False)
     else if \<not> uci_ok then (3, None, False)
     else (0, Some (bytes_hex rnd, password), \<not> no_restart))"

section \<open>The client library\<close>

text \<open>\<open>a or b or c\<close> on optional strings.\<close>

definition first_set :: "string option list \<Rightarrow> string option" where
  "first_set xs = List.find (\<lambda>s. s \<noteq> []) (List.map_filter id xs)"

definition build_bridge_args :: "string option \<Rightarrow> string option \<Rightarrow> string \<Rightarrow> (string \<times> string) list" where
  "build_bridge_args socket_env socket_path prefix =
    (case first_set [socket_path, socket_env, Some ''/var/run/mcubridge.sock''] of
       Some s \<Rightarrow> [(''socket_path'', s)] | None \<Rightarrow> [])
    @ (if prefix = [] then [] else [(''topic_prefix'', prefix)])"

text \<open>\<open>read_uci_general\<close>: \<open>uci\<close> is the function of the daemon's package, \<open>None\<close> when it is not installed.\<close>

definition read_uci_general :: "bool \<Rightarrow> (string \<times> string) list result option \<Rightarrow> (string \<times> string) list result" where
  "read_uci_general openwrt uci =
    (if \<not> openwrt then Inr []
     else (case uci of
             None \<Rightarrow> Inr []
           | Some (Inl e) \<Rightarrow> (if e = RuntimeError then Inr [] else Inl e)
           | Some (Inr config) \<Rightarrow>
               Inr (filter (\<lambda>(k, _). \<not> (py_startswith ''.'' k \<or> py_startswith ''_'' k)) config)))"

definition client_socket :: "string option \<Rightarrow> (string \<times> string) list \<Rightarrow> string option" where
  "client_socket socket_env cfg = first_set [socket_env, map_of cfg ''socket_path'', Some ''/var/run/mcubridge.sock'']"

text \<open>The socket that \<open>bridge_session\<close> connects to.\<close>

definition session_socket :: "string option \<Rightarrow> string option \<Rightarrow> string \<Rightarrow> string option" where
  "session_socket socket_env socket_path prefix =
    first_set [socket_path, map_of (build_bridge_args socket_env socket_path prefix) ''socket_path'', socket_env,
      Some ''/var/run/mcubridge.sock'']"

text \<open>\<open>SpiDevice\<close>; the calls of the stub are taken to return, and \<open>sd_published\<close> are the messages it has handed to the stub.\<close>

record spi_device =
  sd_frequency :: int
  sd_bit_order :: int
  sd_mode :: int
  sd_prefix :: string
  sd_active :: bool
  sd_published :: "cloud_publish list"

definition SpiDevice :: "int \<Rightarrow> int \<Rightarrow> int \<Rightarrow> string \<Rightarrow> spi_device" where
  "SpiDevice frequency bit_order mode prefix =
    \<lparr>sd_frequency = frequency, sd_bit_order = bit_order, sd_mode = mode, sd_prefix = prefix, sd_active = False,
     sd_published = []\<rparr>"

text \<open>\<open>Topic.build\<close> of the generated client module.\<close>

definition topic_build :: "string \<Rightarrow> string list \<Rightarrow> string \<Rightarrow> string" where
  "topic_build topic segments prefix = topic_path (if prefix = [] then ''br'' else prefix) topic segments"

text \<open>The messages of the methods.\<close>

definition spi_publish :: "string \<Rightarrow> bytes \<Rightarrow> spi_device \<Rightarrow> spi_device" where
  "spi_publish action payload d =
    d\<lparr>sd_published := sd_published d @ [local_message (topic_build (topic_value SPI) [action] (sd_prefix d)) payload]\<rparr>"

definition spi_config_text :: "spi_device \<Rightarrow> string" where
  "spi_config_text d = py_str_int (sd_frequency d) @ '','' @ py_str_int (sd_bit_order d) @ '','' @ py_str_int (sd_mode d)"

definition spi_begin :: "spi_device \<Rightarrow> spi_device" where
  "spi_begin d =
    (if sd_active d then d
     else (spi_publish ''config'' (encode_utf8 (spi_config_text d)) (spi_publish ''begin'' [] d))\<lparr>sd_active := True\<rparr>)"

definition spi_end :: "spi_device \<Rightarrow> spi_device" where
  "spi_end d = (if \<not> sd_active d then d else (spi_publish ''end'' [] d)\<lparr>sd_active := False\<rparr>)"

definition spi_transfer :: "bytes \<Rightarrow> spi_device \<Rightarrow> bytes \<times> spi_device" where
  "spi_transfer data d =
    (let d = (if sd_active d then d else spi_begin d) in (data, spi_publish ''transfer'' data d))"

section \<open>Lemmas\<close>

lemma parse_pin_str: "0 \<le> n \<Longrightarrow> parse_pin (py_str_int n) = n"
proof -
  assume n: "0 \<le> n"
  have d: "\<forall>c\<in>set (nat_digits (nat n)). is_digit c" by (auto simp: nat_digits_digit)
  then have u: "py_upper (nat_digits (nat n)) = nat_digits (nat n)"
    using is_digit_plain by (simp add: py_upper_def map_idI)
  obtain c cs where e: "nat_digits (nat n) = c # cs" by (cases "nat_digits (nat n)") auto
  then have "c \<noteq> CHR ''A''" using d is_digit_plain by auto
  then have "\<not> py_startswith ''A'' (nat_digits (nat n))" by (simp add: e py_startswith_def)
  with n u show ?thesis by (simp add: parse_pin_def py_str_int_def Let_def digits_val_nat_digits)
qed

lemma str_pin_segs: "0 \<le> n \<Longrightarrow> nonempty_segs (py_str_int n) = [py_str_int n]"
  by (simp add: py_str_int_def digits_segs)

lemma match_pin_digits: "match_pin path = Some ds \<Longrightarrow> py_isdigit ds"
  by (auto simp: match_pin_def Let_def py_isdigit_def list_all_iff dest: set_takeWhileD split: if_splits)

lemma to_lower_upper: "to_lower (to_upper c) = to_lower c"
  by (auto simp: to_lower_def to_upper_def)

lemma lower_of_upper: "py_lower s = py_lower (py_upper s)"
  by (simp add: py_lower_def py_upper_def to_lower_upper)

lemma switch_words:
  "py_upper s = ''ON'' \<Longrightarrow> py_lower s = ''on''" "py_upper s = ''OFF'' \<Longrightarrow> py_lower s = ''off''"
proof -
  have "py_lower ''ON'' = ''on''" "py_lower ''OFF'' = ''off''" by code_simp+
  then show "py_upper s = ''ON'' \<Longrightarrow> py_lower s = ''on''" "py_upper s = ''OFF'' \<Longrightarrow> py_lower s = ''off''"
    using lower_of_upper [of s] by simp_all
qed

text \<open>The payload of a pin message.\<close>

lemma bit_payload:
  "decode_utf8 (encode_utf8 ''1'') = Inr ''1''" "decode_utf8 (encode_utf8 ''0'') = Inr ''0''"
  "py_isdigit ''1''" "py_isdigit ''0''" "digits_val ''1'' = 1" "digits_val ''0'' = 0"
  by code_simp+

lemma full_authorisation: "allows_topic (\<lambda>_. True) ''d'' ''write''" "allows_topic (\<lambda>_. True) ''file'' ''write''"
  by (simp_all add: allows_topic_def topic_auth_mapping_eval py_lower_def to_lower_def)

definition pin_message :: "runtime_config \<Rightarrow> int \<Rightarrow> bool \<Rightarrow> cloud_publish" where
  "pin_message config pin on =
    local_message (topic_path (topic_prefix config) (topic_value DIGITAL) [py_str_int pin])
      (encode_utf8 (if on then ''1'' else ''0''))"

lemma pin_message_route:
  assumes "nonempty_segs (topic_prefix config) \<noteq> []" "0 \<le> pin"
  shows "\<exists>route. parse_topic (topic_prefix config) (cp_topic_name (pin_message config pin on)) = Some route
     \<and> tr_topic route = DIGITAL \<and> tr_segments route = [py_str_int pin]"
  using parse_topic_path [OF assms(1), of DIGITAL "[py_str_int pin]"] assms(2)
  by (simp add: pin_message_def local_message_def str_pin_segs)

lemma pin_message_handled:
  assumes "nonempty_segs (topic_prefix config) \<noteq> []" "0 \<le> pin" "cloud_topic_prefix w = topic_prefix config"
    and "sv_serial w" "link_sync_event w" "st_topic_authorization w = Some auth" "allows_topic auth ''d'' ''write''"
  shows "handle_request L (Request (ipc_request (pin_message config pin on) c)) w =
     bindr (send_msg L 81 (DigitalWrite pin (if on then 1 else 0)) w) (\<lambda>_ w. (Inr (), w))"
proof -
  obtain route where r: "parse_topic (topic_prefix config) (cp_topic_name (pin_message config pin on)) = Some route"
      "tr_topic route = DIGITAL" "tr_segments route = [py_str_int pin]"
    using pin_message_route [OF assms(1,2)] by blast
  have "await_link L route w = w" "authorised route w"
    using assms(5-7) r by (simp_all add: await_link_def authorised_def deduce_action_def)
  then show ?thesis
    using r assms(2-4) bit_payload
    by (cases on) (simp_all add: handle_request_def request_of_def ipc_request_def dispatch_request_def handle_pin_def parse_pin_str
        pin_message_def local_message_def Let_def)
qed

text \<open>A file that is pushed to the Linux side.\<close>

lemma push_segs: "concat (map nonempty_segs (push_segments False target)) = ''write'' # nonempty_segs target"
  using nonempty_segs_dropWhile [of target]
  by (simp add: push_segments_def lstrip_chars_def) (simp add: nonempty_segs_def slash_def)

lemma quota_write_stores:
  assumes "sv_fs_ops w = []" "case sv_disk w of None \<Rightarrow> True | Some (used, free) \<Rightarrow> int (length data) \<le> free"
  shows "\<exists>w'. write_with_quota p data w = (Inr True, w') \<and> sv_files w' = (sv_files w)(p \<mapsto> data)"
  using assms
  by (cases "sv_disk w")
    (auto simp: write_with_quota_def make_parents_def write_bytes_def next_fs_op_def Let_def split: prod.splits)

definition push_message :: "runtime_config \<Rightarrow> string \<Rightarrow> bytes \<Rightarrow> cloud_publish" where
  "push_message config target data =
    local_message (topic_path (topic_prefix config) (topic_value FILE) (push_segments False target)) data"

lemma push_message_handled:
  assumes "nonempty_segs (topic_prefix config) \<noteq> []" "cloud_topic_prefix w = topic_prefix config" "sv_serial w"
    and "st_topic_authorization w = Some auth" "allows_topic auth ''file'' ''write''" "nonempty_segs target \<noteq> []"
  shows "handle_request L (Request (ipc_request (push_message config target data) c)) w =
     (if ''response'' \<in> set (nonempty_segs target) \<or> ''value'' \<in> set (nonempty_segs target) then (Inr (), w)
      else (if py_startswith MCU_FS_PREFIX (py_join [slash] (nonempty_segs target))
            then handle_file_mcu else handle_file_local)
        L ''write'' (py_join [slash] (nonempty_segs target)) (ipc_request (push_message config target data) c) w)"
proof -
  let ?segs = "nonempty_segs target"
  let ?t = "topic_path (topic_prefix config) (topic_value FILE) (push_segments False target)"
  obtain route where r: "parse_topic (topic_prefix config) ?t = Some route" "tr_topic route = FILE"
      "tr_segments route = ''write'' # ?segs"
    using parse_topic_path [OF assms(1), of FILE "push_segments False target"] push_segs [of target] by simp
  have i: "route_identifier route = ''write''" "remainder route = ?segs"
    using r(3) assms(6) by (simp_all add: route_identifier_def remainder_def)
  have "await_link L route w = w" by (simp add: await_link_def r(2))
  moreover have "authorised route w"
    using assms(4,5) r(2) i(1) by (simp add: authorised_def deduce_action_def)
  moreover have "py_join [slash] ?segs \<noteq> []" using assms(6) nonempty_segs_clean [of "hd ?segs" target]
    by (cases ?segs rule: list.exhaust; cases "tl ?segs") auto
  ultimately show ?thesis
    using r i assms(2,3)
    by (simp add: handle_request_def request_of_def ipc_request_def dispatch_request_def handle_file_def route_action_def
        push_message_def local_message_def Let_def)
qed

text \<open>A rotated secret of at most one byte has at most two different characters: a daemon that is restarted with it
  refuses its configuration.\<close>

lemma short_rotated_secret_refused:
  assumes "rotate_credentials force answer rnd password True no_restart = (0, Some (secret, pw), restarted)"
    and "length rnd \<le> 1" "serial_shared_secret cfg = encode_utf8 secret"
  shows "\<not> config_checks cfg"
proof -
  have "secret = bytes_hex rnd" using assms(1) by (auto simp: rotate_credentials_def split: if_splits)
  then have "length (serial_shared_secret cfg) \<le> 2"
    using assms(2,3) by (cases rnd) (simp_all add: bytes_hex_def encode_utf8_def)
  moreover from this have "card (set (serial_shared_secret cfg)) < 4"
    using card_length [of "serial_shared_secret cfg"] by linarith
  moreover have "2 < length DEFAULT_SERIAL_SHARED_SECRET" by (simp add: DEFAULT_SERIAL_SHARED_SECRET_def encode_utf8_def)
  ultimately show ?thesis by (auto simp: config_checks_def)
qed

text \<open>The socket that UCI names is shown by \<open>dump_client_env\<close> and not used by \<open>bridge_session\<close>.\<close>

lemma shown_socket_not_used:
  assumes "map_of cfg ''socket_path'' = Some p" "p \<noteq> []" "p \<noteq> ''/var/run/mcubridge.sock''"
  shows "client_socket None cfg = Some p" "session_socket None None prefix = Some ''/var/run/mcubridge.sock''"
  using assms by (simp_all add: client_socket_def session_socket_def build_bridge_args_def first_set_def map_filter_simps)

text \<open>However its methods are called, an SPI device has sent one \<open>begin\<close> more than \<open>end\<close> while it is active, and as
  many otherwise; a transfer leaves it active and returns its own argument, not what the MCU answers.\<close>

inductive spi_step :: "spi_device \<Rightarrow> spi_device \<Rightarrow> bool" where
  "spi_step d (spi_begin d)"
| "spi_step d (spi_end d)"
| "spi_step d (snd (spi_transfer data d))"

definition sent_count :: "string \<Rightarrow> spi_device \<Rightarrow> nat" where
  "sent_count action d =
    count_list (map cp_topic_name (sd_published d)) (topic_build (topic_value SPI) [action] (sd_prefix d))"

lemma spi_topic_inj:
  assumes "topic_build (topic_value SPI) [a] p = topic_build (topic_value SPI) [b] p"
    and "nonempty_segs a = [a]" "nonempty_segs b = [b]"
  shows "a = b"
  using arg_cong [OF assms(1), of nonempty_segs] assms(2,3) by (simp add: topic_build_def topic_path_segs)

lemma spi_words:
  "nonempty_segs ''begin'' = [''begin'']" "nonempty_segs ''end'' = [''end'']" "nonempty_segs ''config'' = [''config'']"
  "nonempty_segs ''transfer'' = [''transfer'']"
  by (simp_all add: nonempty_segs_def slash_def)

lemma sent_publish:
  assumes "nonempty_segs a = [a]" "nonempty_segs b = [b]"
  shows "sent_count a (spi_publish b data d) = sent_count a d + (if a = b then 1 else 0)"
  using spi_topic_inj [OF _ assms(2,1), of "sd_prefix d"] by (auto simp: sent_count_def spi_publish_def local_message_def empty_publish_def)

lemma sent_active [simp]: "sent_count a (d\<lparr>sd_active := b\<rparr>) = sent_count a d"
  by (simp add: sent_count_def)

lemma spi_publish_active [simp]: "sd_active (spi_publish a data d) = sd_active d"
  by (simp add: spi_publish_def)

lemma spi_balanced:
  assumes "spi_step\<^sup>*\<^sup>* (SpiDevice f b m prefix) d"
  shows "sent_count ''begin'' d = sent_count ''end'' d + (if sd_active d then 1 else 0)"
  using assms
proof (induction rule: rtranclp_induct)
  case (step d d')
  from step.hyps(2) step.IH show ?case
    by (cases rule: spi_step.cases)
      (auto simp: spi_begin_def spi_end_def spi_transfer_def sent_publish spi_words Let_def split: if_splits)
qed (simp add: SpiDevice_def sent_count_def)

lemma spi_transfer_echoes: "fst (spi_transfer data d) = data" "sd_active (snd (spi_transfer data d))"
  by (simp_all add: spi_transfer_def spi_begin_def Let_def)

text \<open>The device describes its settings as text; the daemon expects a protobuf message and drops what it cannot
  parse.\<close>

lemma spi_text_config_dropped:
  assumes "route_identifier route = ''config''" "parse_as L ''SpiConfig'' (br_payload inbound) = None"
  shows "handle_spi L route inbound w = (Inr (), w)"
  using assms by (simp add: handle_spi_def)

section \<open>Properties\<close>

text \<open>C26 (functional). From HTTP to the wire: whenever the CGI script hands a message to the daemon, the request was
  a POST to \<open>/pin/<n>\<close> whose body, as long as its content length says, holds the state on or off; the message is the one the LED script sends for that pin and state;
  and a daemon with the same prefix, whose link is synchronised and which may write digital pins, turns it into the
  command \<open>DIGITAL_WRITE\<close> for that pin, with value one when the body says on and zero when it says off.\<close>

theorem pin_request_reaches_mcu:
  assumes "application exc_text parse_state published (Inr config) env = (answer, Some m)"
    and "nonempty_segs (topic_prefix config) \<noteq> []" "cloud_topic_prefix w = topic_prefix config"
    and "sv_serial w" "link_sync_event w" "st_topic_authorization w = Some auth" "allows_topic auth ''d'' ''write''"
  shows "\<exists>path ds n s. en_path_info env = Some path \<and> match_pin path = Some ds \<and> en_request_method env = Some ''POST''
     \<and> py_int (case en_content_length env of Some l \<Rightarrow> l | None \<Rightarrow> ''0'') = Inr n \<and> n \<noteq> 0
     \<and> parse_state (read_body n (en_input env)) = Inr s \<and> py_upper s \<in> {''ON'', ''OFF''}
     \<and> led_control s (digits_val ds) config (Inr ()) = (0, Some m)
     \<and> handle_request L (Request (ipc_request m c)) w =
         bindr (send_msg L 81 (DigitalWrite (digits_val ds) (if py_upper s = ''ON'' then 1 else 0)) w) (\<lambda>_ w. (Inr (), w))"
proof -
  have "pin_application parse_state published env config = (fst (pin_application parse_state published env config), Some m)"
    using assms(1) by (auto simp: application_def split: prod.splits sum.splits)
  then obtain path ds n s where p: "en_path_info env = Some path" "match_pin path = Some ds"
      "en_request_method env = Some ''POST''" "py_upper s \<in> {''ON'', ''OFF''}"
      and b: "py_int (case en_content_length env of Some l \<Rightarrow> l | None \<Rightarrow> ''0'') = Inr n" "n \<noteq> 0"
        "parse_state (read_body n (en_input env)) = Inr s"
      and m: "m = pin_message config (digits_val ds) (py_upper s = ''ON'')"
    by (auto simp: pin_application_def pin_message_def Let_def match_pin_def [of "[]"] py_startswith_def py_upper_def
        split: option.splits if_splits sum.splits)
  have "0 \<le> digits_val ds" using match_pin_digits [OF p(2)] digits_val_nonneg by (simp add: py_isdigit_def)
  note h = pin_message_handled [OF assms(2) this assms(3-7)]
  have "led_control s (digits_val ds) config (Inr ()) = (0, Some m)"
    using p(4) switch_words [of s] m by (auto simp: led_control_def pin_message_def call_status_def Let_def)
  with p b m h show ?thesis by blast
qed

theorem pin_request_reaches_mcu_witness:
  "\<exists>answer m. application (\<lambda>_. []) (\<lambda>_. Inr ''on'') (Inr ()) (Inr (empty_config\<lparr>topic_prefix := ''br''\<rparr>))
       \<lparr>en_path_info = Some ''/pin/13'', en_request_method = Some ''POST'', en_content_length = Some ''5'', en_input = []\<rparr>
       = (answer, Some m)
     \<and> led_control ''on'' 13 (empty_config\<lparr>topic_prefix := ''br''\<rparr>) (Inr ()) = (0, Some m)"
proof -
  let ?config = "empty_config\<lparr>topic_prefix := ''br''\<rparr>"
  let ?env = "\<lparr>en_path_info = Some ''/pin/13'', en_request_method = Some ''POST'', en_content_length = Some ''5'', en_input = []\<rparr>"
  let ?w = "sample_bridge\<lparr>link_sync_event := True, st_topic_authorization := Some (\<lambda>_. True)\<rparr>"
  have v: "match_pin ''/pin/13'' = Some ''13''" "digits_val ''13'' = 13" "py_int ''5'' = Inr 5"
      "py_upper ''on'' = ''ON''" "nonempty_segs ''br'' = [''br'']"
    by code_simp+
  define m where "m = pin_message ?config 13 True"
  have a: "application (\<lambda>_. []) (\<lambda>_. Inr ''on'') (Inr ()) (Inr ?config) ?env =
      (fst (application (\<lambda>_. []) (\<lambda>_. Inr ''on'') (Inr ()) (Inr ?config) ?env), Some m)"
    by (simp add: application_def pin_application_def v m_def pin_message_def uint32_ok_def Let_def)
  have "\<exists>path ds. en_path_info ?env = Some path \<and> match_pin path = Some ds
     \<and> led_control ''on'' (digits_val ds) ?config (Inr ()) = (0, Some m)"
    using pin_request_reaches_mcu [OF a, of ?w "\<lambda>_. True"] v full_authorisation by auto
  then show ?thesis using a v by fastforce
qed

text \<open>C25 (functional). What \<open>mcubridge-file-push\<close> does to a daemon whose authorisation allows writing files: the content
  is stored, unchanged and whatever its size (\<open>file_write_max_bytes\<close> is not consulted), under the target path inside
  the file system root, and no other file changes, provided that the path resolves inside the sandbox, that the file
  system raises no error, that the disk has room and that the target is not in the namespace of the MCU. A target with a segment \<open>value\<close> or \<open>response\<close> is
  ignored, although the tool exits with status 0.\<close>

theorem pushed_file_stored:
  assumes "file_push (Some data) target False config (Inr ()) = (status, Some m)"
    and "nonempty_segs (topic_prefix config) \<noteq> []" "cloud_topic_prefix w = topic_prefix config" "sv_serial w"
    and "st_topic_authorization w = Some auth" "allows_topic auth ''file'' ''write''" "nonempty_segs target \<noteq> []"
  shows "status = 0
     \<and> (''response'' \<in> set (nonempty_segs target) \<or> ''value'' \<in> set (nonempty_segs target)
          \<longrightarrow> handle_request L (Request (ipc_request m c)) w = (Inr (), w))
     \<and> (''response'' \<notin> set (nonempty_segs target) \<and> ''value'' \<notin> set (nonempty_segs target)
          \<and> \<not> py_startswith MCU_FS_PREFIX (py_join [slash] (nonempty_segs target))
          \<and> get_safe_path (py_join [slash] (nonempty_segs target)) w = Inr (Some p)
          \<and> sv_fs_ops w = [] \<and> (case sv_disk w of None \<Rightarrow> True | Some (used, free) \<Rightarrow> int (length data) \<le> free)
          \<longrightarrow> sv_files (snd (handle_request L (Request (ipc_request m c)) w)) = (sv_files w)(p \<mapsto> data))"
proof -
  have m: "m = push_message config target data" "status = 0"
    using assms(1) by (simp_all add: file_push_def push_message_def call_status_def)
  note h = push_message_handled [OF assms(2-7), of L data c]
  have "sv_files (snd (handle_file_local L ''write'' t (ipc_request m c) w)) = (sv_files w)(p \<mapsto> data)"
    if "get_safe_path t w = Inr (Some p)" "sv_fs_ops w = []"
      "case sv_disk w of None \<Rightarrow> True | Some (used, free) \<Rightarrow> int (length data) \<le> free" for t
  proof -
    note q = quota_write_stores [OF that(2,3)]
    then obtain w' where "write_with_quota p data w = (Inr True, w')" "sv_files w' = (sv_files w)(p \<mapsto> data)"
      by blast
    moreover have "sv_files (snd (enqueue_cloud L x ctx w')) = sv_files w'" for x ctx
      using core_fields(4) core_enqueue by (metis prod.collapse)
    ultimately show ?thesis
      using that(1) by (simp add: handle_file_local_def ipc_request_def m push_message_def local_message_def)
  qed
  then show ?thesis using h m by simp
qed

theorem pushed_file_stored_witness:
  "\<exists>m. file_push (Some [1, 2]) ''/a/b'' False (empty_config\<lparr>topic_prefix := ''br''\<rparr>) (Inr ()) = (0, Some m)
     \<and> sv_files (snd (handle_request model_lib (Request (ipc_request m [])) (sample_bridge\<lparr>st_topic_authorization := Some (\<lambda>_. True)\<rparr>)))
         = [''/tmp/r/a/b'' \<mapsto> [1, 2]]"
proof -
  let ?config = "empty_config\<lparr>topic_prefix := ''br''\<rparr>" and ?w = "sample_bridge\<lparr>st_topic_authorization := Some (\<lambda>_. True)\<rparr>"
  have v: "nonempty_segs ''br'' = [''br'']" "nonempty_segs ''/a/b'' = [''a'', ''b'']"
      "py_join [slash] [''a'', ''b''] = ''a/b''" "\<not> py_startswith MCU_FS_PREFIX ''a/b''"
    by code_simp+
  have "joinpath ''/tmp/r'' (lstrip_chars (\<lambda>c. c = slash) ''a/b'') = ''/tmp/r/a/b''" "is_relative_to ''/tmp/r/a/b'' ''/tmp/r''"
    by code_simp+
  then have g: "get_safe_path ''a/b'' ?w = Inr (Some ''/tmp/r/a/b'')" by (simp add: get_safe_path_def)
  obtain st m where f: "file_push (Some [1, 2]) ''/a/b'' False ?config (Inr ()) = (st, Some m)"
    by (simp add: file_push_def)
  have "st = 0 \<and> sv_files (snd (handle_request model_lib (Request (ipc_request m [])) ?w)) = (sv_files ?w)(''/tmp/r/a/b'' \<mapsto> [1, 2])"
    using pushed_file_stored [OF f, of ?w "\<lambda>_. True" model_lib "[]" "''/tmp/r/a/b''"] v g full_authorisation by simp
  with f show ?thesis by auto
qed

end
