(* ===== verification/Deps.thy ===== *)
theory Deps
  imports Prelude "HOL-Library.List_Lexorder" "HOL-Library.Char_ord"
begin

text \<open>
  \<open>tools/sync_runtime_deps.py\<close>: one manifest of dependencies, from which the requirement files, the package lists
  of two makefiles, \<open>pyproject.toml\<close> and the versions of the package feeds are derived. The files that the tool
  reads and writes are the record \<open>tree\<close>; the TOML parser and the package index are arguments. Texts are what
  \<open>read_text\<close> gives.
\<close>

section \<open>The manifest\<close>

record raw_entry =
  re_name :: "string option"
  re_openwrt :: "string option"
  re_pip :: "string option"
  re_check_latest :: "bool option"
  re_gateway :: "bool option"

record dep_entry =
  de_name :: string
  de_openwrt :: string
  de_pip :: string
  de_check_latest :: bool
  de_gateway :: bool

definition str_or_empty :: "string option \<Rightarrow> string" where
  "str_or_empty x = (case x of None \<Rightarrow> [] | Some s \<Rightarrow> s)"

definition normalise_entry :: "raw_entry \<Rightarrow> dep_entry" where
  "normalise_entry e =
    (let openwrt = py_strip (str_or_empty (re_openwrt e)); pip_spec = py_strip (str_or_empty (re_pip e));
         name = (if str_or_empty (re_name e) \<noteq> [] then str_or_empty (re_name e)
                 else if openwrt \<noteq> [] then openwrt else ''(unnamed)'')
     in \<lparr>de_name = name, de_openwrt = openwrt, de_pip = pip_spec,
         de_check_latest = (case re_check_latest e of None \<Rightarrow> True | Some b \<Rightarrow> b),
         de_gateway = (case re_gateway e of None \<Rightarrow> False | Some b \<Rightarrow> b)\<rparr>)"

text \<open>\<open>None\<close> when the file is missing; a TOML error is a \<open>ValueError\<close>, a \<open>ManifestError\<close> a \<open>RuntimeError\<close>.\<close>

definition load_manifest :: "raw_entry list option result option \<Rightarrow> dep_entry list result" where
  "load_manifest parsed =
    (case parsed of
       None \<Rightarrow> Inl RuntimeError
     | Some (Inl e) \<Rightarrow> Inl e
     | Some (Inr None) \<Rightarrow> Inl RuntimeError
     | Some (Inr (Some entries)) \<Rightarrow>
         (if entries = [] then Inl RuntimeError else Inr (map normalise_entry entries)))"

definition SYSTEM_ONLY_PACKAGES :: "string list" where "SYSTEM_ONLY_PACKAGES = [''uci'']"

definition BUILD_ONLY_PACKAGES :: "string list" where
  "BUILD_ONLY_PACKAGES = [''jinja2'', ''nanopb'', ''grpcio-tools'', ''xxd'']"

definition system_only :: "string \<Rightarrow> bool" where
  "system_only spec \<longleftrightarrow> list_ex (\<lambda>p. py_startswith p spec) SYSTEM_ONLY_PACKAGES"

definition collect_pip_specs :: "dep_entry list \<Rightarrow> string list" where
  "collect_pip_specs deps =
    sort (remdups (filter (\<lambda>s. \<not> system_only s) (filter (\<lambda>s. s \<noteq> []) (map de_pip deps))))"

definition collect_openwrt_packages :: "dep_entry list \<Rightarrow> string list" where
  "collect_openwrt_packages deps =
    map de_openwrt (filter (\<lambda>d. de_openwrt d \<noteq> [] \<and> de_name d \<notin> set BUILD_ONLY_PACKAGES) deps)"

section \<open>Texts\<close>

definition newline :: char where "newline = CHR 0x0A"

text \<open>\<open>s.splitlines()\<close>: the length of the line break that starts with a character (three of them have more than one
  byte in UTF-8), then the lines.\<close>

definition line_break :: "char \<Rightarrow> bool" where
  "line_break c \<longleftrightarrow> c \<in> {CHR 0x0A, CHR 0x0B, CHR 0x0C, CHR 0x0D, CHR 0x1C, CHR 0x1D, CHR 0x1E}"

definition wide_break :: "char \<Rightarrow> string \<Rightarrow> nat" where
  "wide_break c s =
    (if c = CHR 0xC2 \<and> take 1 s = [CHR 0x85] then 2
     else if c = CHR 0xE2 \<and> (take 2 s = [CHR 0x80, CHR 0xA8] \<or> take 2 s = [CHR 0x80, CHR 0xA9]) then 3
     else 0)"

definition break_len :: "char \<Rightarrow> string \<Rightarrow> nat" where
  "break_len c s =
    (if line_break c then (if c = CHR 0x0D \<and> take 1 s = [newline] then 2 else 1) else wide_break c s)"

fun splitlines_from :: "string \<Rightarrow> string \<Rightarrow> string list" where
  "splitlines_from cur [] = (if cur = [] then [] else [cur])"
| "splitlines_from cur (c # s) =
    (if break_len c s = 0 then splitlines_from (cur @ [c]) s
     else cur # splitlines_from [] (drop (break_len c s - 1) s))"

definition splitlines :: "string \<Rightarrow> string list" where "splitlines s = splitlines_from [] s"

text \<open>\<open>"\n".join(lines) + "\n"\<close>.\<close>

definition join_lines :: "string list \<Rightarrow> string" where
  "join_lines ls = py_join [newline] ls @ [newline]"

section \<open>The files\<close>

record tree =
  tr_requirements :: "string option"
  tr_pyproject :: "string option"
  tr_makefile :: "string option"
  tr_gateway_requirements :: "string option"
  tr_gateway_makefile :: "string option"
  tr_feeds :: "(string \<rightharpoonup> string) option" \<comment> \<open>the makefile of each package, when the directory exists\<close>

definition requirements_text :: "dep_entry list \<Rightarrow> string" where
  "requirements_text deps =
    join_lines (''# Generated via tools/sync_runtime_deps.py; do not edit.'' # collect_pip_specs deps)"

definition write_requirements :: "bool \<Rightarrow> dep_entry list \<Rightarrow> tree \<Rightarrow> bool result \<times> tree" where
  "write_requirements dry_run deps t =
    (if tr_requirements t = Some (requirements_text deps) then (Inr False, t)
     else (Inr True, if dry_run then t else t\<lparr>tr_requirements := Some (requirements_text deps)\<rparr>))"

definition write_gateway_requirements :: "bool \<Rightarrow> dep_entry list \<Rightarrow> tree \<Rightarrow> bool result \<times> tree" where
  "write_gateway_requirements dry_run deps t =
    (let new_text = requirements_text (filter de_gateway deps)
     in if tr_gateway_requirements t = Some new_text then (Inr False, t)
        else (Inr True, if dry_run then t else t\<lparr>tr_gateway_requirements := Some new_text\<rparr>))"

definition runtime_pip_specs :: "dep_entry list \<Rightarrow> string list" where
  "runtime_pip_specs deps =
    sort (map de_pip (filter (\<lambda>d. de_pip d \<noteq> [] \<and> de_name d \<notin> set BUILD_ONLY_PACKAGES
       \<and> \<not> system_only (de_pip d)) deps))"

definition spec_line :: "string \<Rightarrow> string" where
  "spec_line spec = ''    '' @ [CHR 0x22] @ spec @ [CHR 0x22, CHR '','']"

text \<open>The loop of \<open>update_pyproject\<close>, with \<open>in_dependencies\<close> and \<open>replaced\<close>.\<close>

fun replace_dependencies :: "string list \<Rightarrow> bool \<Rightarrow> bool \<Rightarrow> string list \<Rightarrow> string list" where
  "replace_dependencies specs inside replaced [] = []"
| "replace_dependencies specs inside replaced (line # ls) =
    (if \<not> replaced \<and> py_strip line = ''dependencies = [''
     then line # map spec_line specs @ replace_dependencies specs True True ls
     else if inside then
       (if py_strip line = '']'' then line # replace_dependencies specs False replaced ls
        else replace_dependencies specs inside replaced ls)
     else line # replace_dependencies specs inside replaced ls)"

definition update_pyproject :: "bool \<Rightarrow> dep_entry list \<Rightarrow> tree \<Rightarrow> bool result \<times> tree" where
  "update_pyproject dry_run deps t =
    (case tr_pyproject t of
       None \<Rightarrow> (Inr False, t)
     | Some content \<Rightarrow>
         (let new_content = join_lines (replace_dependencies (runtime_pip_specs deps) False False (splitlines content))
          in if new_content = content then (Inr False, t)
             else (Inr True, if dry_run then t else t\<lparr>tr_pyproject := Some new_content\<rparr>)))"

definition BLOCK_START :: string where "BLOCK_START = ''# AUTO-GENERATED RUNTIME DEPENDS BEGIN''"
definition BLOCK_END :: string where "BLOCK_END = ''# AUTO-GENERATED RUNTIME DEPENDS END''"

text \<open>All tokens but the last are followed by a backslash.\<close>

fun format_openwrt_lines :: "string list \<Rightarrow> string list" where
  "format_openwrt_lines [] = []"
| "format_openwrt_lines [token] = [[CHR 0x09, CHR 0x09] @ token]"
| "format_openwrt_lines (token # ts) = ([CHR 0x09, CHR 0x09] @ token @ '' '' @ [CHR 0x5C]) # format_openwrt_lines ts"

definition block_lines :: "string list \<Rightarrow> string list" where
  "block_lines tokens =
    (if tokens \<noteq> [] then ([CHR 0x09] @ ''DEPENDS+= '' @ [CHR 0x5C]) # format_openwrt_lines tokens
     else [[CHR 0x09] @ ''DEPENDS+=''])"

fun inject_block :: "string \<Rightarrow> bool \<Rightarrow> string list \<Rightarrow> string list" where
  "inject_block rendered in_block [] = []"
| "inject_block rendered in_block (line # ls) =
    (if py_contains BLOCK_START line then line # rendered # inject_block rendered True ls
     else if py_contains BLOCK_END line then line # inject_block rendered False ls
     else if \<not> in_block then line # inject_block rendered in_block ls
     else inject_block rendered in_block ls)"

definition updated_makefile :: "dep_entry list \<Rightarrow> string \<Rightarrow> string" where
  "updated_makefile deps makefile_text =
    join_lines (inject_block (py_join [newline] (block_lines (collect_openwrt_packages deps))) False
      (splitlines makefile_text))"

text \<open>A missing makefile of the daemon is an \<open>OSError\<close>, missing markers are a \<open>ManifestError\<close>.\<close>

definition update_makefile :: "bool \<Rightarrow> dep_entry list \<Rightarrow> tree \<Rightarrow> bool result \<times> tree" where
  "update_makefile dry_run deps t =
    (case tr_makefile t of
       None \<Rightarrow> (Inl OSError, t)
     | Some makefile_text \<Rightarrow>
         (if \<not> py_contains BLOCK_START makefile_text \<or> \<not> py_contains BLOCK_END makefile_text then (Inl RuntimeError, t)
          else (let updated = updated_makefile deps makefile_text
                in if updated = makefile_text then (Inr False, t)
                   else (Inr True, if dry_run then t else t\<lparr>tr_makefile := Some updated\<rparr>))))"

definition update_gateway_makefile :: "bool \<Rightarrow> dep_entry list \<Rightarrow> tree \<Rightarrow> bool result \<times> tree" where
  "update_gateway_makefile dry_run deps t =
    (case tr_gateway_makefile t of
       None \<Rightarrow> (Inr False, t)
     | Some makefile_text \<Rightarrow>
         (if \<not> py_contains BLOCK_START makefile_text \<or> \<not> py_contains BLOCK_END makefile_text then (Inl RuntimeError, t)
          else (let updated = updated_makefile (filter de_gateway deps) makefile_text
                in if updated = makefile_text then (Inr False, t)
                   else (Inr True, if dry_run then t else t\<lparr>tr_gateway_makefile := Some updated\<rparr>))))"

section \<open>Versions\<close>

text \<open>The two parts of a text around the first occurrence of a string (\<open>split(sep, 1)\<close>), if there is one.\<close>

fun split_first :: "string \<Rightarrow> string \<Rightarrow> (string \<times> string) option" where
  "split_first sep [] = (if sep = [] then Some ([], []) else None)"
| "split_first sep (c # s) =
    (if py_startswith sep (c # s) then Some ([], drop (length sep) (c # s))
     else map_option (\<lambda>(a, b). (c # a, b)) (split_first sep s))"

definition parse_pip_spec :: "string \<Rightarrow> string \<times> string" where
  "parse_pip_spec spec =
    (case split_first ''=='' spec of
       None \<Rightarrow> (spec, [])
     | Some (name_part, version) \<Rightarrow> (py_strip (hd (py_split (CHR ''['') name_part)), py_strip version))"

text \<open>What the index answers: the versions of the releases and the current version, each if it has them; every error
  of the query gives \<open>None\<close>.\<close>

type_synonym package_index = "string \<Rightarrow> (string list option \<times> string option) option"

definition fetch_latest_version ::
  "package_index \<Rightarrow> string \<Rightarrow> bool \<Rightarrow> string option" where
  "fetch_latest_version index package_name include_prerelease =
    (case index package_name of
       None \<Rightarrow> None
     | Some (releases, current) \<Rightarrow>
         (case releases of
            Some vs \<Rightarrow> (if include_prerelease \<and> vs \<noteq> [] then Some (last vs) else current)
          | None \<Rightarrow> current))"

definition is_prerelease :: "string \<Rightarrow> bool" where
  "is_prerelease pinned \<longleftrightarrow> list_ex (\<lambda>tag. py_contains tag pinned) [''rc'', ''a'', ''b'', ''dev'']"

definition outdated_entry ::
  "package_index \<Rightarrow> dep_entry \<Rightarrow> (string \<times> string \<times> string) list" where
  "outdated_entry index d =
    (if de_pip d = [] \<or> \<not> de_check_latest d then []
     else (case parse_pip_spec (de_pip d) of
             (name, pinned) \<Rightarrow>
               (if pinned = [] then []
                else (case fetch_latest_version index name (is_prerelease pinned) of
                        None \<Rightarrow> []
                      | Some latest \<Rightarrow>
                          (if latest \<noteq> [] \<and> latest \<noteq> pinned then [(name, pinned, latest)] else [])))))"

definition check_latest_versions ::
  "package_index \<Rightarrow> dep_entry list \<Rightarrow> (string \<times> string \<times> string) list" where
  "check_latest_versions index deps = concat (map (outdated_entry index) deps)"

text \<open>One substitution of \<open>_to_apk_version\<close>: the tag before the digits at the end. A version has no line break at
  its end.\<close>

definition apk_tag :: "bool \<Rightarrow> string \<Rightarrow> string \<Rightarrow> string \<Rightarrow> string" where
  "apk_tag after_digit tag replacement version =
    (let ds = rev (takeWhile is_digit (rev version));
         pre = take (length version - length ds) version;
         stem = take (length pre - length tag) pre
     in if ds \<noteq> [] \<and> py_endswith tag pre \<and> (after_digit \<longrightarrow> stem \<noteq> [] \<and> is_digit (last stem))
        then stem @ replacement @ ds else version)"

definition to_apk_version :: "string \<Rightarrow> string" where
  "to_apk_version version =
    apk_tag False ''.dev'' ''_pre'' (apk_tag True ''rc'' ''_rc'' (apk_tag True ''b'' ''_beta'' (apk_tag True ''a'' ''_alpha'' version)))"

section \<open>Feeds\<close>

text \<open>\<open>re.sub\<close> line by line. A value has no backslash (the template of the
  substitution would read it as an escape).\<close>

definition assign_line :: "string \<Rightarrow> string \<Rightarrow> string \<Rightarrow> string" where
  "assign_line key val line =
    (case split_first key line of
       None \<Rightarrow> line
     | Some (a, b) \<Rightarrow> if b = [] then line else a @ key @ val)"

definition on_lines :: "(string list \<Rightarrow> string list) \<Rightarrow> string \<Rightarrow> string" where
  "on_lines f text = py_join [newline] (f (py_split newline text))"

definition re_assign :: "string \<Rightarrow> string \<Rightarrow> string \<Rightarrow> string" where
  "re_assign key val text = on_lines (map (assign_line key val)) text"

text \<open>The same up to the last \<open>.tar.gz\<close> of the line.\<close>

definition assign_tarball :: "string \<Rightarrow> string \<Rightarrow> string \<Rightarrow> string" where
  "assign_tarball key val line =
    (case split_first key line of
       None \<Rightarrow> line
     | Some (a, b) \<Rightarrow>
         (case split_first (rev ''.tar.gz'') (rev b) of
            None \<Rightarrow> line
          | Some (after, before) \<Rightarrow> if before = [] then line else a @ key @ val @ rev after))"

text \<open>\<open>re.sub("(" + key + "[^\n]+\n)", "\1" + new + "\n", text)\<close>: a new line after each line with the key, unless
  it is the last.\<close>

fun insert_after :: "string \<Rightarrow> string \<Rightarrow> string list \<Rightarrow> string list" where
  "insert_after key new [] = []"
| "insert_after key new [l] = [l]"
| "insert_after key new (l # ls) =
    (if (case split_first key l of None \<Rightarrow> False | Some (a, b) \<Rightarrow> b \<noteq> []) then [l, new] else [l]) @ insert_after key new ls"

definition re_insert :: "string \<Rightarrow> string \<Rightarrow> string \<Rightarrow> string" where
  "re_insert key new text = on_lines (insert_after key new) text"

text \<open>\<open>re.search(r"^\s*include\b.*\bpypi\.mk\b", content, re.MULTILINE)\<close>; word characters are those of ASCII.\<close>

definition word_char :: "char \<Rightarrow> bool" where
  "word_char c \<longleftrightarrow> is_digit c \<or> c = CHR ''_'' \<or> to_upper c \<noteq> c \<or> to_lower c \<noteq> c"

fun word_occurs :: "string \<Rightarrow> char \<Rightarrow> string \<Rightarrow> bool" where
  "word_occurs v prev [] = False"
| "word_occurs v prev (c # s) =
    (\<not> word_char prev \<and> py_startswith v (c # s)
       \<and> (case drop (length v) (c # s) of [] \<Rightarrow> True | d # _ \<Rightarrow> \<not> word_char d)
     \<or> word_occurs v c s)"

definition includes_pypi :: "string \<Rightarrow> bool" where
  "includes_pypi line =
    (let l = lstrip_chars is_space line; r = drop 7 l
     in py_startswith ''include'' l \<and> r \<noteq> [] \<and> \<not> word_char (hd r) \<and> word_occurs ''pypi.mk'' (CHR ''e'') r)"

definition uses_pypi_mk :: "string \<Rightarrow> bool" where
  "uses_pypi_mk content \<longleftrightarrow> list_ex includes_pypi (py_split newline content)"

definition set_or_insert :: "string \<Rightarrow> string \<Rightarrow> string \<Rightarrow> string \<Rightarrow> string" where
  "set_or_insert key val anchor text =
    (if py_contains key text then re_assign key val text else re_insert anchor (key @ val) text)"

definition feed_makefile :: "string \<Rightarrow> string \<Rightarrow> string \<Rightarrow> string" where
  "feed_makefile pip_name version content =
    (let tarball = pip_name @ ''-'' @ version @ ''.tar.gz'';
         build_dir = ''$(BUILD_DIR)/pypi/'' @ pip_name @ ''-'' @ version;
         is_pre = (to_apk_version version \<noteq> version);
         has_override = (py_contains ''PYTHON3_PKG_WHEEL_VERSION:='' content \<or> is_pre)
     in if uses_pypi_mk content \<and> has_override then
          set_or_insert ''PKG_BUILD_DIR:='' build_dir ''PKG_SOURCE:=''
            (set_or_insert ''PKG_SOURCE:='' tarball ''PYTHON3_PKG_WHEEL_VERSION:=''
              (set_or_insert ''PYTHON3_PKG_WHEEL_VERSION:='' version ''PYPI_NAME:=''
                (re_assign ''PKG_VERSION:='' (to_apk_version version) content)))
        else if uses_pypi_mk content then re_assign ''PKG_VERSION:='' version content
        else
          re_assign ''PKG_BUILD_DIR:='' build_dir
            (on_lines (map (assign_tarball ''PKG_SOURCE:='' tarball))
              (re_assign ''PKG_VERSION:='' (to_apk_version version) content)))"

text \<open>One entry of the loop of \<open>update_feeds\<close>.\<close>

definition update_feed :: "bool \<Rightarrow> dep_entry \<Rightarrow> bool \<times> (string \<rightharpoonup> string) \<Rightarrow> bool \<times> (string \<rightharpoonup> string)" where
  "update_feed dry_run d s =
    (case s of (any_updated, feeds) \<Rightarrow>
       (if de_openwrt d = [] \<or> \<not> py_startswith ''python3-'' (de_openwrt d) then s
        else (case parse_pip_spec (de_pip d) of (pip_name, version) \<Rightarrow>
          (if version = [] then s
           else (case feeds (de_openwrt d) of
                   None \<Rightarrow> s
                 | Some content \<Rightarrow>
                     (let new_content = feed_makefile pip_name version content
                      in if new_content \<noteq> content
                         then (True, if dry_run then feeds else feeds(de_openwrt d \<mapsto> new_content))
                         else s))))))"

definition update_feeds :: "bool \<Rightarrow> dep_entry list \<Rightarrow> tree \<Rightarrow> bool result \<times> tree" where
  "update_feeds dry_run deps t =
    (case tr_feeds t of
       None \<Rightarrow> (Inr False, t)
     | Some feeds \<Rightarrow>
         (case fold (update_feed dry_run) deps (False, feeds) of
            (any_updated, feeds) \<Rightarrow> (Inr any_updated, t\<lparr>tr_feeds := Some feeds\<rparr>)))"

section \<open>The command\<close>

record sync_args =
  sa_check :: bool
  sa_check_latest :: bool
  sa_print_openwrt :: bool
  sa_print_pip :: bool

text \<open>The six outputs in order; an exception leaves what was written before it.\<close>

fun run_outputs :: "(tree \<Rightarrow> bool result \<times> tree) list \<Rightarrow> tree \<Rightarrow> bool list result \<times> tree" where
  "run_outputs [] t = (Inr [], t)"
| "run_outputs (f # fs) t =
    (case f t of
       (Inl e, t) \<Rightarrow> (Inl e, t)
     | (Inr b, t) \<Rightarrow> (case run_outputs fs t of (r, t) \<Rightarrow> (map_sum id ((#) b) r, t)))"

definition outputs :: "bool \<Rightarrow> dep_entry list \<Rightarrow> (tree \<Rightarrow> bool result \<times> tree) list" where
  "outputs dry_run deps =
    [write_requirements dry_run deps, update_makefile dry_run deps, update_pyproject dry_run deps,
     update_feeds dry_run deps, write_gateway_requirements dry_run deps, update_gateway_makefile dry_run deps]"

text \<open>\<open>main\<close>: its exit status, what \<open>--print-openwrt\<close> and \<open>--print-pip\<close> print, and the files.\<close>

definition sync_main ::
  "sync_args \<Rightarrow> raw_entry list option result option \<Rightarrow> package_index \<Rightarrow> tree \<Rightarrow> (int \<times> string) result \<times> tree" where
  "sync_main args parsed index t =
    (case load_manifest parsed of
       Inl e \<Rightarrow> (Inl e, t)
     | Inr deps \<Rightarrow>
         (if sa_print_openwrt args then (Inr (0, join_lines (collect_openwrt_packages deps)), t)
          else if sa_print_pip args then (Inr (0, join_lines (collect_pip_specs deps)), t)
          else (case run_outputs (outputs (sa_check args) deps) t of
                  (Inl e, t) \<Rightarrow> (Inl e, t)
                | (Inr updated, t) \<Rightarrow>
                    (let fail = (sa_check args \<and> list_ex id updated
                                 \<or> sa_check_latest args \<and> check_latest_versions index deps \<noteq> [])
                     in (Inr (if fail then 1 else 0, []), t)))))"

section \<open>Lines\<close>

lemma py_join_append:
  "xs \<noteq> [] \<Longrightarrow> ys \<noteq> [] \<Longrightarrow> py_join sep (xs @ ys) = py_join sep xs @ sep @ py_join sep ys"
proof (induction sep xs rule: py_join.induct)
  case (2 sep x)
  then show ?case by (cases ys) auto
qed auto

lemma py_join_block:
  "bs \<noteq> [] \<Longrightarrow> py_join sep (x # py_join sep bs # rest) = py_join sep (x # bs @ rest)"
proof (cases "rest = []")
  case True
  assume "bs \<noteq> []"
  then show ?thesis using True py_join_append [of "[x]" bs sep] by simp
next
  case False
  assume b: "bs \<noteq> []"
  have "py_join sep (x # bs @ rest) = x @ sep @ py_join sep bs @ sep @ py_join sep rest"
    using b False py_join_append [of "[x]" "bs @ rest" sep] py_join_append [of bs rest sep] by simp
  also have "\<dots> = py_join sep (x # py_join sep bs # rest)"
    using False py_join_append [of "[x, py_join sep bs]" rest sep] by simp
  finally show ?thesis by simp
qed

text \<open>A line without a break in it, also at its end.\<close>

fun unbroken :: "string \<Rightarrow> bool" where
  "unbroken [] = True"
| "unbroken (c # s) \<longleftrightarrow> \<not> line_break c \<and> wide_break c s = 0 \<and> unbroken s"

lemma newline_char [simp]: "newline \<noteq> CHR 0x0D" "newline \<noteq> CHR 0x85" "newline \<noteq> CHR 0x80" "newline \<noteq> CHR 0xA8"
  "newline \<noteq> CHR 0xA9" "line_break newline"
  by (simp_all add: newline_def line_break_def)

lemma take_newline:
  "take 1 (x @ newline # r) = [CHR 0x85] \<longleftrightarrow> take 1 x = [CHR 0x85]"
  "b \<noteq> newline \<Longrightarrow> take 2 (x @ newline # r) = [CHR 0x80, b] \<longleftrightarrow> take 2 x = [CHR 0x80, b]"
proof -
  show "take 1 (x @ newline # r) = [CHR 0x85] \<longleftrightarrow> take 1 x = [CHR 0x85]" by (cases x) simp_all
  assume "b \<noteq> newline"
  then show "take 2 (x @ newline # r) = [CHR 0x80, b] \<longleftrightarrow> take 2 x = [CHR 0x80, b]"
    by (cases x; cases "tl x") (auto simp: take_Cons')
qed

lemma wide_break_cut: "wide_break c (x @ newline # r) = wide_break c x"
proof -
  have "take 2 (x @ newline # r) = [CHR 0x80, b] \<longleftrightarrow> take 2 x = [CHR 0x80, b]" if "b \<in> {CHR 0xA8, CHR 0xA9}" for b
    using that newline_char(4,5) by (intro take_newline(2)) auto
  then show ?thesis by (simp only: wide_break_def take_newline(1) insert_iff empty_iff simp_thms)
qed

lemma wide_break_prefix: "wide_break c (x @ y) = 0 \<Longrightarrow> wide_break c x = 0"
proof -
  have "take 1 (x @ y) = [a]" if "take 1 x = [a]" for a using that by (cases x) simp_all
  moreover have "take 2 (x @ y) = [a, b]" if "take 2 x = [a, b]" for a b
    using that by (cases x; cases "tl x") (auto simp: take_Cons')
  ultimately show "wide_break c (x @ y) = 0 \<Longrightarrow> ?thesis" by (auto simp: wide_break_def split: if_splits)
qed

lemma break_len_zero: "break_len c s = 0 \<longleftrightarrow> \<not> line_break c \<and> wide_break c s = 0"
  by (simp add: break_len_def)

lemma splitlines_line: "unbroken l \<Longrightarrow> splitlines_from cur (l @ newline # r) = (cur @ l) # splitlines_from [] r"
  by (induction l arbitrary: cur) (simp_all add: break_len_def wide_break_cut)

lemma splitlines_join: "list_all unbroken ls \<Longrightarrow> ls \<noteq> [] \<Longrightarrow> splitlines (join_lines ls) = ls"
  unfolding splitlines_def join_lines_def
proof (induction "[newline]" ls rule: py_join.induct)
  case (2 x)
  then show ?case using splitlines_line [of x "[]" "[]"] by simp
next
  case (3 x y r)
  then show ?case using splitlines_line [of x "[]" "py_join [newline] (y # r) @ [newline]"] by simp
qed simp

fun whole :: "string \<Rightarrow> string \<Rightarrow> bool" where
  "whole [] s = True"
| "whole (c # cur) s \<longleftrightarrow> break_len c (cur @ s) = 0 \<and> whole cur s"

lemma whole_snoc: "whole cur (c # s) \<Longrightarrow> break_len c s = 0 \<Longrightarrow> whole (cur @ [c]) s"
  by (induction cur) auto

lemma whole_unbroken: "whole cur s \<Longrightarrow> unbroken cur"
  by (induction cur) (auto simp: break_len_zero intro: wide_break_prefix)

lemma splitlines_unbroken: "whole cur s \<Longrightarrow> list_all unbroken (splitlines_from cur s)"
  by (induction cur s rule: splitlines_from.induct) (auto intro: whole_snoc whole_unbroken)

lemma lines_unbroken: "list_all unbroken (splitlines s)"
  by (simp add: splitlines_def splitlines_unbroken)

definition plain_char :: "char \<Rightarrow> bool" where
  "plain_char c \<longleftrightarrow> c = CHR 0x09 \<or> CHR 0x1F < c \<and> c < CHR 0x7F"

definition plain :: "string \<Rightarrow> bool" where
  "plain s \<longleftrightarrow> list_all plain_char s"

lemma not_plain: "line_break c \<Longrightarrow> \<not> plain_char c" "\<not> plain_char (CHR 0xC2)" "\<not> plain_char (CHR 0xE2)"
  "\<not> plain_char (CHR 0x85)" "\<not> plain_char (CHR 0x80)" "\<not> plain_char (CHR 0xA8)" "\<not> plain_char (CHR 0xA9)"
  by (auto simp: line_break_def plain_char_def less_char_def)

lemma plain_unbroken: "plain s \<Longrightarrow> unbroken s"
  using not_plain by (induction s) (auto simp: plain_def wide_break_def)

lemma py_contains_iff: "py_contains n s \<longleftrightarrow> (\<exists>a b. s = a @ n @ b)"
proof (induction s)
  case (Cons x s)
  have "(\<exists>a b. x # s = a @ n @ b) \<longleftrightarrow> (\<exists>b. x # s = n @ b) \<or> (\<exists>a b. s = a @ n @ b)"
    by (metis append_Cons append_Nil list.exhaust list.inject)
  moreover have "take (length n) (x # s) = n \<longleftrightarrow> (\<exists>b. x # s = n @ b)"
    by (metis append_eq_conv_conj)
  ultimately show ?case using Cons by simp
qed auto

lemma contains_around:
  assumes "py_contains n (x @ c # y)" "c \<notin> set n"
  shows "py_contains n x \<or> py_contains n y"
proof -
  obtain a b where e: "x @ c # y = a @ n @ b" using assms(1) py_contains_iff by blast
  then consider us where "x @ us = a" "c # y = us @ n @ b" | us where "x = a @ us" "us @ c # y = n @ b"
    by (auto simp: append_eq_append_conv2)
  then show ?thesis
  proof cases
    case 1
    then show ?thesis using assms(2) by (cases us; cases n) (auto simp: py_contains_iff)
  next
    case 2
    then consider vs where "us @ vs = n" "c # y = vs @ b" | vs where "us = n @ vs"
      by (auto simp: append_eq_append_conv2)
    then show ?thesis
    proof cases
      case 1
      then show ?thesis using assms(2) \<open>x = a @ us\<close> by (cases vs) (auto simp: py_contains_iff intro: exI [of _ "[]"])
    qed (use \<open>x = a @ us\<close> py_contains_iff in blast)
  qed
qed

lemma contains_drop:
  "\<forall>c\<in>set (take k s). c \<notin> set n \<Longrightarrow> n \<noteq> [] \<Longrightarrow> py_contains n s \<Longrightarrow> py_contains n (drop k s)"
proof (induction k arbitrary: s)
  case (Suc k)
  then show ?case using contains_around [of n "[]"] by (cases s) auto
qed simp

lemma wide_break_chars: "wide_break c s \<noteq> 0 \<Longrightarrow> x \<in> set (take (wide_break c s) (c # s)) \<Longrightarrow> \<not> plain_char x"
  using not_plain(2-) by (auto simp: wide_break_def numeral_2_eq_2 numeral_3_eq_3 split: if_splits)

lemma break_chars: "x \<in> set (take (break_len c s) (c # s)) \<Longrightarrow> \<not> plain_char x"
  using wide_break_chars [of c s x] not_plain(1) [of c] not_plain(1) [of newline]
  by (cases "wide_break c s = 0") (auto simp: break_len_def numeral_2_eq_2 split: if_splits)

lemma splitlines_contains:
  assumes "plain n" "n \<noteq> []"
  shows "py_contains n (cur @ s) \<Longrightarrow> \<exists>l\<in>set (splitlines_from cur s). py_contains n l"
proof (induction cur s rule: splitlines_from.induct)
  case (1 cur)
  then show ?case using assms(2) by auto
next
  case (2 cur c s)
  show ?case
  proof (cases "break_len c s = 0")
    case True
    with 2 show ?thesis by auto
  next
    case False
    have n: "x \<in> set n \<Longrightarrow> plain_char x" for x using assms(1) by (simp add: plain_def list_all_iff)
    have c: "\<forall>x\<in>set (take (break_len c s) (c # s)). x \<notin> set n" using n break_chars by blast
    moreover from this have "c \<notin> set n" using False by (simp add: take_Cons')
    ultimately have "py_contains n cur \<or> py_contains n (drop (break_len c s - 1) s)"
      using contains_around [OF "2.prems"] contains_drop [of "break_len c s - 1" s n] assms(2) False
      by (auto simp: take_Cons')
    with 2 False show ?thesis by auto
  qed
qed


section \<open>Idempotence\<close>

fun inject_lines :: "string list \<Rightarrow> bool \<Rightarrow> string list \<Rightarrow> string list" where
  "inject_lines bs in_block [] = []"
| "inject_lines bs in_block (line # ls) =
    (if py_contains BLOCK_START line then line # bs @ inject_lines bs True ls
     else if py_contains BLOCK_END line then line # inject_lines bs False ls
     else if \<not> in_block then line # inject_lines bs in_block ls
     else inject_lines bs in_block ls)"

lemma py_join_cons: "py_join sep xs = py_join sep ys \<Longrightarrow> xs = [] \<longleftrightarrow> ys = [] \<Longrightarrow> py_join sep (x # xs) = py_join sep (x # ys)"
  by (cases xs; cases ys) auto

lemma inject_join: "bs \<noteq> [] \<Longrightarrow> py_join [newline] (inject_block (py_join [newline] bs) b ls) = py_join [newline] (inject_lines bs b ls)
    \<and> (inject_block (py_join [newline] bs) b ls = [] \<longleftrightarrow> inject_lines bs b ls = [])"
proof (induction bs b ls rule: inject_lines.induct)
  case (2 bs b line ls)
  have "py_join [newline] (line # py_join [newline] bs # inject_block (py_join [newline] bs) True ls) =
      py_join [newline] (line # bs @ inject_lines bs True ls)"
    if "py_join [newline] (inject_block (py_join [newline] bs) True ls) = py_join [newline] (inject_lines bs True ls)"
      "inject_block (py_join [newline] bs) True ls = [] \<longleftrightarrow> inject_lines bs True ls = []"
    using py_join_block [OF "2.prems", of "[newline]" line "inject_lines bs True ls"]
      py_join_cons [OF py_join_cons [OF that, of "py_join [newline] bs"], of line] by simp
  with 2 show ?case by (auto intro: py_join_cons)
qed simp

definition unmarked :: "string \<Rightarrow> bool" where
  "unmarked l \<longleftrightarrow> \<not> py_contains BLOCK_START l \<and> \<not> py_contains BLOCK_END l"

lemma inject_skip: "list_all unmarked bs \<Longrightarrow> inject_lines cs True (bs @ ls) = inject_lines cs True ls"
  by (induction bs) (auto simp: unmarked_def)

lemma inject_twice: "list_all unmarked bs \<Longrightarrow> inject_lines bs b (inject_lines bs b ls) = inject_lines bs b ls"
  by (induction bs b ls rule: inject_lines.induct) (auto simp: inject_skip)

lemma inject_unbroken: "list_all unbroken bs \<Longrightarrow> list_all unbroken ls \<Longrightarrow> list_all unbroken (inject_lines bs b ls)"
  by (induction bs b ls rule: inject_lines.induct) auto

lemma inject_keeps: "l \<in> set ls \<Longrightarrow> \<not> unmarked l \<Longrightarrow> l \<in> set (inject_lines bs b ls)"
  by (induction bs b ls rule: inject_lines.induct) (auto simp: unmarked_def)

lemma skip_specs:
  "list_all (\<lambda>l. py_strip l \<noteq> '']'') bs \<Longrightarrow> replace_dependencies cs True True (bs @ ls) = replace_dependencies cs True True ls"
  by (induction bs) auto

lemma spec_line_strip: "list_all (\<lambda>l. py_strip l \<noteq> '']'') (map spec_line specs)"
  by (simp add: list_all_iff spec_line_def py_strip_def strip_chars_def is_space_def)

lemma replace_twice:
  "replace_dependencies specs i r (replace_dependencies specs i r ls) = replace_dependencies specs i r ls"
proof (induction specs i r ls rule: replace_dependencies.induct)
  case (2 specs i r line ls)
  then show ?case by (cases i) (auto simp: skip_specs spec_line_strip)
qed simp

lemma replace_unbroken: "list_all unbroken ls \<Longrightarrow> list_all unbroken (map spec_line specs) \<Longrightarrow>
    list_all unbroken (replace_dependencies specs i r ls)"
proof (induction specs i r ls rule: replace_dependencies.induct)
  case (2 specs i r line ls)
  then show ?case by (cases i) auto
qed simp


text \<open>The names of the manifest are printable and without comment characters.\<close>

definition clean_dep :: "dep_entry \<Rightarrow> bool" where
  "clean_dep d \<longleftrightarrow> plain (de_pip d) \<and> plain (de_openwrt d) \<and> CHR ''#'' \<notin> set (de_openwrt d)"

lemma plain_simps [simp]: "plain (a @ b) \<longleftrightarrow> plain a \<and> plain b" "plain (c # a) \<longleftrightarrow> plain_char c \<and> plain a" "plain []"
  by (simp_all add: plain_def)

lemma contains_subset: "py_contains n s \<Longrightarrow> set n \<subseteq> set s"
  by (auto simp: py_contains_iff)

lemma unmarked_no_hash: "CHR ''#'' \<notin> set l \<Longrightarrow> unmarked l"
  using contains_subset [of BLOCK_START l] contains_subset [of BLOCK_END l]
  by (auto simp: unmarked_def BLOCK_START_def BLOCK_END_def)

lemma format_clean:
  "list_all (\<lambda>t. plain t \<and> CHR ''#'' \<notin> set t) ts \<Longrightarrow> list_all (\<lambda>l. plain l \<and> CHR ''#'' \<notin> set l) (format_openwrt_lines ts)"
  by (induction ts rule: format_openwrt_lines.induct) (auto simp: plain_char_def less_char_def)

lemma block_clean:
  assumes "list_all clean_dep deps"
  shows "list_all (\<lambda>l. plain l \<and> CHR ''#'' \<notin> set l) (block_lines (collect_openwrt_packages deps))"
proof -
  have "list_all (\<lambda>t. plain t \<and> CHR ''#'' \<notin> set t) (collect_openwrt_packages deps)"
    using assms by (auto simp: list_all_iff collect_openwrt_packages_def clean_dep_def)
  from format_clean [OF this] show ?thesis
    by (simp add: block_lines_def) (simp add: plain_char_def less_char_def)
qed

lemma contains_join: "l \<in> set ls \<Longrightarrow> py_contains n l \<Longrightarrow> py_contains n (join_lines ls)"
proof -
  assume "l \<in> set ls" "py_contains n l"
  have "\<exists>a b. py_join [newline] ls = a @ l @ b" if "l \<in> set ls"
    using that
  proof (induction "[newline]" ls rule: py_join.induct)
    case (2 x)
    then show ?case by (auto intro: exI [of _ "[]"])
  next
    case (3 x y r)
    then show ?case by (auto intro: exI [of _ "[]"]) (metis append.assoc append_Cons append_Nil)+
  qed simp
  with \<open>l \<in> set ls\<close> \<open>py_contains n l\<close> show ?thesis
    unfolding join_lines_def py_contains_iff by (metis append.assoc)
qed

lemma marker_plain: "plain BLOCK_START" "plain BLOCK_END" "BLOCK_START \<noteq> []" "BLOCK_END \<noteq> []"
  by (simp_all add: BLOCK_START_def BLOCK_END_def plain_char_def less_char_def)

lemma makefile_twice:
  assumes "list_all clean_dep deps" "py_contains BLOCK_START m" "py_contains BLOCK_END m"
  shows "updated_makefile deps (updated_makefile deps m) = updated_makefile deps m
     \<and> py_contains BLOCK_START (updated_makefile deps m) \<and> py_contains BLOCK_END (updated_makefile deps m)"
proof -
  let ?B = "block_lines (collect_openwrt_packages deps)"
  let ?L = "inject_lines ?B False (splitlines m)"
  have B: "list_all unmarked ?B" "list_all unbroken ?B" "?B \<noteq> []"
    using block_clean [OF assms(1)] by (auto simp: list_all_iff unmarked_no_hash plain_unbroken block_lines_def)
  have u: "updated_makefile deps x = join_lines (inject_lines ?B False (splitlines x))" for x
    using inject_join [OF B(3)] by (simp add: updated_makefile_def join_lines_def)
  have c: "\<exists>l\<in>set ?L. py_contains n l" if "py_contains n m" "n = BLOCK_START \<or> n = BLOCK_END" for n
  proof -
    have "\<exists>l\<in>set (splitlines m). py_contains n l"
      using splitlines_contains [of n "[]" m] that marker_plain by (auto simp: splitlines_def)
    then show ?thesis using that(2) inject_keeps unfolding unmarked_def by blast
  qed
  then have "?L \<noteq> []" using assms(2) by fastforce
  then have "splitlines (join_lines ?L) = ?L"
    using splitlines_join inject_unbroken [OF B(2) lines_unbroken] by blast
  then show ?thesis using u inject_twice [OF B(1)] c assms(2,3) contains_join by metis
qed

definition new_pyproject :: "dep_entry list \<Rightarrow> string \<Rightarrow> string" where
  "new_pyproject deps content = join_lines (replace_dependencies (runtime_pip_specs deps) False False (splitlines content))"

lemma pyproject_twice:
  assumes "list_all clean_dep deps"
  shows "new_pyproject deps (new_pyproject deps content) = new_pyproject deps content"
proof -
  let ?specs = "runtime_pip_specs deps"
  let ?L = "replace_dependencies ?specs False False (splitlines content)"
  have "plain (spec_line s)" if "s \<in> set ?specs" for s
    using that assms by (auto simp: runtime_pip_specs_def spec_line_def list_all_iff clean_dep_def plain_char_def less_char_def)
  then have "list_all unbroken (map spec_line ?specs)" by (auto simp: list_all_iff plain_unbroken)
  then have u: "list_all unbroken ?L" using replace_unbroken lines_unbroken by blast
  show ?thesis
  proof (cases "?L = []")
    case True
    then show ?thesis
      by (simp add: new_pyproject_def join_lines_def splitlines_def break_len_def py_strip_def strip_chars_def)
  next
    case False
    then show ?thesis using splitlines_join [OF u] by (simp add: new_pyproject_def replace_twice)
  qed
qed


section \<open>What the outputs write\<close>

lemma tree_update_same [simp]:
  "tr_requirements t = x \<Longrightarrow> t\<lparr>tr_requirements := x\<rparr> = t" "tr_pyproject t = x \<Longrightarrow> t\<lparr>tr_pyproject := x\<rparr> = t"
  "tr_makefile t = x \<Longrightarrow> t\<lparr>tr_makefile := x\<rparr> = t" "tr_gateway_makefile t = x \<Longrightarrow> t\<lparr>tr_gateway_makefile := x\<rparr> = t"
  "tr_gateway_requirements t = x \<Longrightarrow> t\<lparr>tr_gateway_requirements := x\<rparr> = t" "tr_feeds t = y \<Longrightarrow> t\<lparr>tr_feeds := y\<rparr> = t"
  by (cases t; simp)+

lemma requirements_written:
  "write_requirements False deps t = (Inr b, t') \<Longrightarrow> t' = t\<lparr>tr_requirements := Some (requirements_text deps)\<rparr>"
  "write_gateway_requirements False deps t = (Inr b, t') \<Longrightarrow>
     t' = t\<lparr>tr_gateway_requirements := Some (requirements_text (filter de_gateway deps))\<rparr>"
  by (auto simp: write_requirements_def write_gateway_requirements_def Let_def split: if_splits)

lemma pyproject_written:
  "update_pyproject False deps t = (Inr b, t') \<Longrightarrow> t' = t\<lparr>tr_pyproject := map_option (new_pyproject deps) (tr_pyproject t)\<rparr>"
  by (auto simp: update_pyproject_def new_pyproject_def Let_def split: if_splits option.splits)

lemma makefile_written:
  "update_makefile False deps t = (Inr b, t') \<Longrightarrow> \<exists>m. tr_makefile t = Some m \<and> py_contains BLOCK_START m \<and> py_contains BLOCK_END m
     \<and> t' = t\<lparr>tr_makefile := Some (updated_makefile deps m)\<rparr>"
  by (auto simp: update_makefile_def Let_def split: if_splits option.splits)

lemma gateway_makefile_written:
  "update_gateway_makefile False deps t = (Inr b, t') \<Longrightarrow>
     (\<forall>m. tr_gateway_makefile t = Some m \<longrightarrow> py_contains BLOCK_START m \<and> py_contains BLOCK_END m)
     \<and> t' = t\<lparr>tr_gateway_makefile := map_option (updated_makefile (filter de_gateway deps)) (tr_gateway_makefile t)\<rparr>"
  by (auto simp: update_gateway_makefile_def Let_def split: if_splits option.splits)

lemma feeds_written: "update_feeds dry deps t = (r, t') \<Longrightarrow> \<exists>f b. t' = t\<lparr>tr_feeds := f\<rparr> \<and> r = Inr b"
  by (auto simp: update_feeds_def split: option.splits prod.splits) (metis tree_update_same(6))

lemma feeds_dry: "\<exists>b. update_feeds True deps t = (Inr b, t)"
proof -
  have u: "snd (update_feed True d s) = snd s" for d s
    by (cases s) (simp add: update_feed_def Let_def split: prod.split option.split)
  have "snd (fold (update_feed True) ds s) = snd s" for ds s
    by (induction ds arbitrary: s) (simp_all add: u)
  then have "fold (update_feed True) deps (False, feeds) = (b, feeds') \<Longrightarrow> feeds' = feeds" for feeds b feeds'
    by (metis snd_conv)
  then show ?thesis by (cases "tr_feeds t") (fastforce simp: update_feeds_def split: prod.split)+
qed

lemma run_outputs_Cons:
  "run_outputs (f # fs) t = (Inr us, t') \<longleftrightarrow>
     (\<exists>b t1 bs. f t = (Inr b, t1) \<and> run_outputs fs t1 = (Inr bs, t') \<and> us = b # bs)"
proof (cases "f t")
  case (Pair r t1)
  then show ?thesis
    by (cases r; cases "run_outputs fs t1"; cases "fst (run_outputs fs t1)") auto
qed

text \<open>A manifest and the files of a small project.\<close>

definition sample_manifest :: "raw_entry list option result option" where
  "sample_manifest = Some (Inr (Some [\<lparr>re_name = None, re_openwrt = Some ''python3-cobs'', re_pip = Some ''cobs==1.2.2'',
     re_check_latest = None, re_gateway = None\<rparr>]))"

definition sample_tree :: tree where
  "sample_tree = \<lparr>tr_requirements = None, tr_pyproject = None, tr_makefile = Some (join_lines [BLOCK_START, ''old'', BLOCK_END]),
     tr_gateway_requirements = None, tr_gateway_makefile = None, tr_feeds = None\<rparr>"

definition sync_mode :: "bool \<Rightarrow> bool \<Rightarrow> sync_args" where
  "sync_mode check latest = \<lparr>sa_check = check, sa_check_latest = latest, sa_print_openwrt = False, sa_print_pip = False\<rparr>"

section \<open>Properties\<close>

text \<open>C34 (functional). The tool is idempotent: once it has run without \<open>--check\<close> on a manifest with printable names,
  whatever the files held before, a run with \<open>--check\<close> on the same manifest finds nothing to change in the
  requirement files, the makefiles and \<open>pyproject.toml\<close>, changes nothing, and fails exactly when a package feed is
  still out of date.\<close>

theorem sync_then_check:
  assumes "sync_main (sync_mode False latest) parsed index t = (Inr (status, out), t')"
    and "load_manifest parsed = Inr deps" "list_all clean_dep deps"
  shows "sync_main (sync_mode True False) parsed index t'
      = (Inr (if fst (update_feeds True deps t') = Inr True then 1 else 0, []), t')"
proof -
  obtain us where "run_outputs (outputs False deps) t = (Inr us, t')"
    using assms(1,2) by (auto simp: sync_main_def sync_mode_def Let_def split: prod.splits sum.splits)
  then obtain b1 t1 b2 t2 b3 t3 b4 t4 b5 t5 b6 where
      w: "write_requirements False deps t = (Inr b1, t1)" "update_makefile False deps t1 = (Inr b2, t2)"
        "update_pyproject False deps t2 = (Inr b3, t3)" "update_feeds False deps t3 = (Inr b4, t4)"
        "write_gateway_requirements False deps t4 = (Inr b5, t5)" "update_gateway_makefile False deps t5 = (Inr b6, t')"
    unfolding outputs_def run_outputs_Cons by (auto simp del: run_outputs.simps(2))
  obtain m where t': "py_contains BLOCK_START m" "py_contains BLOCK_END m"
      "\<forall>m. tr_gateway_makefile t = Some m \<longrightarrow> py_contains BLOCK_START m \<and> py_contains BLOCK_END m"
      "tr_requirements t' = Some (requirements_text deps)" "tr_makefile t' = Some (updated_makefile deps m)"
      "tr_pyproject t' = map_option (new_pyproject deps) (tr_pyproject t)"
      "tr_gateway_requirements t' = Some (requirements_text (filter de_gateway deps))"
      "tr_gateway_makefile t' = map_option (updated_makefile (filter de_gateway deps)) (tr_gateway_makefile t)"
    using requirements_written(1) [OF w(1)] makefile_written [OF w(2)] pyproject_written [OF w(3)] feeds_written [OF w(4)]
      requirements_written(2) [OF w(5)] gateway_makefile_written [OF w(6)] by auto
  have g: "list_all clean_dep (filter de_gateway deps)" using assms(3) by (auto simp: list_all_iff)
  have "write_requirements True deps t' = (Inr False, t')" "write_gateway_requirements True deps t' = (Inr False, t')"
    using t' by (simp_all add: write_requirements_def write_gateway_requirements_def)
  moreover have "update_makefile True deps t' = (Inr False, t')"
    using t' makefile_twice [OF assms(3) t'(1,2)] by (simp add: update_makefile_def)
  moreover have "update_gateway_makefile True deps t' = (Inr False, t')"
    using t' makefile_twice [OF g] by (cases "tr_gateway_makefile t") (simp_all add: update_gateway_makefile_def)
  moreover have "update_pyproject True deps t' = (Inr False, t')"
    using t' pyproject_twice [OF assms(3)]
    by (cases "tr_pyproject t") (simp_all add: update_pyproject_def new_pyproject_def [symmetric])
  moreover obtain b where "update_feeds True deps t' = (Inr b, t')" using feeds_dry by blast
  ultimately show ?thesis using assms(2) by (simp add: sync_main_def sync_mode_def outputs_def)
qed

theorem sync_then_check_witness:
  "sync_main (sync_mode True False) sample_manifest (\<lambda>_. None)
      (snd (sync_main (sync_mode False False) sample_manifest (\<lambda>_. None) sample_tree))
    = (Inr (0, []), snd (sync_main (sync_mode False False) sample_manifest (\<lambda>_. None) sample_tree))"
proof -
  define d where "d = \<lparr>de_name = ''python3-cobs'', de_openwrt = ''python3-cobs'', de_pip = ''cobs==1.2.2'',
    de_check_latest = True, de_gateway = False\<rparr>"
  let ?r = "sync_main (sync_mode False False) sample_manifest (\<lambda>_. None) sample_tree"
  have "py_strip ''python3-cobs'' = ''python3-cobs''" "py_strip ''cobs==1.2.2'' = ''cobs==1.2.2''" by code_simp+
  then have l: "load_manifest sample_manifest = Inr [d]"
    by (simp add: sample_manifest_def load_manifest_def normalise_entry_def str_or_empty_def d_def Let_def)
  have c: "list_all clean_dep [d]" by (simp add: d_def clean_dep_def plain_char_def less_char_def)
  have "fst ?r = Inr (0, [])" "Option.is_none (tr_feeds (snd ?r))" by code_simp+
  then have r: "?r = (Inr (0, []), snd ?r)" "tr_feeds (snd ?r) = None"
    by (auto simp: prod_eq_iff Option.is_none_def)
  show ?thesis using sync_then_check [OF r(1) l c] r(2) by (simp add: update_feeds_def)
qed

end
