(* ===== verification/Generator.thy ===== *)
theory Generator
  imports Security Policy Decimal Deps "HOL-Library.AList"
begin

text \<open>
  \<open>tools/protocol/generate.py\<close>: what the generator computes from the compiled schema before the templates print it.
  The descriptors of the schema (its options, fields and enumeration values) are arguments, as are the compilers that
  it runs. The tables of commands and actions are in the theories \<open>Protocol\<close> and \<open>Topics\<close>.
\<close>

section \<open>Reading the schema\<close>

record command_spec = command_def +
  cs_directions :: "string list"
  cs_category :: "string option"
  cs_description :: "string option"
  cs_cloud_topic :: "string option"

record status_spec =
  ss_name :: string
  ss_value :: int
  ss_description :: string

text \<open>An enumeration value with its option, of type \<open>cmd_opts\<close> or \<open>status_opts\<close>.\<close>

record cmd_opts =
  co_directions :: "string list"
  co_category :: string
  co_description :: string
  co_requires_ack :: bool
  co_expects_direct_response :: bool
  co_cloud_topic :: string

definition some_text :: "string \<Rightarrow> string option" where
  "some_text s = (if s = [] then None else Some s)"

definition load_commands :: "(string \<times> int \<times> cmd_opts) list \<Rightarrow> command_spec list" where
  "load_commands values =
    map (\<lambda>(name, number, opts).
        \<lparr>cd_name = name, cd_value = number, cd_requires_ack = co_requires_ack opts,
         cd_expects_direct_response = co_expects_direct_response opts, cs_directions = co_directions opts,
         cs_category = some_text (co_category opts), cs_description = some_text (co_description opts),
         cs_cloud_topic = some_text (co_cloud_topic opts)\<rparr>)
      (filter (\<lambda>(name, _). name \<noteq> ''CMD_UNSPECIFIED'') values)"

definition load_statuses :: "(string \<times> int \<times> string) list \<Rightarrow> status_spec list" where
  "load_statuses values =
    map (\<lambda>(name, number, description). \<lparr>ss_name = name, ss_value = number, ss_description = description\<rparr>)
      (filter (\<lambda>(name, _). name \<noteq> ''STATUS_UNSPECIFIED'') values)"

text \<open>The topic of a message, and of an enumeration under its name with a suffix; \<open>None\<close> where the option is unset.\<close>

definition load_message_topics :: "(string \<times> string option) list \<Rightarrow> (string \<times> string option) list \<Rightarrow> (string \<times> string) list" where
  "load_message_topics messages enums =
    fold (\<lambda>(k, v) m. AList.update k v m)
      (List.map_filter (\<lambda>(n, t). map_option (Pair n) t) messages
       @ List.map_filter (\<lambda>(n, t). map_option (Pair (n @ ''_ENUM'')) t) enums) []"

definition load_architectures :: "(string \<times> int \<times> string) list \<Rightarrow> (string \<times> int) list \<times> (string \<times> string) list" where
  "load_architectures archs =
    (fold (\<lambda>(name, v, _) m. AList.update name v m) archs [],
     fold (\<lambda>(name, _, display) m. if display = [] then m else AList.update name display m) archs [])"

definition load_capabilities :: "(string \<times> int) list \<Rightarrow> (string \<times> int) list" where
  "load_capabilities caps = fold (\<lambda>(name, v) m. AList.update name v m) caps []"

section \<open>Constants\<close>

datatype field_value = FInt int | FStr string

definition str_value :: "field_value \<Rightarrow> string" where
  "str_value v = (case v of FInt n \<Rightarrow> py_str_int n | FStr s \<Rightarrow> s)"

text \<open>A field of an option message with the options that name it in each language.\<close>

record field_opt =
  fo_cpp_name :: string
  fo_cpp_type :: string
  fo_py_name :: string
  fo_py_type :: string
  fo_client_constant :: bool
  fo_value :: field_value

record const_def =
  kd_name :: string
  kd_type :: string
  kd_value :: field_value

text \<open>The loop of \<open>_cpp_digit_separator\<close> collects the groups from the right.\<close>

function thousands :: "string \<Rightarrow> string list" where
  "thousands s = (if s = [] then [] else drop (length s - 3) s # thousands (take (length s - 3) s))"
  by auto
termination
  by (relation "measure length") auto

declare thousands.simps [simp del]

definition cpp_digit_separator :: "field_value \<Rightarrow> string" where
  "cpp_digit_separator v =
    (case v of
       FStr s \<Rightarrow> s
     | FInt n \<Rightarrow>
         (if \<bar>n\<bar> < 10000 then py_str_int n
          else (let result = py_join [CHR 0x27] (rev (thousands (py_str_int \<bar>n\<bar>)))
                in if n < 0 then ''-'' @ result else result)))"

definition is_upper :: "char \<Rightarrow> bool" where
  "is_upper c \<longleftrightarrow> (of_char c :: nat) \<in> {65..90}"

definition snake_case :: "string \<Rightarrow> string" where
  "snake_case s =
    py_lower (case s of
       [] \<Rightarrow> []
     | c # cs \<Rightarrow> c # concat (map (\<lambda>x. if is_upper x then [CHR ''_'', x] else [x]) cs))"

definition packet_class_name :: "string \<Rightarrow> string" where
  "packet_class_name proto_name = (if py_endswith ''Packet'' proto_name then proto_name else proto_name @ ''Packet'')"

text \<open>The reflection loop that each generator has: fields with a name in the language, in order.\<close>

definition cpp_constants :: "field_opt list \<Rightarrow> const_def list" where
  "cpp_constants fs =
    map (\<lambda>f. \<lparr>kd_name = fo_cpp_name f, kd_type = fo_cpp_type f, kd_value = fo_value f\<rparr>)
      (filter (\<lambda>f. fo_cpp_name f \<noteq> []) fs)"

text \<open>\<open>v_major, v_minor, v_patch = map(int, version.split("."))\<close>.\<close>

definition parse_version :: "string \<Rightarrow> (int \<times> int \<times> int) result" where
  "parse_version version =
    (case py_split (CHR ''.'') version of
       [a, b, c] \<Rightarrow>
         (case py_int a of Inl e \<Rightarrow> Inl e | Inr x \<Rightarrow>
         (case py_int b of Inl e \<Rightarrow> Inl e | Inr y \<Rightarrow>
         (case py_int c of Inl e \<Rightarrow> Inl e | Inr z \<Rightarrow> Inr (x, y, z))))
     | _ \<Rightarrow> Inl ValueError)"

definition hex_upper :: "nat \<Rightarrow> char" where
  "hex_upper n = (if n < 10 then char_of (48 + n) else char_of (55 + n))"

definition byte_literal :: "char \<Rightarrow> string" where
  "byte_literal c = ''0x'' @ [hex_upper (of_char c div 16), hex_upper (of_char c mod 16)]"

text \<open>The text, its bytes as a list of literals, and its length. The texts of the schema are ASCII.\<close>

definition hkdf_data :: "string \<Rightarrow> string \<times> string \<times> nat" where
  "hkdf_data s = (s, py_join '', '' (map byte_literal s), length s)"

record cpp_header =
  ch_constants :: "const_def list"
  ch_handshake_constants :: "const_def list"
  ch_hkdf_salt :: "string \<times> string \<times> nat"
  ch_hkdf_info_auth :: "string \<times> string \<times> nat"
  ch_hkdf_info_session :: "string \<times> string \<times> nat"
  ch_capabilities :: "(string \<times> int) list"
  ch_architectures :: "(string \<times> int) list"
  ch_statuses :: "status_spec list"
  ch_commands :: "command_spec list"
  ch_ack_commands :: "command_spec list"
  ch_status_reasons :: "(string \<times> string) list"

text \<open>\<open>ProtocolSpec\<close>; a message of options is its fields with their options.\<close>

record protocol_spec =
  ps_constants :: "field_opt list"
  ps_hardware :: "field_opt list"
  ps_handshake :: "field_opt list"
  ps_data_formats :: "field_opt list"
  ps_hkdf :: "string \<times> string \<times> string"
  ps_cloud_suffixes :: "(string \<times> string) list"
  ps_cloud_defaults :: "(string \<times> string) list"
  ps_status_reasons :: "(string \<times> string) list"
  ps_capabilities :: "(string \<times> int) list"
  ps_architectures :: "(string \<times> int) list"
  ps_architecture_display_names :: "(string \<times> string) list"
  ps_message_topics :: "(string \<times> string) list"
  ps_statuses :: "status_spec list"
  ps_commands :: "command_spec list"
  ps_topics :: "string list"
  ps_actions :: "(string \<times> string) list" \<comment> \<open>name and value\<close>
  ps_subscriptions :: "(string \<times> string list \<times> int) list" \<comment> \<open>topic, segments and quality of service\<close>

text \<open>What \<open>generate_cpp_header\<close> hands to the template.\<close>

definition generate_cpp_header :: "protocol_spec \<Rightarrow> string \<Rightarrow> cpp_header result" where
  "generate_cpp_header spec version =
    (case parse_version version of
       Inl e \<Rightarrow> Inl e
     | Inr (v_major, v_minor, v_patch) \<Rightarrow>
         (case ps_hkdf spec of (salt, info_auth, info_session) \<Rightarrow>
           Inr \<lparr>ch_constants = cpp_constants (ps_constants spec) @ cpp_constants (ps_hardware spec)
                  @ [\<lparr>kd_name = ''FIRMWARE_VERSION_MAJOR'', kd_type = ''uint8_t'', kd_value = FInt v_major\<rparr>,
                     \<lparr>kd_name = ''FIRMWARE_VERSION_MINOR'', kd_type = ''uint8_t'', kd_value = FInt v_minor\<rparr>,
                     \<lparr>kd_name = ''FIRMWARE_VERSION_PATCH'', kd_type = ''uint8_t'', kd_value = FInt v_patch\<rparr>],
                ch_handshake_constants = cpp_constants (ps_handshake spec),
                ch_hkdf_salt = hkdf_data salt, ch_hkdf_info_auth = hkdf_data info_auth,
                ch_hkdf_info_session = hkdf_data info_session,
                ch_capabilities = ps_capabilities spec, ch_architectures = ps_architectures spec,
                ch_statuses = ps_statuses spec, ch_commands = ps_commands spec,
                ch_ack_commands = filter cd_requires_ack (ps_commands spec),
                ch_status_reasons = ps_status_reasons spec\<rparr>))"

definition quoted :: "string \<Rightarrow> string" where
  "quoted s = [CHR 0x22] @ s @ [CHR 0x22]"

definition py_constants :: "(field_opt \<Rightarrow> field_value) \<Rightarrow> field_opt list \<Rightarrow> const_def list" where
  "py_constants val fs =
    map (\<lambda>f. \<lparr>kd_name = fo_py_name f, kd_type = fo_py_type f, kd_value = val f\<rparr>)
      (filter (\<lambda>f. fo_py_name f \<noteq> []) fs)"

definition delimiter_value :: "field_opt \<Rightarrow> field_value" where
  "delimiter_value f =
    (if fo_py_name f = ''FRAME_DELIMITER'' then FStr (''bytes([ '' @ str_value (fo_value f) @ '' ])'') else fo_value f)"

definition extract_python_constants :: "protocol_spec \<Rightarrow> const_def list" where
  "extract_python_constants spec =
    py_constants delimiter_value (ps_constants spec)
    @ py_constants fo_value (ps_hardware spec)
    @ py_constants (\<lambda>f. FStr (quoted (str_value (fo_value f)))) (ps_data_formats spec)
    @ map (\<lambda>(key, val). \<lparr>kd_name = ''CLOUD_SUFFIX_'' @ py_upper key, kd_type = ''str'', kd_value = FStr (quoted val)\<rparr>)
        (ps_cloud_suffixes spec)"

definition handshake_value :: "field_opt \<Rightarrow> field_value" where
  "handshake_value f =
    (if fo_py_type f = ''str'' then FStr (quoted (str_value (fo_value f)))
     else if fo_py_type f = ''bytes'' then FStr (''b'' @ quoted (str_value (fo_value f)))
     else fo_value f)"

definition extract_python_handshake_constants :: "protocol_spec \<Rightarrow> const_def list" where
  "extract_python_handshake_constants spec = py_constants handshake_value (ps_handshake spec)"

definition client_constants :: "protocol_spec \<Rightarrow> const_def list" where
  "client_constants spec =
    map (\<lambda>f. \<lparr>kd_name = fo_py_name f, kd_type = ''int'', kd_value = fo_value f\<rparr>)
      (filter fo_client_constant (ps_constants spec))"

section \<open>Subscriptions\<close>

definition action_class :: "string \<Rightarrow> string" where
  "action_class topic_str = (if topic_str = ''DATASTORE'' then ''DatastoreAction'' else capitalize (py_lower topic_str) @ ''Action'')"

text \<open>\<open>str.split("_", 1)[1]\<close> of a name with an underscore.\<close>

definition after_underscore :: "string \<Rightarrow> string" where
  "after_underscore s = tl (dropWhile (\<lambda>c. c \<noteq> CHR ''_'') s)"

definition subscription_segment :: "protocol_spec \<Rightarrow> string \<Rightarrow> string \<Rightarrow> string" where
  "subscription_segment spec topic_str s =
    (if s = ''+'' then ''CLOUD_WILDCARD_SINGLE''
     else if s = ''#'' then ''CLOUD_WILDCARD_MULTI''
     else (case (if topic_str \<in> set (ps_topics spec)
                 then List.find (\<lambda>(name, val). py_startswith (topic_str @ ''_'') name \<and> val = s) (ps_actions spec)
                 else None) of
             Some (name, _) \<Rightarrow> action_class topic_str @ ''.'' @ after_underscore name @ ''.value''
           | None \<Rightarrow> quoted s))"

definition process_python_subscriptions :: "protocol_spec \<Rightarrow> (string \<times> int \<times> string) list" where
  "process_python_subscriptions spec =
    map (\<lambda>(topic_str, segs, qos).
        let segments = map (subscription_segment spec topic_str) segs
        in (topic_str, qos, if segments = [] then ''()'' else ''('' @ py_join '', '' segments @ '',)''))
      (ps_subscriptions spec)"

text \<open>What \<open>generate_python\<close> hands to the template; \<open>classes\<close> are the message classes of the compiled schema.\<close>

record python_module =
  pm_constants :: "const_def list"
  pm_handshake_constants :: "const_def list"
  pm_ack_commands :: "command_spec list"
  pm_response_only_commands :: "command_spec list"
  pm_subscriptions :: "(string \<times> int \<times> string) list"
  pm_request_response_pairs :: "(string \<times> string list) list"
  pm_response_to_req_map :: "(string \<times> string) list"
  pm_command_to_pb :: "(string \<times> string) list"
  pm_capabilities :: "(string \<times> int) list"
  pm_architectures :: "(string \<times> int) list"
  pm_architecture_display_names :: "(string \<times> string) list"
  pm_status_reasons :: "(string \<times> string) list"
  pm_statuses :: "status_spec list"
  pm_commands :: "command_spec list"
  pm_topics :: "string list"
  pm_message_topics :: "(string \<times> string) list"
  pm_cloud_defaults :: "(string \<times> string) list"

definition generate_python :: "string list \<Rightarrow> protocol_spec \<Rightarrow> python_module" where
  "generate_python classes spec =
    \<lparr>pm_constants = extract_python_constants spec,
     pm_handshake_constants = extract_python_handshake_constants spec,
     pm_ack_commands = filter cd_requires_ack (ps_commands spec),
     pm_response_only_commands = filter cd_expects_direct_response (ps_commands spec),
     pm_subscriptions = process_python_subscriptions spec,
     pm_request_response_pairs = build_req_resp_map (map command_def.truncate (ps_commands spec)),
     pm_response_to_req_map = build_resp_to_req_map (map command_def.truncate (ps_commands spec)),
     pm_command_to_pb =
       filter (\<lambda>(_, cls). cls \<in> set classes) (map (\<lambda>c. (cd_name c, cmd_name_to_pb_class (cd_name c))) (ps_commands spec)),
     pm_capabilities = ps_capabilities spec, pm_architectures = ps_architectures spec,
     pm_architecture_display_names = ps_architecture_display_names spec, pm_status_reasons = ps_status_reasons spec,
     pm_statuses = ps_statuses spec, pm_commands = ps_commands spec, pm_topics = ps_topics spec,
     pm_message_topics = ps_message_topics spec, pm_cloud_defaults = ps_cloud_defaults spec\<rparr>"

section \<open>Lines of the templates\<close>

text \<open>The line of \<open>rpc_protocol.h.j2\<close> and of \<open>protocol.py.j2\<close> for a constant.\<close>

definition literal_suffix :: "string \<Rightarrow> string" where
  "literal_suffix t =
    (if t = ''unsigned long'' then ''UL''
     else if py_startswith ''uint'' t \<or> py_startswith ''unsigned'' t then ''U'' else [])"

definition cpp_line :: "const_def \<Rightarrow> string" where
  "cpp_line c = ''inline constexpr '' @ kd_type c @ '' '' @ kd_name c @ '' = '' @ cpp_digit_separator (kd_value c)
     @ literal_suffix (kd_type c) @ '';''"

definition py_line :: "const_def \<Rightarrow> string" where
  "py_line c = kd_name c @ '': Final['' @ kd_type c @ ''] = '' @ str_value (kd_value c)"

section \<open>Metadata\<close>

text \<open>\<open>update_metadata\<close> writes the version into three files. The pattern for \<open>pyproject.toml\<close> is the word \<open>version\<close>, an
  equals sign and a non-empty quoted text, with white space around the sign; the first match only.\<close>

definition version_match :: "string \<Rightarrow> string option" where
  "version_match s =
    (if py_startswith ''version'' s then
       (case dropWhile is_space (drop 7 s) of
          [] \<Rightarrow> None
        | e # r \<Rightarrow>
            (if e \<noteq> CHR ''='' then None
             else (case dropWhile is_space r of
                     [] \<Rightarrow> None
                   | q # r \<Rightarrow>
                       (if q \<noteq> CHR 0x22 \<or> takeWhile (\<lambda>c. c \<noteq> CHR 0x22) r = []
                        then None
                        else (case dropWhile (\<lambda>c. c \<noteq> CHR 0x22) r of [] \<Rightarrow> None | _ # rest \<Rightarrow> Some rest)))))
     else None)"

fun sub_version :: "string \<Rightarrow> string \<Rightarrow> string" where
  "sub_version version [] = []"
| "sub_version version (c # s) =
    (case version_match (c # s) of
       Some rest \<Rightarrow> ''version = '' @ quoted version @ rest
     | None \<Rightarrow> c # sub_version version s)"

record metadata =
  md_pyproject :: "string option"
  md_makefile :: "string option"
  md_library :: "string option"

definition update_metadata :: "string \<Rightarrow> metadata \<Rightarrow> metadata" where
  "update_metadata version m =
    \<lparr>md_pyproject = map_option (sub_version version) (md_pyproject m),
     md_makefile = map_option (re_assign ''PKG_VERSION:='' version) (md_makefile m),
     md_library = map_option (re_assign ''version='' version) (md_library m)\<rparr>"

section \<open>Incremental builds\<close>

text \<open>The steps of \<open>main\<close> as far as the existence of files goes: whether each succeeds is an argument, and the schema
  exists.\<close>

text \<open>A path is its directory and its name.\<close>

type_synonym path = "string \<times> string"

record gen_args =
  ga_spec_dir :: string
  ga_cpp :: "path option"
  ga_cpp_structs :: "path option"
  ga_py :: "path option"
  ga_py_client :: "path option"

record gen_files =
  gf_exists :: "path \<Rightarrow> bool"
  gf_hash :: "string option"

definition UNTYPED_LIBS :: "string list" where
  "UNTYPED_LIBS = [''cobs'', ''prometheus_client'', ''serialx'', ''uci'', ''uvloop'']"

text \<open>The digest covers the schema, the version and the templates in order.\<close>

definition current_hash :: "(bytes \<Rightarrow> bytes) \<Rightarrow> bytes \<Rightarrow> string \<Rightarrow> bytes list \<Rightarrow> string" where
  "current_hash sha256 proto version templates = bytes_hex (sha256 (proto @ encode_utf8 version @ concat templates))"

definition output_paths :: "gen_args \<Rightarrow> path list" where
  "output_paths args = List.map_filter id [ga_cpp args, ga_cpp_structs args, ga_py args, ga_py_client args]"

definition python_dirs :: "gen_args \<Rightarrow> string list" where
  "python_dirs args = map fst (List.map_filter id [ga_py args, ga_py_client args])"

definition check_incremental_build :: "string \<Rightarrow> gen_args \<Rightarrow> gen_files \<Rightarrow> bool" where
  "check_incremental_build hash args fs \<longleftrightarrow>
     list_all (gf_exists fs) (output_paths args)
     \<and> list_all (\<lambda>d. gf_exists fs (d, ''mcubridge_pb2.py'')) (python_dirs args)
     \<and> list_all (\<lambda>lib. gf_exists fs (''typings'', lib)) UNTYPED_LIBS
     \<and> (case gf_hash fs of None \<Rightarrow> False | Some h \<Rightarrow> py_strip h = hash)"

text \<open>\<open>ensure_nanopb_core_files\<close> fetches the C files that are missing; \<open>download\<close> says which downloads succeed.\<close>

definition NANOPB_FILES :: "string list" where
  "NANOPB_FILES = [''pb.h'', ''pb_common.h'', ''pb_common.c'', ''pb_decode.h'', ''pb_decode.c'', ''pb_encode.h'', ''pb_encode.c'']"

fun ensure_nanopb_core_files :: "(string \<Rightarrow> bool) \<Rightarrow> string list \<Rightarrow> gen_files \<Rightarrow> bool \<times> gen_files" where
  "ensure_nanopb_core_files download [] fs = (True, fs)"
| "ensure_nanopb_core_files download (f # names) fs =
    (if gf_exists fs (''mcubridge-library-arduino/src'', f) then ensure_nanopb_core_files download names fs
     else if download f
     then ensure_nanopb_core_files download names
            (fs\<lparr>gf_exists := (gf_exists fs)((''mcubridge-library-arduino/src'', f) := True)\<rparr>)
     else (False, fs))"

text \<open>\<open>_copy_generated_python_files\<close> moves what the compiler left beside the schema to the two packages; the moves
  of \<open>main\<close> do the same for the C files.\<close>

definition create_file :: "path \<Rightarrow> gen_files \<Rightarrow> gen_files" where
  "create_file p fs = fs\<lparr>gf_exists := (gf_exists fs)(p := True)\<rparr>"

definition move_file :: "string \<Rightarrow> string list \<Rightarrow> string \<Rightarrow> gen_files \<Rightarrow> gen_files" where
  "move_file src dirs name fs =
    (if gf_exists fs (src, name)
     then (let fs = fold (\<lambda>d. create_file (d, name)) dirs fs in fs\<lparr>gf_exists := (gf_exists fs)((src, name) := False)\<rparr>)
     else fs)"

definition copy_generated_python_files :: "gen_args \<Rightarrow> gen_files \<Rightarrow> gen_files" where
  "copy_generated_python_files args fs =
    fold (move_file (ga_spec_dir args) (python_dirs args)) [''mcubridge_pb2.py'', ''mcubridge_pb2.pyi'', ''mcubridge_grpc.py''] fs"

datatype gen_step = Metadata | Protoc | Nanopb | LoadSpec | MoveHeaders string | CopyPython | Render path | Stub string

definition gen_steps :: "gen_args \<Rightarrow> gen_step list" where
  "gen_steps args =
    [Metadata, Protoc, Nanopb, LoadSpec]
    @ (case ga_cpp args of None \<Rightarrow> [] | Some (d, _) \<Rightarrow> [MoveHeaders d]) @ [CopyPython]
    @ (case ga_cpp args of None \<Rightarrow> [] | Some (d, n) \<Rightarrow> [Render (d, n), Render (d, ''rpc_hw_config.h'')])
    @ (case ga_cpp_structs args of None \<Rightarrow> [] | Some p \<Rightarrow> [Render p])
    @ (case ga_py args of None \<Rightarrow> [] | Some p \<Rightarrow> [Render p])
    @ (case ga_py_client args of None \<Rightarrow> [] | Some p \<Rightarrow> [Render p])
    @ map Stub UNTYPED_LIBS"

text \<open>What a step that succeeds does to the files. The schema exists.\<close>

fun step_effect :: "gen_args \<Rightarrow> gen_step \<Rightarrow> gen_files \<Rightarrow> gen_files" where
  "step_effect args Protoc fs =
     fold (\<lambda>n. create_file (ga_spec_dir args, n)) [''mcubridge_pb2.py'', ''mcubridge_pb2.pyi'', ''mcubridge_grpc.py''] fs"
| "step_effect args Nanopb fs = fold (\<lambda>n. create_file (ga_spec_dir args, n)) [''mcubridge.pb.h'', ''mcubridge.pb.c''] fs"
| "step_effect args (MoveHeaders d) fs = fold (move_file (ga_spec_dir args) [d]) [''mcubridge.pb.h'', ''mcubridge.pb.c''] fs"
| "step_effect args CopyPython fs = copy_generated_python_files args fs"
| "step_effect args (Render p) fs = create_file p fs"
| "step_effect args (Stub lib) fs = create_file (''typings'', lib) fs"
| "step_effect args _ fs = fs"

text \<open>A step that fails ends the run, except for the stubs, whose failure is a warning.\<close>

fun run_steps :: "(gen_step \<Rightarrow> bool) \<Rightarrow> gen_args \<Rightarrow> gen_step list \<Rightarrow> gen_files \<Rightarrow> bool \<times> gen_files" where
  "run_steps ok args [] fs = (True, fs)"
| "run_steps ok args (st # sts) fs =
    (if ok st then run_steps ok args sts (step_effect args st fs)
     else (case st of Stub _ \<Rightarrow> run_steps ok args sts fs | _ \<Rightarrow> (False, fs)))"

datatype gen_outcome = UpToDate | Generated | Failed

definition generator_main :: "(gen_step \<Rightarrow> bool) \<Rightarrow> string \<Rightarrow> gen_args \<Rightarrow> gen_files \<Rightarrow> gen_outcome \<times> gen_files" where
  "generator_main ok hash args fs =
    (if check_incremental_build hash args fs then (UpToDate, fs)
     else (case run_steps ok args (gen_steps args) fs of
             (True, fs) \<Rightarrow> (Generated, fs\<lparr>gf_hash := Some hash\<rparr>)
           | (False, fs) \<Rightarrow> (Failed, fs)))"

definition generate_main :: "(string \<Rightarrow> bool) \<Rightarrow> (gen_step \<Rightarrow> bool) \<Rightarrow> string \<Rightarrow> gen_args \<Rightarrow> gen_files \<Rightarrow> gen_outcome \<times> gen_files" where
  "generate_main download ok hash args fs =
    (case ensure_nanopb_core_files download NANOPB_FILES fs of
       (False, fs) \<Rightarrow> (Failed, fs)
     | (True, fs) \<Rightarrow> generator_main ok hash args fs)"

section \<open>Lemmas\<close>

lemma thousands_concat: "concat (rev (thousands s)) = s"
proof (induction s rule: thousands.induct)
  case (1 s)
  then show ?case by (subst thousands.simps) simp
qed

lemma thousands_rest: "g \<in> set (tl (rev (thousands s))) \<Longrightarrow> length g = 3"
proof (induction s rule: thousands.induct)
  case (1 s)
  have "thousands s = (if s = [] then [] else drop (length s - 3) s # thousands (take (length s - 3) s))"
    by (subst thousands.simps) simp
  moreover have "length (drop (length s - 3) s) = 3" if "thousands (take (length s - 3) s) \<noteq> []"
    using that by (cases "length s \<le> 3") (simp_all add: thousands.simps [of "[]"])
  ultimately show ?case
    using 1 by (cases "s = []"; cases "rev (thousands (take (length s - 3) s))") (auto simp: rev_swap)
qed

lemma thousands_pieces: "g \<in> set (thousands s) \<Longrightarrow> g \<noteq> [] \<and> length g \<le> 3 \<and> set g \<subseteq> set s"
proof (induction s rule: thousands.induct)
  case (1 s)
  then consider "s \<noteq> []" "g = drop (length s - 3) s" | "s \<noteq> []" "g \<in> set (thousands (take (length s - 3) s))"
    by (subst (asm) (2) thousands.simps) (auto split: if_splits)
  then show ?case
  proof cases
    case 1
    then show ?thesis using set_drop_subset [of "length s - 3" s] by (cases s) auto
  next
    case 2
    then show ?thesis using "1.IH" set_take_subset [of "length s - 3" s] by blast
  qed
qed

lemma filter_join: "\<forall>x\<in>set xs. c \<notin> set x \<Longrightarrow> filter (\<lambda>d. d \<noteq> c) (py_join [c] xs) = concat xs"
  by (induction "[c]" xs rule: py_join.induct) (auto intro: filter_True)

lemma digits_no_quote: "CHR 0x27 \<notin> set (nat_digits n)"
  using nat_digits_digit [of "CHR 0x27" n] by (auto simp: is_digit_def)

lemma str_no_quote: "filter (\<lambda>c. c \<noteq> CHR 0x27) (py_str_int n) = py_str_int n"
  using digits_no_quote by (auto simp: py_str_int_def intro!: filter_True)

text \<open>The separators are the only difference between the two literals of an integer, and they stand before each
  group of three digits.\<close>

lemma cpp_digits_value: "filter (\<lambda>c. c \<noteq> CHR 0x27) (cpp_digit_separator (FInt n)) = py_str_int n"
proof (cases "\<bar>n\<bar> < 10000")
  case False
  let ?s = "py_str_int \<bar>n\<bar>"
  have s: "?s = nat_digits (nat \<bar>n\<bar>)" by (simp add: py_str_int_def)
  have "\<forall>g\<in>set (rev (thousands ?s)). CHR 0x27 \<notin> set g"
    using thousands_pieces digits_no_quote s by (metis in_mono set_rev)
  then have "filter (\<lambda>c. c \<noteq> CHR 0x27) (py_join [CHR 0x27] (rev (thousands ?s))) = ?s"
    using filter_join thousands_concat by metis
  then show ?thesis using False s by (cases "n < 0") (simp_all add: cpp_digit_separator_def py_str_int_def Let_def abs_if)
qed (simp add: cpp_digit_separator_def str_no_quote)

text \<open>Builds. A run that fails leaves the digest of the last good one, so the next run starts again.\<close>

lemma move_file_hash: "gf_hash (move_file src dirs n fs) = gf_hash fs"
proof -
  have "gf_hash (fold (\<lambda>d. create_file (d, n)) ds fs) = gf_hash fs" for ds fs
    by (induction ds arbitrary: fs) (simp_all add: create_file_def)
  then show ?thesis by (simp add: move_file_def Let_def)
qed

lemma step_effect_hash: "gf_hash (step_effect args st fs) = gf_hash fs"
  by (cases st) (simp_all add: create_file_def copy_generated_python_files_def move_file_hash)

lemma run_steps_hash: "gf_hash (snd (run_steps ok args sts fs)) = gf_hash fs"
  by (induction ok args sts fs rule: run_steps.induct) (auto simp: step_effect_hash split: gen_step.split)

lemma failed_run_keeps_hash: "generator_main ok hash args fs = (Failed, fs') \<Longrightarrow> gf_hash fs' = gf_hash fs"
  using run_steps_hash [of ok args "gen_steps args" fs]
  by (auto simp: generator_main_def split: if_splits prod.splits bool.splits)

lemma create_keeps: "gf_exists fs p \<Longrightarrow> gf_exists (create_file q fs) p"
  by (simp add: create_file_def)

lemma create_all: "gf_exists fs p \<or> p \<in> set ps \<Longrightarrow> gf_exists (fold create_file ps fs) p"
  by (induction ps arbitrary: fs) (auto simp: create_file_def)

lemma create_dirs: "fold (\<lambda>d. create_file (d, n)) ds fs = fold create_file (map (\<lambda>d. (d, n)) ds) fs"
  by (simp add: fold_map comp_def)

lemma move_keeps: "gf_exists fs p \<Longrightarrow> p \<noteq> (src, n) \<Longrightarrow> gf_exists (move_file src dirs n fs) p"
  using create_all [of fs p] by (auto simp: move_file_def create_dirs Let_def)

lemma move_creates: "gf_exists fs (src, n) \<Longrightarrow> d \<in> set dirs \<Longrightarrow> d \<noteq> src \<Longrightarrow> gf_exists (move_file src dirs n fs) (d, n)"
  using create_all [of fs "(d, n)" "map (\<lambda>d. (d, n)) dirs"] by (auto simp: move_file_def create_dirs Let_def)

lemma step_keeps: "gf_exists fs p \<Longrightarrow> fst p \<noteq> ga_spec_dir args \<Longrightarrow> gf_exists (step_effect args st fs) p"
  by (cases st) (auto simp: copy_generated_python_files_def intro!: create_keeps move_keeps)

lemma steps_keep: "gf_exists fs p \<Longrightarrow> fst p \<noteq> ga_spec_dir args \<Longrightarrow> gf_exists (fold (step_effect args) sts fs) p"
  by (induction sts arbitrary: fs) (simp_all add: step_keeps)

lemma steps_render:
  "st \<in> set sts \<Longrightarrow> st = Render p \<or> (\<exists>lib. st = Stub lib \<and> p = (''typings'', lib)) \<Longrightarrow> fst p \<noteq> ga_spec_dir args \<Longrightarrow>
     gf_exists (fold (step_effect args) sts fs) p"
proof (induction sts arbitrary: fs)
  case (Cons s sts)
  show ?case
  proof (cases "st \<in> set sts")
    case False
    then have "gf_exists (step_effect args s fs) p" using Cons.prems by (auto simp: create_file_def)
    then show ?thesis using Cons.prems(3) by (simp add: steps_keep)
  qed (use Cons in simp)
qed simp

lemma run_all_ok: "\<forall>st. ok st \<Longrightarrow> run_steps ok args sts fs = (True, fold (step_effect args) sts fs)"
  by (induction sts arbitrary: fs) simp_all

lemma python_copied:
  assumes "d \<in> set (python_dirs args)" "d \<noteq> ga_spec_dir args"
  shows "gf_exists (fold (step_effect args) (gen_steps args) fs) (d, ''mcubridge_pb2.py'')"
proof -
  let ?pb = "(ga_spec_dir args, ''mcubridge_pb2.py'')"
  define pre where "pre = [Metadata, Protoc, Nanopb, LoadSpec] @ (case ga_cpp args of None \<Rightarrow> [] | Some (d, _) \<Rightarrow> [MoveHeaders d])"
  have "gf_exists (fold (step_effect args) pre fs) ?pb"
    by (auto simp: pre_def create_file_def intro!: move_keeps split: option.splits)
  from move_creates [OF this assms]
  have "gf_exists (step_effect args CopyPython (fold (step_effect args) pre fs)) (d, ''mcubridge_pb2.py'')"
    by (auto simp: copy_generated_python_files_def intro!: move_keeps)
  moreover obtain post where "gen_steps args = pre @ CopyPython # post" by (simp add: gen_steps_def pre_def)
  ultimately show ?thesis using steps_keep assms(2) by simp
qed

lemma hex_digit_visible: "n < 16 \<Longrightarrow> \<not> is_space (hex_digit n)"
proof -
  have "list_all (\<lambda>n. \<not> is_space (hex_digit n)) [0..<16]" by code_simp
  then show "n < 16 \<Longrightarrow> ?thesis" by (simp add: list_all_iff)
qed

lemma bytes_hex_strip: "py_strip (bytes_hex b) = bytes_hex b"
proof -
  have "unat x div 16 < 16" for x :: byte
    using unsigned_less [of x, where 'a = nat] less_mult_imp_div_less [of "unat x" 16 16] by simp
  then show ?thesis
    unfolding py_strip_def by (intro strip_chars_none) (auto simp: bytes_hex_def intro!: hex_digit_visible)
qed

text \<open>After a run in which every step succeeds, the same run finds everything up to date, provided that no output is
  written beside the schema.\<close>

lemma regenerated_then_skipped:
  assumes "generator_main ok (current_hash sha proto version templates) args fs = (Generated, fs')" "\<forall>st. ok st"
    and "ga_spec_dir args \<notin> set (''typings'' # map fst (output_paths args))"
  shows "generator_main ok' (current_hash sha proto version templates) args fs' = (UpToDate, fs')"
proof -
  let ?h = "current_hash sha proto version templates" and ?fs = "fold (step_effect args) (gen_steps args) fs"
  have fs': "fs' = ?fs\<lparr>gf_hash := Some ?h\<rparr>"
    using assms(1) run_all_ok [OF assms(2)] by (auto simp: generator_main_def split: if_splits)
  have "gf_exists ?fs p" if "p \<in> set (output_paths args)" for p
  proof -
    have "fst p \<in> set (map fst (output_paths args))" using that by simp
    then have "fst p \<noteq> ga_spec_dir args" using assms(3) by (metis list.set_intros(2))
    moreover have "Render p \<in> set (gen_steps args)"
      using that by (auto simp: output_paths_def gen_steps_def map_filter_simps split: option.splits)
    ultimately show ?thesis by (intro steps_render [of "Render p"]) simp_all
  qed
  then have "list_all (gf_exists ?fs) (output_paths args)" by (simp add: list_all_iff)
  moreover have "d \<in> set (map fst (output_paths args))" if "d \<in> set (python_dirs args)" for d
    using that by (auto simp: python_dirs_def output_paths_def map_filter_simps split: option.splits)
  then have "gf_exists ?fs (d, ''mcubridge_pb2.py'')" if "d \<in> set (python_dirs args)" for d
    using that assms(3) by (intro python_copied) auto
  then have "list_all (\<lambda>d. gf_exists ?fs (d, ''mcubridge_pb2.py'')) (python_dirs args)" by (simp add: list_all_iff)
  moreover have "gf_exists ?fs (''typings'', lib)" if "lib \<in> set UNTYPED_LIBS" for lib
    using that assms(3) by (intro steps_render [of "Stub lib"]) (auto simp: gen_steps_def)
  then have "list_all (\<lambda>lib. gf_exists ?fs (''typings'', lib)) UNTYPED_LIBS" by (simp add: list_all_iff)
  moreover have "py_strip ?h = ?h" by (simp add: current_hash_def bytes_hex_strip)
  ultimately have "check_incremental_build ?h args fs'" by (simp add: check_incremental_build_def fs')
  then show ?thesis by (simp add: generator_main_def)
qed

text \<open>A byte literal read back.\<close>

definition hex_value :: "char \<Rightarrow> nat" where
  "hex_value c = (if is_digit c then of_char c - 48 else of_char c - 55)"

definition read_byte :: "string \<Rightarrow> byte" where
  "read_byte lit = of_nat (16 * hex_value (lit ! 2) + hex_value (lit ! 3))"

lemma hex_upper_value: "n < 16 \<Longrightarrow> hex_value (hex_upper n) = n"
proof -
  have "list_all (\<lambda>n. hex_value (hex_upper n) = n) [0..<16]"
    by (simp add: hex_value_def hex_upper_def is_digit_def upt_rec)
  then show "n < 16 \<Longrightarrow> ?thesis" by (simp add: list_all_iff)
qed

lemma byte_literal_value: "read_byte (byte_literal c) = of_char c"
proof -
  have "of_char c div 16 < (16 :: nat)" using nat_of_char_less_256 [of c] by (intro less_mult_imp_div_less) simp
  then have "read_byte (byte_literal c) = of_nat (16 * (of_char c div 16) + of_char c mod 16)"
    by (simp add: read_byte_def byte_literal_def hex_upper_value)
  then show ?thesis by (simp only: mult_div_mod_eq of_nat_of_char)
qed

lemma literals_value: "map read_byte (map byte_literal s) = encode_utf8 s"
  by (simp add: encode_utf8_def byte_literal_value)

lemma cpp_digits_groups:
  "\<exists>sign first rest. cpp_digit_separator (FInt n) = sign @ py_join [CHR 0x27] (first # rest)
     \<and> sign \<in> {[], ''-''} \<and> (rest \<noteq> [] \<longrightarrow> length first \<in> {1..3} \<and> list_all (\<lambda>g. length g = 3) rest)"
proof (cases "\<bar>n\<bar> < 10000")
  case True
  then show ?thesis by (intro exI [of _ "[]"] exI [of _ "py_str_int n"]) (simp add: cpp_digit_separator_def)
next
  case False
  let ?g = "rev (thousands (py_str_int \<bar>n\<bar>))"
  have "?g \<noteq> []" by (subst thousands.simps) (simp add: py_str_int_def)
  then obtain first rest where g: "?g = first # rest" by (cases ?g) auto
  have "first \<in> set ?g" by (simp only: g list.set_intros)
  then have "first \<in> set (thousands (py_str_int \<bar>n\<bar>))" by (simp only: set_rev)
  from thousands_pieces [OF this] have "length first \<in> {1..3}" by (cases first) simp_all
  moreover have "list_all (\<lambda>g. length g = 3) rest"
    using thousands_rest [of _ "py_str_int \<bar>n\<bar>"] unfolding g list_all_iff list.sel by blast
  ultimately show ?thesis
    using False g by (intro exI [of _ "if n < 0 then ''-'' else []"] exI [of _ first] exI [of _ rest])
      (simp add: cpp_digit_separator_def Let_def)
qed

text \<open>A schema with one constant.\<close>

definition sample_field :: field_opt where
  "sample_field = \<lparr>fo_cpp_name = ''RPC_DEFAULT_BAUDRATE'', fo_cpp_type = ''unsigned long'', fo_py_name = ''DEFAULT_BAUDRATE'',
     fo_py_type = ''int'', fo_client_constant = True, fo_value = FInt 115200\<rparr>"

definition sample_spec :: protocol_spec where
  "sample_spec = \<lparr>ps_constants = [sample_field], ps_hardware = [], ps_handshake = [], ps_data_formats = [],
     ps_hkdf = (''salt'', ''auth'', ''session''), ps_cloud_suffixes = [], ps_cloud_defaults = [],
     ps_status_reasons = [], ps_capabilities = [], ps_architectures = [], ps_architecture_display_names = [],
     ps_message_topics = [], ps_statuses = [], ps_commands = [], ps_topics = [], ps_actions = [],
     ps_subscriptions = []\<rparr>"

section \<open>Properties\<close>

text \<open>C32 (equivalence). Both sides of the link get the same numbers: an integer field of the schema that is named in
  both languages appears in the C++ header and in the Python module under these names, and the C++ literal is the
  Python literal with separators, which leave one to three digits in the first group and three in every other; and the
  byte literals of the HKDF salt denote the bytes of its text, as many as the array has.\<close>

theorem bindings_agree:
  assumes "generate_cpp_header spec version = Inr h" "f \<in> set (ps_constants spec @ ps_hardware spec)"
    and "fo_cpp_name f \<noteq> []" "fo_py_name f \<notin> {[], ''FRAME_DELIMITER''}" "fo_value f = FInt n"
  shows "\<exists>c \<in> set (ch_constants h). \<exists>p \<in> set (extract_python_constants spec).
     kd_name c = fo_cpp_name f \<and> kd_name p = fo_py_name f
     \<and> filter (\<lambda>x. x \<noteq> CHR 0x27) (cpp_digit_separator (kd_value c)) = str_value (kd_value p)
     \<and> (\<exists>sign first rest. cpp_digit_separator (kd_value c) = sign @ py_join [CHR 0x27] (first # rest)
          \<and> sign \<in> {[], ''-''} \<and> (rest \<noteq> [] \<longrightarrow> length first \<in> {1..3} \<and> list_all (\<lambda>g. length g = 3) rest))
     \<and> (\<exists>literals. fst (snd (ch_hkdf_salt h)) = py_join '', '' literals
          \<and> map read_byte literals = encode_utf8 (fst (ps_hkdf spec)) \<and> length literals = snd (snd (ch_hkdf_salt h)))"
proof (intro bexI conjI)
  let ?c = "\<lparr>kd_name = fo_cpp_name f, kd_type = fo_cpp_type f, kd_value = fo_value f\<rparr>"
  let ?p = "\<lparr>kd_name = fo_py_name f, kd_type = fo_py_type f, kd_value = fo_value f\<rparr>"
  show "?c \<in> set (ch_constants h)"
    using assms(1-3) by (auto simp: generate_cpp_header_def cpp_constants_def split: sum.splits prod.splits)
  show "?p \<in> set (extract_python_constants spec)"
    using assms(2,4) by (fastforce simp: extract_python_constants_def py_constants_def delimiter_value_def)
  show "kd_name ?c = fo_cpp_name f" "kd_name ?p = fo_py_name f" by simp_all
  show "filter (\<lambda>x. x \<noteq> CHR 0x27) (cpp_digit_separator (kd_value ?c)) = str_value (kd_value ?p)"
    using assms(5) by (simp add: cpp_digits_value str_value_def)
  show "\<exists>sign first rest. cpp_digit_separator (kd_value ?c) = sign @ py_join [CHR 0x27] (first # rest)
      \<and> sign \<in> {[], ''-''} \<and> (rest \<noteq> [] \<longrightarrow> length first \<in> {1..3} \<and> list_all (\<lambda>g. length g = 3) rest)"
    using cpp_digits_groups [of n] assms(5) by simp
  have "ch_hkdf_salt h = hkdf_data (fst (ps_hkdf spec))"
    using assms(1) by (auto simp: generate_cpp_header_def split: sum.splits prod.splits)
  then show "\<exists>literals. fst (snd (ch_hkdf_salt h)) = py_join '', '' literals
      \<and> map read_byte literals = encode_utf8 (fst (ps_hkdf spec)) \<and> length literals = snd (snd (ch_hkdf_salt h))"
    using literals_value by (intro exI [of _ "map byte_literal (fst (ps_hkdf spec))"]) (simp add: hkdf_data_def)
qed

theorem bindings_agree_witness:
  "\<exists>h. generate_cpp_header sample_spec ''2.8.5'' = Inr h
     \<and> (\<exists>c \<in> set (ch_constants h). \<exists>p \<in> set (extract_python_constants sample_spec).
          kd_name c = ''RPC_DEFAULT_BAUDRATE'' \<and> kd_name p = ''DEFAULT_BAUDRATE''
          \<and> filter (\<lambda>x. x \<noteq> CHR 0x27) (cpp_digit_separator (kd_value c)) = str_value (kd_value p))"
proof -
  have "parse_version ''2.8.5'' = Inr (2, 8, 5)" by code_simp
  then obtain h where h: "generate_cpp_header sample_spec ''2.8.5'' = Inr h"
    by (simp add: generate_cpp_header_def sample_spec_def)
  have "sample_field \<in> set (ps_constants sample_spec @ ps_hardware sample_spec)" by (simp add: sample_spec_def)
  from bindings_agree [OF h this, of 115200] h show ?thesis by (auto simp: sample_field_def)
qed

end
