(* ===== verification/FrameDebug.thy ===== *)
theory FrameDebug
  imports Frame Generator
begin

text \<open>
  \<open>tools/frame_debug.py\<close>: builds one frame from the command line, prints it, sends it and decodes the answers. The
  tool frames its packets with plain COBS, whose two functions are arguments here; the daemon and the firmware use the
  variant COBS/R.
\<close>

section \<open>Arguments\<close>

text \<open>\<open>f"{n:X}"\<close> and its padding with zeros.\<close>

fun nat_hex :: "nat \<Rightarrow> string" where
  "nat_hex n = (if n < 16 then [hex_upper n] else nat_hex (n div 16) @ [hex_upper (n mod 16)])"

declare nat_hex.simps [simp del]

definition hex_text :: "nat \<Rightarrow> int \<Rightarrow> string" where
  "hex_text width n =
    (let ds = nat_hex (nat \<bar>n\<bar>); sign = (if n < 0 then ''-'' else [])
     in sign @ replicate (width - length sign - length ds) (CHR ''0'') @ ds)"

definition command_names :: "(int \<times> string) list" where
  "command_names = map (\<lambda>c. (cd_value c, cd_name c)) commands @ map (\<lambda>(v, n, _). (v, n)) status_table"

definition name_for_command :: "int \<Rightarrow> string" where
  "name_for_command command_id =
    (case map_of command_names command_id of
       Some n \<Rightarrow> n
     | None \<Rightarrow> ''UNKNOWN(0x'' @ hex_text 2 command_id @ '')'')"

definition hex_char :: "char \<Rightarrow> nat option" where
  "hex_char c =
    (let n = of_char c :: nat
     in if 48 \<le> n \<and> n \<le> 57 then Some (n - 48)
        else if 65 \<le> n \<and> n \<le> 70 then Some (n - 55)
        else if 97 \<le> n \<and> n \<le> 102 then Some (n - 87) else None)"

text \<open>\<open>int(s, 16)\<close> of a text that starts with \<open>0x\<close>: digits with single underscores before and between them.\<close>

fun hex_groups :: "bool \<Rightarrow> string \<Rightarrow> nat list option" where
  "hex_groups after_digit [] = (if after_digit then Some [] else None)"
| "hex_groups after_digit (c # cs) =
    (case hex_char c of
       Some d \<Rightarrow> map_option (Cons d) (hex_groups True cs)
     | None \<Rightarrow> if c = CHR ''_'' \<and> after_digit then hex_groups False cs else None)"

definition int_base16 :: "string \<Rightarrow> int result" where
  "int_base16 s =
    (let u = drop 2 s; v = (if u \<noteq> [] \<and> hd u = CHR ''_'' then tl u else u)
     in case hex_groups False v of
          None \<Rightarrow> Inl ValueError
        | Some ds \<Rightarrow> Inr (foldl (\<lambda>a d. a * 16 + int d) 0 ds))"

definition resolve_command :: "string \<Rightarrow> int result" where
  "resolve_command cmd_str =
    (if cmd_str = [] then Inl ValueError
     else (let s = py_strip cmd_str
           in if py_startswith ''0x'' (py_lower s) then int_base16 s
              else if py_isdigit s then py_int s
              else (case List.find (\<lambda>(_, n). py_upper n = py_upper s) command_names of
                      Some (v, _) \<Rightarrow> Inr v
                    | None \<Rightarrow> Inl ValueError)))"

text \<open>\<open>payload_str.replace("0x", "").replace(" ", "")\<close> and \<open>binascii.unhexlify\<close>.\<close>

fun remove_0x :: "string \<Rightarrow> string" where
  "remove_0x (a # b # s) = (if a = CHR ''0'' \<and> b = CHR ''x'' then remove_0x s else a # remove_0x (b # s))"
| "remove_0x s = s"

fun unhexlify :: "string \<Rightarrow> bytes result" where
  "unhexlify [] = Inr []"
| "unhexlify [c] = Inl ValueError"
| "unhexlify (a # b # s) =
    (case (hex_char a, hex_char b) of
       (Some x, Some y) \<Rightarrow> map_sum id (Cons (of_nat (16 * x + y))) (unhexlify s)
     | _ \<Rightarrow> Inl ValueError)"

definition parse_payload :: "string option \<Rightarrow> bytes result" where
  "parse_payload payload_str =
    (case payload_str of
       None \<Rightarrow> Inr []
     | Some s \<Rightarrow> (if s = [] then Inr [] else unhexlify (filter (\<lambda>c. c \<noteq> CHR '' '') (remove_0x s))))"

definition byte_hex :: "byte \<Rightarrow> string" where
  "byte_hex b = [hex_upper (unat b div 16), hex_upper (unat b mod 16)]"

definition hex_with_spacing :: "bytes \<Rightarrow> string" where
  "hex_with_spacing data = py_join '' '' (map byte_hex data)"

section \<open>Snapshots\<close>

record snapshot =
  fd_command_id :: int
  fd_command_name :: string
  fd_payload_length :: nat
  fd_crc :: u32
  fd_raw_length :: nat
  fd_cobs_length :: nat
  fd_expected_serial_bytes :: nat
  fd_encoded_packet :: bytes
  fd_raw_frame_hex :: string
  fd_encoded_hex :: string

definition build_snapshot :: "lib \<Rightarrow> (bytes \<Rightarrow> bytes) \<Rightarrow> int \<Rightarrow> payload \<Rightarrow> snapshot result" where
  "build_snapshot L cobs_encode command_id payload =
    (case build_frame L command_id 0 payload None None of
       Inl e \<Rightarrow> Inl e
     | Inr raw_frame \<Rightarrow>
         (let crc = le_word (drop (length raw_frame - CRC_SIZE) raw_frame);
              encoded_body = cobs_encode raw_frame;
              encoded_packet = encoded_body @ [0]
          in Inr \<lparr>fd_command_id = command_id, fd_command_name = name_for_command command_id,
                  fd_payload_length = length (payload_bytes L payload), fd_crc = crc,
                  fd_raw_length = length raw_frame, fd_cobs_length = length encoded_body,
                  fd_expected_serial_bytes = length encoded_packet, fd_encoded_packet = encoded_packet,
                  fd_raw_frame_hex = hex_with_spacing raw_frame, fd_encoded_hex = hex_with_spacing encoded_packet\<rparr>))"

definition render :: "snapshot \<Rightarrow> string" where
  "render s =
    ''Command: '' @ fd_command_name s @ '' (0x'' @ hex_text 2 (fd_command_id s) @ '')'' @ [newline]
    @ ''Payload Length: '' @ nat_digits (fd_payload_length s) @ '' bytes'' @ [newline]
    @ ''CRC32: 0x'' @ hex_text 8 (uint (fd_crc s)) @ [newline]
    @ ''Raw Frame (hex): '' @ fd_raw_frame_hex s @ [newline]
    @ ''Encoded Frame (hex): '' @ fd_encoded_hex s @ [newline]
    @ ''Total Wire Bytes: '' @ nat_digits (fd_expected_serial_bytes s) @ '' bytes''"

definition decode_frame :: "lib \<Rightarrow> (bytes \<Rightarrow> bytes option) \<Rightarrow> bytes \<Rightarrow> (envelope \<times> payload) result" where
  "decode_frame L cobs_decode encoded_packet =
    (case cobs_decode encoded_packet of None \<Rightarrow> Inl DecodeError | Some raw \<Rightarrow> parse_frame L raw None)"

definition run_generate_only :: "lib \<Rightarrow> (bytes \<Rightarrow> bytes) \<Rightarrow> string \<Rightarrow> string \<Rightarrow> int \<times> string" where
  "run_generate_only L cobs_encode command_str payload_str =
    (case (resolve_command command_str, parse_payload (Some payload_str)) of
       (Inr command_id, Inr payload) \<Rightarrow>
         (case build_snapshot L cobs_encode command_id (PBytes payload) of
            Inr s \<Rightarrow> (0, render s @ [newline])
          | Inl _ \<Rightarrow> (1, []))
     | _ \<Rightarrow> (1, []))"

section \<open>The loop\<close>

text \<open>What happens after a frame is written: nothing arrives in time, a packet up to its delimiter arrives, or the
  port raises. An exception that the tool does not catch ends it with status 1, as the caught ones of the port do.\<close>

datatype debug_event = NoAnswer | Answer bytes | PortError

definition logged_error :: "pyexc \<Rightarrow> bool" where
  "logged_error e \<longleftrightarrow> e \<in> {OSError, TimeoutError, ValueError, UnicodeDecodeError, RuntimeError, TypeError}"

text \<open>The exit status, \<open>None\<close> while the tool is still running, the number of frames written and the answers
  printed; \<open>count\<close> zero means for ever.\<close>

fun debug_loop ::
  "lib \<Rightarrow> (bytes \<Rightarrow> bytes option) \<Rightarrow> int \<Rightarrow> int \<Rightarrow> debug_event list \<Rightarrow> int option \<times> nat \<times> (envelope \<times> payload) list" where
  "debug_loop L cobs_decode count i [] = (if count \<noteq> 0 \<and> count \<le> i then Some 0 else None, 0, [])"
| "debug_loop L cobs_decode count i (ev # evs) =
    (if count \<noteq> 0 \<and> count \<le> i then (Some 0, 0, [])
     else (case ev of
             PortError \<Rightarrow> (Some 1, 0, [])
           | NoAnswer \<Rightarrow> (case debug_loop L cobs_decode count (i + 1) evs of (r, n, out) \<Rightarrow> (r, Suc n, out))
           | Answer packet \<Rightarrow>
               (case decode_frame L cobs_decode (butlast packet) of
                  Inr d \<Rightarrow> (case debug_loop L cobs_decode count (i + 1) evs of (r, n, out) \<Rightarrow> (r, Suc n, d # out))
                | Inl e \<Rightarrow>
                    (if logged_error e
                     then (case debug_loop L cobs_decode count (i + 1) evs of (r, n, out) \<Rightarrow> (r, Suc n, out))
                     else (Some 1, 1, [])))))"

definition run_debug_loop ::
  "lib \<Rightarrow> (bytes \<Rightarrow> bytes) \<Rightarrow> (bytes \<Rightarrow> bytes option) \<Rightarrow> string \<Rightarrow> string \<Rightarrow> int \<Rightarrow> debug_event list
    \<Rightarrow> int option \<times> nat \<times> (envelope \<times> payload) list" where
  "run_debug_loop L cobs_encode cobs_decode command_str payload_str count evs =
    (case (resolve_command command_str, parse_payload (Some payload_str)) of
       (Inr command_id, Inr payload) \<Rightarrow>
         (case build_snapshot L cobs_encode command_id (PBytes payload) of
            Inr s \<Rightarrow> debug_loop L cobs_decode count 0 evs
          | Inl _ \<Rightarrow> (Some 1, 0, []))
     | _ \<Rightarrow> (Some 1, 0, []))"

section \<open>Lemmas\<close>

lemma command_names_eval: "command_names = map (\<lambda>c. (cd_value c, cd_name c)) commands @
    [(48, ''OK''), (49, ''ERROR''), (50, ''CMD_UNKNOWN''), (51, ''MALFORMED''), (52, ''OVERFLOW''), (53, ''CRC_MISMATCH''),
     (54, ''TIMEOUT''), (55, ''NOT_IMPLEMENTED''), (56, ''ACK'')]"
  by (simp add: command_names_def status_table_def)

lemma names_distinct: "distinct (map fst command_names)" "distinct (map snd command_names)"
  by (simp_all add: command_names_eval commands_def)

definition plain_name :: "string \<Rightarrow> bool" where
  "plain_name n \<longleftrightarrow> n \<noteq> [] \<and> py_upper n = n \<and> py_strip n = n \<and> \<not> py_startswith ''0x'' (py_lower n) \<and> \<not> py_isdigit n"

definition name_char :: "char \<Rightarrow> bool" where
  "name_char c \<longleftrightarrow> is_upper c \<or> c = CHR ''_''"

lemma name_char_simps: "name_char c \<Longrightarrow> to_upper c = c \<and> \<not> is_space c \<and> \<not> is_digit c \<and> to_lower c \<noteq> CHR ''0''"
  by (auto simp: name_char_def is_upper_def to_upper_def is_space_def is_digit_def to_lower_def char_of_eq_iff take_bit_eq_mod)

lemma plain_nameI: "n \<noteq> [] \<Longrightarrow> list_all name_char n \<Longrightarrow> plain_name n"
  using name_char_simps
  by (cases n) (auto simp: plain_name_def py_upper_def map_idI list_all_iff py_strip_def strip_chars_none py_lower_def
      py_startswith_def py_isdigit_def)

lemma names_plain: "list_all (\<lambda>(v, n). n \<noteq> [] \<and> list_all name_char n) command_names"
  by (simp add: command_names_eval commands_def name_char_def is_upper_def)

lemma find_distinct: "distinct (map snd xs) \<Longrightarrow> (v, n) \<in> set xs \<Longrightarrow> List.find (\<lambda>(_, m). m = n) xs = Some (v, n)"
  by (induction xs) (auto simp: image_iff)

text \<open>Every name that the tool prints for a known command is read back as that command.\<close>

lemma names_resolve: "(v, n) \<in> set command_names \<Longrightarrow> resolve_command n = Inr v \<and> name_for_command v = n"
proof -
  assume m: "(v, n) \<in> set command_names"
  have p: "plain_name x" if "(w, x) \<in> set command_names" for w x
    using names_plain that by (auto simp: list_all_iff intro!: plain_nameI)
  have "List.find (\<lambda>(_, x). py_upper x = py_upper n) command_names = List.find (\<lambda>(_, x). x = n) command_names"
    using p m by (intro find_cong) (auto simp: plain_name_def)
  then show ?thesis
    using p [OF m] find_distinct [OF names_distinct(2) m] map_of_is_SomeI [OF names_distinct(1) m]
    by (simp add: resolve_command_def name_for_command_def plain_name_def Let_def)
qed

lemma hex_upper_char: "n < 16 \<Longrightarrow> hex_char (hex_upper n) = Some n \<and> hex_upper n \<noteq> CHR '' '' \<and> hex_upper n \<noteq> CHR ''x''"
proof -
  have "list_all (\<lambda>n. hex_char (hex_upper n) = Some n \<and> hex_upper n \<noteq> CHR '' '' \<and> hex_upper n \<noteq> CHR ''x'') [0..<16]"
    by (simp add: hex_char_def hex_upper_def upt_rec char_of_eq_iff)
  then show "n < 16 \<Longrightarrow> ?thesis" by (simp add: list_all_iff)
qed

lemma nibbles: "unat (b :: byte) div 16 < 16" "unat b mod 16 < 16"
  using unsigned_less [of b, where 'a = nat] less_mult_imp_div_less [of "unat b" 16 16] by simp_all

lemma byte_hex_chars: "c \<in> set (byte_hex b) \<Longrightarrow> c \<noteq> CHR '' '' \<and> c \<noteq> CHR ''x''"
  using nibbles [of b] hex_upper_char [of "unat b div 16"] hex_upper_char [of "unat b mod 16"]
  by (auto simp: byte_hex_def)

lemma remove_0x_none: "CHR ''x'' \<notin> set s \<Longrightarrow> remove_0x s = s"
  by (induction s rule: remove_0x.induct) auto

lemma unhexlify_bytes: "unhexlify (concat (map byte_hex data)) = Inr data"
proof (induction data)
  case (Cons b data)
  have "16 * (unat b div 16) + unat b mod 16 = unat b" by simp
  then show ?case
    using Cons nibbles [of b] hex_upper_char [of "unat b div 16"] hex_upper_char [of "unat b mod 16"]
    by (simp add: byte_hex_def)
qed simp

lemma spacing_chars: "c \<in> set (hex_with_spacing data) \<Longrightarrow> c \<noteq> CHR ''x''"
proof -
  have "c \<in> set (py_join '' '' xs) \<Longrightarrow> c = CHR '' '' \<or> (\<exists>x\<in>set xs. c \<in> set x)" for xs
    by (induction "'' ''" xs rule: py_join.induct) auto
  then show "c \<in> set (hex_with_spacing data) \<Longrightarrow> c \<noteq> CHR ''x''"
    unfolding hex_with_spacing_def using byte_hex_chars by fastforce
qed

lemma hex_payload: "parse_payload (Some (hex_with_spacing data)) = Inr data"
proof (cases "data = []")
  case False
  have "\<forall>x\<in>set (map byte_hex data). CHR '' '' \<notin> set x"
    using byte_hex_chars by auto
  from filter_join [OF this] have "filter (\<lambda>c. c \<noteq> CHR '' '') (hex_with_spacing data) = concat (map byte_hex data)"
    by (simp add: hex_with_spacing_def)
  moreover have "remove_0x (hex_with_spacing data) = hex_with_spacing data"
    using spacing_chars by (intro remove_0x_none) blast
  moreover have "hex_with_spacing data \<noteq> []" using False
    by (cases data; cases "tl data") (auto simp: hex_with_spacing_def byte_hex_def)
  ultimately show ?thesis by (simp add: parse_payload_def unhexlify_bytes)
qed (simp add: parse_payload_def hex_with_spacing_def)

lemma default_nonce: "build_frame L c q p None key = build_frame L c q p (Some (replicate 12 0)) key"
  by (simp add: build_frame_def frame_header_def)

section \<open>Properties\<close>

text \<open>C33 (roundtrip). What the debugger shows can be typed back and decoded: for any frame it builds, the packet without
  its delimiter decodes to the command, sequence number 0 and the payload; the hexadecimal dump of the packet is read
  as the packet; the checksum shown is that of the frame; and the name of a known command resolves to the command.\<close>

theorem snapshot_roundtrip:
  assumes "pb_ok L" "aead_ok L" "\<forall>b. cobs_decode (cobs_encode b) = Some b"
    and "\<forall>m. payload = PMsg m \<longrightarrow> representable_msg m"
    and "build_snapshot L cobs_encode c payload = Inr s"
  shows "(\<exists>e. decode_frame L cobs_decode (butlast (fd_encoded_packet s)) = Inr (e, payload)
       \<and> ev_command_id e = c \<and> ev_sequence_id e = 0)
     \<and> (\<exists>raw. cobs_decode (butlast (fd_encoded_packet s)) = Some raw \<and> fd_crc s = crc32 (take (length raw - CRC_SIZE) raw))
     \<and> parse_payload (Some (fd_encoded_hex s)) = Inr (fd_encoded_packet s)
     \<and> (c \<in> fst ` set command_names \<longrightarrow> resolve_command (fd_command_name s) = Inr c)"
proof -
  obtain raw where b: "build_frame L c 0 payload (Some (replicate 12 0)) None = Inr raw"
      and s: "fd_encoded_packet s = cobs_encode raw @ [0]" "fd_command_name s = name_for_command c"
        "fd_encoded_hex s = hex_with_spacing (fd_encoded_packet s)" "fd_crc s = le_word (drop (length raw - 4) raw)"
    using assms(5) by (auto simp: build_snapshot_def default_nonce Let_def split: sum.splits)
  obtain p where p: "parse_frame L raw None = Inr (\<lparr>ev_version = 2, ev_command_id = c, ev_sequence_id = 0,
      ev_nonce = replicate 12 0, ev_payload = p\<rparr>, payload)"
    using build_parse_frame [OF assms(1,2) _ assms(4) b] by (auto simp: delivered_def key_set_def)
  obtain body where r: "raw = body @ pack_u32 (crc32 body)" using build_frame_shape [OF b] by blast
  have "fd_crc s = crc32 (take (length raw - 4) raw)" by (simp add: s(4) r le_word_pack)
  moreover have "resolve_command (fd_command_name s) = Inr c" if "c \<in> fst ` set command_names"
    using that names_resolve by (auto simp: s(2))
  ultimately show ?thesis
    using assms(3) p by (simp add: s(1,3) hex_payload decode_frame_def)
qed

theorem snapshot_roundtrip_witness:
  "\<exists>s. build_snapshot model_lib (\<lambda>b. b) 81 (PBytes [1, 2]) = Inr s
     \<and> decode_frame model_lib Some (butlast (fd_encoded_packet s)) \<noteq> Inl ValueError
     \<and> resolve_command (fd_command_name s) = Inr 81"
proof -
  have "build_snapshot model_lib (\<lambda>b. b) 81 (PBytes [1, 2]) \<noteq> Inl e" for e
    by (simp add: build_snapshot_def build_frame_def seal_payload_def key_set_def uint32_ok_def MAX_PAYLOAD_SIZE_def Let_def)
  then obtain s where s: "build_snapshot model_lib (\<lambda>b. b) 81 (PBytes [1, 2]) = Inr s" by (meson obj_sumE)
  have "(81 :: int) \<in> fst ` set command_names" by (simp add: command_names_def commands_def)
  with snapshot_roundtrip [OF model_lib_ok(1,2) _ _ s, of Some] s show ?thesis by auto
qed

end
