(* ===== verification/Fuzzer.thy ===== *)
theory Fuzzer
  imports FrameDebug
begin

text \<open>
  \<open>tools/protocol_fuzzer.py\<close>: sends good and bad frames to an MCU and probes whether it still answers. The frames are
  judged here by the daemon's own decoder. As in the frame debugger, plain COBS is an argument; the choices of the
  random generator and the answers to the probes are the turns of a run.
\<close>

section \<open>Frames\<close>

text \<open>An envelope that the fuzzer fills by hand, without a nonce.\<close>

definition raw_envelope :: "int \<Rightarrow> int \<Rightarrow> int \<Rightarrow> bytes \<Rightarrow> envelope" where
  "raw_envelope version cmd seq payload =
    \<lparr>ev_version = version, ev_command_id = cmd, ev_sequence_id = seq, ev_nonce = [],
     ev_payload = Some (EncBytes payload)\<rparr>"

definition build_raw_frame ::
  "lib \<Rightarrow> (bytes \<Rightarrow> bytes) \<Rightarrow> int \<Rightarrow> int \<Rightarrow> bytes \<Rightarrow> u32 option \<Rightarrow> bytes result" where
  "build_raw_frame L cobs_encode cmd seq payload override_crc =
    (case override_crc of
       None \<Rightarrow> map_sum id (\<lambda>raw. cobs_encode raw @ [0]) (build_frame L cmd seq (PBytes payload) None None)
     | Some crc \<Rightarrow>
         (let body = ser_env L (raw_envelope PROTOCOL_VERSION cmd seq payload)
          in Inr (cobs_encode (body @ pack_u32 crc) @ [0])))"

text \<open>The frames of the modes \<open>invalid_version\<close> and \<open>oversized_payload\<close>: any version and payload, with a good CRC.\<close>

definition checked_frame :: "lib \<Rightarrow> (bytes \<Rightarrow> bytes) \<Rightarrow> int \<Rightarrow> int \<Rightarrow> bytes \<Rightarrow> bytes" where
  "checked_frame L cobs_encode version seq payload =
    (let body = ser_env L (raw_envelope version 1 seq payload)
     in cobs_encode (body @ pack_u32 (crc32 body)) @ [0])"

datatype fuzz_mode =
    valid_ping | invalid_crc | invalid_version | malformed_cobs | oversized_payload
  | random_garbage bytes \<comment> \<open>the bytes that were drawn\<close>
  | unknown_command

definition fuzz_frame :: "lib \<Rightarrow> (bytes \<Rightarrow> bytes) \<Rightarrow> fuzz_mode \<Rightarrow> int \<Rightarrow> bytes result" where
  "fuzz_frame L cobs_encode mode seq =
    (case mode of
       valid_ping \<Rightarrow> build_raw_frame L cobs_encode 1 seq [1, 2, 3] None
     | invalid_crc \<Rightarrow> build_raw_frame L cobs_encode 1 seq (encode_utf8 ''bad_crc'') (Some 0xDEADBEEF)
     | invalid_version \<Rightarrow> Inr (checked_frame L cobs_encode 0xFF seq (encode_utf8 ''VER''))
     | malformed_cobs \<Rightarrow> Inr ([3, 1, 0, 2] @ [0])
     | oversized_payload \<Rightarrow> Inr (checked_frame L cobs_encode PROTOCOL_VERSION seq (replicate 300 65))
     | random_garbage garbage \<Rightarrow> Inr (garbage @ [0])
     | unknown_command \<Rightarrow> build_raw_frame L cobs_encode 0x7FFF seq (encode_utf8 ''WHOAMI'') None)"

section \<open>Runs\<close>

record fuzzer =
  fz_seq_id :: int
  fz_sent :: "bytes list"
  fz_success_count :: nat
  fz_latencies :: "real list"

definition fuzz_send :: "bytes \<Rightarrow> fuzzer \<Rightarrow> fuzzer" where
  "fuzz_send data f = f\<lparr>fz_sent := fz_sent f @ [data]\<rparr>"

definition fuzz_next_seq :: "int \<Rightarrow> int" where
  "fuzz_next_seq seq = (seq + 1) mod 65536"

definition fuzz_iteration :: "lib \<Rightarrow> (bytes \<Rightarrow> bytes) \<Rightarrow> fuzz_mode \<Rightarrow> fuzzer \<Rightarrow> fuzzer result" where
  "fuzz_iteration L cobs_encode mode f =
    (let f = f\<lparr>fz_seq_id := fuzz_next_seq (fz_seq_id f)\<rparr>
     in case fuzz_frame L cobs_encode mode (fz_seq_id f) of
          Inl e \<Rightarrow> Inl e
        | Inr frame \<Rightarrow> Inr (fuzz_send frame f))"

text \<open>The probe of every tenth round: the time until a frame came back, if one did.\<close>

definition health_probe :: "lib \<Rightarrow> (bytes \<Rightarrow> bytes) \<Rightarrow> real option \<Rightarrow> fuzzer \<Rightarrow> fuzzer result" where
  "health_probe L cobs_encode answer f =
    (let f = f\<lparr>fz_seq_id := fuzz_next_seq (fz_seq_id f)\<rparr>
     in case build_raw_frame L cobs_encode 1 (fz_seq_id f) (encode_utf8 ''PROBE'') None of
          Inl e \<Rightarrow> Inl e
        | Inr frame \<Rightarrow>
            (let f = fuzz_send frame f
             in Inr (case answer of
                  Some latency \<Rightarrow> f\<lparr>fz_latencies := fz_latencies f @ [latency], fz_success_count := fz_success_count f + 1\<rparr>
                | None \<Rightarrow> f)))"

text \<open>A turn is one round of the loop: what a probe would hear, and the mode that is drawn.\<close>

fun fuzz_loop :: "lib \<Rightarrow> (bytes \<Rightarrow> bytes) \<Rightarrow> nat \<Rightarrow> (real option \<times> fuzz_mode) list \<Rightarrow> fuzzer \<Rightarrow> fuzzer result" where
  "fuzz_loop L cobs_encode i [] f = Inr f"
| "fuzz_loop L cobs_encode i ((answer, mode) # turns) f =
    (case (if i mod 10 = 0 then health_probe L cobs_encode answer f else Inr f) of
       Inl e \<Rightarrow> Inl e
     | Inr f \<Rightarrow>
         (case fuzz_iteration L cobs_encode mode f of
            Inl e \<Rightarrow> Inl e
          | Inr f \<Rightarrow> fuzz_loop L cobs_encode (i + 1) turns f))"

record fuzz_summary =
  fs_iterations :: nat
  fs_health_success_rate :: real
  fs_avg_latency_ms :: real
  fs_max_latency_ms :: real

definition health_success_rate :: "nat \<Rightarrow> nat \<Rightarrow> real" where
  "health_success_rate iterations success_count =
    real success_count / (if iterations = 0 then 1 else real iterations / 10) * 100"

text \<open>What is logged at the end; without a single answer only the number of rounds.\<close>

definition fuzz_summary_of :: "nat \<Rightarrow> fuzzer \<Rightarrow> fuzz_summary option" where
  "fuzz_summary_of iterations f =
    (if fz_latencies f = [] then None
     else Some \<lparr>fs_iterations = iterations,
       fs_health_success_rate = health_success_rate iterations (fz_success_count f),
       fs_avg_latency_ms = sum_list (fz_latencies f) / real (length (fz_latencies f)) * 1000,
       fs_max_latency_ms = foldr max (tl (fz_latencies f)) (hd (fz_latencies f)) * 1000\<rparr>)"

definition fuzzer_init :: fuzzer where
  "fuzzer_init = \<lparr>fz_seq_id = 0, fz_sent = [], fz_success_count = 0, fz_latencies = []\<rparr>"

definition fuzz_run ::
  "lib \<Rightarrow> (bytes \<Rightarrow> bytes) \<Rightarrow> (real option \<times> fuzz_mode) list \<Rightarrow> (fuzzer \<times> fuzz_summary option) result" where
  "fuzz_run L cobs_encode turns =
    (case fuzz_loop L cobs_encode 0 turns fuzzer_init of
       Inl e \<Rightarrow> Inl e
     | Inr f \<Rightarrow> Inr (f, fuzz_summary_of (length turns) f))"

section \<open>Lemmas\<close>

definition seq_ok :: "int \<Rightarrow> bool" where
  "seq_ok seq \<longleftrightarrow> 0 \<le> seq \<and> seq \<le> 65535"

lemma fuzz_next_seq_ok [simp]: "seq_ok (fuzz_next_seq seq)"
  using pos_mod_bound [of 65536 "seq + 1"] by (simp add: seq_ok_def fuzz_next_seq_def)

lemma build_raw_frame_ok:
  assumes "0 \<le> cmd" "cmd \<le> 65535" "seq_ok seq" "length payload \<le> 32"
  shows "\<exists>frame. build_raw_frame L cobs_encode cmd seq payload crc = Inr frame"
  using assms
  by (auto simp: build_raw_frame_def build_frame_def seal_payload_def key_set_def seq_ok_def uint32_ok_def
      MAX_PAYLOAD_SIZE_def Let_def split: option.split)

lemma fuzz_frame_ok: "seq_ok seq \<Longrightarrow> \<exists>frame. fuzz_frame L cobs_encode mode seq = Inr frame"
  using build_raw_frame_ok [where seq = seq]
  by (cases mode) (simp_all add: fuzz_frame_def encode_utf8_def)

lemma fuzz_iteration_ok:
  "\<exists>frame. fuzz_iteration L cobs_encode mode f
     = Inr (f\<lparr>fz_seq_id := fuzz_next_seq (fz_seq_id f), fz_sent := fz_sent f @ [frame]\<rparr>)"
proof -
  obtain frame where "fuzz_frame L cobs_encode mode (fuzz_next_seq (fz_seq_id f)) = Inr frame"
    using fuzz_frame_ok [OF fuzz_next_seq_ok] by blast
  then show ?thesis by (auto simp: fuzz_iteration_def fuzz_send_def)
qed

lemma health_probe_ok:
  "\<exists>frame. health_probe L cobs_encode answer f
     = Inr (f\<lparr>fz_seq_id := fuzz_next_seq (fz_seq_id f), fz_sent := fz_sent f @ [frame],
         fz_latencies := fz_latencies f @ (case answer of Some t \<Rightarrow> [t] | None \<Rightarrow> []),
         fz_success_count := fz_success_count f + (if answer = None then 0 else 1)\<rparr>)"
proof -
  obtain frame where
    "build_raw_frame L cobs_encode 1 (fuzz_next_seq (fz_seq_id f)) (encode_utf8 ''PROBE'') None = Inr frame"
    using build_raw_frame_ok [of 1 "fuzz_next_seq (fz_seq_id f)" "encode_utf8 ''PROBE''" L cobs_encode None]
    by (auto simp: encode_utf8_def)
  then show ?thesis by (cases answer) (auto simp: health_probe_def fuzz_send_def)
qed

text \<open>The probes of the rounds \<open>i, ..., i + n - 1\<close>, and the latencies they measure.\<close>

fun probes :: "nat \<Rightarrow> nat \<Rightarrow> nat" where
  "probes i 0 = 0"
| "probes i (Suc n) = (if i mod 10 = 0 then 1 else 0) + probes (i + 1) n"

fun heard :: "nat \<Rightarrow> (real option \<times> fuzz_mode) list \<Rightarrow> real list" where
  "heard i [] = []"
| "heard i ((answer, mode) # turns) =
    (if i mod 10 = 0 then (case answer of Some t \<Rightarrow> [t] | None \<Rightarrow> []) else []) @ heard (i + 1) turns"

lemma round_probe: "(i + 10) div 10 = (i + 9) div 10 + (if i mod 10 = 0 then 1 else 0 :: nat)"
proof -
  define q r where "q = i div 10" and "r = i mod 10"
  then have i: "i = r + 10 * q" and r: "r < 10" by simp_all
  have "(i + 9) div 10 = q + (r + 9) div 10" by (simp add: i add.assoc add.commute [of _ 9])
  moreover have "(r + 9) div 10 = (if r = 0 then 0 else 1)" using r by (auto intro: div_nat_eqI)
  ultimately show ?thesis by (simp add: q_def r_def)
qed

lemma probes_closed: "probes i n + (i + 9) div 10 = (i + n + 9) div 10"
proof (induction i n rule: probes.induct)
  case (2 i n)
  then show ?case using round_probe [of i] by (simp add: add.commute add.left_commute)
qed simp

lemma heard_all: "list_all (\<lambda>(answer, _). answer \<noteq> None) turns \<Longrightarrow> length (heard i turns) = probes i (length turns)"
  by (induction i turns rule: heard.induct) auto

text \<open>A run always ends; it sends one frame per round and one per probe, under consecutive sequence numbers.\<close>

lemma fuzz_loop_counts:
  "seq_ok (fz_seq_id f) \<Longrightarrow> \<exists>f'. fuzz_loop L cobs_encode i turns f = Inr f'
     \<and> fz_seq_id f' = (fz_seq_id f + int (length turns + probes i (length turns))) mod 65536
     \<and> length (fz_sent f') = length (fz_sent f) + length turns + probes i (length turns)
     \<and> fz_latencies f' = fz_latencies f @ heard i turns
     \<and> fz_success_count f' = fz_success_count f + length (heard i turns)"
proof (induction L cobs_encode i turns f rule: fuzz_loop.induct)
  case (2 L cobs_encode i answer mode turns f)
  obtain g where g: "(if i mod 10 = 0 then health_probe L cobs_encode answer f else Inr f) = Inr g"
      "fz_seq_id g = (fz_seq_id f + (if i mod 10 = 0 then 1 else 0)) mod 65536"
      "length (fz_sent g) = length (fz_sent f) + (if i mod 10 = 0 then 1 else 0)"
      "fz_latencies g = fz_latencies f @ (if i mod 10 = 0 then (case answer of Some t \<Rightarrow> [t] | None \<Rightarrow> []) else [])"
      "fz_success_count g = fz_success_count f + (if i mod 10 = 0 \<and> answer \<noteq> None then 1 else 0)"
  proof (cases "i mod 10 = 0")
    case True
    obtain frame where "health_probe L cobs_encode answer f
       = Inr (f\<lparr>fz_seq_id := fuzz_next_seq (fz_seq_id f), fz_sent := fz_sent f @ [frame],
           fz_latencies := fz_latencies f @ (case answer of Some t \<Rightarrow> [t] | None \<Rightarrow> []),
           fz_success_count := fz_success_count f + (if answer = None then 0 else 1)\<rparr>)"
      using health_probe_ok by blast
    with True that show ?thesis by (simp add: fuzz_next_seq_def)
  next
    case False
    with 2(2) that show ?thesis by (simp add: seq_ok_def)
  qed
  obtain frame where
    h: "fuzz_iteration L cobs_encode mode g = Inr (g\<lparr>fz_seq_id := fuzz_next_seq (fz_seq_id g), fz_sent := fz_sent g @ [frame]\<rparr>)"
    using fuzz_iteration_ok by blast
  obtain f' where f': "fuzz_loop L cobs_encode (i + 1) turns
        (g\<lparr>fz_seq_id := fuzz_next_seq (fz_seq_id g), fz_sent := fz_sent g @ [frame]\<rparr>) = Inr f'"
      "fz_seq_id f' = (fuzz_next_seq (fz_seq_id g) + int (length turns + probes (i + 1) (length turns))) mod 65536"
      "length (fz_sent f') = length (fz_sent g) + 1 + length turns + probes (i + 1) (length turns)"
      "fz_latencies f' = fz_latencies g @ heard (i + 1) turns"
      "fz_success_count f' = fz_success_count g + length (heard (i + 1) turns)"
    using 2(1) [OF g(1) h] by auto
  have "fz_seq_id f' = (fz_seq_id f + int (length ((answer, mode) # turns) + probes i (length ((answer, mode) # turns)))) mod 65536"
    by (simp add: f'(2) g(2) fuzz_next_seq_def mod_simps add.commute add.left_commute)
  moreover have "fuzz_loop L cobs_encode i ((answer, mode) # turns) f = Inr f'"
    using f'(1) by (simp add: g(1) h)
  ultimately show ?case
    using g(3-5) f'(3-5) by (auto split: option.split)
qed (simp add: seq_ok_def)

section \<open>Theorems\<close>

lemma build_raw_frame_decodes:
  assumes "pb_ok L" "aead_ok L" "\<forall>b. cobs_decode (cobs_encode b) = Some b"
    and "build_raw_frame L cobs_encode cmd seq payload None = Inr frame"
  shows "\<exists>e. decode_frame L cobs_decode (butlast frame) = Inr (e, PBytes payload)
     \<and> ev_command_id e = cmd \<and> ev_sequence_id e = seq"
proof -
  obtain raw where "build_frame L cmd seq (PBytes payload) (Some (replicate 12 0)) None = Inr raw"
      and frame: "frame = cobs_encode raw @ [0]"
    using assms(4)
    by (cases "build_frame L cmd seq (PBytes payload) (Some (replicate 12 0)) None")
      (auto simp: build_raw_frame_def default_nonce)
  then have "\<exists>p. parse_frame L raw None = Inr (\<lparr>ev_version = 2, ev_command_id = cmd, ev_sequence_id = seq,
      ev_nonce = replicate 12 0, ev_payload = p\<rparr>, PBytes payload)"
    using build_parse_frame [OF assms(1,2), of "replicate 12 0" "PBytes payload" cmd seq None raw]
    by (simp add: delivered_def key_set_def)
  then show ?thesis using assms(3) by (auto simp: frame decode_frame_def)
qed

lemma checked_frame_decodes:
  assumes "pb_ok L" "\<forall>b. cobs_decode (cobs_encode b) = Some b" "seq_ok seq" "uint32_ok version"
  shows "decode_frame L cobs_decode (butlast (checked_frame L cobs_encode version seq payload)) =
    (if version = PROTOCOL_VERSION then Inr (raw_envelope version 1 seq payload, PBytes payload) else Inl ValueError)"
proof -
  have "representable_env (raw_envelope version 1 seq payload)"
    using assms(3,4) by (simp add: representable_env_def raw_envelope_def uint32_ok_def seq_ok_def)
  then have "parse_env L (ser_env L (raw_envelope version 1 seq payload)) = Some (raw_envelope version 1 seq payload)"
    by (rule pb_ok_env [OF assms(1)])
  then show ?thesis
    using assms(2)
    by (simp add: checked_frame_def decode_frame_def Let_def parse_frame_trailer)
      (simp add: raw_envelope_def open_payload_def key_set_def)
qed

text \<open>What the daemon's decoder says of the fuzzer's frames: the version is refused, the forged CRC is refused unless it
  happens to be the right one, and the frame that is too long is accepted, although \<open>build_frame\<close> refuses to build it:
  the bound on payloads holds for senders only. The ping that counts as valid carries a number that is neither a
  command nor a status of the protocol.\<close>

theorem fuzz_frames_judged:
  assumes "pb_ok L" "aead_ok L" "\<forall>b. cobs_decode (cobs_encode b) = Some b" "seq_ok seq"
    and "fuzz_frame L cobs_encode mode seq = Inr frame"
  shows "case mode of
      valid_ping \<Rightarrow> (\<exists>e. decode_frame L cobs_decode (butlast frame) = Inr (e, PBytes [1, 2, 3]) \<and> ev_command_id e = 1)
        \<and> 1 \<notin> fst ` set command_names
    | unknown_command \<Rightarrow> \<exists>e p. decode_frame L cobs_decode (butlast frame) = Inr (e, p) \<and> ev_command_id e = 0x7FFF
    | invalid_version \<Rightarrow> decode_frame L cobs_decode (butlast frame) = Inl ValueError
    | oversized_payload \<Rightarrow> (\<exists>e. decode_frame L cobs_decode (butlast frame) = Inr (e, PBytes (replicate 300 65)))
        \<and> build_frame L 1 seq (PBytes (replicate 300 65)) None None = Inl ValueError
    | invalid_crc \<Rightarrow> crc32 (ser_env L (raw_envelope PROTOCOL_VERSION 1 seq (encode_utf8 ''bad_crc''))) \<noteq> 0xDEADBEEF
        \<longrightarrow> decode_frame L cobs_decode (butlast frame) = Inl ValueError
    | _ \<Rightarrow> last frame = 0"
proof (cases mode)
  case valid_ping
  then have "build_raw_frame L cobs_encode 1 seq [1, 2, 3] None = Inr frame"
    using assms(5) by (simp add: fuzz_frame_def)
  with build_raw_frame_decodes [of L cobs_decode cobs_encode] assms(1-3) have
    "\<exists>e. decode_frame L cobs_decode (butlast frame) = Inr (e, PBytes [1, 2, 3]) \<and> ev_command_id e = 1" by blast
  moreover have "(1 :: int) \<notin> fst ` set command_names" by code_simp
  ultimately show ?thesis using valid_ping by simp
next
  case unknown_command
  then have "build_raw_frame L cobs_encode 0x7FFF seq (encode_utf8 ''WHOAMI'') None = Inr frame"
    using assms(5) by (simp add: fuzz_frame_def)
  with build_raw_frame_decodes [of L cobs_decode cobs_encode] assms(1-3) show ?thesis using unknown_command by fastforce
next
  case invalid_version
  then show ?thesis
    using assms(5) checked_frame_decodes [of L cobs_decode cobs_encode, OF assms(1,3,4)] by (auto simp: fuzz_frame_def uint32_ok_def)
next
  case oversized_payload
  then show ?thesis
    using assms(4,5) checked_frame_decodes [of L cobs_decode cobs_encode, OF assms(1,3,4)]
    by (auto simp: fuzz_frame_def build_frame_def seal_payload_def key_set_def MAX_PAYLOAD_SIZE_def seq_ok_def uint32_ok_def)
next
  case invalid_crc
  then show ?thesis
    using assms(3,5) by (auto simp: fuzz_frame_def build_raw_frame_def decode_frame_def parse_frame_trailer Let_def)
qed (use assms(5) in \<open>auto simp: fuzz_frame_def\<close>)

lemma rate_bound:
  assumes "0 < n" "n \<le> 10 * p"
  shows "100 \<le> health_success_rate n p \<and> (health_success_rate n p = 100 \<longleftrightarrow> 10 * p = n)"
proof -
  have "health_success_rate n p = real (1000 * p) / real n" using assms(1) by (simp add: health_success_rate_def)
  moreover have "real (100 * n) \<le> real (1000 * p)" using assms(2) by (simp only: of_nat_le_iff)
  moreover have "real (1000 * p) = real (100 * n) \<longleftrightarrow> 10 * p = n" by (simp only: of_nat_eq_iff) auto
  ultimately show ?thesis using assms(1) by (simp add: le_divide_eq divide_eq_eq)
qed

text \<open>The success rate that is reported: with every probe answered it is 100 percent only when the number of rounds is a
  multiple of ten, and more than that otherwise, since the rounds are divided by ten and the probes are not.\<close>

theorem fuzz_health_rate:
  assumes "turns \<noteq> []" "list_all (\<lambda>(answer, _). answer \<noteq> None) turns"
  shows "\<exists>f s. fuzz_run L cobs_encode turns = Inr (f, Some s) \<and> fs_iterations s = length turns
     \<and> 100 \<le> fs_health_success_rate s \<and> (fs_health_success_rate s = 100 \<longleftrightarrow> 10 dvd length turns)"
proof -
  let ?n = "length turns"
  let ?p = "probes 0 ?n"
  have n: "0 < ?n" using assms(1) by simp
  have p: "?p = (?n + 9) div 10" using probes_closed [of 0 ?n] by simp
  then have bounds: "?n \<le> 10 * ?p" and exact: "10 * ?p = ?n \<longleftrightarrow> 10 dvd ?n" by presburger+
  obtain f where f: "fuzz_loop L cobs_encode 0 turns fuzzer_init = Inr f"
      "fz_latencies f = heard 0 turns" "fz_success_count f = length (heard 0 turns)"
    using fuzz_loop_counts [of fuzzer_init L cobs_encode 0 turns] by (auto simp: fuzzer_init_def seq_ok_def)
  have h: "length (heard 0 turns) = ?p" by (rule heard_all [OF assms(2)])
  then have "fz_latencies f \<noteq> []" using f(2) bounds n by auto
  moreover have "100 \<le> health_success_rate ?n (fz_success_count f)
      \<and> (health_success_rate ?n (fz_success_count f) = 100 \<longleftrightarrow> 10 dvd ?n)"
    using rate_bound [OF n bounds] exact h f(3) by simp
  ultimately show ?thesis using f(1) by (simp add: fuzz_run_def fuzz_summary_of_def)
qed

end
