(* ===== verification/Reports.thy ===== *)
theory Reports
  imports Settings Decimal "HOL-Library.List_Lexorder" "HOL-Library.Char_ord" "HOL-Library.Product_Lexorder"
begin

text \<open>
  \<open>tools/coverage_report.py\<close> and \<open>tools/arduino_memory_report.py\<close>: what they read of the artifacts of other tools, how
  they combine it, and the Markdown tables they print (the coloured table of the terminal is left out). A file that does not exist is \<open>None\<close>; the parsers of XML and JSON are
  libraries, so the model starts from the parsed document.
\<close>

section \<open>Numbers as text\<close>

text \<open>\<open>f"{x:.nf}"\<close>, and \<open>f"{n:,}"\<close> of a number that is not negative.\<close>

definition zero_padded :: "nat \<Rightarrow> nat \<Rightarrow> string" where
  "zero_padded width n = replicate (width - length (nat_digits n)) (CHR ''0'') @ nat_digits n"

definition fixed_text :: "nat \<Rightarrow> real \<Rightarrow> string" where
  "fixed_text places x =
    (let n = nat \<bar>py_round (x * 10 ^ places)\<bar>
     in (if x < 0 then ''-'' else []) @ nat_digits (n div 10 ^ places)
        @ (if places = 0 then [] else ''.'' @ zero_padded places (n mod 10 ^ places)))"

fun commas :: "string \<Rightarrow> string" where
  "commas (a # b # c # d # r) = a # b # c # CHR '','' # commas (d # r)"
| "commas s = s"

definition comma_text :: "int \<Rightarrow> string" where
  "comma_text n = (if n < 0 then ''-'' else []) @ rev (commas (rev (nat_digits (nat \<bar>n\<bar>))))"

section \<open>Coverage of the test suites\<close>

record coverage_metrics =
  cm_suite :: string
  cm_lines_total :: int
  cm_lines_covered :: int
  cm_line_percent :: "real option"
  cm_branches_total :: int
  cm_branches_covered :: int
  cm_branch_percent :: "real option"
  cm_artifact_hint :: string

definition hit_total_display :: "int \<Rightarrow> int \<Rightarrow> string" where
  "hit_total_display covered all = (if all = 0 then ''n/a'' else py_str_int covered @ ''/'' @ py_str_int all)"

definition lines_display :: "coverage_metrics \<Rightarrow> string" where
  "lines_display m = hit_total_display (cm_lines_covered m) (cm_lines_total m)"

definition branches_display :: "coverage_metrics \<Rightarrow> string" where
  "branches_display m = hit_total_display (cm_branches_covered m) (cm_branches_total m)"

definition format_percent :: "real option \<Rightarrow> string" where
  "format_percent v = (case v of None \<Rightarrow> ''n/a'' | Some x \<Rightarrow> fixed_text 2 x @ ''%'')"

text \<open>\<open>int(x)\<close> of a float.\<close>

definition trunc :: "real \<Rightarrow> int" where
  "trunc x = (if x < 0 then \<lceil>x\<rceil> else \<lfloor>x\<rfloor>)"

text \<open>The attributes of the Cobertura doc element. A number that cannot be read is 0, a rate that cannot be read raises.\<close>

definition attr_count :: "(string \<times> string) list \<Rightarrow> string \<Rightarrow> int" where
  "attr_count attr name =
    (case map_of attr name of
       None \<Rightarrow> 0
     | Some raw \<Rightarrow> (case py_float raw of Inr x \<Rightarrow> trunc x | Inl _ \<Rightarrow> 0))"

definition attr_percent :: "(string \<times> string) list \<Rightarrow> string \<Rightarrow> real option result" where
  "attr_percent attr name =
    (case map_of attr name of
       None \<Rightarrow> Inr None
     | Some raw \<Rightarrow> (case py_float raw of Inr x \<Rightarrow> Inr (Some (x * 100)) | Inl e \<Rightarrow> Inl e))"

definition read_python_metrics ::
  "string \<Rightarrow> (string \<times> string) list option \<Rightarrow> coverage_metrics option result" where
  "read_python_metrics path doc =
    (case doc of
       None \<Rightarrow> Inr None
     | Some attr \<Rightarrow>
         (case attr_percent attr ''line-rate'' of
            Inl e \<Rightarrow> Inl e
          | Inr line_percent \<Rightarrow>
              (case attr_percent attr ''branch-rate'' of
                 Inl e \<Rightarrow> Inl e
               | Inr branch_percent \<Rightarrow>
                   Inr (Some \<lparr>cm_suite = ''Python'', cm_lines_total = attr_count attr ''lines-valid'',
                     cm_lines_covered = attr_count attr ''lines-covered'', cm_line_percent = line_percent,
                     cm_branches_total = attr_count attr ''branches-valid'',
                     cm_branches_covered = attr_count attr ''branches-covered'', cm_branch_percent = branch_percent,
                     cm_artifact_hint = path\<rparr>))))"

definition safe_percent :: "int \<Rightarrow> int \<Rightarrow> real option" where
  "safe_percent hit all = (if all \<le> 0 then None else Some (of_int hit / of_int all * 100))"

text \<open>A JSON document. \<open>get\<close> of something that is no object raises \<open>AttributeError\<close>.\<close>

datatype json = JNull | JBool bool | JNum real | JStr string | JList "json list" | JObj "(string \<times> json) list"

definition json_get :: "json \<Rightarrow> string \<Rightarrow> json \<Rightarrow> json result" where
  "json_get j key missing =
    (case j of
       JObj kvs \<Rightarrow> Inr (case map_of kvs key of Some v \<Rightarrow> v | None \<Rightarrow> missing)
     | _ \<Rightarrow> Inl AttributeError)"

fun json_truthy :: "json \<Rightarrow> bool" where
  "json_truthy JNull = False"
| "json_truthy (JBool b) = b"
| "json_truthy (JNum x) = (x \<noteq> 0)"
| "json_truthy (JStr s) = (s \<noteq> [])"
| "json_truthy (JList xs) = (xs \<noteq> [])"
| "json_truthy (JObj kvs) = (kvs \<noteq> [])"

fun json_int :: "json \<Rightarrow> int result" where
  "json_int (JBool b) = Inr (if b then 1 else 0)"
| "json_int (JNum x) = Inr (trunc x)"
| "json_int (JStr s) = py_int s"
| "json_int _ = Inl TypeError"

text \<open>\<open>int(counts.get(a) or counts.get(b) or 0)\<close>.\<close>

definition json_count :: "json \<Rightarrow> string list \<Rightarrow> int result" where
  "json_count counts keys =
    (case counts of
       JObj kvs \<Rightarrow>
         (case List.find json_truthy (List.map_filter (map_of kvs) keys) of
            Some v \<Rightarrow> json_int v
          | None \<Rightarrow> Inr 0)
     | _ \<Rightarrow> Inl AttributeError)"

text \<open>A percentage of the document, or the computed one when it has none. What is no number raises, in the code only
  when the table is formatted, which is before anything is written.\<close>

definition json_percent :: "json \<Rightarrow> int \<Rightarrow> int \<Rightarrow> real option result" where
  "json_percent j hit all =
    (case j of
       JNull \<Rightarrow> Inr (safe_percent hit all)
     | JNum x \<Rightarrow> Inr (Some x)
     | JBool b \<Rightarrow> Inr (Some (if b then 1 else 0))
     | JStr _ \<Rightarrow> Inl ValueError
     | _ \<Rightarrow> Inl TypeError)"

text \<open>The summary of \<open>gcovr\<close>: the entry \<open>all\<close> of \<open>summaries\<close>, else its first entry, else none.\<close>

definition json_summary :: "json \<Rightarrow> json option result" where
  "json_summary data =
    (case json_get data ''summaries'' JNull of
       Inl e \<Rightarrow> Inl e
     | Inr (JObj entries) \<Rightarrow>
         Inr (case map_of entries ''all'' of
                Some v \<Rightarrow> if v \<noteq> JNull then Some v
                          else (case snd (hd entries) of JNull \<Rightarrow> None | w \<Rightarrow> Some w)
              | None \<Rightarrow> (case entries of (_, w) # _ \<Rightarrow> (case w of JNull \<Rightarrow> None | _ \<Rightarrow> Some w) | [] \<Rightarrow> None))
     | Inr _ \<Rightarrow> Inr None)"

definition arduino_metrics ::
  "string \<Rightarrow> json \<Rightarrow> json \<Rightarrow> json \<Rightarrow> (string list \<times> string list \<times> string) \<Rightarrow> (string list \<times> string list \<times> string)
    \<Rightarrow> coverage_metrics option result" where
  "arduino_metrics path lines branches percent lkeys bkeys =
    (case lkeys of (ltotal, lhit, lpercent) \<Rightarrow> case bkeys of (btotal, bhit, bpercent) \<Rightarrow>
     (case json_count lines ltotal of Inl e \<Rightarrow> Inl e | Inr lt \<Rightarrow>
     (case json_count lines lhit of Inl e \<Rightarrow> Inl e | Inr lc \<Rightarrow>
     (case json_get percent lpercent JNull of Inl e \<Rightarrow> Inl e | Inr lj \<Rightarrow>
     (case json_percent lj lc lt of Inl e \<Rightarrow> Inl e | Inr lp \<Rightarrow>
     (case json_count branches btotal of Inl e \<Rightarrow> Inl e | Inr bt \<Rightarrow>
     (case json_count branches bhit of Inl e \<Rightarrow> Inl e | Inr bc \<Rightarrow>
     (case json_get percent bpercent JNull of Inl e \<Rightarrow> Inl e | Inr bj \<Rightarrow>
     (case json_percent bj bc bt of Inl e \<Rightarrow> Inl e | Inr bp \<Rightarrow>
        Inr (Some \<lparr>cm_suite = ''Arduino'', cm_lines_total = lt, cm_lines_covered = lc, cm_line_percent = lp,
          cm_branches_total = bt, cm_branches_covered = bc, cm_branch_percent = bp, cm_artifact_hint = path\<rparr>))))))))))"

definition summary_metrics :: "string \<Rightarrow> json \<Rightarrow> coverage_metrics option result" where
  "summary_metrics path summary =
    (case json_get summary ''count'' (JObj []) of Inl e \<Rightarrow> Inl e | Inr count \<Rightarrow>
     (case json_get summary ''percent'' (JObj []) of Inl e \<Rightarrow> Inl e | Inr percent \<Rightarrow>
     (case json_get count ''lines'' (JObj []) of Inl e \<Rightarrow> Inl e | Inr line_counts \<Rightarrow>
     (case json_get count ''branches'' (JObj []) of Inl e \<Rightarrow> Inl e | Inr branch_counts \<Rightarrow>
        arduino_metrics path line_counts branch_counts percent
          ([''found'', ''total''], [''hit'', ''covered''], ''lines'')
          ([''found'', ''total''], [''hit'', ''covered''], ''branches'')))))"

definition read_arduino_metrics :: "string \<Rightarrow> json option \<Rightarrow> coverage_metrics option result" where
  "read_arduino_metrics path document =
    (case document of
       None \<Rightarrow> Inr None
     | Some data \<Rightarrow>
         (case json_summary data of
            Inl e \<Rightarrow> Inl e
          | Inr (Some summary) \<Rightarrow> summary_metrics path summary
          | Inr None \<Rightarrow>
              arduino_metrics path data data data ([''line_total''], [''line_covered''], ''line_percent'')
                ([''branch_total''], [''branch_covered''], ''branch_percent'')))"

definition build_combined_metrics :: "coverage_metrics list \<Rightarrow> coverage_metrics option" where
  "build_combined_metrics metrics =
    (if metrics = [] then None
     else (let lt = sum_list (map cm_lines_total metrics); lc = sum_list (map cm_lines_covered metrics);
               bt = sum_list (map cm_branches_total metrics); bc = sum_list (map cm_branches_covered metrics)
           in Some \<lparr>cm_suite = ''Combined'', cm_lines_total = lt, cm_lines_covered = lc,
                cm_line_percent = safe_percent lc lt, cm_branches_total = bt, cm_branches_covered = bc,
                cm_branch_percent = safe_percent bc bt,
                cm_artifact_hint = ''coverage/python + coverage/arduino''\<rparr>))"

definition coverage_row :: "coverage_metrics \<Rightarrow> string" where
  "coverage_row m =
    ''| '' @ cm_suite m @ '' | '' @ lines_display m @ '' | '' @ format_percent (cm_line_percent m) @ '' | ''
    @ branches_display m @ '' | '' @ format_percent (cm_branch_percent m) @ '' |''"

definition nl :: char where
  "nl = CHR 0x0A"

definition render_coverage :: "coverage_metrics list \<Rightarrow> string" where
  "render_coverage rows =
    py_join [nl]
      ([''| Suite | Lines (hit/total) | Line % | Branches (hit/total) | Branch % |'', ''| --- | --- | --- | --- | --- |'']
       @ map coverage_row rows
       @ [[], py_join [nl] (map (\<lambda>m. ''- `'' @ cm_suite m @ ''` artifacts: '' @ cm_artifact_hint m) rows)])"

text \<open>\<open>main\<close>: what is printed, and what is written to the optional files; \<open>dumps\<close> is \<open>json.dumps\<close> of the rows by suite.
  With no artifact at all the exit status is 1. Writing files succeeds.\<close>

record coverage_args =
  ca_output_markdown :: "string option"
  ca_output_json :: "string option"
  ca_github_step_summary :: "string option"

definition write_to :: "string option \<Rightarrow> bool \<Rightarrow> string \<Rightarrow> (string \<rightharpoonup> string) \<Rightarrow> (string \<rightharpoonup> string)" where
  "write_to path append_mode content files =
    (case path of
       None \<Rightarrow> files
     | Some p \<Rightarrow> files(p \<mapsto> (if append_mode then (case files p of Some old \<Rightarrow> old | None \<Rightarrow> []) else []) @ content))"

definition coverage_main ::
  "((string \<times> coverage_metrics) list \<Rightarrow> string) \<Rightarrow> string \<Rightarrow> (string \<times> string) list option \<Rightarrow> string \<Rightarrow> json option
    \<Rightarrow> coverage_args \<Rightarrow> (string \<rightharpoonup> string) \<Rightarrow> (int \<times> string \<times> (string \<rightharpoonup> string)) result" where
  "coverage_main dumps python_xml doc arduino_summary document args files =
    (case read_python_metrics python_xml doc of Inl e \<Rightarrow> Inl e | Inr python_metrics \<Rightarrow>
     (case read_arduino_metrics arduino_summary document of Inl e \<Rightarrow> Inl e | Inr arduino \<Rightarrow>
       (let found = List.map_filter id [python_metrics, arduino];
            rows = found @ (case build_combined_metrics found of Some m \<Rightarrow> [m] | None \<Rightarrow> [])
        in if rows = [] then Inr (1, [], files)
           else (let table = render_coverage rows @ [nl];
                     files = write_to (ca_output_markdown args) False table files;
                     files = write_to (ca_github_step_summary args) True table files;
                     files = write_to (ca_output_json args) False (dumps (map (\<lambda>m. (py_lower (cm_suite m), m)) rows)) files
                 in Inr (0, table, files)))))"

section \<open>Memory of the sketches\<close>

text \<open>The two regular expressions: a head, a number, \<open>bytes\<close>, anything but a new line, and the first maximum after it.
  \<open>search\<close> takes the leftmost match.\<close>

definition number_before :: "string \<Rightarrow> string \<Rightarrow> (int \<times> string) option" where
  "number_before suffix s =
    (let ds = takeWhile is_digit s; rest = dropWhile is_digit s
     in if ds \<noteq> [] \<and> py_startswith suffix rest then Some (digits_val ds, drop (length suffix) rest) else None)"

definition maximum_here :: "string \<Rightarrow> int option" where
  "maximum_here s =
    (if py_startswith '' Maximum is '' s then map_option fst (number_before '' bytes'' (drop 12 s)) else None)"

fun find_maximum :: "string \<Rightarrow> int option" where
  "find_maximum [] = None"
| "find_maximum (c # cs) =
    (case maximum_here (c # cs) of
       Some n \<Rightarrow> Some n
     | None \<Rightarrow> if c = nl then None else find_maximum cs)"

definition usage_here :: "string \<Rightarrow> string \<Rightarrow> (int \<times> int) option" where
  "usage_here head s =
    (if py_startswith head s
     then (case number_before '' bytes '' (drop (length head) s) of
             None \<Rightarrow> None
           | Some (used, rest) \<Rightarrow> map_option (Pair used) (find_maximum rest))
     else None)"

fun search_usage :: "string \<Rightarrow> string \<Rightarrow> (int \<times> int) option" where
  "search_usage head [] = None"
| "search_usage head (c # cs) =
    (case usage_here head (c # cs) of Some u \<Rightarrow> Some u | None \<Rightarrow> search_usage head cs)"

definition FLASH_HEAD :: string where
  "FLASH_HEAD = ''Sketch uses ''"

definition RAM_HEAD :: string where
  "RAM_HEAD = ''Global variables use ''"

record memory_metrics =
  mm_board :: string
  mm_sketch :: string
  mm_flash_used :: int
  mm_flash_max :: int
  mm_ram_used :: int
  mm_ram_max :: int

definition usage_percent :: "int \<Rightarrow> int \<Rightarrow> real" where
  "usage_percent used maximum = (if 0 < maximum then of_int used / of_int maximum * 100 else 0)"

text \<open>\<open>BOARD_MAPPING\<close>; a text is its UTF-8 bytes.\<close>

definition BOARD_MAPPING :: "(string \<times> string) list" where
  "BOARD_MAPPING =
    [(''arduino-avr-yun'', ''Arduino Y'' @ [CHR 0xC3, CHR 0xBA] @ ''n''), (''arduino-avr-uno'', ''Arduino Uno''),
     (''arduino-avr-mega'', ''Arduino Mega'')]"

text \<open>The stem of the file name is the board and, after the first underscore, the sketch.\<close>

definition parse_log_file :: "string \<Rightarrow> string \<Rightarrow> memory_metrics option" where
  "parse_log_file stem content =
    (case dropWhile (\<lambda>c. c \<noteq> CHR ''_'') stem of
       [] \<Rightarrow> None
     | _ # sketch \<Rightarrow>
         (let board_slug = takeWhile (\<lambda>c. c \<noteq> CHR ''_'') stem;
              board_name = (case map_of BOARD_MAPPING board_slug of Some b \<Rightarrow> b | None \<Rightarrow> board_slug)
          in case (search_usage FLASH_HEAD content, search_usage RAM_HEAD content) of
               (Some (fu, fm), Some (ru, rm)) \<Rightarrow>
                 Some \<lparr>mm_board = board_name, mm_sketch = sketch, mm_flash_used = fu, mm_flash_max = fm,
                   mm_ram_used = ru, mm_ram_max = rm\<rparr>
             | _ \<Rightarrow> None))"

definition memory_row :: "memory_metrics \<Rightarrow> string" where
  "memory_row m =
    ''| '' @ mm_board m @ '' | `'' @ mm_sketch m @ ''` | ''
    @ comma_text (mm_flash_used m) @ '' / '' @ comma_text (mm_flash_max m) @ '' B | ''
    @ fixed_text 1 (usage_percent (mm_flash_used m) (mm_flash_max m)) @ ''% | ''
    @ comma_text (mm_ram_used m) @ '' / '' @ comma_text (mm_ram_max m) @ '' B | ''
    @ fixed_text 1 (usage_percent (mm_ram_used m) (mm_ram_max m)) @ ''% |''"

definition memory_header :: "string list" where
  "memory_header =
    [''### '' @ [CHR 0xF0, CHR 0x9F, CHR 0x93, CHR 0x8A] @ '' Arduino Memory Usage'', [],
     ''| Board | Sketch | Flash (Used/Max) | Flash % | RAM (Used/Max) | RAM % |'',
     ''| :--- | :--- | :--- | :--- | :--- | :--- |'']"

definition render_memory :: "memory_metrics list \<Rightarrow> string" where
  "render_memory metrics =
    py_join [nl] (memory_header @ map memory_row (sort_key (\<lambda>m. (mm_board m, mm_sketch m)) metrics))"

text \<open>\<open>main\<close>: the logs of the directory, if there is one, by stem and content; \<open>None\<close> means that nothing is printed.\<close>

definition memory_main ::
  "(string \<times> string) list option \<Rightarrow> string option \<Rightarrow> (string \<rightharpoonup> string) \<Rightarrow> string option \<times> (string \<rightharpoonup> string)" where
  "memory_main log_dir github_step_summary files =
    (case log_dir of
       None \<Rightarrow> (None, files)
     | Some logs \<Rightarrow>
         (let all_metrics = List.map_filter (\<lambda>(stem, content). parse_log_file stem content) logs
          in if all_metrics = [] then (None, files)
             else (let report = render_memory all_metrics
                   in (Some report, write_to github_step_summary True ([nl] @ report @ [nl]) files))))"

section \<open>Theorems\<close>

text \<open>The combined percentage is a weighted mean: it lies between the percentages of the suites, whichever bounds they
  keep, for lines and for branches alike.\<close>

lemma weighted_mean:
  assumes "ms \<noteq> []" "\<And>m. m \<in> set ms \<Longrightarrow> 0 < t m \<and> lo \<le> of_int (h m) / of_int (t m) * 100 \<and> of_int (h m) / of_int (t m) * 100 \<le> hi"
  shows "\<exists>p. safe_percent (sum_list (map h ms)) (sum_list (map t ms)) = Some p \<and> lo \<le> p \<and> p \<le> hi"
proof -
  let ?T = "sum_list (map t ms)"
  let ?H = "sum_list (map h ms)"
  have bounds: "lo * of_int ?T \<le> of_int ?H * 100 \<and> of_int ?H * 100 \<le> hi * of_int ?T \<and> (ms \<noteq> [] \<longrightarrow> 0 < ?T)"
    using assms(2)
  proof (induction ms)
    case (Cons m ms)
    have "0 < t m" "lo * of_int (t m) \<le> of_int (h m) * 100" "of_int (h m) * 100 \<le> hi * of_int (t m)"
      using Cons.prems [of m] by (auto simp: pos_le_divide_eq pos_divide_le_eq)
    moreover have "lo * of_int (sum_list (map t ms)) \<le> of_int (sum_list (map h ms)) * 100
       \<and> of_int (sum_list (map h ms)) * 100 \<le> hi * of_int (sum_list (map t ms)) \<and> (ms \<noteq> [] \<longrightarrow> 0 < sum_list (map t ms))"
      using Cons by simp
    ultimately show ?case by (cases "ms = []") (simp_all add: algebra_simps)
  qed simp
  then have "0 < ?T" using assms(1) by simp
  with bounds show ?thesis by (simp add: safe_percent_def pos_le_divide_eq pos_divide_le_eq)
qed

theorem combined_between:
  assumes "ms \<noteq> []"
    and "\<forall>m\<in>set ms. 0 < cm_lines_total m \<and> lo \<le> of_int (cm_lines_covered m) / of_int (cm_lines_total m) * 100
       \<and> of_int (cm_lines_covered m) / of_int (cm_lines_total m) * 100 \<le> hi"
  shows "\<exists>c p. build_combined_metrics ms = Some c \<and> cm_line_percent c = Some p \<and> lo \<le> p \<and> p \<le> hi"
  using weighted_mean [of ms cm_lines_total lo cm_lines_covered hi] assms
  by (auto simp: build_combined_metrics_def Let_def)

lemma read_python_none: "read_python_metrics p doc = Inr None \<longleftrightarrow> doc = None"
  by (auto simp: read_python_metrics_def split: option.splits sum.splits)

lemma arduino_metrics_some: "arduino_metrics path l b p lk bk \<noteq> Inr None"
  by (simp add: arduino_metrics_def split: sum.split prod.split)

lemma read_arduino_none: "read_arduino_metrics p document = Inr None \<longleftrightarrow> document = None"
  using arduino_metrics_some
  by (simp add: read_arduino_metrics_def summary_metrics_def split: option.split sum.split)

text \<open>With no artifact nothing is written and the exit status is 1; otherwise the report ends with the combined row.\<close>

theorem coverage_report_rows:
  assumes "coverage_main dumps px doc ax document args files = Inr (status, out, files')"
  shows "if doc = None \<and> document = None then status = 1 \<and> out = [] \<and> files' = files
     else status = 0 \<and> (\<exists>rows c. build_combined_metrics rows = Some c \<and> rows \<noteq> []
       \<and> out = render_coverage (rows @ [c]) @ [nl]
       \<and> (\<forall>f. ca_output_markdown args = Some f \<and> ca_github_step_summary args \<noteq> Some f
            \<and> ca_output_json args \<noteq> Some f \<longrightarrow> files' f = Some out))"
proof -
  obtain pm am where m: "read_python_metrics px doc = Inr pm" "read_arduino_metrics ax document = Inr am"
    using assms by (auto simp: coverage_main_def split: sum.splits)
  let ?rows = "List.map_filter id [pm, am]"
  have empty: "?rows = [] \<longleftrightarrow> doc = None \<and> document = None"
    using m read_python_none [of px doc] read_arduino_none [of ax document]
    by (cases pm; cases am) (auto simp: map_filter_def)
  show ?thesis
  proof (cases "?rows = []")
    case True
    with assms m empty show ?thesis by (simp add: coverage_main_def build_combined_metrics_def)
  next
    case False
    then obtain c where c: "build_combined_metrics ?rows = Some c" by (simp add: build_combined_metrics_def Let_def)
    then have "status = 0" "out = render_coverage (?rows @ [c]) @ [nl]"
        "\<forall>f. ca_output_markdown args = Some f \<and> ca_github_step_summary args \<noteq> Some f
            \<and> ca_output_json args \<noteq> Some f \<longrightarrow> files' f = Some out"
      using assms m by (auto simp: coverage_main_def Let_def write_to_def split: option.splits)
    with c False empty show ?thesis by auto
  qed
qed

text \<open>The line that the compiler prints is read back: \<open>pre\<close> is the log before it, \<open>mid\<close> the text between the two
  numbers.\<close>

lemma digits_then:
  "\<not> is_digit c \<Longrightarrow> takeWhile is_digit (nat_digits n @ c # r) = nat_digits n
     \<and> dropWhile is_digit (nat_digits n @ c # r) = c # r"
  by (simp add: takeWhile_append dropWhile_append nat_digits_digit)

lemma number_before_printed:
  "\<not> is_digit c \<Longrightarrow> number_before (c # cs) (nat_digits n @ c # cs @ r) = Some (int n, r)"
  by (simp add: number_before_def digits_then py_startswith_def digits_val_nat_digits Let_def)

lemma search_skip:
  "head \<noteq> [] \<Longrightarrow> \<not> py_contains head (pre @ butlast head)
     \<Longrightarrow> search_usage head (pre @ head @ r) = search_usage head (head @ r)"
proof (induction pre)
  case (Cons c pre)
  have "take (length head) (c # pre @ head @ r) = take (length head) ((c # pre) @ butlast head)"
    using Cons.prems(1) by (cases head rule: rev_cases) (simp_all add: take_Cons')
  then have "usage_here head (c # pre @ head @ r) = None"
    using Cons.prems(2) by (auto simp: usage_here_def py_startswith_def)
  with Cons show ?case by simp
qed simp

lemma find_maximum_skip:
  "CHR ''M'' \<notin> set mid \<Longrightarrow> nl \<notin> set mid \<Longrightarrow> find_maximum (mid @ '' Maximum is '' @ t) = find_maximum ('' Maximum is '' @ t)"
proof (induction mid)
  case (Cons c mid)
  then have "maximum_here (c # mid @ '' Maximum is '' @ t) = None"
    by (cases mid) (auto simp: maximum_here_def py_startswith_def)
  with Cons show ?case by auto
qed simp

theorem usage_read_back:
  assumes "head \<noteq> []" "\<not> py_contains head (pre @ butlast head)" "CHR ''M'' \<notin> set mid" "nl \<notin> set mid"
  shows "search_usage head (pre @ head @ nat_digits used @ '' bytes '' @ mid @ '' Maximum is '' @ nat_digits bound @ '' bytes'' @ post)
    = Some (int used, int bound)"
proof -
  let ?tail = "nat_digits bound @ '' bytes'' @ post"
  have "find_maximum (mid @ '' Maximum is '' @ ?tail) = Some (int bound)"
    using find_maximum_skip [OF assms(3,4), of ?tail] number_before_printed [of "CHR '' ''" "''bytes''" bound post]
    by (simp add: maximum_here_def py_startswith_def is_digit_def)
  then have "usage_here head (head @ nat_digits used @ '' bytes '' @ mid @ '' Maximum is '' @ ?tail) = Some (int used, int bound)"
    using number_before_printed [of "CHR '' ''" "''bytes ''" used "mid @ '' Maximum is '' @ ?tail"]
    by (simp add: usage_here_def py_startswith_def is_digit_def)
  then have "search_usage head (head @ nat_digits used @ '' bytes '' @ mid @ '' Maximum is '' @ ?tail) = Some (int used, int bound)"
    using assms(1) by (cases head) simp_all
  then show ?thesis by (simp only: search_skip [OF assms(1,2)] append_assoc)
qed

end
