(* ===== verification/Profiles.thy ===== *)
theory Profiles
  imports Reports FrameDebug Deps
begin

text \<open>
  \<open>tools/arduino_symbol_profiler.py\<close> and \<open>tools/daemon_profile_report.py\<close>: the largest symbols of the firmware images,
  and the resources the daemon takes. What \<open>nm\<close>, the file system, the interpreter and the clock answer are arguments. A
  path is the list of its parts.
\<close>

section \<open>Symbols of the firmware\<close>

text \<open>\<open>which\<close> finds a program on the search path; \<open>packages\<close> are the \<open>avr-nm\<close> under the Arduino packages, if that
  directory exists.\<close>

definition resolve_nm_binary :: "(string \<Rightarrow> string option) \<Rightarrow> string list option \<Rightarrow> string" where
  "resolve_nm_binary which packages =
    (let host_nm = (case which ''nm'' of Some p \<Rightarrow> if p \<noteq> [] then p else ''nm'' | None \<Rightarrow> ''nm'')
     in case which ''avr-nm'' of
          Some p \<Rightarrow> if p \<noteq> [] then p else (case packages of Some (x # xs) \<Rightarrow> hd (sort (x # xs)) | _ \<Rightarrow> host_nm)
        | None \<Rightarrow> (case packages of Some (x # xs) \<Rightarrow> hd (sort (x # xs)) | _ \<Rightarrow> host_nm))"

text \<open>\<open>s.replace(a, b, n)\<close> for characters.\<close>

fun replace_first :: "nat \<Rightarrow> char \<Rightarrow> char \<Rightarrow> string \<Rightarrow> string" where
  "replace_first n a b [] = []"
| "replace_first n a b (c # s) =
    (if c = a \<and> 0 < n then b # replace_first (n - 1) a b s else c # replace_first n a b s)"

definition relative_parts :: "string list \<Rightarrow> string list \<Rightarrow> string list" where
  "relative_parts build_dir elf_path =
    (if take (length build_dir) elf_path = build_dir then drop (length build_dir) elf_path else elf_path)"

definition detect_board_label :: "string list \<Rightarrow> string list \<Rightarrow> string" where
  "detect_board_label build_dir elf_path =
    (let rel_parts = relative_parts build_dir elf_path
     in case List.find (py_startswith ''arduino-'') rel_parts of
          Some part \<Rightarrow> replace_first 2 (CHR ''-'') (CHR '':'') part
        | None \<Rightarrow> if 1 < length rel_parts then hd rel_parts else ''unknown-board'')"

text \<open>\<open>int(s, 16)\<close>: an optional sign and prefix, then digits.\<close>

definition int_hex :: "string \<Rightarrow> int result" where
  "int_hex s =
    (let neg = (s \<noteq> [] \<and> hd s = CHR ''-'');
         t = (if s \<noteq> [] \<and> (hd s = CHR ''-'' \<or> hd s = CHR ''+'') then tl s else s);
         prefixed = py_startswith ''0x'' (py_lower t);
         u = (if prefixed then drop 2 t else t);
         v = (if prefixed \<and> u \<noteq> [] \<and> hd u = CHR ''_'' then tl u else u)
     in case hex_groups False v of
          None \<Rightarrow> Inl ValueError
        | Some ds \<Rightarrow> Inr ((if neg then - 1 else 1) * foldl (\<lambda>a d. a * 16 + int d) 0 ds))"

definition symbol_row :: "string \<Rightarrow> string option" where
  "symbol_row line =
    (case py_split_ws line of
       _ # sz # sym_type # w # ws \<Rightarrow>
         (case int_hex sz of
            Inl _ \<Rightarrow> None
          | Inr size_dec \<Rightarrow>
              Some (''| '' @ comma_text size_dec @ '' | `'' @ sym_type @ ''` | `'' @ py_join '' '' (w # ws) @ ''` |''))
     | _ \<Rightarrow> None)"

text \<open>\<open>nm\<close> sorts by size; its last twenty lines are the largest. \<open>Inl\<close> is the message of a failed run.\<close>

definition top_symbols :: "string \<Rightarrow> string list" where
  "top_symbols output = take 20 (rev (filter (\<lambda>l. l \<noteq> []) (splitlines (py_strip output))))"

definition profile_elf :: "string list \<Rightarrow> string list \<Rightarrow> string \<Rightarrow> string + string \<Rightarrow> string" where
  "profile_elf build_dir elf_path path_text nm_output =
    (case nm_output of
       Inl err \<Rightarrow> [CHR 0xE2, CHR 0x9A, CHR 0xA0, CHR 0xEF, CHR 0xB8, CHR 0x8F] @ '' Error profiling '' @ path_text @ '': '' @ err @ [nl]
     | Inr output \<Rightarrow>
         py_join [nl]
           ([''#### '' @ [CHR 0xF0, CHR 0x9F, CHR 0x94, CHR 0x8D] @ '' Symbol Profiling: '' @ last elf_path @ '' (''
               @ detect_board_label build_dir elf_path @ '')'', [],
             ''| Size (Bytes) | Type | Symbol Name |'', ''| :--- | :---: | :--- |'']
            @ List.map_filter symbol_row (top_symbols output)) @ [nl])"

definition section_key :: "string list \<Rightarrow> string list \<Rightarrow> string \<times> string" where
  "section_key build_dir elf = (detect_board_label build_dir elf, last elf)"

text \<open>The images that are profiled: each file once, by its resolved path, and each pair of board and name once.\<close>

fun select_elfs ::
  "string list \<Rightarrow> (string list \<Rightarrow> 'p) \<Rightarrow> 'p set \<Rightarrow> (string \<times> string) set \<Rightarrow> string list list \<Rightarrow> string list list" where
  "select_elfs build_dir resolve seen_paths seen_sections [] = []"
| "select_elfs build_dir resolve seen_paths seen_sections (elf # elfs) =
    (let resolved = resolve elf; key = section_key build_dir elf
     in if resolved \<in> seen_paths then select_elfs build_dir resolve seen_paths seen_sections elfs
        else if key \<in> seen_sections
        then select_elfs build_dir resolve (insert resolved seen_paths) seen_sections elfs
        else elf # select_elfs build_dir resolve (insert resolved seen_paths) (insert key seen_sections) elfs)"

definition symbols_main ::
  "string list \<Rightarrow> (string list \<Rightarrow> 'p) \<Rightarrow> (string list \<Rightarrow> string) \<Rightarrow> (string list \<Rightarrow> string + string) \<Rightarrow> string list list option
    \<Rightarrow> string option \<Rightarrow> string option \<Rightarrow> (string \<rightharpoonup> string) \<Rightarrow> string option \<times> (string \<rightharpoonup> string)" where
  "symbols_main build_dir resolve path_text run_nm found github_step_summary output_file files =
    (case found of
       None \<Rightarrow> (None, files)
     | Some elfs \<Rightarrow>
         (let reports = map (\<lambda>elf. profile_elf build_dir elf (path_text elf) (run_nm elf))
                (select_elfs build_dir resolve {} {} (sort elfs))
          in if reports = [] then (None, files)
             else (let full_report = ''### '' @ [CHR 0xF0, CHR 0x9F, CHR 0x9B, CHR 0xA0, CHR 0xEF, CHR 0xB8, CHR 0x8F]
                         @ '' C++ Advanced Profiling (Top Symbols)'' @ [nl, nl] @ py_join [nl] reports;
                       files = write_to github_step_summary True ([nl] @ ''---'' @ [nl] @ full_report @ [nl]) files
                   in (Some full_report, write_to output_file False full_report files))))"

section \<open>Resources of the daemon\<close>

record import_metrics =
  im_import_time_ms :: real
  im_rss_after_kb :: int
  im_vms_after_kb :: int
  im_module_count :: nat
  im_total_source_bytes :: int
  im_dependency_count :: nat

record benchmark_result =
  bn_name :: string
  bn_ops :: int
  bn_total_ms :: real
  bn_ops_per_sec :: real
  bn_avg_us :: real

text \<open>\<open>__post_init__\<close>: \<open>None\<close> is a \<open>ZeroDivisionError\<close>.\<close>

definition BenchmarkResult :: "string \<Rightarrow> int \<Rightarrow> real \<Rightarrow> benchmark_result option" where
  "BenchmarkResult name ops total_ms =
    (if 0 < total_ms
     then (if ops = 0 then None
           else Some \<lparr>bn_name = name, bn_ops = ops, bn_total_ms = total_ms,
                  bn_ops_per_sec = of_int ops / (total_ms / 1000), bn_avg_us = total_ms / of_int ops * 1000\<rparr>)
     else Some \<lparr>bn_name = name, bn_ops = ops, bn_total_ms = total_ms, bn_ops_per_sec = 0, bn_avg_us = 0\<rparr>)"

text \<open>The lines of \<open>/proc/self/status\<close>, or \<open>ru_maxrss\<close> when it cannot be read.\<close>

definition status_kb :: "string \<Rightarrow> int result" where
  "status_kb line = (case py_split_ws line of _ # n # _ \<Rightarrow> py_int n | _ \<Rightarrow> Inl IndexError)"

fun rss_vms_from :: "int \<Rightarrow> int \<Rightarrow> string list \<Rightarrow> (int \<times> int) result" where
  "rss_vms_from rss vms [] = Inr (rss, vms)"
| "rss_vms_from rss vms (line # lines) =
    (if py_startswith ''VmRSS:'' line
     then (case status_kb line of Inl e \<Rightarrow> Inl e | Inr n \<Rightarrow> rss_vms_from n vms lines)
     else if py_startswith ''VmSize:'' line
     then (case status_kb line of Inl e \<Rightarrow> Inl e | Inr n \<Rightarrow> rss_vms_from rss n lines)
     else rss_vms_from rss vms lines)"

definition get_rss_vms_kb :: "string option \<Rightarrow> int \<Rightarrow> (int \<times> int) result" where
  "get_rss_vms_kb status ru_maxrss =
    (case status of Some text \<Rightarrow> rss_vms_from 0 0 (splitlines text) | None \<Rightarrow> Inr (ru_maxrss, 0))"

text \<open>The sizes of the \<open>.py\<close> files of the package.\<close>

definition count_source_bytes :: "int list \<Rightarrow> nat \<times> int" where
  "count_source_bytes sizes = (length sizes, sum_list sizes)"

definition stdlib_prefixes :: "string list" where
  "stdlib_prefixes =
    [''_'', ''os'', ''sys'', ''io'', ''re'', ''abc'', ''enum'', ''typing'', ''collections'', ''functools'',
     ''itertools'', ''pathlib'', ''dataclasses'', ''contextlib'', ''asyncio'', ''logging'', ''json'', ''struct'',
     ''hashlib'', ''hmac'', ''time'', ''math'', ''copy'', ''warnings'', ''inspect'', ''importlib'', ''types'',
     ''textwrap'', ''string'', ''base64'', ''xml'', ''unittest'', ''traceback'', ''linecache'', ''token'',
     ''tokenize'', ''codecs'', ''locale'', ''signal'', ''threading'', ''queue'', ''socket'', ''ssl'', ''http'',
     ''email'', ''urllib'', ''posixpath'', ''genericpath'', ''stat'', ''nt'', ''ntpath'', ''fnmatch'', ''shutil'',
     ''tempfile'', ''glob'', ''errno'', ''select'', ''selectors'', ''subprocess'', ''multiprocessing'',
     ''concurrent'', ''pickle'', ''shelve'', ''dbm'', ''csv'', ''configparser'', ''argparse'', ''gettext'',
     ''builtins'', ''keyword'', ''operator'', ''numbers'', ''decimal'', ''fractions'', ''random'', ''secrets'',
     ''bisect'', ''heapq'', ''array'', ''weakref'', ''pprint'', ''reprlib'', ''dis'', ''opcode'', ''marshal'',
     ''code'', ''codeop'', ''compileall'', ''py_compile'', ''zipimport'', ''pkgutil'', ''modulefinder'', ''runpy'',
     ''platform'', ''sysconfig'', ''site'', ''atexit'', ''readline'', ''rlcompleter'']"

definition third_party :: "string \<Rightarrow> string list \<Rightarrow> string set" where
  "third_party daemon_pkg modules =
    set (filter (\<lambda>top. \<not> (top = daemon_pkg \<or> py_startswith ''_'' top \<or> top \<in> set stdlib_prefixes))
      (map (\<lambda>k. hd (py_split (CHR ''.'') k)) modules))"

text \<open>The modules that are loaded after the import, the time it took, the memory and the sizes of the sources.\<close>

definition measure_import ::
  "string \<Rightarrow> string list \<Rightarrow> real \<Rightarrow> string option \<Rightarrow> int \<Rightarrow> int list \<Rightarrow> import_metrics result" where
  "measure_import daemon_pkg modules elapsed status ru_maxrss sizes =
    (case get_rss_vms_kb status ru_maxrss of
       Inl e \<Rightarrow> Inl e
     | Inr (rss, vms) \<Rightarrow>
         Inr \<lparr>im_import_time_ms = elapsed, im_rss_after_kb = rss, im_vms_after_kb = vms,
           im_module_count = fst (count_source_bytes sizes), im_total_source_bytes = snd (count_source_bytes sizes),
           im_dependency_count = card (third_party daemon_pkg modules)\<rparr>)"

text \<open>The benchmarks in their order, with the time each took.\<close>

fun run_benchmarks :: "int \<Rightarrow> (string \<times> real) list \<Rightarrow> benchmark_result list option" where
  "run_benchmarks iterations [] = Some []"
| "run_benchmarks iterations ((name, elapsed_ms) # rest) =
    (case BenchmarkResult name iterations elapsed_ms of
       None \<Rightarrow> None
     | Some b \<Rightarrow> map_option (Cons b) (run_benchmarks iterations rest))"

definition benchmark_names :: "string list" where
  "benchmark_names = [''build_frame()'', ''parse_frame()'', ''Protobuf encode'', ''Protobuf decode'', ''Topic parse'']"

definition profile_benchmarks :: "int \<Rightarrow> real list \<Rightarrow> benchmark_result list option" where
  "profile_benchmarks iterations timings = run_benchmarks iterations (zip benchmark_names timings)"

definition rounded_thousands :: "real \<Rightarrow> string" where
  "rounded_thousands x = (if x < 0 then ''-'' else []) @ comma_text \<bar>py_round x\<bar>"

definition benchmark_row :: "benchmark_result \<Rightarrow> string" where
  "benchmark_row b =
    ''| '' @ bn_name b @ '' | '' @ comma_text (bn_ops b) @ '' | '' @ fixed_text 1 (bn_total_ms b) @ '' | ''
    @ rounded_thousands (bn_ops_per_sec b) @ '' | '' @ fixed_text 1 (bn_avg_us b) @ '' |''"

definition render_profile :: "import_metrics \<Rightarrow> benchmark_result list \<Rightarrow> string" where
  "render_profile imp benchmarks =
    py_join [nl]
      ([''### '' @ [CHR 0xF0, CHR 0x9F, CHR 0x96, CHR 0xA5, CHR 0xEF, CHR 0xB8, CHR 0x8F] @ '' Daemon Resource Profile'', [],
        ''| Metric | Value |'', ''| :--- | ---: |'',
        ''| Import time | '' @ fixed_text 0 (im_import_time_ms imp) @ '' ms |'',
        ''| RSS after import | '' @ comma_text (im_rss_after_kb imp) @ '' KiB |'']
       @ (if im_vms_after_kb imp \<noteq> 0 then [''| VMS after import | '' @ comma_text (im_vms_after_kb imp) @ '' KiB |''] else [])
       @ [''| Source modules | '' @ nat_digits (im_module_count imp) @ '' .py files |'',
          ''| Total source size | '' @ fixed_text 1 (of_int (im_total_source_bytes imp) / 1024) @ '' KiB |'',
          ''| Third-party deps | '' @ nat_digits (im_dependency_count imp) @ '' packages |'', [],
          ''| Benchmark | Ops | Total (ms) | Ops/sec | Avg ('' @ [CHR 0xC2, CHR 0xB5] @ ''s) |'',
          ''| :--- | ---: | ---: | ---: | ---: |'']
       @ map benchmark_row benchmarks)"

section \<open>Theorems\<close>

lemma select_elfs_new:
  "e \<in> set (select_elfs bd resolve P S elfs) \<Longrightarrow> e \<in> set elfs \<and> resolve e \<notin> P \<and> section_key bd e \<notin> S"
  by (induction bd resolve P S elfs rule: select_elfs.induct) (fastforce simp: Let_def split: if_splits)+

lemma select_elfs_distinct:
  "distinct (map (section_key bd) (select_elfs bd resolve P S elfs)) \<and> distinct (map resolve (select_elfs bd resolve P S elfs))"
proof (induction bd resolve P S elfs rule: select_elfs.induct)
  case (2 bd resolve P S e es)
  let ?r = "select_elfs bd resolve (insert (resolve e) P) (insert (section_key bd e) S) es"
  have "resolve x \<noteq> resolve e \<and> section_key bd x \<noteq> section_key bd e" if "x \<in> set ?r" for x
    using select_elfs_new [OF that] by auto
  then have "resolve e \<notin> resolve ` set ?r" "section_key bd e \<notin> section_key bd ` set ?r" by force+
  then show ?case using 2 by (simp add: Let_def)
qed simp

text \<open>No image is reported twice: no file, under whatever name it was found, and no pair of board and name; and a report
  lists at most twenty symbols.\<close>

theorem symbols_reported_once:
  "distinct (map resolve (select_elfs bd resolve {} {} (sort elfs)))
   \<and> distinct (map (section_key bd) (select_elfs bd resolve {} {} (sort elfs)))
   \<and> set (select_elfs bd resolve {} {} (sort elfs)) \<subseteq> set elfs
   \<and> length (List.map_filter symbol_row (top_symbols output)) \<le> 20"
proof -
  have "length (List.map_filter symbol_row (top_symbols output)) \<le> length (top_symbols output)"
    by (simp add: map_filter_def)
  also have "\<dots> \<le> 20" by (simp add: top_symbols_def)
  finally show ?thesis
    using select_elfs_distinct [of bd resolve "{}" "{}" "sort elfs"] select_elfs_new [of _ bd resolve "{}" "{}" "sort elfs"]
    by auto
qed

text \<open>The two figures of a benchmark fit together; and a profile of no iterations fails, however short the time.\<close>

theorem benchmark_consistent:
  assumes "BenchmarkResult name ops ms = Some b" "0 < ms"
  shows "bn_ops_per_sec b * bn_avg_us b = 1000000 \<and> ops \<noteq> 0"
  using assms by (auto simp: BenchmarkResult_def split: if_splits)

lemma no_iterations: "list_all (\<lambda>(_, ms). 0 < ms) timed \<Longrightarrow> timed \<noteq> [] \<Longrightarrow> run_benchmarks 0 timed = None"
  by (cases timed) (auto simp: BenchmarkResult_def)

theorem no_iterations_fail:
  assumes "length timings = 5" "list_all (\<lambda>ms. 0 < ms) timings"
  shows "profile_benchmarks 0 timings = None"
proof -
  have "list_all (\<lambda>(_, ms). 0 < ms) (zip benchmark_names timings)"
    using assms(2) by (auto simp: list_all_iff dest: set_zip_rightD)
  moreover have "zip benchmark_names timings \<noteq> []" using assms(1) by (cases timings) (simp_all add: benchmark_names_def)
  ultimately show ?thesis by (simp add: profile_benchmarks_def no_iterations)
qed

end
