(* ===== verification/Harness.thy ===== *)
theory Harness
  imports Prelude "HOL-Library.Sublist"
begin

text \<open>
  \<open>tools/hardware_harness.py\<close>: the manifest of the boards under test, and the commands that are run on them. The TOML
  parser is a library: the model starts from the document, whose values have the types that the classes declare.
\<close>

section \<open>Data\<close>

text \<open>A TOML value as the coercions tell them apart; a scalar is given by its \<open>str\<close>.\<close>

datatype toml = TStr string | TList "toml list" | TTable "(string \<times> toml) list" | TScalar string

record target =
  tg_name :: string
  tg_host :: "string option"
  tg_user :: "string option"
  tg_ssh_args :: "string list"
  tg_extra_args :: "string list"
  tg_tags :: "string set"
  tg_local :: bool
  tg_timeout :: "real option"
  tg_retries :: int
  tg_env :: "(string \<times> string) list"
  tg_notes :: "string option"

record test_result =
  tr_target :: string
  tr_success :: bool
  tr_error :: "string option"
  tr_duration :: real
  tr_skipped :: bool

definition status_str :: "test_result \<Rightarrow> string" where
  "status_str r =
    (if tr_skipped r then ''SKIPPED''
     else if tr_success r then ''PASS''
     else if tr_error r = Some ''timeout'' then ''TIMEOUT''
     else ''FAIL'')"

record manifest_defaults =
  md_user :: "string option"
  md_timeout :: "real option"
  md_retries :: int
  md_ssh :: "toml option"
  md_tags :: "toml option"

record manifest_target =
  mt_name :: string
  mt_host :: "string option"
  mt_local :: bool
  mt_user :: "string option"
  mt_ssh :: "toml option"
  mt_tags :: "toml option"
  mt_extra_args :: "toml option"
  mt_timeout :: "real option"
  mt_retries :: "int option"
  mt_env :: "(string \<times> toml) list"
  mt_notes :: "string option"

record manifest =
  mf_targets :: "manifest_target list"
  mf_defaults :: manifest_defaults

section \<open>Coercions\<close>

text \<open>\<open>str(v)\<close>; the text of a list or a table is an argument.\<close>

definition toml_text :: "(toml \<Rightarrow> string) \<Rightarrow> toml \<Rightarrow> string" where
  "toml_text repr v = (case v of TStr s \<Rightarrow> s | TScalar s \<Rightarrow> s | _ \<Rightarrow> repr v)"

definition coerce_list :: "(toml \<Rightarrow> string) \<Rightarrow> toml option \<Rightarrow> string list" where
  "coerce_list repr v =
    (case v of
       None \<Rightarrow> []
     | Some (TList xs) \<Rightarrow> map (toml_text repr) xs
     | Some w \<Rightarrow> [toml_text repr w])"

text \<open>A scalar cannot be iterated; a table is iterated by its keys.\<close>

definition coerce_tags :: "(toml \<Rightarrow> string) \<Rightarrow> toml option \<Rightarrow> string set result" where
  "coerce_tags repr v =
    (case v of
       None \<Rightarrow> Inr {}
     | Some (TStr s) \<Rightarrow> Inr {s}
     | Some (TList xs) \<Rightarrow> Inr (set (map (toml_text repr) xs))
     | Some (TTable kvs) \<Rightarrow> Inr (set (map fst kvs))
     | Some (TScalar _) \<Rightarrow> Inl TypeError)"

section \<open>Loading the manifest\<close>

definition truthy_text :: "string option \<Rightarrow> string option" where
  "truthy_text v = (case v of Some s \<Rightarrow> if s \<noteq> [] then Some s else None | None \<Rightarrow> None)"

definition resolve_target ::
  "(toml \<Rightarrow> string) \<Rightarrow> manifest_defaults \<Rightarrow> string set \<Rightarrow> string set \<Rightarrow> manifest_target \<Rightarrow> target" where
  "resolve_target repr d default_tags tags e =
    \<lparr>tg_name = mt_name e, tg_host = truthy_text (mt_host e),
     tg_user = truthy_text (if mt_user e \<noteq> None then mt_user e else md_user d),
     tg_ssh_args = coerce_list repr (if mt_ssh e \<noteq> None then mt_ssh e else md_ssh d),
     tg_extra_args = coerce_list repr (mt_extra_args e), tg_tags = default_tags \<union> tags, tg_local = mt_local e,
     tg_timeout = (if mt_timeout e \<noteq> None then mt_timeout e else md_timeout d),
     tg_retries = (case mt_retries e of Some n \<Rightarrow> n | None \<Rightarrow> md_retries d),
     tg_env = map (\<lambda>(k, v). (k, toml_text repr v)) (mt_env e), tg_notes = mt_notes e\<rparr>"

fun load_targets ::
  "(toml \<Rightarrow> string) \<Rightarrow> manifest_defaults \<Rightarrow> string set \<Rightarrow> string set \<Rightarrow> manifest_target list \<Rightarrow> target list result" where
  "load_targets repr d default_tags seen_names [] = Inr []"
| "load_targets repr d default_tags seen_names (e # es) =
    (if mt_name e = [] \<or> mt_name e \<in> seen_names then load_targets repr d default_tags seen_names es
     else (let seen_names = insert (mt_name e) seen_names
           in if \<not> mt_local e \<and> truthy_text (mt_host e) = None then load_targets repr d default_tags seen_names es
              else (case coerce_tags repr (mt_tags e) of
                      Inl x \<Rightarrow> Inl x
                    | Inr tags \<Rightarrow>
                        map_sum id (Cons (resolve_target repr d default_tags tags e))
                          (load_targets repr d default_tags seen_names es))))"

text \<open>\<open>None\<close> is a missing file, \<open>Inl\<close> a document that cannot be read: both give no targets.\<close>

definition load_targets_file :: "(toml \<Rightarrow> string) \<Rightarrow> manifest result option \<Rightarrow> target list result" where
  "load_targets_file repr document =
    (case document of
       Some (Inr m) \<Rightarrow>
         (if mf_targets m = [] then Inr []
          else (case coerce_tags repr (md_tags (mf_defaults m)) of
                  Inl x \<Rightarrow> Inl x
                | Inr default_tags \<Rightarrow> load_targets repr (mf_defaults m) default_tags {} (mf_targets m)))
     | _ \<Rightarrow> Inr [])"

section \<open>Running a command\<close>

text \<open>What becomes of the child: it ends with a status and its output, it is still running when the time is up, or
  communicating with it fails with a message.\<close>

datatype child = Ended "int option" bytes bytes | StillRunning | Broken pyexc string

definition hex_lower :: "nat \<Rightarrow> char" where
  "hex_lower n = char_of (if n < 10 then 48 + n else 87 + n)"

definition safe_decode :: "bytes \<Rightarrow> string" where
  "safe_decode b =
    (case decode_utf8 b of
       Inr s \<Rightarrow> s
     | Inl _ \<Rightarrow> ''<hex:'' @ concat (map (\<lambda>x. [hex_lower (unat x div 16), hex_lower (unat x mod 16)]) b) @ ''>'')"

definition run_command :: "child result \<Rightarrow> (int \<times> string option \<times> string option) result" where
  "run_command started =
    (case started of
       Inl e \<Rightarrow> Inl e
     | Inr (Ended returncode out err) \<Rightarrow>
         Inr (case returncode of Some n \<Rightarrow> n | None \<Rightarrow> 0, Some (safe_decode out), Some (safe_decode err))
     | Inr StillRunning \<Rightarrow> Inr (- 1, None, Some ''timeout'')
     | Inr (Broken e message) \<Rightarrow>
         (if e = TimeoutError then Inr (- 1, None, Some ''timeout'')
          else if e \<in> {OSError, RuntimeError, ValueError, UnicodeDecodeError} then Inr (1, None, Some message)
          else Inl e))"

section \<open>Theorems\<close>

definition usable :: "target \<Rightarrow> bool" where
  "usable t \<longleftrightarrow> tg_name t \<noteq> [] \<and> (tg_local t \<or> (\<exists>h. tg_host t = Some h \<and> h \<noteq> []))"

lemma truthy_text_Some: "truthy_text v = Some s \<longleftrightarrow> v = Some s \<and> s \<noteq> []"
  by (auto simp: truthy_text_def split: option.splits)

lemma resolve_target_usable:
  "mt_name e \<noteq> [] \<Longrightarrow> mt_local e \<or> truthy_text (mt_host e) \<noteq> None \<Longrightarrow> usable (resolve_target repr d dt t e)"
  by (auto simp: usable_def resolve_target_def truthy_text_Some)

lemma load_targets_ok:
  "load_targets repr d dt seen es = Inr ts \<Longrightarrow>
     list_all usable ts \<and> distinct (map tg_name ts) \<and> set (map tg_name ts) \<inter> seen = {}
     \<and> subseq (map tg_name ts) (map mt_name es) \<and> (\<forall>t\<in>set ts. dt \<subseteq> tg_tags t)"
proof (induction repr d dt seen es arbitrary: ts rule: load_targets.induct)
  case (2 repr d dt seen e es)
  show ?case
  proof (cases "mt_name e = [] \<or> mt_name e \<in> seen")
    case True
    with 2 show ?thesis by auto
  next
    case new: False
    show ?thesis
    proof (cases "\<not> mt_local e \<and> truthy_text (mt_host e) = None")
      case True
      then have "load_targets repr d dt (insert (mt_name e) seen) es = Inr ts"
        using 2(4) new by (simp add: Let_def)
      with 2(2) [OF new refl True] show ?thesis by auto
    next
      case False
      then obtain tags us where u: "load_targets repr d dt (insert (mt_name e) seen) es = Inr us"
          and ts: "ts = resolve_target repr d dt tags e # us" and tags: "coerce_tags repr (mt_tags e) = Inr tags"
        using 2(4) new
        by (cases "load_targets repr d dt (insert (mt_name e) seen) es") (auto simp: Let_def split: sum.splits)
      have "usable (resolve_target repr d dt tags e)" using new False by (intro resolve_target_usable) auto
      moreover have "tg_name (resolve_target repr d dt tags e) = mt_name e"
          "dt \<subseteq> tg_tags (resolve_target repr d dt tags e)"
        by (auto simp: resolve_target_def)
      ultimately show ?thesis using 2(3) [OF new refl False tags u] ts new by auto
    qed
  qed
qed simp

text \<open>Whatever the manifest says, the targets that are loaded can be used and told apart: each has a name of its own and
  a host unless it is local, they come in the order of the manifest, and each has the default tags.\<close>

theorem loaded_targets_usable:
  assumes "load_targets_file repr (Some (Inr m)) = Inr ts"
  shows "list_all usable ts \<and> distinct (map tg_name ts) \<and> subseq (map tg_name ts) (map mt_name (mf_targets m))
     \<and> (ts \<noteq> [] \<longrightarrow> (\<exists>dt. coerce_tags repr (md_tags (mf_defaults m)) = Inr dt \<and> (\<forall>t\<in>set ts. dt \<subseteq> tg_tags t)))"
  using assms load_targets_ok [of repr "mf_defaults m" _ "{}" "mf_targets m" ts]
  by (auto simp: load_targets_file_def split: if_splits sum.splits)

text \<open>An entry without a host takes its name all the same: a later entry of that name, with a host, is dropped.\<close>

theorem hostless_entry_shadows:
  assumes "mt_name e \<noteq> []" "\<not> mt_local e" "mt_host e = None" "mt_name e' = mt_name e"
  shows "load_targets repr d dt seen [e, e'] = Inr []"
  using assms by (simp add: truthy_text_def)

text \<open>A tag that is a number ends the harness: the coercion is outside the handler of parse errors.\<close>

lemma numeric_tag_raises:
  "md_tags (mf_defaults m) = Some (TScalar n) \<Longrightarrow> mf_targets m \<noteq> [] \<Longrightarrow> load_targets_file repr (Some (Inr m)) = Inl TypeError"
  by (simp add: load_targets_file_def coerce_tags_def)

end
