(* ===== verification/Emulation.thy ===== *)
theory Emulation
  imports Harness
begin

text \<open>
  \<open>tools/emulation_runner.py\<close>: runs the firmware under \<open>socat\<close>, the daemon against it, and the client scripts one after
  the other. The clock, the children and the scripts answer as the arguments say; the model keeps the order of the
  stages, the exit status and the signals that are sent.
\<close>

section \<open>Output of the children\<close>

text \<open>\<open>EmulationState.output_lines\<close>: source and text.\<close>

definition on_line :: "string \<Rightarrow> string \<Rightarrow> (string \<times> string) list \<Rightarrow> (string \<times> string) list" where
  "on_line line source output_lines =
    (let clean_line = py_strip line in if clean_line = [] then output_lines else output_lines @ [(source, clean_line)])"

text \<open>The worker of the firmware reads lines of bytes until an empty one.\<close>

fun mcu_stderr_worker :: "bytes list \<Rightarrow> (string \<times> string) list \<Rightarrow> (string \<times> string) list" where
  "mcu_stderr_worker [] state = state"
| "mcu_stderr_worker (line # lines) state =
    (if line = [] then state else mcu_stderr_worker lines (on_line (safe_decode line) ''mcu'' state))"

fun daemon_worker :: "string list \<Rightarrow> (string \<times> string) list \<Rightarrow> (string \<times> string) list" where
  "daemon_worker [] state = state"
| "daemon_worker (line # lines) state =
    (if line = [] then state else daemon_worker lines (on_line line ''daemon'' state))"

section \<open>Waiting\<close>

text \<open>A round reads the clock and tries: the time since the start, and whether the attempt succeeded. When the rounds are
  over the time is up.\<close>

fun wait_for_ready :: "real \<Rightarrow> (real \<times> bool) list \<Rightarrow> bool" where
  "wait_for_ready timeout [] = False"
| "wait_for_ready timeout ((elapsed, connects) # rounds) =
    (if elapsed < timeout then connects \<or> wait_for_ready timeout rounds else False)"

text \<open>The terminal of the firmware: the file is looked for first, then the clock.\<close>

fun wait_for_pty :: "(bool \<times> real) list \<Rightarrow> bool" where
  "wait_for_pty [] = False"
| "wait_for_pty ((exists, elapsed) # rounds) = (exists \<or> (\<not> 10 < elapsed \<and> wait_for_pty rounds))"

section \<open>Scripts\<close>

datatype script_end = Passed | ScriptFailed | ScriptTimedOut | ScriptRaised pyexc

text \<open>\<open>all_success\<close>, and the exception that leaves the loop, if any; \<open>ran\<close> counts the scripts that were started.\<close>

fun run_scripts :: "script_end list \<Rightarrow> bool result \<times> nat" where
  "run_scripts [] = (Inr True, 0)"
| "run_scripts (Passed # scripts) = (case run_scripts scripts of (r, n) \<Rightarrow> (r, Suc n))"
| "run_scripts (ScriptRaised e # scripts) = (Inl e, 1)"
| "run_scripts (_ # scripts) = (Inr False, 1)"

section \<open>The run\<close>

datatype sent_signal = DaemonTerm | DaemonKill | GroupTerm | GroupKill | SocatTerminate

text \<open>How \<open>run_emulation\<close> ends: \<open>sys.exit\<close> or a normal return, or an exception.\<close>

datatype emulation_end = Status int | Uncaught pyexc

record emulation =
  em_ready :: "(real \<times> bool) list"
  em_prepare :: "unit result" \<comment> \<open>the directory of the emulated file system\<close>
  em_socat :: "unit result"
  em_pty :: "(bool \<times> real) list"
  em_setup :: "unit result" \<comment> \<open>the temporary directory and the configuration module\<close>
  em_daemon :: "unit result"
  em_scripts :: "script_end list"

text \<open>The \<open>try\<close> block: its result, and whether the daemon was started.\<close>

definition emulation_body :: "emulation \<Rightarrow> bool result \<times> bool" where
  "emulation_body m =
    (case em_setup m of
       Inl e \<Rightarrow> (Inl e, False)
     | Inr _ \<Rightarrow>
         (case em_daemon m of
            Inl e \<Rightarrow> (Inl e, False)
          | Inr _ \<Rightarrow> (fst (run_scripts (em_scripts m)), True)))"

definition emulation_caught :: "pyexc \<Rightarrow> bool" where
  "emulation_caught e \<longleftrightarrow> e \<in> {OSError, TimeoutError, RuntimeError, ValueError, UnicodeDecodeError}"

text \<open>The \<open>finally\<close> block: first the daemon, then \<open>socat\<close> with its group; errors of the signals are suppressed.\<close>

definition emulation_signals :: "bool \<Rightarrow> sent_signal list" where
  "emulation_signals daemon_started = (if daemon_started then [DaemonTerm, DaemonKill] else []) @ [GroupTerm, GroupKill]"

definition run_emulation :: "emulation \<Rightarrow> emulation_end \<times> sent_signal list" where
  "run_emulation m =
    (if \<not> wait_for_ready 30 (em_ready m) then (Status 1, [])
     else (case em_prepare m of
             Inl e \<Rightarrow> (Uncaught e, [])
           | Inr _ \<Rightarrow>
               (case em_socat m of
                  Inl e \<Rightarrow> (Uncaught e, [])
                | Inr _ \<Rightarrow>
                    (if \<not> wait_for_pty (em_pty m) then (Status 1, [SocatTerminate])
                     else (case emulation_body m of
                             (Inr ok, started) \<Rightarrow> (Status (if ok then 0 else 1), emulation_signals started)
                           | (Inl e, started) \<Rightarrow>
                               (if emulation_caught e then Status 1 else Uncaught e, emulation_signals started))))))"

section \<open>Theorems\<close>

text \<open>The scripts run in order up to the first that does not pass.\<close>

lemma run_scripts_prefix:
  "snd (run_scripts scripts) \<le> length scripts \<and> (\<forall>i. i + 1 < snd (run_scripts scripts) \<longrightarrow> scripts ! i = Passed)"
  by (induction scripts rule: run_scripts.induct) (auto simp: nth_Cons' split: prod.splits)

text \<open>Whatever happens once the firmware runs, nothing is left behind: a daemon that was started is stopped before the
  firmware, both are told to end and then killed, and the status is 0 exactly when every script passed. A firmware
  whose terminal never appears is only told to end.\<close>

theorem emulation_cleans_up:
  assumes "run_emulation m = (x, sent)" "wait_for_ready 30 (em_ready m)" "em_prepare m = Inr ()" "em_socat m = Inr ()"
  shows "if wait_for_pty (em_pty m)
     then (\<exists>pre. sent = pre @ [GroupTerm, GroupKill]
            \<and> pre = (if em_setup m = Inr () \<and> em_daemon m = Inr () then [DaemonTerm, DaemonKill] else []))
       \<and> (x = Status 0 \<longleftrightarrow> em_setup m = Inr () \<and> em_daemon m = Inr () \<and> list_all (\<lambda>s. s = Passed) (em_scripts m))
     else x = Status 1 \<and> sent = [SocatTerminate]"
proof -
  have passed: "fst (run_scripts ss) = Inr True \<longleftrightarrow> list_all (\<lambda>s. s = Passed) ss" for ss
    by (induction ss rule: run_scripts.induct) (auto split: prod.splits)
  show ?thesis
    using assms passed [of "em_scripts m"]
    by (auto simp: run_emulation_def emulation_body_def emulation_signals_def split: sum.splits prod.splits if_splits)
qed

end
