(* ===== verification/Spec2Isabelle.thy ===== *)
theory Spec2Isabelle
  imports Exporter Shell Gateway Clients Fuzzer Profiles Emulation
begin

text \<open>
  A verification of the MCU bridge daemon (\<open>mcubridge/mcubridge/\<close>): the Python process on the Linux side
  of an Arduino Yun that talks to the microcontroller (MCU) over a serial link, to a cloud gateway over a
  gRPC stream, and to local clients over a UNIX socket.

  \<^bold>\<open>The program and its parts.\<close> \<open>SerialTransport\<close> reads and writes frames; \<open>SerialHandshakeManager\<close>
  authenticates the link and derives the session key; \<open>BridgeService\<close> dispatches the frames of the MCU to
  its handlers, serves the requests that arrive from the cloud and from local clients, and publishes
  messages, through a spool on disk while the gateway is away; \<open>RuntimeState\<close> is the state they share;
  the configuration is loaded and validated once; supervised tasks publish metrics, write a status file
  and kick the watchdog. Around the daemon there are a gateway server, small local clients (scripts and a client
  library), and tools that generate its protocol bindings, keep its dependency files, debug and fuzz its frames,
  and report on builds and tests.

  \<^bold>\<open>Theories.\<close> In the order of import:
  \<^item> \<open>Prelude\<close>: bytes, Python strings and exceptions, the built-ins the sources call, generic lemmas.
  \<^item> \<open>Protocol\<close>, \<open>Messages\<close>: the contract \<open>tools/protocol/mcubridge.proto\<close>, the tables that
    \<open>tools/protocol/generate.py\<close> derives from it, the messages, and the record \<open>lib\<close> of the third-party
    code (protobuf, COBS, ChaCha20-Poly1305, HMAC, HKDF) with the laws \<open>pb_ok\<close>, \<open>aead_ok\<close>, \<open>cobs_ok\<close> and
    \<open>mac_ok\<close> that the theorems assume of it; \<open>Model_Lib\<close> shows that they can hold together.
  \<^item> \<open>Security\<close> (\<open>security/security.py\<close>): nonces with counters. Accepted nonces have strictly increasing
    counters; stamped streams are accepted; the counter stops before it wraps. Locale \<open>nonce_discipline\<close>.
  \<^item> \<open>Checksum\<close>, \<open>Frame\<close> (\<open>protocol/frame.py\<close>): CRC-32, \<open>build_frame\<close>, \<open>parse_frame\<close>. Parsing inverts
    building, a corruption within four bytes is rejected, the payload of a protected command is the authenticated
    decryption of the frame's own ciphertext.
  \<^item> \<open>Topics\<close>, \<open>Policy\<close> (\<open>protocol/topics.py\<close>, \<open>protocol/structures.py\<close>): topic names, the policy of
    allowed commands, the authorisation of topic actions.
  \<^item> \<open>Storage\<close> (\<open>state/storage.py\<close>): \<open>SqliteDeque\<close> refines a bounded FIFO queue (locale \<open>bounded_fifo\<close>) and
    \<open>SqliteCache\<close> a key-value store (locale \<open>kv_store\<close>), with database faults and the recovery from them, and a
    constructor that raises when the directory cannot be made.
  \<^item> \<open>Config\<close>, \<open>Settings\<close> (\<open>config/\<close>, \<open>protocol/structures.py\<close>): defaults, UCI, coercion, validation; what
    every loaded configuration satisfies, and that NaN passes the validation.
  \<^item> \<open>Context\<close> (\<open>state/context.py\<close>): the shared state as a chain of record extensions that the later
    theories extend (\<open>transport\<close>, \<open>cloud_service\<close>, \<open>handshake\<close>, \<open>bridge\<close>).
  \<^item> \<open>Serial\<close> (\<open>transport/serial.py\<close>): tracked commands, correlation of responses, retries, the receiving
    path, anti-replay, baud rates. A command succeeds only through a frame that answers it, within the
    configured number of attempts; what is written is what a receiver decodes; a replayed packet of an application
    command is inert.
  \<^item> \<open>Cloud\<close> (\<open>services/runtime.py\<close>, publishing): with a spool on disk, a message for which \<open>enqueue_cloud\<close>
    returns is sent, spooled or counted as dropped, and what makes it raise is an exception of the stream that is not
    caught; the messages of an outage are delivered in order afterwards.
  \<^item> \<open>Handshake\<close> (\<open>services/handshake.py\<close>): only an authentic response synchronises the link. The locale
    \<open>sync_dispatcher\<close> states what the manager relies on in the service's frame dispatcher, and shows under it that an
    honest peer is synchronised at the first attempt and that the attempts are bounded.
  \<^item> \<open>Service\<close>, \<open>Mcu\<close>, \<open>Requests\<close> (\<open>services/runtime.py\<close>): the file sandbox, the process pool, the console;
    every handler of MCU frames; every handler of requests, with authorisation and dispatch.
  \<^item> \<open>Core\<close>: the locales \<open>core_invariant\<close> and \<open>bridge_invariant\<close>, in which an invariant of the service is
    proved for every handler from a handful of laws; interpreted on the pool, the sandbox and the count of handshake
    attempts. The service's \<open>handle_mcu_frame\<close> is shown to be a \<open>sync_dispatcher\<close> as long as it has its transport.
  \<^item> \<open>Runtime\<close> (\<open>daemon.py\<close>, \<open>services/runtime.py\<close>, \<open>transport/serial.py\<close>): construction, serial and cloud
    sessions, supervision, local clients; the handshake through the service's own dispatcher; the step relation \<open>bridge_step\<close> of a running service and its
    reachable states. The process pool stays within its bound and no file outside the root is touched, in
    every reachable state.
  \<^item> \<open>Shell\<close>: from a shell request to the started program: for a policy of plain words, what runs is what the policy allows.
  \<^item> \<open>Lifecycle\<close> (\<open>services/runtime.py\<close>, \<open>daemon.py\<close>): the whole of \<open>app\<close>, with its exit status for every
    start-up failure and every end of the event loop, the teardown, and the local server.
  \<^item> \<open>Telemetry\<close> (\<open>metrics.py\<close>, \<open>state/status.py\<close>, \<open>watchdog.py\<close>): the periodic tasks.
  \<^item> \<open>Exporter\<close> (\<open>state/metrics.py\<close>, \<open>metrics.py\<close>): the declared metrics, which are well formed (names, labels,
    buckets, states) and which a registry of such families accepts, and the HTTP exporter as an extension of the service's record under the supervisor.
  \<^item> \<open>Gateway\<close> (\<open>mcubridge-gateway/gateway.py\<close>): concurrent sessions as the step relation \<open>gateway_step\<close>; the stream
    registered for a device belongs to a running session of it, and pings are answered in order.
  \<^item> \<open>Decimal\<close>, \<open>Clients\<close> (\<open>mcubridge/scripts/\<close>, \<open>mcubridge-client-examples/mcubridge_client/\<close>): the scripts and the
    client library, composed with the daemon: a pin request over HTTP becomes the command for that pin, a pushed file
    is stored as it is.
  \<^item> \<open>Deps\<close> (\<open>tools/sync_runtime_deps.py\<close>): the derived dependency files; a second run changes nothing.
  \<^item> \<open>Generator\<close> (\<open>tools/protocol/generate.py\<close>): what the templates are given, and incremental builds; the C++ and the
    Python bindings agree on every number they share.
  \<^item> \<open>FrameDebug\<close> (\<open>tools/frame_debug.py\<close>): snapshots of frames; what is shown can be typed back and decoded.
  \<^item> \<open>Fuzzer\<close> (\<open>tools/protocol_fuzzer.py\<close>): the frames of the fuzzer, judged by the daemon's decoder, and the rate it
    reports.
  \<^item> \<open>Reports\<close>, \<open>Profiles\<close> (\<open>tools/coverage_report.py\<close>, \<open>arduino_memory_report.py\<close>, \<open>arduino_symbol_profiler.py\<close>,
    \<open>daemon_profile_report.py\<close>): what the reporting tools read and print; the combined coverage is a mean of its parts,
    the compiler's figures are read back, no image is reported twice.
  \<^item> \<open>Harness\<close>, \<open>Emulation\<close> (\<open>tools/hardware_harness.py\<close>, \<open>emulation_runner.py\<close>): the boards under test and the emulated
    run; loaded targets are usable and distinct, and an emulation always stops what it started.

  \<^bold>\<open>How the model reads.\<close> An operation takes the state and returns its result with the new state; an
  exception is \<open>Inl\<close>. The outside world is part of the state: the clock, and scripts from which operations
  take one entry per interaction (outcomes of writes and sends, what arrives while something waits, random
  bytes, database faults, started children, outcomes of signals). A script that has run out means that the
  interaction succeeds or that nothing arrives; the theorems quantify over all scripts unless they say
  otherwise. A coroutine that waits for something that does not come within the model's horizon has the
  result \<open>Suspended\<close>, which no handler catches. A float is a real, except that a configuration field may hold NaN
  or an infinity (\<open>float_specials\<close>); a handler sees one clock reading; strings
  are their UTF-8 bytes with ASCII case and digits; resolving a path gives the same answer at all times. The
  cloud stream belongs to \<open>grpclib\<close>: what opening it, reading from it, sending on it and leaving its context raise
  are parts of the session, and any exception is possible in each place.

  \<^bold>\<open>Concurrency.\<close> The steps of a running service are whole handlers, sessions and monitor events, in any
  order. While a tracked command waits, the frames of the script are correlated with it; while a handshake
  waits, the packets of its \<open>pause\<close> go through the whole receiving path. Other interleavings of coroutines
  at their \<open>await\<close>s are not modelled.

  \<^bold>\<open>Termination and fuel.\<close> Loops over data are recursive functions with termination proofs. Retries count
  the attempts the configuration allows. \<open>supervise\<close> is a partial function whose value \<open>None\<close> is running
  for ever; with a bound on the restarts it always has a value. Tasks that run until they are cancelled
  take a list of sessions or a number of ticks, and the theorems hold for all of them.

  \<^bold>\<open>Where the code falls short.\<close> Theorems of the kind \<open>error\<close>, and lemmas beside them, show behaviour that the
  sources do not intend: a memory queue that loses its items, authorisation that opens when everything is switched
  off, a lost late answer, a baud rate that is not switched back, fresh frames dropped after a new handshake, a
  reflected challenge that authenticates, a repeated response that breaks the link, a message that overtakes
  the spool, a process slot lost to an unbalanced quote, a command name that a form feed hides from the policy, a
  message lost to an exception of the stream, a watchdog interval that is not a number, a default secret that the strict mode does not recognise, a
  device that the gateway forgets when its old session ends, pushed files with a reserved path segment that are
  ignored, SPI settings that the daemon drops, and a metrics exporter that no restart brings back.

  \<^bold>\<open>Not modelled.\<close> Logging, counters that nothing reads back, the gRPC library, SQL and
  file formats, modem lines, argument parsing; of the code generator the Jinja library, the calls of the compilers and
  the regular expressions over the schema text in \<open>generate_cpp_structs\<close>; the example scripts of the client library;
  the scripts that start a profiler, compare prompt files or drive a router over SSH; the Arduino library and the web
  interface, which are written in other languages.
\<close>

end
